(* ===== verification/Sync_Prelude.thy ===== *)
theory Sync_Prelude
  imports Main "HOL-Library.AList" "HOL-Library.Word" "HOL-Library.Multiset"
    "HOL-Library.Code_Target_Nat"
begin

text \<open>
  Shared vocabulary of the development: computations with state and errors (the
  \<open>Result\<close>-returning methods of the program), tables with a primary key, the integer
  casts of the program and generic lemmas on lists.
\<close>

section \<open>Results and stateful computations\<close>

text \<open>
  A method of the program that may fail and changes state is a function from the state to
  its result (\<open>Inl\<close> the error, \<open>Inr\<close> the value) and the state it leaves. The state is kept
  on the error branch too, as the mutation before an early return is kept by the program.
  \<open>bind_r\<close> is the sequencing of \<open>?\<close>: the first error returns.
\<close>

type_synonym ('s, 'e, 'a) comp = "'s \<Rightarrow> ('e + 'a) \<times> 's"

definition return_r :: "'a \<Rightarrow> ('s, 'e, 'a) comp" where
  "return_r a s = (Inr a, s)"

definition throw_r :: "'e \<Rightarrow> ('s, 'e, 'a) comp" where
  "throw_r e s = (Inl e, s)"

definition bind_r :: "('s, 'e, 'a) comp \<Rightarrow> ('a \<Rightarrow> ('s, 'e, 'b) comp) \<Rightarrow> ('s, 'e, 'b) comp" where
  "bind_r m f s = (case m s of (Inl e, s') \<Rightarrow> (Inl e, s') | (Inr a, s') \<Rightarrow> f a s')"

definition catch_r :: "('s, 'e, 'a) comp \<Rightarrow> ('e \<Rightarrow> ('s, 'e, 'a) comp) \<Rightarrow> ('s, 'e, 'a) comp" where
  "catch_r m h s = (case m s of (Inl e, s') \<Rightarrow> h e s' | (Inr a, s') \<Rightarrow> (Inr a, s'))"

definition try_r :: "('s, 'e, 'a) comp \<Rightarrow> ('s, 'f, 'e + 'a) comp" where
  "try_r m s = (case m s of (r, s') \<Rightarrow> (Inr r, s'))"

definition map_err_r :: "('e \<Rightarrow> 'f) \<Rightarrow> ('s, 'e, 'a) comp \<Rightarrow> ('s, 'f, 'a) comp" where
  "map_err_r h m s = (case m s of (Inl e, s') \<Rightarrow> (Inl (h e), s') | (Inr a, s') \<Rightarrow> (Inr a, s'))"

definition get_r :: "('s \<Rightarrow> 'a) \<Rightarrow> ('s, 'e, 'a) comp" where
  "get_r f s = (Inr (f s), s)"

definition modify_r :: "('s \<Rightarrow> 's) \<Rightarrow> ('s, 'e, unit) comp" where
  "modify_r f s = (Inr (), f s)"

definition lift_r :: "'e + 'a \<Rightarrow> ('s, 'e, 'a) comp" where
  "lift_r r s = (r, s)"

definition seq_r :: "('s, 'e, 'a) comp \<Rightarrow> ('s, 'e, 'b) comp \<Rightarrow> ('s, 'e, 'b) comp" where
  "seq_r m n = bind_r m (\<lambda>_. n)"

lemma map_sum_Inr_iff: "map_sum f g x = Inr b \<longleftrightarrow> (\<exists>a. x = Inr a \<and> b = g a)"
  by (cases x) auto

lemma map_sum_Inl_iff: "map_sum f g x = Inl e \<longleftrightarrow> (\<exists>a. x = Inl a \<and> e = f a)"
  by (cases x) auto

text \<open>\<open>collect\<close> of an iterator of results: the first error, or all values.\<close>

fun collect_r :: "('e + 'a) list \<Rightarrow> 'e + 'a list" where
  "collect_r [] = Inr []"
| "collect_r (Inl e # rs) = Inl e"
| "collect_r (Inr a # rs) = map_sum id (Cons a) (collect_r rs)"

lemma collect_r_map_Inr [simp]: "collect_r (map Inr as) = Inr as"
  by (induction as) auto

lemma collect_r_Inr: "collect_r rs = Inr as \<Longrightarrow> rs = map Inr as"
proof (induction rs arbitrary: as rule: collect_r.induct)
  case (3 a rs)
  from "3.prems" obtain bs where "collect_r rs = Inr bs" "as = a # bs"
    by (cases "collect_r rs") auto
  with "3.IH" show ?case by simp
qed auto

named_theorems comp_defs \<open>the combinators of stateful computations, unfolded\<close>

lemmas comp_unfold [comp_defs] =
  return_r_def throw_r_def bind_r_def catch_r_def try_r_def map_err_r_def get_r_def
  modify_r_def lift_r_def seq_r_def

lemma return_r_simp [simp]: "return_r a s = (Inr a, s)"
  by (simp add: return_r_def)

lemma throw_r_simp [simp]: "throw_r e s = (Inl e, s)"
  by (simp add: throw_r_def)

lemma get_r_simp [simp]: "get_r f s = (Inr (f s), s)"
  by (simp add: get_r_def)

lemma modify_r_simp [simp]: "modify_r f s = (Inr (), f s)"
  by (simp add: modify_r_def)

lemma lift_r_simp [simp]: "lift_r r s = (r, s)"
  by (simp add: lift_r_def)

lemma bind_r_Inr_iff:
  "bind_r m f s = (Inr b, s'') \<longleftrightarrow> (\<exists>a s'. m s = (Inr a, s') \<and> f a s' = (Inr b, s''))"
  by (auto simp: bind_r_def split: prod.splits sum.splits)

lemma bind_r_Inl_iff:
  "bind_r m f s = (Inl e, s'') \<longleftrightarrow>
     m s = (Inl e, s'') \<or> (\<exists>a s'. m s = (Inr a, s') \<and> f a s' = (Inl e, s''))"
  by (auto simp: bind_r_def split: prod.splits sum.splits)

lemma bind_r_Inr [simp]: "m s = (Inr a, s') \<Longrightarrow> bind_r m f s = f a s'"
  by (simp add: bind_r_def)

lemma bind_r_Inl [simp]: "m s = (Inl e, s') \<Longrightarrow> bind_r m f s = (Inl e, s')"
  by (simp add: bind_r_def)

lemma seq_r_Inr [simp]: "m s = (Inr a, s') \<Longrightarrow> seq_r m n s = n s'"
  by (simp add: seq_r_def)

lemma seq_r_Inl [simp]: "m s = (Inl e, s') \<Longrightarrow> seq_r m n s = (Inl e, s')"
  by (simp add: seq_r_def)

lemma seq_r_Inr_iff:
  "seq_r m n s = (Inr b, s'') \<longleftrightarrow> (\<exists>a s'. m s = (Inr a, s') \<and> n s' = (Inr b, s''))"
  by (simp add: seq_r_def bind_r_Inr_iff)

lemma map_err_r_Inr_iff [simp]: "map_err_r h m s = (Inr a, s') \<longleftrightarrow> m s = (Inr a, s')"
  by (auto simp: map_err_r_def split: prod.splits sum.splits)

lemma map_err_r_Inl_iff:
  "map_err_r h m s = (Inl e, s') \<longleftrightarrow> (\<exists>e'. m s = (Inl e', s') \<and> e = h e')"
  by (auto simp: map_err_r_def split: prod.splits sum.splits)

lemma try_r_iff: "try_r m s = (r, s') \<longleftrightarrow> (\<exists>r'. m s = (r', s') \<and> r = Inr r')"
  by (auto simp: try_r_def split: prod.splits)

lemma catch_r_Inr_iff:
  "catch_r m h s = (Inr a, s'') \<longleftrightarrow>
     m s = (Inr a, s'') \<or> (\<exists>e s'. m s = (Inl e, s') \<and> h e s' = (Inr a, s''))"
  by (auto simp: catch_r_def split: prod.splits sum.splits)

lemma catch_r_Inl_iff:
  "catch_r m h s = (Inl e', s'') \<longleftrightarrow> (\<exists>e s'. m s = (Inl e, s') \<and> h e s' = (Inl e', s''))"
  by (auto simp: catch_r_def split: prod.splits sum.splits)

subsection \<open>Frame rule\<close>

text \<open>
  \<open>preserves I m\<close>: whatever the outcome of \<open>m\<close>, the relation \<open>I\<close> holds between the state
  before and the state after. For a reflexive and transitive \<open>I\<close> it composes over every
  combinator, which is how the invariants of the stateful components are proved.
\<close>

definition preserves :: "('s \<Rightarrow> 's \<Rightarrow> bool) \<Rightarrow> ('s, 'e, 'a) comp \<Rightarrow> bool" where
  "preserves I m \<longleftrightarrow> (\<forall>s. I s (snd (m s)))"

named_theorems preserves_intros \<open>composition rules of the frame predicate\<close>

lemma preserves_pure [preserves_intros]:
  assumes "reflp I"
  shows "preserves I (return_r a)" "preserves I (throw_r e)" "preserves I (get_r f)"
    "preserves I (lift_r r)"
  using assms by (auto simp: preserves_def reflp_def)

lemma preserves_bind [preserves_intros]:
  assumes "transp I" "preserves I m" "\<And>a. preserves I (f a)"
  shows "preserves I (bind_r m f)"
  unfolding preserves_def
proof
  fix s
  show "I s (snd (bind_r m f s))"
  proof (cases "m s")
    case (Pair r s')
    with assms(2) have "I s s'" by (auto simp: preserves_def dest: spec [of _ s])
    moreover have "I s' (snd (f a s'))" for a
      using assms(3) by (simp add: preserves_def)
    ultimately show ?thesis
      using Pair assms(1) by (cases r) (auto simp: bind_r_def elim: transpE)
  qed
qed

lemma preserves_seq [preserves_intros]:
  "transp I \<Longrightarrow> preserves I m \<Longrightarrow> preserves I n \<Longrightarrow> preserves I (seq_r m n)"
  by (simp add: seq_r_def preserves_bind)

lemma preserves_catch [preserves_intros]:
  assumes "transp I" "preserves I m" "\<And>e. preserves I (h e)"
  shows "preserves I (catch_r m h)"
  unfolding preserves_def
proof
  fix s
  show "I s (snd (catch_r m h s))"
  proof (cases "m s")
    case (Pair r s')
    with assms(2) have "I s s'" by (auto simp: preserves_def dest: spec [of _ s])
    moreover have "I s' (snd (h e s'))" for e
      using assms(3) by (simp add: preserves_def)
    ultimately show ?thesis
      using Pair assms(1) by (cases r) (auto simp: catch_r_def elim: transpE)
  qed
qed

lemma preserves_try [preserves_intros]: "preserves I m \<Longrightarrow> preserves I (try_r m)"
  by (auto simp: preserves_def try_r_def split: prod.splits) (metis snd_conv)

lemma preserves_map_err [preserves_intros]: "preserves I m \<Longrightarrow> preserves I (map_err_r h m)"
  by (auto simp: preserves_def map_err_r_def split: prod.splits sum.splits) (metis snd_conv)+

lemma preserves_if [preserves_intros]:
  "preserves I m \<Longrightarrow> preserves I n \<Longrightarrow> preserves I (if b then m else n)"
  by simp

lemma preserves_case_option [preserves_intros]:
  "preserves I m \<Longrightarrow> (\<And>a. preserves I (f a)) \<Longrightarrow> preserves I (case x of None \<Rightarrow> m | Some a \<Rightarrow> f a)"
  by (cases x) auto

lemma preserves_case_sum [preserves_intros]:
  "(\<And>e. preserves I (g e)) \<Longrightarrow> (\<And>a. preserves I (f a)) \<Longrightarrow>
     preserves I (case x of Inl e \<Rightarrow> g e | Inr a \<Rightarrow> f a)"
  by (cases x) auto

lemma preserves_modify: "(\<And>s. I s (f s)) \<Longrightarrow> preserves I (modify_r f)"
  by (simp add: preserves_def)

lemma preservesD: "preserves I m \<Longrightarrow> m s = (r, s') \<Longrightarrow> I s s'"
  by (auto simp: preserves_def dest: spec [of _ s])

section \<open>Tables with a primary key\<close>

text \<open>
  A table is the list of its rows, each a primary key and the other columns. \<open>keyed\<close> is the
  primary key constraint.
\<close>

type_synonym ('k, 'r) table = "('k \<times> 'r) list"

definition keyed :: "('k, 'r) table \<Rightarrow> bool" where
  "keyed t \<longleftrightarrow> distinct (map fst t)"

named_theorems table_simps \<open>lookups in updated tables\<close>

lemma keyed_Nil [simp]: "keyed []"
  by (simp add: keyed_def)

lemma keyed_update [simp, intro]: "keyed t \<Longrightarrow> keyed (AList.update k r t)"
  by (simp add: keyed_def distinct_update)

lemma keyed_filter [simp, intro]: "keyed t \<Longrightarrow> keyed (filter P t)"
  by (simp add: keyed_def distinct_map_filter)

lemma keyed_map_row [simp]: "keyed (map (\<lambda>(k, r). (k, f k r)) t) \<longleftrightarrow> keyed t"
  by (simp add: keyed_def case_prod_unfold comp_def)

lemma map_of_update [table_simps]: "map_of (AList.update k r t) k' = (if k' = k then Some r else map_of t k')"
  by (simp add: update_conv')

lemma map_of_filter_key [table_simps]:
  "map_of (filter (\<lambda>(k, r). P k) t) k' = (if P k' then map_of t k' else None)"
  by (induction t) auto

lemma map_of_filter_row [table_simps]:
  assumes "keyed t"
  shows "map_of (filter (\<lambda>(k, r). P k r) t) k' =
    (case map_of t k' of None \<Rightarrow> None | Some r \<Rightarrow> if P k' r then Some r else None)"
  using assms
proof (induction t)
  case Nil
  then show ?case by simp
next
  case (Cons p t)
  obtain k r where p: "p = (k, r)" by (cases p)
  have "map_of t k = None"
    using Cons.prems by (simp add: p keyed_def map_of_eq_None_iff)
  moreover have "keyed t"
    using Cons.prems by (simp add: keyed_def)
  ultimately show ?case
    using Cons.IH by (auto simp: p split: option.splits)
qed

lemma map_of_map_row [table_simps]:
  "map_of (map (\<lambda>(k, r). (k, f k r)) t) k' = map_option (f k') (map_of t k')"
  by (induction t) auto

lemma keyed_in_set: "keyed t \<Longrightarrow> (k, r) \<in> set t \<longleftrightarrow> map_of t k = Some r"
  by (simp add: keyed_def)

lemma keyed_mset_cong:
  assumes "mset t = mset t'"
  shows "keyed t = keyed t'"
proof -
  have "mset (map fst t) = mset (map fst t')"
    using assms by simp
  then show ?thesis
    unfolding keyed_def by (rule mset_eq_imp_distinct_iff)
qed

lemma map_of_mset_cong:
  assumes "mset t = mset t'" "keyed t'"
  shows "map_of t = map_of t'"
proof -
  have "keyed t" using assms keyed_mset_cong by blast
  moreover have "set t = set t'" using assms(1) by (rule mset_eq_setD)
  ultimately show ?thesis
    using assms(2) by (simp add: keyed_def map_of_inject_set)
qed

section \<open>Integers\<close>

text \<open>
  The program's fixed-width integers. \<open>u64\<close>, \<open>u32\<close> are words; the signed \<open>i64\<close> and \<open>i32\<close>
  are the integers of their range, with the casts (\<open>as\<close>) and the wrap-around of release
  builds written out.
\<close>

type_synonym u64 = "64 word"
type_synonym u32 = "32 word"

definition wrap_i64 :: "int \<Rightarrow> int" where
  "wrap_i64 k = signed_take_bit 63 k"

definition u64_as_i64 :: "u64 \<Rightarrow> int" where
  "u64_as_i64 w = sint w"

definition u64_as_u32 :: "u64 \<Rightarrow> u32" where
  "u64_as_u32 w = ucast w"

definition i64_as_i32 :: "int \<Rightarrow> int" where
  "i64_as_i32 k = signed_take_bit 31 k"

definition i64_as_u32 :: "int \<Rightarrow> u32" where
  "i64_as_u32 k = word_of_int k"

definition i64_as_u64 :: "int \<Rightarrow> u64" where
  "i64_as_u64 k = word_of_int k"

lemma u64_as_i64_small:
  assumes "unat w < 2 ^ 63"
  shows "u64_as_i64 w = int (unat w)"
proof -
  have "int (unat w) < int (2 ^ 63)"
    using assms by (simp only: of_nat_less_iff)
  then have "signed_take_bit 63 (int (unat w)) = int (unat w)"
    by (intro signed_take_bit_int_eq_self) (rule order_trans [of _ 0], simp_all)
  then show ?thesis
    by (simp add: u64_as_i64_def sint_uint)
qed

lemma wrap_i64_id: "- (2 ^ 63) \<le> k \<Longrightarrow> k < 2 ^ 63 \<Longrightarrow> wrap_i64 k = k"
  by (simp add: wrap_i64_def signed_take_bit_int_eq_self)

end
