(* ===== verification/Rust_Text.thy ===== *)
theory Rust_Text
  imports Sync_Prelude "HOL-Library.Char_ord"
begin

text \<open>
  The pieces of Rust's standard library on text that the program uses: rendering and parsing
  decimal integers, splitting a string at a separator, its lines, trimming, ASCII case. A
  string is the list of its bytes.
\<close>

section \<open>Decimal digits\<close>

definition is_digit :: "char \<Rightarrow> bool" where
  "is_digit c \<longleftrightarrow> 48 \<le> (of_char c :: nat) \<and> (of_char c :: nat) \<le> 57"

definition digit_val :: "char \<Rightarrow> nat" where
  "digit_val c = of_char c - 48"

definition digit_char :: "nat \<Rightarrow> char" where
  "digit_char d = char_of (48 + d)"

lemma digit_char_props [simp]:
  assumes "d < 10"
  shows "is_digit (digit_char d)" "digit_val (digit_char d) = d"
  using assms by (simp_all add: is_digit_def digit_val_def digit_char_def)

lemma digit_val_less: "is_digit c \<Longrightarrow> digit_val c < 10"
  by (simp add: is_digit_def digit_val_def) linarith

fun show_nat :: "nat \<Rightarrow> string" where
  "show_nat n = (if n < 10 then [digit_char n] else show_nat (n div 10) @ [digit_char (n mod 10)])"

declare show_nat.simps [simp del]

definition digits_val :: "string \<Rightarrow> nat" where
  "digits_val s = foldl (\<lambda>a c. 10 * a + digit_val c) 0 s"

lemma digits_val_snoc [simp]: "digits_val (s @ [c]) = 10 * digits_val s + digit_val c"
  by (simp add: digits_val_def)

lemma digits_val_Nil [simp]: "digits_val [] = 0"
  by (simp add: digits_val_def)

lemma digits_val_append: "digits_val (s @ t) = digits_val s * 10 ^ length t + digits_val t"
proof (induction t rule: rev_induct)
  case Nil
  then show ?case by simp
next
  case (snoc c t)
  have "digits_val (s @ t @ [c]) = 10 * digits_val (s @ t) + digit_val c"
    using digits_val_snoc [of "s @ t" c] by simp
  with snoc show ?case by (simp add: algebra_simps)
qed

lemma show_nat_props: "show_nat n \<noteq> [] \<and> list_all is_digit (show_nat n) \<and> digits_val (show_nat n) = n"
proof (induction n rule: show_nat.induct)
  case (1 n)
  show ?case
  proof (cases "n < 10")
    case True
    then show ?thesis by (simp add: show_nat.simps [of n] digits_val_def)
  next
    case False
    with "1.IH" show ?thesis
      by (simp add: show_nat.simps [of n] digits_val_snoc)
  qed
qed

lemma show_nat_nonempty [simp]: "show_nat n \<noteq> []"
  and show_nat_digits [simp]: "list_all is_digit (show_nat n)"
  and digits_val_show_nat [simp]: "digits_val (show_nat n) = n"
  using show_nat_props [of n] by auto

lemma show_nat_inj [simp]: "show_nat m = show_nat n \<longleftrightarrow> m = n"
  by (metis digits_val_show_nat)

lemma list_all_digit_set: "list_all is_digit s \<Longrightarrow> c \<in> set s \<Longrightarrow> is_digit c"
  by (auto simp: list_all_iff)

lemma show_nat_hd_digit: "is_digit (hd (show_nat n))"
  by (rule list_all_digit_set [of "show_nat n"]) simp_all

lemma digit_not_sign [simp]: "is_digit c \<Longrightarrow> c \<noteq> CHR ''-''" "is_digit c \<Longrightarrow> c \<noteq> CHR ''+''"
  by (auto simp: is_digit_def)

section \<open>Rendering and parsing integers\<close>

text \<open>\<open>i64::to_string\<close>, and \<open>str::parse\<close> of Rust's integer types: an optional sign (only
  \<open>+\<close> for the unsigned types) and at least one digit, in the range of the type.\<close>

definition show_int :: "int \<Rightarrow> string" where
  "show_int k = (if k < 0 then CHR ''-'' # show_nat (nat (- k)) else show_nat (nat k))"

definition parse_digits :: "string \<Rightarrow> nat option" where
  "parse_digits s = (if s \<noteq> [] \<and> list_all is_digit s then Some (digits_val s) else None)"

definition parse_unsigned :: "nat \<Rightarrow> string \<Rightarrow> nat option" where
  "parse_unsigned bound s =
     (case parse_digits (case s of c # s' \<Rightarrow> if c = CHR ''+'' then s' else s | [] \<Rightarrow> s) of
        None \<Rightarrow> None
      | Some n \<Rightarrow> if n < bound then Some n else None)"

definition parse_signed :: "nat \<Rightarrow> string \<Rightarrow> int option" where
  "parse_signed bound s =
     (case s of
        c # s' \<Rightarrow>
          if c = CHR ''-'' then
            (case parse_digits s' of
               None \<Rightarrow> None
             | Some n \<Rightarrow> if n \<le> bound then Some (- int n) else None)
          else map_option int (parse_unsigned bound s)
      | [] \<Rightarrow> None)"

definition parse_u64 :: "string \<Rightarrow> u64 option" where
  "parse_u64 s = map_option of_nat (parse_unsigned (2 ^ 64) s)"

definition parse_u32 :: "string \<Rightarrow> nat option" where
  "parse_u32 s = parse_unsigned (2 ^ 32) s"

definition parse_i64 :: "string \<Rightarrow> int option" where
  "parse_i64 s = parse_signed (2 ^ 63) s"

definition parse_i32 :: "string \<Rightarrow> int option" where
  "parse_i32 s = parse_signed (2 ^ 31) s"

lemma parse_digits_show_nat [simp]: "parse_digits (show_nat n) = Some n"
  by (simp add: parse_digits_def)

lemma parse_unsigned_show_nat [simp]: "n < b \<Longrightarrow> parse_unsigned b (show_nat n) = Some n"
proof (cases "show_nat n")
  case (Cons c s)
  then have "c \<noteq> CHR ''+''" using show_nat_hd_digit [of n] by auto
  moreover assume "n < b"
  ultimately show ?thesis
    using parse_digits_show_nat [of n] Cons by (simp add: parse_unsigned_def)
qed simp

lemma parse_signed_show_int:
  assumes "- int b \<le> k" "k < int b"
  shows "parse_signed b (show_int k) = Some k"
proof (cases "k < 0")
  case True
  with assms show ?thesis by (simp add: show_int_def parse_signed_def)
next
  case False
  then obtain c s where s: "show_nat (nat k) = c # s" by (cases "show_nat (nat k)") auto
  then have "c \<noteq> CHR ''-''" using show_nat_hd_digit [of "nat k"] by auto
  moreover have "parse_unsigned b (show_nat (nat k)) = Some (nat k)"
    using assms False by (intro parse_unsigned_show_nat) linarith
  ultimately show ?thesis
    using False s by (simp add: show_int_def parse_signed_def)
qed

lemma parse_i64_show_int: "- (2 ^ 63) \<le> k \<Longrightarrow> k < 2 ^ 63 \<Longrightarrow> parse_i64 (show_int k) = Some k"
  by (simp add: parse_i64_def parse_signed_show_int)

lemma parse_u64_show_nat: "n < 2 ^ 64 \<Longrightarrow> parse_u64 (show_nat n) = Some (of_nat n)"
  by (simp add: parse_u64_def)

lemma parse_signed_range:
  "parse_signed b s = Some k \<Longrightarrow> 0 < b \<Longrightarrow> - int b \<le> k \<and> k < int b"
  by (auto simp: parse_signed_def parse_unsigned_def split: list.splits if_splits option.splits)

section \<open>Splitting, lines, trimming\<close>

text \<open>\<open>str::split\<close> at a character: one piece more than there are separators.\<close>

fun split_at :: "char \<Rightarrow> string \<Rightarrow> string list" where
  "split_at c [] = [[]]"
| "split_at c (x # xs) =
     (if x = c then [] # split_at c xs
      else (case split_at c xs of p # ps \<Rightarrow> (x # p) # ps | [] \<Rightarrow> [[x]]))"

lemma split_at_nonempty [simp]: "split_at c s \<noteq> []"
  by (induction s) (auto split: list.splits)

lemma split_at_append:
  "c \<notin> set s \<Longrightarrow> split_at c (s @ c # t) = s # split_at c t"
  by (induction s) auto

lemma split_at_none: "c \<notin> set s \<Longrightarrow> split_at c s = [s]"
  by (induction s) auto

lemma split_at_pieces: "p \<in> set (split_at c s) \<Longrightarrow> c \<notin> set p"
proof (induction s arbitrary: p)
  case Nil
  then show ?case by simp
next
  case (Cons x s)
  obtain q qs where q: "split_at c s = q # qs" by (cases "split_at c s") auto
  with Cons show ?case by (auto split: if_splits)
qed

text \<open>\<open>str::lines\<close>: split at newlines, no empty last line, a final carriage return of a
  line dropped.\<close>

abbreviation newline :: char where "newline \<equiv> CHR 0x0A"

abbreviation carriage_return :: char where "carriage_return \<equiv> CHR 0x0D"

definition strip_cr :: "string \<Rightarrow> string" where
  "strip_cr s = (if s \<noteq> [] \<and> last s = carriage_return then butlast s else s)"

definition str_lines :: "string \<Rightarrow> string list" where
  "str_lines s =
     (let ps = split_at newline s
      in map strip_cr (if last ps = [] then butlast ps else ps))"

text \<open>A list of lines, each ended by a newline (as the batch format writes them).\<close>

definition unlines :: "string list \<Rightarrow> string" where
  "unlines ls = concat (map (\<lambda>l. l @ [newline]) ls)"

lemma split_at_unlines:
  "\<forall>l \<in> set ls. newline \<notin> set l \<Longrightarrow> split_at newline (unlines ls @ t) = ls @ split_at newline t"
proof (induction ls)
  case Nil
  then show ?case by (simp add: unlines_def)
next
  case (Cons l ls)
  then have "split_at newline (l @ newline # (unlines ls @ t)) = l # split_at newline (unlines ls @ t)"
    by (intro split_at_append) simp
  with Cons show ?case by (simp add: unlines_def)
qed

lemma str_lines_unlines:
  assumes "\<forall>l \<in> set ls. newline \<notin> set l \<and> carriage_return \<notin> set l"
  shows "str_lines (unlines ls) = ls"
proof -
  have "split_at newline (unlines ls @ []) = ls @ split_at newline []"
    using assms by (intro split_at_unlines) auto
  then have "split_at newline (unlines ls) = ls @ [[]]" by simp
  moreover have "map strip_cr ls = ls"
  proof (rule map_idI)
    fix l assume l: "l \<in> set ls"
    show "strip_cr l = l"
    proof (cases "l = []")
      case False
      then have "last l \<in> set l" by simp
      with l assms have "last l \<noteq> carriage_return" by metis
      then show ?thesis by (simp add: strip_cr_def)
    qed (simp add: strip_cr_def)
  qed
  ultimately show ?thesis by (simp add: str_lines_def)
qed

lemma unlines_append [simp]: "unlines (xs @ ys) = unlines xs @ unlines ys"
  by (simp add: unlines_def)

text \<open>The white space of Unicode, as UTF-8 text.\<close>

definition white_space :: "string list" where
  "white_space =
     [[CHR 0x20], [CHR 0x09], [CHR 0x0A], [CHR 0x0B], [CHR 0x0C], [CHR 0x0D],
      [CHR 0xC2, CHR 0x85], [CHR 0xC2, CHR 0xA0], [CHR 0xE1, CHR 0x9A, CHR 0x80]] @
     map (\<lambda>n. [CHR 0xE2, CHR 0x80, char_of n])
       [0x80, 0x81, 0x82, 0x83, 0x84, 0x85, 0x86, 0x87, 0x88, 0x89, 0x8A, 0xA8, 0xA9, 0xAF :: nat] @
     [[CHR 0xE2, CHR 0x81, CHR 0x9F], [CHR 0xE3, CHR 0x80, CHR 0x80]]"

definition starts_with :: "string \<Rightarrow> string \<Rightarrow> bool" where
  "starts_with p s \<longleftrightarrow> take (length p) s = p"

lemma find_word_shorter:
  assumes "find (\<lambda>w. w \<noteq> [] \<and> starts_with w s) ws = Some w"
  shows "length (drop (length w) s) < length s"
proof -
  have "w \<noteq> []" "take (length w) s = w"
    using assms by (auto simp: find_Some_iff starts_with_def)
  then show ?thesis
    by (cases s) auto
qed

function skip_words :: "string list \<Rightarrow> string \<Rightarrow> string" where
  "skip_words ws s =
     (case find (\<lambda>w. w \<noteq> [] \<and> starts_with w s) ws of
        None \<Rightarrow> s
      | Some w \<Rightarrow> skip_words ws (drop (length w) s))"
  by pat_completeness auto

termination
  by (relation "measure (\<lambda>(ws, s). length s)") (auto dest: find_word_shorter)

declare skip_words.simps [simp del]

definition trim_start :: "string \<Rightarrow> string" where
  "trim_start = skip_words white_space"

definition str_trim :: "string \<Rightarrow> string" where
  "str_trim s = rev (skip_words (map rev white_space) (rev (trim_start s)))"

definition ascii_lower :: "char \<Rightarrow> char" where
  "ascii_lower c = (let n = of_char c :: nat in if 65 \<le> n \<and> n \<le> 90 then char_of (n + 32) else c)"

definition to_lower :: "string \<Rightarrow> string" where
  "to_lower s = map ascii_lower s"

definition ends_with :: "string \<Rightarrow> string \<Rightarrow> bool" where
  "ends_with p s \<longleftrightarrow> length p \<le> length s \<and> drop (length s - length p) s = p"

fun contains_str :: "string \<Rightarrow> string \<Rightarrow> bool" where
  "contains_str p [] \<longleftrightarrow> p = []"
| "contains_str p (c # s) \<longleftrightarrow> starts_with p (c # s) \<or> contains_str p s"

section \<open>Joining\<close>

fun join :: "string \<Rightarrow> string list \<Rightarrow> string" where
  "join sep [] = []"
| "join sep [l] = l"
| "join sep (l # ls) = l @ sep @ join sep ls"

lemma join_newline: "join [newline] ls @ (if ls = [] then [] else [newline]) = unlines ls"
  by (induction "[newline]" ls rule: join.induct) (simp_all add: unlines_def)

section \<open>UTF-8\<close>

text \<open>\<open>std::str::from_utf8\<close> on a string of bytes: the table of the well-formed sequences.\<close>

definition byte_in :: "nat \<Rightarrow> nat \<Rightarrow> char \<Rightarrow> bool" where
  "byte_in lo hi c \<longleftrightarrow> lo \<le> (of_char c :: nat) \<and> (of_char c :: nat) \<le> hi"

fun is_utf8 :: "string \<Rightarrow> bool" where
  "is_utf8 [] = True"
| "is_utf8 (a # s) =
     (if byte_in 0 0x7F a then is_utf8 s
      else case s of
        [] \<Rightarrow> False
      | b # s2 \<Rightarrow>
          if byte_in 0xC2 0xDF a then byte_in 0x80 0xBF b \<and> is_utf8 s2
          else case s2 of
            [] \<Rightarrow> False
          | c # s3 \<Rightarrow>
              if byte_in 0xE0 0xEF a then
                byte_in (if byte_in 0xE0 0xE0 a then 0xA0 else 0x80)
                  (if byte_in 0xED 0xED a then 0x9F else 0xBF) b \<and>
                byte_in 0x80 0xBF c \<and> is_utf8 s3
              else case s3 of
                [] \<Rightarrow> False
              | d # s4 \<Rightarrow>
                  byte_in 0xF0 0xF4 a \<and>
                  byte_in (if byte_in 0xF0 0xF0 a then 0x90 else 0x80)
                    (if byte_in 0xF4 0xF4 a then 0x8F else 0xBF) b \<and>
                  byte_in 0x80 0xBF c \<and> byte_in 0x80 0xBF d \<and> is_utf8 s4)"

definition is_ascii :: "string \<Rightarrow> bool" where
  "is_ascii s \<longleftrightarrow> list_all (byte_in 0 0x7F) s"

lemma is_utf8_ascii: "is_ascii s \<Longrightarrow> is_utf8 s"
  by (induction s) (auto simp: is_ascii_def)

lemma is_ascii_append [simp]: "is_ascii (s @ t) \<longleftrightarrow> is_ascii s \<and> is_ascii t"
  by (simp add: is_ascii_def)

lemma is_ascii_digit: "is_digit c \<Longrightarrow> byte_in 0 0x7F c"
  by (auto simp: is_digit_def byte_in_def)

end
