(* ===== verification/Rust_Float.thy ===== *)
theory Rust_Float
  imports Rust_Text Complex_Main "HOL-Library.Log_Nat"
begin

text \<open>
  Rust's \<open>f64\<close>: the IEEE 754 binary64 numbers the program computes timestamps with. A finite
  number is the rational it denotes (negative zero is zero: no operation the program uses
  tells them apart), every operation is the exact one followed by rounding to nearest, ties
  to even. Also the decimal text of these numbers: \<open>str::parse::<f64>\<close> and \<open>{:.2}\<close>.
\<close>

section \<open>Rounding to binary64\<close>

datatype f64 = NaN | Inf bool | Fin rat

definition binade :: "rat \<Rightarrow> int" where
  "binade x =
     (let (p, q) = quotient_of x; k = bitlen p - bitlen q
      in if 2 powi k \<le> x then k else k - 1)"

definition round_half_even :: "rat \<Rightarrow> int" where
  "round_half_even y =
     (let f = \<lfloor>y\<rfloor>; d = y - of_int f
      in if d < 1 / 2 then f else if 1 / 2 < d then f + 1 else if even f then f else f + 1)"

definition round_f64 :: "rat \<Rightarrow> f64" where
  "round_f64 x =
     (if x = 0 then Fin 0
      else let e = max (binade \<bar>x\<bar> - 52) (- 1074);
               v = of_int (round_half_even (x / 2 powi e)) * 2 powi e
           in if 2 ^ 1024 \<le> \<bar>v\<bar> then Inf (x < 0) else Fin v)"

fun f64_mul :: "f64 \<Rightarrow> f64 \<Rightarrow> f64" where
  "f64_mul (Fin a) (Fin b) = round_f64 (a * b)"
| "f64_mul (Inf s) (Fin b) = (if b = 0 then NaN else Inf (s \<noteq> (b < 0)))"
| "f64_mul (Fin a) (Inf s) = (if a = 0 then NaN else Inf (s \<noteq> (a < 0)))"
| "f64_mul (Inf s) (Inf t) = Inf (s \<noteq> t)"
| "f64_mul _ _ = NaN"

text \<open>Division by a finite number that is not zero, the only one the program does.\<close>

fun f64_div_rat :: "f64 \<Rightarrow> rat \<Rightarrow> f64" where
  "f64_div_rat (Fin a) b = round_f64 (a / b)"
| "f64_div_rat (Inf s) b = Inf (s \<noteq> (b < 0))"
| "f64_div_rat NaN b = NaN"

fun f64_less :: "f64 \<Rightarrow> f64 \<Rightarrow> bool" where
  "f64_less (Fin a) (Fin b) \<longleftrightarrow> a < b"
| "f64_less (Inf s) (Inf t) \<longleftrightarrow> s \<and> \<not> t"
| "f64_less (Inf s) (Fin b) \<longleftrightarrow> s"
| "f64_less (Fin a) (Inf t) \<longleftrightarrow> \<not> t"
| "f64_less _ _ \<longleftrightarrow> False"

definition f64_of_nat :: "nat \<Rightarrow> f64" where
  "f64_of_nat n = round_f64 (of_nat n)"

definition f64_of_int :: "int \<Rightarrow> f64" where
  "f64_of_int k = round_f64 (of_int k)"

text \<open>\<open>as u64\<close>: truncation towards zero, saturating; NaN is 0.\<close>

fun f64_as_u64 :: "f64 \<Rightarrow> nat" where
  "f64_as_u64 (Fin a) = (if a \<le> 0 then 0 else min (nat \<lfloor>a\<rfloor>) (2 ^ 64 - 1))"
| "f64_as_u64 (Inf s) = (if s then 0 else 2 ^ 64 - 1)"
| "f64_as_u64 NaN = 0"

subsection \<open>Error bounds\<close>

lemma powi2_pos [simp]: "0 < (2::rat) powi e"
  by (simp add: power_int_def)

lemma powi2_less_iff [simp]: "(2::rat) powi a < 2 powi b \<longleftrightarrow> a < b"
proof
  show "a < b \<Longrightarrow> (2::rat) powi a < 2 powi b" by (rule power_int_strict_increasing) simp_all
  show "a < b" if "(2::rat) powi a < 2 powi b"
  proof (rule ccontr)
    assume "\<not> a < b"
    then have "(2::rat) powi b \<le> 2 powi a" by (intro power_int_increasing) simp_all
    with that show False by simp
  qed
qed

lemma powi2_le_iff [simp]: "(2::rat) powi a \<le> 2 powi b \<longleftrightarrow> a \<le> b"
  by (simp flip: not_less)

lemma bitlen_pow_bounds:
  fixes p :: int
  assumes "0 < p"
  shows "(2::rat) powi (bitlen p - 1) \<le> of_int p" "of_int p < (2::rat) powi (bitlen p)"
proof -
  have b: "2 ^ nat (bitlen p - 1) \<le> p \<and> p < 2 ^ nat (bitlen p)"
    using bitlen_bounds [OF assms] .
  have "1 \<le> bitlen p" using assms by (auto simp: bitlen_alt_def)
  then have e: "(2::rat) powi (bitlen p - 1) = of_int (2 ^ nat (bitlen p - 1))"
      "(2::rat) powi (bitlen p) = of_int (2 ^ nat (bitlen p))"
    by (simp_all add: power_int_def)
  from b show "(2::rat) powi (bitlen p - 1) \<le> of_int p"
    unfolding e of_int_le_iff by simp
  from b show "of_int p < (2::rat) powi (bitlen p)"
    unfolding e of_int_less_iff by simp
qed

lemma binade_bounds:
  assumes "0 < x"
  shows "2 powi (binade x) \<le> x" "x < 2 powi (binade x + 1)"
proof -
  obtain p q where pq: "quotient_of x = (p, q)" by (cases "quotient_of x")
  then have q: "0 < q" by (rule quotient_of_denom_pos)
  have x: "x = of_int p / of_int q" using pq by (rule quotient_of_div)
  have p: "0 < p" using assms q by (simp add: x zero_less_divide_iff)
  let ?k = "bitlen p - bitlen q"
  have "x < 2 powi (bitlen p) / 2 powi (bitlen q - 1)"
    unfolding x using bitlen_pow_bounds [OF p] bitlen_pow_bounds [OF q] p q
    by (intro frac_less) auto
  also have "\<dots> = 2 powi (?k + 1)"
    by (simp add: power_int_diff [symmetric] algebra_simps)
  finally have up: "x < 2 powi (?k + 1)" .
  have "2 powi (?k - 1) = 2 powi (bitlen p - 1) / (2 powi (bitlen q) :: rat)"
    by (simp add: power_int_diff [symmetric] algebra_simps)
  also have "\<dots> \<le> x"
    unfolding x using bitlen_pow_bounds [OF p] bitlen_pow_bounds [OF q] p q
    by (intro frac_le) auto
  finally have lo: "2 powi (?k - 1) \<le> x" .
  show "2 powi (binade x) \<le> x" "x < 2 powi (binade x + 1)"
    using up lo by (auto simp: binade_def pq Let_def)
qed

lemma binade_unique:
  assumes "2 powi k \<le> x" "x < 2 powi (k + 1)"
  shows "binade x = k"
proof -
  have x: "0 < x" using assms(1) powi2_pos [of k] by linarith
  note b = binade_bounds [OF x]
  have "(2::rat) powi k < 2 powi (binade x + 1)" using assms b by linarith
  then have "k < binade x + 1" by simp
  moreover have "(2::rat) powi (binade x) < 2 powi (k + 1)" using assms b by linarith
  then have "binade x < k + 1" by simp
  ultimately show ?thesis by simp
qed

lemma round_half_even_error: "\<bar>of_int (round_half_even y) - y\<bar> \<le> 1 / 2"
proof -
  have "of_int \<lfloor>y\<rfloor> \<le> y" "y < of_int \<lfloor>y\<rfloor> + 1" by linarith+
  then show ?thesis
    by (auto simp: round_half_even_def Let_def abs_le_iff)
qed

lemma round_half_even_near:
  assumes "\<bar>y - of_int n\<bar> < 1 / 2"
  shows "round_half_even y = n"
proof -
  have "\<bar>of_int (round_half_even y) - of_int n\<bar> < (1::rat)"
    using assms round_half_even_error [of y] by linarith
  then have "\<bar>round_half_even y - n\<bar> < 1" by (simp flip: of_int_diff of_int_abs)
  then show ?thesis by simp
qed

lemma round_half_even_int [simp]: "round_half_even (of_int n) = n"
  by (rule round_half_even_near) simp

text \<open>In the normal range the result is within half a unit in the last place.\<close>

lemma round_f64_error:
  assumes k: "2 powi k \<le> x" "x < 2 powi (k + 1)" and r: "- 1000 \<le> k" "k \<le> 1000"
  obtains v where "round_f64 x = Fin v" "\<bar>v - x\<bar> \<le> 2 powi (k - 53)"
proof -
  have x: "0 < x" using k(1) powi2_pos [of k] by linarith
  have b: "binade \<bar>x\<bar> = k" using binade_unique [OF k] x by simp
  let ?u = "2 powi (k - 52) :: rat" let ?m = "of_int (round_half_even (x / ?u)) :: rat"
  have u: "0 < ?u" by simp
  have "\<bar>?m - x / ?u\<bar> * ?u \<le> 1 / 2 * ?u"
    by (rule mult_right_mono [OF round_half_even_error]) (use u in simp)
  moreover have "\<bar>?m - x / ?u\<bar> * ?u = \<bar>?m * ?u - x\<bar>"
    using u by (simp add: abs_mult_pos left_diff_distrib)
  moreover have "1 / 2 * ?u = 2 powi (k - 53)"
    using power_int_add [of "2::rat" "k - 53" 1] by simp
  ultimately have err: "\<bar>?m * ?u - x\<bar> \<le> 2 powi (k - 53)" by simp
  have "(2::rat) powi (k - 53) \<le> 2 powi 1000" "(2::rat) powi (k + 1) \<le> 2 powi 1001"
    unfolding powi2_le_iff using r by auto
  moreover have "(2::rat) powi 1000 + 2 powi 1001 < 2 ^ 1024"
    by (simp add: power_int_def)
  ultimately have "\<bar>?m * ?u\<bar> < 2 ^ 1024"
    using err k x by linarith
  then have "round_f64 x = Fin (?m * ?u)"
    using x b r by (simp add: round_f64_def Let_def)
  with err that show thesis by blast
qed

text \<open>A representable number that is nearer than half a unit is the result.\<close>

lemma round_f64_near:
  assumes k: "2 powi k \<le> x" "x < 2 powi (k + 1)" and r: "- 1000 \<le> k" "k \<le> 1000"
    and n: "n = of_int m * 2 powi (k - 52)" "\<bar>x - n\<bar> < 2 powi (k - 53)" "n < 2 ^ 1024" "0 \<le> n"
  shows "round_f64 x = Fin n"
proof -
  have x: "0 < x" using k(1) powi2_pos [of k] by linarith
  have b: "binade \<bar>x\<bar> = k" using binade_unique [OF k] x by simp
  let ?u = "2 powi (k - 52) :: rat"
  have u: "0 < ?u" by simp
  have "\<bar>x - n\<bar> / ?u < 2 powi (k - 53) / ?u"
    using n(2) u by (rule divide_strict_right_mono)
  moreover have "2 powi (k - 53) / ?u = 1 / 2"
    by (simp add: power_int_diff [symmetric] power_int_minus)
  moreover have "\<bar>x - n\<bar> / ?u = \<bar>(x - n) / ?u\<bar>"
    using u by (rule abs_div_pos)
  moreover have "(x - n) / ?u = x / ?u - of_int m"
    by (simp add: n(1) diff_divide_distrib)
  ultimately have "\<bar>x / ?u - of_int m\<bar> < 1 / 2" by simp
  then have "round_half_even (x / ?u) = m" by (rule round_half_even_near)
  then show ?thesis
    using x b r n by (simp add: round_f64_def Let_def)
qed

text \<open>Rounding of a concrete number: its binade and its significand.\<close>

lemma round_f64_rule:
  assumes k: "2 powi k \<le> x" "x < 2 powi (k + 1)" "- 1000 \<le> k" "k \<le> 1000"
    and m: "\<bar>x / 2 powi (k - 52) - of_int m\<bar> < 1 / 2"
    and v: "v = of_int m * 2 powi (k - 52)" "0 \<le> v" "v < 2 ^ 1024"
  shows "round_f64 x = Fin v"
proof -
  have x: "0 < x" using k(1) powi2_pos [of k] by linarith
  have "binade \<bar>x\<bar> = k" using binade_unique [OF k(1,2)] x by simp
  then show ?thesis
    using x k v round_half_even_near [OF m] by (simp add: round_f64_def Let_def)
qed

section \<open>Decimal text\<close>

text \<open>\<open>str::parse::<f64>\<close>: a sign, digits with at most one point and at least one digit, an
  exponent; or \<open>inf\<close>, \<open>infinity\<close>, \<open>nan\<close> in any case.\<close>

definition parse_mantissa :: "string \<Rightarrow> rat option" where
  "parse_mantissa s =
     (let ip = takeWhile (\<lambda>c. c \<noteq> CHR ''.'') s;
          fp = (case dropWhile (\<lambda>c. c \<noteq> CHR ''.'') s of [] \<Rightarrow> [] | _ # f \<Rightarrow> f)
      in if ip @ fp \<noteq> [] \<and> list_all is_digit (ip @ fp)
         then Some (of_nat (digits_val (ip @ fp)) / 10 ^ length fp) else None)"

definition parse_exponent :: "string \<Rightarrow> int option" where
  "parse_exponent s =
     (case s of
        [] \<Rightarrow> None
      | c # s' \<Rightarrow>
          if c = CHR ''-'' then map_option (\<lambda>n. - int n) (parse_digits s')
          else if c = CHR ''+'' then map_option int (parse_digits s')
          else map_option int (parse_digits s))"

definition is_exp_mark :: "char \<Rightarrow> bool" where
  "is_exp_mark c \<longleftrightarrow> c = CHR ''e'' \<or> c = CHR ''E''"

definition parse_decimal :: "string \<Rightarrow> rat option" where
  "parse_decimal s =
     (let m = takeWhile (\<lambda>c. \<not> is_exp_mark c) s
      in case dropWhile (\<lambda>c. \<not> is_exp_mark c) s of
           [] \<Rightarrow> parse_mantissa m
         | _ # ex \<Rightarrow>
             (case (parse_mantissa m, parse_exponent ex) of
                (Some a, Some k) \<Rightarrow> Some (a * 10 powi k)
              | _ \<Rightarrow> None))"

definition parse_f64 :: "string \<Rightarrow> f64 option" where
  "parse_f64 s =
     (let neg = (case s of c # _ \<Rightarrow> c = CHR ''-'' | [] \<Rightarrow> False);
          body = (case s of c # s' \<Rightarrow> if c = CHR ''-'' \<or> c = CHR ''+'' then s' else s | [] \<Rightarrow> s)
      in if to_lower body \<in> {''inf'', ''infinity''} then Some (Inf neg)
         else if to_lower body = ''nan'' then Some NaN
         else map_option (\<lambda>x. round_f64 (if neg then - x else x)) (parse_decimal body))"

text \<open>\<open>format!("{:.2}")\<close> of a finite number.\<close>

definition show_cents :: "nat \<Rightarrow> string" where
  "show_cents n = show_nat (n div 100) @ ''.'' @ [digit_char (n mod 100 div 10), digit_char (n mod 10)]"

fun format_2 :: "f64 \<Rightarrow> string" where
  "format_2 (Fin a) =
     (if a < 0 then CHR ''-'' # show_cents (nat (round_half_even (- a * 100)))
      else show_cents (nat (round_half_even (a * 100))))"
| "format_2 (Inf s) = (if s then ''-inf'' else ''inf'')"
| "format_2 NaN = ''NaN''"

lemma is_digit_not_mark [simp]: "is_digit c \<Longrightarrow> \<not> is_exp_mark c" "is_digit c \<Longrightarrow> c \<noteq> CHR ''.''"
  by (auto simp: is_digit_def is_exp_mark_def)

lemma digits_val_show_cents:
  "digits_val (show_nat (n div 100) @ [digit_char (n mod 100 div 10), digit_char (n mod 10)]) = n"
proof -
  have "digits_val (show_nat (n div 100) @ [digit_char (n mod 100 div 10), digit_char (n mod 10)])
      = 10 * (10 * (n div 100) + n mod 100 div 10) + n mod 10"
    using digits_val_snoc [of "show_nat (n div 100) @ [digit_char (n mod 100 div 10)]"
        "digit_char (n mod 10)"]
    by simp
  also have "\<dots> = 100 * (n div 100) + (10 * (n mod 100 div 10) + n mod 100 mod 10)"
    by (simp add: mod_mod_cancel)
  also have "\<dots> = n" by (simp only: mult_div_mod_eq)
  finally show ?thesis .
qed

lemma parse_mantissa_show_cents: "parse_mantissa (show_cents n) = Some (of_nat n / 100)"
proof -
  let ?f = "[digit_char (n mod 100 div 10), digit_char (n mod 10)]"
  have d: "\<forall>c \<in> set (show_nat (n div 100)). c \<noteq> CHR ''.''"
    using list_all_digit_set [OF show_nat_digits] is_digit_not_mark(2) by blast
  have "takeWhile (\<lambda>c. c \<noteq> CHR ''.'') (show_cents n) = show_nat (n div 100)"
    "dropWhile (\<lambda>c. c \<noteq> CHR ''.'') (show_cents n) = CHR ''.'' # ?f"
    using d by (simp_all add: show_cents_def)
  then show ?thesis
    using digits_val_show_cents [of n] by (simp add: parse_mantissa_def)
qed

lemma show_cents_no_mark:
  assumes "c \<in> set (show_cents n)"
  shows "\<not> is_exp_mark c"
proof -
  have "is_digit c \<or> c = CHR ''.''"
    using assms list_all_digit_set [OF show_nat_digits [of "n div 100"]]
      digit_char_props(1) [of "n mod 100 div 10"] digit_char_props(1) [of "n mod 10"]
    by (auto simp: show_cents_def)
  then show ?thesis by (auto simp: is_exp_mark_def is_digit_def)
qed

lemma parse_decimal_show_cents: "parse_decimal (show_cents n) = Some (of_nat n / 100)"
proof -
  have t: "takeWhile (\<lambda>c. \<not> is_exp_mark c) (show_cents n) = show_cents n"
    and d: "dropWhile (\<lambda>c. \<not> is_exp_mark c) (show_cents n) = []"
    using show_cents_no_mark unfolding takeWhile_eq_all_conv dropWhile_eq_Nil_conv by blast+
  show ?thesis
    unfolding parse_decimal_def Let_def t d by (simp add: parse_mantissa_show_cents)
qed

lemma to_lower_digit_cons:
  assumes "is_digit c"
  shows "to_lower (c # s) \<noteq> ''inf''" "to_lower (c # s) \<noteq> ''infinity''" "to_lower (c # s) \<noteq> ''nan''"
  using assms by (auto simp: to_lower_def ascii_lower_def is_digit_def Let_def)

lemma parse_f64_show_cents: "parse_f64 (show_cents n) = Some (round_f64 (of_nat n / 100))"
proof (cases "show_nat (n div 100)")
  case (Cons c s)
  then have "is_digit c" using show_nat_hd_digit [of "n div 100"] by simp
  moreover obtain t where t: "show_cents n = c # t" using Cons by (simp add: show_cents_def)
  ultimately show ?thesis
    using parse_decimal_show_cents [of n] to_lower_digit_cons [of c t]
    by (simp add: parse_f64_def t Let_def)
qed simp

end
