(* ===== verification/Sync_Errors.thy ===== *)
theory Sync_Errors
  imports Rust_Float
begin

text \<open>
  The error types of the program (\<open>src/db/error.rs\<close>, \<open>src/error.rs\<close>, \<open>src/web/error.rs\<close>):
  the kinds, the HTTP status each is given, the legacy Weave error code and the response an
  error turns into. The tags attached to validation errors, which only reach logs and metrics,
  are left out.
\<close>

section \<open>Errors of the libraries the program distinguishes\<close>

text \<open>\<open>diesel::result::Error\<close>: only a unique key violation is told apart. \<open>grpcio::Error\<close>:
  only the status code of a failed call is. The string is what the library prints.\<close>

datatype diesel_error = UniqueViolation string | OtherDieselError string

datatype rpc_status_code = RpcAborted | RpcNotFound | RpcOther nat

datatype grpc_error =
    RpcFailure rpc_status_code string
  | RpcFinished "rpc_status_code option" string
  | OtherGrpcError string

section \<open>Database errors\<close>

type_synonym status_code = nat

datatype db_error_kind =
    DieselQuery diesel_error
  | DieselConnection string
  | SpannerGrpc grpc_error
  | SpannerTooLarge string
  | PoolError string
  | MigrationError string
  | CollectionNotFound
  | BsoNotFound
  | BatchNotFound
  | Conflict
  | Integrity string
  | InvalidUrl string
  | DbInternal string
  | Bb8Error string

record db_error =
  db_kind :: db_error_kind
  db_status :: status_code

fun db_error_status :: "db_error_kind \<Rightarrow> status_code" where
  "db_error_status CollectionNotFound = 404"
| "db_error_status BsoNotFound = 404"
| "db_error_status BatchNotFound = 400"
| "db_error_status (SpannerTooLarge _) = 400"
| "db_error_status Conflict = 503"
| "db_error_status _ = 500"

definition db_error_of :: "db_error_kind \<Rightarrow> db_error" where
  "db_error_of k = \<lparr>db_kind = k, db_status = db_error_status k\<rparr>"

definition db_internal :: "string \<Rightarrow> db_error" where
  "db_internal msg = db_error_of (DbInternal msg)"

definition db_error_of_diesel :: "diesel_error \<Rightarrow> db_error" where
  "db_error_of_diesel e = db_error_of (DieselQuery e)"

text \<open>Aborted calls become conflicts, so that the client retries.\<close>

fun db_error_of_grpc :: "grpc_error \<Rightarrow> db_error" where
  "db_error_of_grpc (RpcFailure RpcAborted _) = db_error_of Conflict"
| "db_error_of_grpc (RpcFinished (Some RpcAborted) _) = db_error_of Conflict"
| "db_error_of_grpc e = db_error_of (SpannerGrpc e)"

fun diesel_error_text :: "diesel_error \<Rightarrow> string" where
  "diesel_error_text (UniqueViolation msg) = msg"
| "diesel_error_text (OtherDieselError msg) = msg"

fun grpc_error_text :: "grpc_error \<Rightarrow> string" where
  "grpc_error_text (RpcFailure _ msg) = msg"
| "grpc_error_text (RpcFinished _ msg) = msg"
| "grpc_error_text (OtherGrpcError msg) = msg"

fun db_error_text :: "db_error_kind \<Rightarrow> string" where
  "db_error_text (DieselQuery e) = ''A database error occurred: '' @ diesel_error_text e"
| "db_error_text (DieselConnection msg) =
     ''An error occurred while establishing a db connection: '' @ msg"
| "db_error_text (SpannerGrpc e) = ''A database error occurred: '' @ grpc_error_text e"
| "db_error_text (SpannerTooLarge msg) = ''Spanner data load too large: '' @ msg"
| "db_error_text (PoolError msg) = ''A database pool error occurred: '' @ msg"
| "db_error_text (MigrationError msg) = ''Error migrating the database: '' @ msg"
| "db_error_text CollectionNotFound = ''Specified collection does not exist''"
| "db_error_text BsoNotFound = ''Specified bso does not exist''"
| "db_error_text BatchNotFound = ''Specified batch does not exist''"
| "db_error_text Conflict = ''An attempt at a conflicting write''"
| "db_error_text (Integrity msg) = ''Database integrity error: '' @ msg"
| "db_error_text (InvalidUrl msg) = ''Invalid SYNC_DATABASE_URL: '' @ msg"
| "db_error_text (DbInternal msg) = ''Unexpected error: '' @ msg"
| "db_error_text (Bb8Error msg) = ''bb8 error: '' @ msg"

lemma db_kind_of [simp]: "db_kind (db_error_of k) = k" "db_status (db_error_of k) = db_error_status k"
  by (simp_all add: db_error_of_def)

lemma db_error_of_eq_iff [simp]: "db_error_of k = db_error_of k' \<longleftrightarrow> k = k'"
  by (auto simp: db_error_of_def)

section \<open>Errors of the web layer\<close>

datatype request_error_location =
    LocBody | LocQueryString | LocUrl | LocHeader | LocPath | LocCookies | LocMethod | LocUnknown

text \<open>\<open>FromValidationErrors\<close> carries the validator's errors: the field and the code of each.\<close>

datatype validation_error_kind =
    FromDetails string request_error_location "string option"
  | FromValidationErrors "(string \<times> string) list" request_error_location

record validation_error =
  val_kind :: validation_error_kind
  val_status :: status_code

datatype hawk_error_kind =
    HawkBase64 string
  | HawkExpired
  | HawkHeader string
  | HawkHmac string
  | HawkInvalidHeader
  | HawkInvalidKeyLength
  | HawkJson string
  | HawkMissingHeader
  | HawkMissingId
  | HawkMissingPath
  | HawkMissingPrefix
  | HawkParse string
  | HawkTruncatedId

fun validation_status :: "validation_error_kind \<Rightarrow> status_code" where
  "validation_status (FromDetails d l (Some name)) =
     (if l = LocHeader then
        (if to_lower name = ''accept'' then 406
         else if to_lower name = ''content-type'' then 415
         else 400)
      else if l = LocPath \<and> name \<in> {''bso'', ''collection''} then 404
      else 400)"
| "validation_status _ = 400"

definition validation_error_of :: "validation_error_kind \<Rightarrow> validation_error" where
  "validation_error_of k = \<lparr>val_kind = k, val_status = validation_status k\<rparr>"

datatype api_error_kind =
    ApiDb db_error
  | ApiHawk hawk_error_kind
  | NoServerState
  | ApiInternal string
  | ApiValidation validation_error

record api_error =
  api_kind :: api_error_kind
  api_status :: status_code

fun api_error_status :: "api_error_kind \<Rightarrow> status_code" where
  "api_error_status (ApiDb e) = db_status e"
| "api_error_status (ApiHawk _) = 401"
| "api_error_status NoServerState = 500"
| "api_error_status (ApiInternal _) = 500"
| "api_error_status (ApiValidation e) = val_status e"

definition api_error_of :: "api_error_kind \<Rightarrow> api_error" where
  "api_error_of k = \<lparr>api_kind = k, api_status = api_error_status k\<rparr>"

definition api_error_of_db :: "db_error \<Rightarrow> api_error" where
  "api_error_of_db e = api_error_of (ApiDb e)"

definition api_error_of_db_kind :: "db_error_kind \<Rightarrow> api_error" where
  "api_error_of_db_kind k = api_error_of_db (db_error_of k)"

definition api_error_of_validation :: "validation_error_kind \<Rightarrow> api_error" where
  "api_error_of_validation k = api_error_of (ApiValidation (validation_error_of k))"

definition api_error_of_hawk :: "hawk_error_kind \<Rightarrow> api_error" where
  "api_error_of_hawk k = api_error_of (ApiHawk k)"

lemma api_kind_of [simp]: "api_kind (api_error_of k) = k" "api_status (api_error_of k) = api_error_status k"
  by (simp_all add: api_error_of_def)

subsection \<open>Classification\<close>

definition is_collection_not_found :: "api_error \<Rightarrow> bool" where
  "is_collection_not_found e =
     (case api_kind e of ApiDb dbe \<Rightarrow> db_kind dbe = CollectionNotFound | _ \<Rightarrow> False)"

definition is_bso_not_found :: "api_error \<Rightarrow> bool" where
  "is_bso_not_found e = (case api_kind e of ApiDb dbe \<Rightarrow> db_kind dbe = BsoNotFound | _ \<Rightarrow> False)"

definition is_conflict :: "api_error \<Rightarrow> bool" where
  "is_conflict e = (case api_kind e of ApiDb dbe \<Rightarrow> db_kind dbe = Conflict | _ \<Rightarrow> False)"

definition is_reportable :: "api_error \<Rightarrow> bool" where
  "is_reportable e = (case api_kind e of ApiDb dbe \<Rightarrow> db_kind dbe \<noteq> Conflict | _ \<Rightarrow> True)"

lemma classify_db [simp]:
  "is_collection_not_found (api_error_of_db e) \<longleftrightarrow> db_kind e = CollectionNotFound"
  "is_bso_not_found (api_error_of_db e) \<longleftrightarrow> db_kind e = BsoNotFound"
  "is_conflict (api_error_of_db e) \<longleftrightarrow> db_kind e = Conflict"
  "is_reportable (api_error_of_db e) \<longleftrightarrow> db_kind e \<noteq> Conflict"
  by (simp_all add: api_error_of_db_def is_collection_not_found_def is_bso_not_found_def
      is_conflict_def is_reportable_def)

subsection \<open>Weave error codes\<close>

datatype weave_error =
  UnknownError | IllegalMethod | MalformedJson | InvalidWbo | OverQuota | SizeLimitExceeded

fun weave_code :: "weave_error \<Rightarrow> int" where
  "weave_code UnknownError = 0"
| "weave_code IllegalMethod = 1"
| "weave_code MalformedJson = 6"
| "weave_code InvalidWbo = 8"
| "weave_code OverQuota = 14"
| "weave_code SizeLimitExceeded = 17"

definition weave_error_code :: "api_error \<Rightarrow> weave_error" where
  "weave_error_code e =
     (case api_kind e of
        ApiValidation ver \<Rightarrow>
          (case val_kind ver of
             FromDetails description location name \<Rightarrow>
               if description = ''size-limit-exceeded'' then SizeLimitExceeded
               else if location = LocBody \<and>
                       (case name of None \<Rightarrow> '''' | Some n \<Rightarrow> n) \<in> {''bso'', ''bsos''} then InvalidWbo
               else UnknownError
           | FromValidationErrors _ location \<Rightarrow>
               if location = LocBody then InvalidWbo else UnknownError)
      | _ \<Rightarrow> UnknownError)"

section \<open>Responses\<close>

text \<open>JSON values as the program builds them. \<open>JRaw\<close> is a number kept as its text (the
  timestamps, with two decimals), \<open>JFloat\<close> a number rendered from an \<open>f64\<close>.\<close>

datatype json =
    JNull
  | JBool bool
  | JInt int
  | JRaw string
  | JFloat f64
  | JStr string
  | JArr "json list"
  | JObj "(string \<times> json) list"

datatype response_body = EmptyBody | JsonBody json | TextBody string

text \<open>\<open>resp_error\<close>: \<open>HttpResponse::error()\<close>, the error the response was made from, if any.\<close>

record http_response =
  resp_status :: status_code
  resp_headers :: "(string \<times> string) list"
  resp_body :: response_body
  resp_error :: "api_error option"

definition RETRY_AFTER :: nat where
  "RETRY_AFTER = 10"

definition error_response :: "api_error \<Rightarrow> http_response" where
  "error_response e =
     \<lparr>resp_status = api_status e,
      resp_headers = (if is_conflict e then [(''Retry-After'', show_nat RETRY_AFTER)] else []),
      resp_body = JsonBody (JInt (weave_code (weave_error_code e))),
      resp_error = None\<rparr>"

text \<open>What an unmatched route answers.\<close>

definition render_404 :: http_response where
  "render_404 =
     \<lparr>resp_status = 404, resp_headers = [],
      resp_body = JsonBody (JInt (weave_code UnknownError)), resp_error = None\<rparr>"

lemma weave_code_inj: "weave_code a = weave_code b \<longleftrightarrow> a = b"
  by (cases a; cases b) simp_all

text \<open>C28. Which answers ask the client to come back: the response of an error carries a
  \<open>Retry-After\<close> header exactly when a database error of kind \<open>Conflict\<close> is behind it, and an
  error made from that kind is answered 503 (never 409), is not reported to Sentry and has the
  legacy code 0.\<close>

theorem conflict_response:
  "(\<exists>v. (''Retry-After'', v) \<in> set (resp_headers (error_response e))) =
     (\<exists>s. api_kind e = ApiDb \<lparr>db_kind = Conflict, db_status = s\<rparr>) \<and>
   error_response (api_error_of_db_kind Conflict) =
     \<lparr>resp_status = 503, resp_headers = [(''Retry-After'', ''10'')],
      resp_body = JsonBody (JInt 0), resp_error = None\<rparr> \<and>
   is_reportable e = (\<not> is_conflict e)"
proof -
  have ten: "show_nat 10 = ''10''"
    by code_simp
  have "is_conflict e \<longleftrightarrow> (\<exists>s. api_kind e = ApiDb \<lparr>db_kind = Conflict, db_status = s\<rparr>)"
    by (auto simp: is_conflict_def split: api_error_kind.split) (metis db_error.surjective old.unit.exhaust)
  moreover have "is_reportable e = (\<not> is_conflict e)"
    by (simp add: is_reportable_def is_conflict_def split: api_error_kind.split)
  ultimately show ?thesis
    by (auto simp: error_response_def RETRY_AFTER_def api_error_of_db_kind_def api_error_of_db_def
        weave_error_code_def is_conflict_def ten)
qed

end
