(* ===== verification/Sync_Timestamp.thy ===== *)
theory Sync_Timestamp
  imports Sync_Errors
begin

text \<open>
  \<open>src/db/util.rs\<close>: the timestamp of the protocol, milliseconds since the epoch as a \<open>u64\<close>
  kept to a multiple of ten, and its conversions: to and from the header text (seconds with two
  decimals, through \<open>f64\<close>), the database's \<open>i64\<close>, and RFC 3339 text. The \<open>chrono\<close> calls are
  parameters: \<open>fmt\<close> renders seconds and nanoseconds, \<open>prs\<close> parses a text to milliseconds.
\<close>

section \<open>Conversions\<close>

type_synonym sync_timestamp = u64

definition from_milliseconds :: "u64 \<Rightarrow> sync_timestamp" where
  "from_milliseconds val = val - val mod 10"

definition format_ts :: "u64 \<Rightarrow> string" where
  "format_ts val = format_2 (f64_div_rat (f64_of_nat (unat val)) 1000)"

definition as_header :: "sync_timestamp \<Rightarrow> string" where
  "as_header t = format_ts t"

definition from_header :: "string \<Rightarrow> string + sync_timestamp" where
  "from_header val =
     (case parse_f64 val of
        None \<Rightarrow> Inl ''Invalid value''
      | Some v \<Rightarrow>
          if f64_less v (Fin 0) \<or> f64_less (f64_of_nat ((2 ^ 64 - 1) div 1000)) v \<or> v = NaN
          then Inl ''Invalid value''
          else Inr (from_milliseconds (of_nat (f64_as_u64 (f64_mul v (Fin 1000))))))"

definition ts_from_i64 :: "int \<Rightarrow> db_error + sync_timestamp" where
  "ts_from_i64 val =
     (if val < 0 then Inl (db_error_of (Integrity ''Invalid modified i64 (< 0)''))
      else Inr (from_milliseconds (i64_as_u64 val)))"

definition from_seconds :: "f64 \<Rightarrow> sync_timestamp" where
  "from_seconds val = (let v = of_nat (f64_as_u64 (f64_mul val (Fin 1000))) in v - v mod 10)"

definition from_datetime :: "int \<Rightarrow> db_error + sync_timestamp" where
  "from_datetime millis =
     (if millis < 0 then Inl (db_error_of (Integrity ''Invalid DateTime (< 0)''))
      else Inr (from_milliseconds (i64_as_u64 millis)))"

definition from_rfc3339 :: "(string \<Rightarrow> string + int) \<Rightarrow> string \<Rightarrow> db_error + sync_timestamp" where
  "from_rfc3339 prs val =
     (case prs val of
        Inl e \<Rightarrow> Inl (db_error_of (Integrity (''Invalid TIMESTAMP '' @ e)))
      | Inr millis \<Rightarrow> from_datetime millis)"

definition as_i64 :: "sync_timestamp \<Rightarrow> int" where
  "as_i64 t = u64_as_i64 t"

definition as_seconds :: "sync_timestamp \<Rightarrow> f64" where
  "as_seconds t = f64_div_rat (f64_of_nat (unat t)) 1000"

text \<open>\<open>val / 1000\<close> and \<open>val % 1000\<close> truncate towards zero; the nanoseconds of a negative time
  do not fit the \<open>u32\<close> they are converted to.\<close>

definition to_rfc3339 :: "(int \<Rightarrow> nat \<Rightarrow> string) \<Rightarrow> int \<Rightarrow> db_error + string" where
  "to_rfc3339 fmt val =
     (let secs = sgn val * (\<bar>val\<bar> div 1000);
          nsecs = sgn val * (\<bar>val\<bar> mod 1000) * 1000000
      in if nsecs < 0
         then Inl (db_internal (''Invalid timestamp (nanoseconds) '' @ show_int val @
           '': out of range integral type conversion attempted''))
         else Inr (fmt secs (nat nsecs)))"

definition as_rfc3339 :: "(int \<Rightarrow> nat \<Rightarrow> string) \<Rightarrow> sync_timestamp \<Rightarrow> db_error + string" where
  "as_rfc3339 fmt t = to_rfc3339 fmt (as_i64 t)"

text \<open>A column of the database read as a timestamp (\<open>FromSql\<close>).\<close>

definition ts_from_sql :: "int \<Rightarrow> string + sync_timestamp" where
  "ts_from_sql v = (case ts_from_i64 v of Inl _ \<Rightarrow> Inl ''Invalid SyncTimestamp i64'' | Inr t \<Rightarrow> Inr t)"

definition serialize_ts :: "u64 \<Rightarrow> json" where
  "serialize_ts x = JRaw (format_ts x)"

definition deserialize_ts :: "f64 \<Rightarrow> u64" where
  "deserialize_ts v = of_nat (f64_as_u64 (f64_mul v (Fin 1000)))"

section \<open>Multiples of ten\<close>

lemma unat_from_milliseconds: "unat (from_milliseconds v) = unat v - unat v mod 10"
proof -
  have "v mod 10 \<le> v" by (simp add: word_le_nat_alt unat_mod)
  then show ?thesis
    by (simp add: from_milliseconds_def unat_sub unat_mod)
qed

lemma from_milliseconds_dvd [simp]: "10 dvd unat (from_milliseconds v)"
  by (simp add: unat_from_milliseconds dvd_minus_mod)

lemma from_milliseconds_id [simp]: "10 dvd unat v \<Longrightarrow> from_milliseconds v = v"
  by (metis dvd_imp_mod_0 diff_zero unat_from_milliseconds word_unat_eq_iff)

lemma from_milliseconds_le: "from_milliseconds v \<le> v"
  by (simp add: word_le_nat_alt unat_from_milliseconds)

lemma as_i64_eq: "unat t < 2 ^ 63 \<Longrightarrow> as_i64 t = int (unat t)"
  by (simp add: as_i64_def u64_as_i64_small)

lemma unat_i64_as_u64: "0 \<le> k \<Longrightarrow> k < 2 ^ 64 \<Longrightarrow> unat (i64_as_u64 k) = nat k"
  by (simp add: i64_as_u64_def unat_eq_nat_uint uint_word_of_int take_bit_int_eq_self del: nat_uint_eq)

lemma ts_from_i64_as_i64:
  assumes "10 dvd unat t" "unat t < 2 ^ 63"
  shows "ts_from_i64 (as_i64 t) = Inr t"
proof -
  have "i64_as_u64 (as_i64 t) = t"
    using assms(2) by (simp add: as_i64_eq i64_as_u64_def)
  then show ?thesis
    using assms by (simp add: ts_from_i64_def as_i64_eq)
qed

section \<open>The header text\<close>

lemma exact_small:
  assumes "0 < n" "n < 2 ^ 53"
  shows "f64_of_nat n = Fin (of_nat n)"
proof -
  let ?x = "of_nat n :: rat"
  define k where "k = binade ?x"
  have x: "0 < ?x" using assms(1) by simp
  have b: "2 powi k \<le> ?x" "?x < 2 powi (k + 1)"
    using binade_bounds [OF x] by (simp_all add: k_def)
  have "?x < 2 powi 53" using assms(2) by (simp add: power_int_def)
  then have "(2::rat) powi k < 2 powi 53" using b(1) by linarith
  then have k53: "k < 53" by (simp only: powi2_less_iff)
  have "(1::rat) \<le> ?x" using assms(1) by simp
  then have "(2::rat) powi 0 < 2 powi (k + 1)" using b(2) by simp
  then have k0: "0 \<le> k" by (simp only: powi2_less_iff)
  have "?x = of_int (int n * 2 ^ nat (52 - k)) * 2 powi (k - 52)"
    using k53 by (simp add: power_int_def power_one_over)
  moreover have "?x < 2 ^ 1024"
    using \<open>?x < 2 powi 53\<close> by (rule less_trans) (simp add: power_int_def)
  ultimately have "round_f64 ?x = Fin ?x"
    using b k0 k53 x
    by (intro round_f64_near [where k = k and m = "int n * 2 ^ nat (52 - k)"]) auto
  then show ?thesis by (simp add: f64_of_nat_def)
qed

text \<open>The rendering of a time given in hundredths of a second, and its way back, for the times
  whose seconds lie in one binade and whose milliseconds lie in one binade.\<close>

lemma f64_as_u64_of_nat: "n < 2 ^ 64 \<Longrightarrow> f64_as_u64 (Fin (of_nat n)) = n"
  by simp

lemma rat_ge: "numeral a \<le> n \<Longrightarrow> numeral a \<le> (of_nat n :: rat)"
  by (metis of_nat_le_iff of_nat_numeral)

lemma rat_less: "n < numeral a \<Longrightarrow> (of_nat n :: rat) < numeral a"
  by (metis of_nat_less_iff of_nat_numeral)

lemma powi_m23: "(2::rat) powi (- 23) = 1 / 8388608"
  by (simp add: power_int_def power_one_over)

lemma seconds_f64:
  assumes "1100000000000 \<le> n" "n < 2147483648000"
  obtains v where "round_f64 (of_nat n / 1000) = Fin v" "\<bar>v - of_nat n / 1000\<bar> \<le> 2 powi (- 23)"
proof -
  let ?x = "of_nat n / 1000 :: rat"
  have "(1100000000000::rat) \<le> of_nat n" "of_nat n < (2147483648000::rat)"
    using rat_ge [OF assms(1)] rat_less [OF assms(2)] .
  then have k: "2 powi 30 \<le> ?x" "?x < 2 powi (30 + 1)" unfolding power_int_numeral by simp_all
  show thesis
    by (rule round_f64_error [OF k]) (use that in auto)
qed

lemma format_ts_hundredths:
  assumes t: "unat t = 10 * m" and "1100000000000 \<le> 10 * m" "10 * m < 2147483648000"
  shows "format_ts t = show_cents m"
proof -
  obtain v where v: "round_f64 (of_nat (10 * m) / 1000) = Fin v"
      "\<bar>v - of_nat (10 * m) / 1000\<bar> \<le> 2 powi (- 23)"
    using seconds_f64 assms(2,3) by blast
  have n: "f64_of_nat (10 * m) = Fin (of_nat (10 * m))" using assms by (intro exact_small) auto
  have "\<bar>v - of_nat m / 100\<bar> \<le> 1 / 8388608"
    using v(2) by (simp add: powi_m23)
  then have near: "\<bar>v * 100 - of_int (int m)\<bar> < 1 / 2" unfolding of_int_of_nat_eq by linarith
  have "110000000000 \<le> m" using assms(2) by simp
  then have "(110000000000::rat) \<le> of_nat m" by (rule rat_ge)
  then have "0 \<le> v" using near unfolding of_int_of_nat_eq by linarith
  moreover have "f64_div_rat (f64_of_nat (unat t)) 1000 = Fin v"
    unfolding t n using v(1) by simp
  ultimately show ?thesis
    using round_half_even_near [OF near] by (simp add: format_ts_def)
qed

lemma milliseconds_back:
  assumes "1100000000000 \<le> n" "n < 2147483648000" "round_f64 (of_nat n / 1000) = Fin v"
  shows "round_f64 (v * 1000) = Fin (of_nat n)"
proof -
  have "\<bar>v - of_nat n / 1000\<bar> \<le> 2 powi (- 23)"
    using seconds_f64 [OF assms(1,2)] assms(3) by auto
  then have "\<bar>v - of_nat n / 1000\<bar> \<le> 1 / 8388608" by (simp only: powi_m23)
  then have e: "\<bar>v * 1000 - of_nat n\<bar> \<le> 1000 / 8388608" by linarith
  have r: "(1100000000000::rat) \<le> of_nat n" "of_nat n < (2147483648000::rat)"
    using rat_ge [OF assms(1)] rat_less [OF assms(2)] .
  show ?thesis
  proof (rule round_f64_near [where k = 40 and m = "int n * 2 ^ 12"])
    have "1099511627776 \<le> v * 1000" "v * 1000 < 2199023255552" using e r by linarith+
    then show "2 powi 40 \<le> v * 1000" "v * 1000 < 2 powi (40 + 1)" by simp_all
    show "(of_nat n :: rat) = of_int (int n * 2 ^ 12) * 2 powi (40 - 52)"
      by (simp add: power_int_def power_one_over)
    have "(2::rat) powi (40 - 53) = 1 / 8192" by (simp add: power_int_def power_one_over)
    then show "\<bar>v * 1000 - of_nat n\<bar> < 2 powi (40 - 53)" using e by linarith
    have "(2147483648000::rat) \<le> 2 ^ 1024" by simp
    with r show "(of_nat n :: rat) < 2 ^ 1024" by linarith
  qed simp_all
qed

lemma max_header_seconds: "f64_of_nat ((2 ^ 64 - 1) div 1000) = Fin 18446744073709552"
proof -
  have "round_f64 18446744073709551 = Fin 18446744073709552"
    by (rule round_f64_near [where k = 54 and m = 4611686018427388]) simp_all
  then show ?thesis by (simp add: f64_of_nat_def)
qed

text \<open>The text of a timestamp of those years is exact.\<close>

lemma as_header_exact:
  assumes "1100000000000 \<le> unat t" "unat t < 2147483648000" "10 dvd unat t"
  shows "from_header (as_header t) = Inr t" "\<exists>v. parse_f64 (as_header t) = Some (Fin v) \<and> 0 \<le> v"
proof -
  obtain m where m: "unat t = 10 * m" using assms(3) by blast
  let ?n = "10 * m"
  have b: "1100000000000 \<le> ?n" "?n < 2147483648000" using assms(1,2) m by simp_all
  obtain v where v: "round_f64 (of_nat ?n / 1000) = Fin v" "\<bar>v - of_nat ?n / 1000\<bar> \<le> 2 powi (- 23)"
    using seconds_f64 b by blast
  have r: "(1100000000000::rat) \<le> of_nat ?n" "of_nat ?n < (2147483648000::rat)"
    using rat_ge [OF b(1)] rat_less [OF b(2)] .
  have "v \<le> of_nat ?n / 1000 + 1" "of_nat ?n / 1000 - 1 \<le> v"
    using v(2) unfolding powi_m23 by linarith+
  then have pos: "0 \<le> v" "v < 2147483649" using r by linarith+
  have p: "parse_f64 (as_header t) = Some (Fin v)"
    using format_ts_hundredths [OF m b] parse_f64_show_cents [of m] v(1)
    by (simp add: as_header_def)
  have "f64_mul (Fin v) (Fin 1000) = Fin (of_nat ?n)"
    unfolding f64_mul.simps by (rule milliseconds_back [OF b v(1)])
  moreover have "f64_as_u64 (Fin (of_nat ?n)) = ?n"
    using b(2) by (intro f64_as_u64_of_nat) simp
  moreover have "of_nat ?n = t" unfolding m [symmetric] by simp
  ultimately have ms: "from_milliseconds (of_nat (f64_as_u64 (f64_mul (Fin v) (Fin 1000)))) = t"
    using from_milliseconds_id [OF assms(3)] by (simp only:)
  have "\<not> f64_less (f64_of_nat ((2 ^ 64 - 1) div 1000)) (Fin v)"
    unfolding max_header_seconds using pos by simp
  moreover have "\<not> f64_less (Fin v) (Fin 0)" using pos by simp
  ultimately show "from_header (as_header t) = Inr t"
    unfolding from_header_def p option.case ms by (simp only: f64.distinct if_False simp_thms)
  show "\<exists>v. parse_f64 (as_header t) = Some (Fin v) \<and> 0 \<le> v"
    using p pos(1) by blast
qed

text \<open>C30. The \<open>X-Last-Modified\<close> value a client sends back as \<open>X-If-Unmodified-Since\<close> is the
  timestamp the server rendered: from November 2004 to January 2038 the text of a timestamp
  parses to that timestamp, although both directions go through binary64 arithmetic.\<close>

theorem header_roundtrip:
  assumes "1100000000000 \<le> unat t" "unat t < 2147483648000" "10 dvd unat t"
  shows "from_header (as_header t) = Inr t"
  by (rule as_header_exact(1) [OF assms])

text \<open>A client that echoes the timestamp of a change made in October 2020.\<close>

theorem header_roundtrip_witness:
  "from_header (as_header 1602604811340) = Inr 1602604811340"
  by (rule header_roundtrip) simp_all

text \<open>C31. Outside those years the round trip is not exact: the header of the timestamp 2010 ms
  is 2.01, and parsing it gives 2000 ms, because the \<open>f64\<close> product falls just short of the
  integer and is truncated.\<close>

theorem header_roundtrip_not_exact:
  "as_header 2010 = ''2.01'' \<and> from_header (as_header 2010) = Inr 2000"
proof -
  have a: "round_f64 (201 / 100) = Fin (4526117625507348 / 2251799813685248)"
    by (rule round_f64_rule [where k = 1 and m = 4526117625507348])
      (simp_all add: power_int_def power_one_over)
  have b: "round_f64 (4526117625507348 / 2251799813685248 * 1000) = Fin (8840073487319039 / 4398046511104)"
    by (rule round_f64_rule [where k = 10 and m = 8840073487319039])
      (simp_all add: power_int_def power_one_over)
  have n: "f64_of_nat 2010 = Fin 2010" using exact_small [of 2010] by simp
  have "round_half_even (4526117625507348 / 2251799813685248 * 100) = 201"
    by (rule round_half_even_near) simp
  moreover have "show_cents 201 = ''2.01''" by code_simp
  ultimately have h: "as_header 2010 = ''2.01''"
    using a by (simp add: as_header_def format_ts_def n)
  have "parse_f64 ''2.01'' = Some (Fin (4526117625507348 / 2251799813685248))"
    using parse_f64_show_cents [of 201] a \<open>show_cents 201 = ''2.01''\<close> by simp
  moreover have "f64_as_u64 (Fin (8840073487319039 / 4398046511104)) = 2009"
  proof -
    have "\<lfloor>8840073487319039 / 4398046511104 :: rat\<rfloor> = 2009" by (simp add: floor_eq_iff)
    then show ?thesis by simp
  qed
  moreover have "from_milliseconds (of_nat 2009) = 2000" by (simp add: from_milliseconds_def)
  moreover have "f64_mul (Fin (4526117625507348 / 2251799813685248)) (Fin 1000) =
      Fin (8840073487319039 / 4398046511104)"
    unfolding f64_mul.simps by (rule b)
  ultimately have "from_header ''2.01'' = Inr 2000"
    by (simp add: from_header_def max_header_seconds [simplified] del: f64_mul.simps f64_as_u64.simps)
  with h show ?thesis by simp
qed

section \<open>RFC 3339 text\<close>

text \<open>What the program relies on of \<open>chrono\<close>: a time of the years 1970 to 9999 that it renders
  with nanoseconds is parsed back to its milliseconds.\<close>

definition chrono_roundtrips :: "(int \<Rightarrow> nat \<Rightarrow> string) \<Rightarrow> (string \<Rightarrow> string + int) \<Rightarrow> bool" where
  "chrono_roundtrips fmt prs \<longleftrightarrow>
     (\<forall>secs nsecs. 0 \<le> secs \<and> secs < 253402300800 \<and> nsecs < 10 ^ 9 \<longrightarrow>
        prs (fmt secs nsecs) = Inr (secs * 1000 + int (nsecs div 10 ^ 6)))"

text \<open>C32. The timestamps Spanner stores come back unchanged: \<open>as_rfc3339\<close> of a timestamp before
  the year 10000 succeeds and \<open>from_rfc3339\<close> of that text is the timestamp, whatever the
  rendering \<open>chrono\<close> uses, as long as it parses what it renders.\<close>

theorem rfc3339_roundtrip:
  assumes "chrono_roundtrips fmt prs" "unat t < 253402300800000" "10 dvd unat t"
  shows "\<exists>s. as_rfc3339 fmt t = Inr s \<and> from_rfc3339 prs s = Inr t"
proof -
  obtain k where k: "k = int (unat t)" by blast
  have "unat t < 2 ^ 63" using assms(2) by simp
  then have i: "as_i64 t = k" unfolding k by (rule as_i64_eq)
  have r: "0 \<le> k" "k < 253402300800000"
    using assms(2) unfolding k by linarith+
  have d: "0 \<le> k div 1000" "k div 1000 < 253402300800" "0 \<le> k mod 1000" "k mod 1000 < 1000"
    using r by linarith+
  have n: "nat (k mod 1000 * 1000000) < 10 ^ 9" using d(4) by (simp add: nat_less_iff)
  have e: "as_rfc3339 fmt t = Inr (fmt (k div 1000) (nat (k mod 1000 * 1000000)))"
    using r(1) by (cases "k = 0") (simp_all add: as_rfc3339_def to_rfc3339_def i Let_def sgn_if)
  have "prs (fmt (k div 1000) (nat (k mod 1000 * 1000000))) =
      Inr (k div 1000 * 1000 + int (nat (k mod 1000 * 1000000) div 10 ^ 6))"
    using assms(1) n d(1,2) unfolding chrono_roundtrips_def by blast
  moreover have "int (nat (k mod 1000 * 1000000) div 10 ^ 6) = k mod 1000"
    using d(3) by (simp add: zdiv_int)
  ultimately have "prs (fmt (k div 1000) (nat (k mod 1000 * 1000000))) = Inr k" by simp
  moreover have "i64_as_u64 k = t" by (simp add: i64_as_u64_def k)
  ultimately show ?thesis
    using e r(1) assms(3) by (simp add: from_rfc3339_def from_datetime_def)
qed

text \<open>The hypothesis holds of a rendering as plain milliseconds.\<close>

theorem rfc3339_roundtrip_witness:
  "\<exists>s. as_rfc3339 (\<lambda>secs nsecs. show_int (secs * 1000 + int (nsecs div 10 ^ 6))) 1602604811340 = Inr s \<and>
       from_rfc3339 (\<lambda>s. case parse_i64 s of None \<Rightarrow> Inl ''bad'' | Some k \<Rightarrow> Inr k) s = Inr 1602604811340"
proof (rule rfc3339_roundtrip)
  show "chrono_roundtrips (\<lambda>secs nsecs. show_int (secs * 1000 + int (nsecs div 10 ^ 6)))
      (\<lambda>s. case parse_i64 s of None \<Rightarrow> Inl ''bad'' | Some k \<Rightarrow> Inr k)"
    unfolding chrono_roundtrips_def
  proof (intro allI impI)
    fix secs :: int and nsecs :: nat
    assume a: "0 \<le> secs \<and> secs < 253402300800 \<and> nsecs < 10 ^ 9"
    define d where "d = nsecs div 10 ^ 6"
    have "d \<le> nsecs" unfolding d_def by (rule div_le_dividend)
    moreover have "nsecs < 1000000000" using a by simp
    ultimately have "- 9223372036854775808 \<le> secs * 1000 + int d"
      "secs * 1000 + int d < 9223372036854775808" using a by linarith+
    then have "parse_i64 (show_int (secs * 1000 + int d)) = Some (secs * 1000 + int d)"
      by (intro parse_i64_show_int) simp_all
    then have "parse_i64 (show_int (secs * 1000 + int (nsecs div 10 ^ 6))) =
        Some (secs * 1000 + int (nsecs div 10 ^ 6))" unfolding d_def .
    then show "(case parse_i64 (show_int (secs * 1000 + int (nsecs div 10 ^ 6))) of
        None \<Rightarrow> Inl ''bad'' | Some k \<Rightarrow> Inr k) = Inr (secs * 1000 + int (nsecs div 10 ^ 6))"
      by simp
  qed
qed simp_all

end
