(* ===== verification/Sync_Params.thy ===== *)
theory Sync_Params
  imports Sync_Timestamp
begin

text \<open>
  The parameter and result types of the storage interface (\<open>src/db/params.rs\<close>,
  \<open>src/db/results.rs\<close>, the \<open>Sorting\<close> of \<open>src/db/mod.rs\<close>, the identifier, offset and query
  types of \<open>src/web/extractors.rs\<close>). The structs that only group a user, a collection and an
  id are passed as separate arguments. A \<open>HashMap\<close> is a table: its order has no meaning.
\<close>

section \<open>Requests\<close>

record hawk_identifier =
  legacy_id :: u64
  fxa_uid :: string
  fxa_kid :: string

definition new_legacy :: "u64 \<Rightarrow> hawk_identifier" where
  "new_legacy user_id = \<lparr>legacy_id = user_id, fxa_uid = [], fxa_kid = []\<rparr>"

definition cmd_dummy :: hawk_identifier where
  "cmd_dummy = \<lparr>legacy_id = 0, fxa_uid = ''cmd'', fxa_kid = ''cmd''\<rparr>"

datatype sorting = SortNone | Newest | Oldest | Index

record offset =
  off_timestamp :: "sync_timestamp option"
  off_offset :: u64

definition default_offset :: offset where
  "default_offset = \<lparr>off_timestamp = None, off_offset = 0\<rparr>"

definition offset_to_string :: "offset \<Rightarrow> string" where
  "offset_to_string off =
     (case off_timestamp off of
        None \<Rightarrow> show_nat (unat (off_offset off))
      | Some ts \<Rightarrow> show_int (as_i64 ts) @ '':'' @ show_nat (unat (off_offset off)))"

definition offset_from_str :: "string \<Rightarrow> offset option" where
  "offset_from_str s = map_option (\<lambda>n. \<lparr>off_timestamp = None, off_offset = n\<rparr>) (parse_u64 s)"

record bso_query_params =
  newer :: "sync_timestamp option"
  older :: "sync_timestamp option"
  sort_by :: sorting
  limit :: "nat option"
  offset_opt :: "offset option"
  ids :: "string list"
  full :: bool

definition default_query :: bso_query_params where
  "default_query =
     \<lparr>newer = None, older = None, sort_by = SortNone, limit = None, offset_opt = None, ids = [],
      full = False\<rparr>"

text \<open>\<open>limit\<close> and \<open>ttl\<close> are \<open>u32\<close>: \<open>nat\<close> below \<open>2 ^ 32\<close>; \<open>sortindex\<close> is an \<open>i32\<close>.\<close>

record post_collection_bso =
  pb_id :: string
  pb_sortindex :: "int option"
  pb_payload :: "string option"
  pb_ttl :: "nat option"

record put_bso_params =
  pp_user_id :: hawk_identifier
  pp_collection :: string
  pp_id :: string
  pp_sortindex :: "int option"
  pp_payload :: "string option"
  pp_ttl :: "nat option"

record batch =
  batch_id :: string
  batch_bsos :: string
  batch_expiry :: int

section \<open>Results\<close>

record get_bso_result =
  gb_id :: string
  gb_modified :: sync_timestamp
  gb_payload :: string
  gb_sortindex :: "int option"
  gb_expiry :: int

record 'a paginated =
  pg_items :: "'a list"
  pg_offset :: "string option"

definition default_paginated :: "'a paginated" where
  "default_paginated = \<lparr>pg_items = [], pg_offset = None\<rparr>"

record post_bsos_result =
  pr_modified :: sync_timestamp
  pr_success :: "string list"
  pr_failed :: "(string, string) table"

section \<open>Standard collections\<close>

definition STD_COLLS :: "(int \<times> string) list" where
  "STD_COLLS =
     [(1, ''clients''), (2, ''crypto''), (3, ''forms''), (4, ''history''), (5, ''keys''),
      (6, ''meta''), (7, ''bookmarks''), (8, ''prefs''), (9, ''tabs''), (10, ''passwords''),
      (11, ''addons''), (12, ''addresses''), (13, ''creditcards'')]"

definition FIRST_CUSTOM_COLLECTION_ID :: int where
  "FIRST_CUSTOM_COLLECTION_ID = 101"

definition BATCH_LIFETIME :: int where
  "BATCH_LIFETIME = 2 * 60 * 60 * 1000"

definition DEFAULT_BSO_TTL :: nat where
  "DEFAULT_BSO_TTL = 2100000000"

definition TOMBSTONE :: int where
  "TOMBSTONE = 0"

lemma std_colls_distinct:
  "distinct (map fst STD_COLLS)" "distinct (map snd STD_COLLS)"
  by (simp_all add: STD_COLLS_def)

lemma parse_u64_show_word: "parse_u64 (show_nat (unat w)) = Some w"
proof -
  obtain n where n: "unat w = n" by blast
  have "unat w < 2 ^ LENGTH(64)"
    by (rule unsigned_less)
  then have "n < 2 ^ 64"
    by (simp add: n)
  moreover have "of_nat n = w"
    by (simp only: flip: n) simp
  ultimately show ?thesis
    by (simp add: n parse_u64_show_nat)
qed

lemma offset_roundtrip:
  "off_timestamp off = None \<Longrightarrow> offset_from_str (offset_to_string off) = Some off"
  by (cases off) (simp add: offset_from_str_def offset_to_string_def parse_u64_show_word)

end
