(* ===== verification/Sql_Conn.thy ===== *)
theory Sql_Conn
  imports Sync_Params
begin

text \<open>
  The MySQL tables (\<open>migrations/\<close>, \<open>src/db/mysql/schema.rs\<close>) and the connection the program
  reaches them through.

  The connection (diesel and the server) is not part of the repository: it is the parameter
  \<open>sql_conn\<close> of the model, five calls on a state \<open>'c\<close> of their own. A reading statement
  delivers the tables, in an order the server chooses; a changing statement is the meaning of
  its SQL text, a function from the tables (and the value the server would give an
  \<open>AUTO_INCREMENT\<close> column) to an error or the number of matched rows and the new tables; any
  statement may fail. The locale \<open>sql_connection\<close> states the documented behaviour the program
  relies on: \<open>view\<close> is what the connection sees, \<open>saved\<close> the stack of open transactions and
  savepoints, each with the tables it would roll back to.
\<close>

section \<open>Tables\<close>

record bso_row =
  b_sortindex :: "int option"
  b_payload :: string
  b_modified :: int
  b_expiry :: int

record batch_row =
  bt_bsos :: string
  bt_expiry :: int

record tables =
  collections :: "(int, string) table"
  user_collections :: "(int \<times> int, int) table"
  bsos :: "(int \<times> int \<times> string, bso_row) table"
  batches :: "(int \<times> int \<times> int, batch_row) table"

text \<open>Primary keys, and the unique name of a collection.\<close>

definition wf_tables :: "tables \<Rightarrow> bool" where
  "wf_tables t \<longleftrightarrow>
     keyed (collections t) \<and> distinct (map snd (collections t)) \<and>
     keyed (user_collections t) \<and> keyed (bsos t) \<and> keyed (batches t)"

text \<open>The same rows, in whatever order.\<close>

definition same_rows :: "tables \<Rightarrow> tables \<Rightarrow> bool" where
  "same_rows t t' \<longleftrightarrow>
     mset (collections t) = mset (collections t') \<and>
     mset (user_collections t) = mset (user_collections t') \<and>
     mset (bsos t) = mset (bsos t') \<and> mset (batches t) = mset (batches t')"

lemma ball_tl: "\<forall>x \<in> set xs. P x \<Longrightarrow> x \<in> set (tl xs) \<Longrightarrow> P x"
  by (cases xs) auto

lemma same_rows_refl [simp]: "same_rows t t"
  by (simp add: same_rows_def)

lemma same_rows_lookup:
  assumes "same_rows t t'" "wf_tables t'"
  shows "map_of (collections t) = map_of (collections t')"
    "map_of (user_collections t) = map_of (user_collections t')"
    "map_of (bsos t) = map_of (bsos t')"
    "map_of (batches t) = map_of (batches t')"
  using assms by (auto simp: same_rows_def wf_tables_def intro: map_of_mset_cong)

lemma same_rows_set:
  assumes "same_rows t t'"
  shows "set (collections t) = set (collections t')"
    "set (user_collections t) = set (user_collections t')"
    "set (bsos t) = set (bsos t')" "set (batches t) = set (batches t')"
  using assms by (auto simp: same_rows_def dest: mset_eq_setD)

lemma same_rows_wf:
  assumes "same_rows t t'" "wf_tables t'"
  shows "wf_tables t"
proof -
  have "mset (map snd (collections t)) = mset (map snd (collections t'))"
    using assms(1) by (simp add: same_rows_def)
  then show ?thesis
    using assms unfolding wf_tables_def same_rows_def
    by (metis keyed_mset_cong mset_eq_imp_distinct_iff)
qed

section \<open>The connection\<close>

datatype lock_mode = NoLock | LockInShareMode | ForUpdate

type_synonym statement = "int \<Rightarrow> tables \<Rightarrow> diesel_error + (nat \<times> tables)"

record 'c sql_conn =
  begin_transaction :: "'c \<Rightarrow> (diesel_error + unit) \<times> 'c"
  commit_transaction :: "'c \<Rightarrow> (diesel_error + unit) \<times> 'c"
  rollback_transaction :: "'c \<Rightarrow> (diesel_error + unit) \<times> 'c"
  load_rows :: "lock_mode \<Rightarrow> 'c \<Rightarrow> (diesel_error + tables) \<times> 'c"
  execute_statement :: "statement \<Rightarrow> 'c \<Rightarrow> (diesel_error + nat) \<times> 'c"

text \<open>
  The contract. A new collection gets an unused id, not below the first custom one
  (\<open>migrations/2019-09-25-174347_min_collection_id\<close>). A call that fails leaves what the
  connection sees as it was, or takes it back to the tables of an open transaction or
  savepoint (InnoDB rolls back the statement, or the transaction on a deadlock); diesel counts
  the open transactions only by the calls that succeed.
\<close>

definition fails_back :: "('c \<Rightarrow> tables) \<Rightarrow> ('c \<Rightarrow> tables list) \<Rightarrow> 'c \<Rightarrow> 'c \<Rightarrow> bool" where
  "fails_back view saved c c' \<longleftrightarrow>
     (view c' = view c \<or> view c' \<in> set (saved c)) \<and> set (saved c') \<subseteq> set (saved c)"

text \<open>What holds of every state the connection could be taken back to.\<close>

definition everywhere ::
  "('c \<Rightarrow> tables) \<Rightarrow> ('c \<Rightarrow> tables list) \<Rightarrow> (tables \<Rightarrow> bool) \<Rightarrow> 'c \<Rightarrow> bool" where
  "everywhere view saved P c \<longleftrightarrow> P (view c) \<and> (\<forall>t \<in> set (saved c). P t)"

locale sql_connection =
  fixes eng :: "'c sql_conn"
    and view :: "'c \<Rightarrow> tables"
    and saved :: "'c \<Rightarrow> tables list"
  assumes load_Inr: "load_rows eng m c = (Inr t, c') \<Longrightarrow>
      same_rows t (view c) \<and> view c' = view c \<and> saved c' = saved c"
    and load_Inl: "load_rows eng m c = (Inl e, c') \<Longrightarrow>
      fails_back view saved c c' \<and> saved c' = saved c"
    and execute_Inr: "execute_statement eng f c = (Inr n, c') \<Longrightarrow>
      saved c' = saved c \<and>
      (\<exists>k\<ge>FIRST_CUSTOM_COLLECTION_ID. k \<notin> fst ` set (collections (view c)) \<and>
        f k (view c) = Inr (n, view c'))"
    and execute_Inl: "execute_statement eng f c = (Inl e, c') \<Longrightarrow>
      fails_back view saved c c' \<and> saved c' = saved c"
    and begin_Inr: "begin_transaction eng c = (Inr u, c') \<Longrightarrow>
      view c' = view c \<and> saved c' = view c # saved c"
    and begin_Inl: "begin_transaction eng c = (Inl e, c') \<Longrightarrow>
      fails_back view saved c c' \<and> saved c' = saved c"
    and commit_Inr: "commit_transaction eng c = (Inr u, c') \<Longrightarrow>
      view c' = view c \<and> saved c' = tl (saved c)"
    and commit_Inl: "commit_transaction eng c = (Inl e, c') \<Longrightarrow>
      fails_back view saved c c' \<and> saved c' = saved c"
    and rollback_Inr: "rollback_transaction eng c = (Inr u, c') \<Longrightarrow>
      saved c \<noteq> [] \<and> view c' = hd (saved c) \<and> saved c' = tl (saved c)"
    and rollback_Inl: "rollback_transaction eng c = (Inl e, c') \<Longrightarrow>
      fails_back view saved c c' \<and> saved c' = saved c"
begin

lemma load_wf:
  assumes "load_rows eng m c = (Inr t, c')" "wf_tables (view c)"
  shows "wf_tables t"
  using load_Inr [OF assms(1)] assms(2) same_rows_wf by blast

lemma load_lookup:
  assumes "load_rows eng m c = (Inr t, c')" "wf_tables (view c)"
  shows "map_of (collections t) = map_of (collections (view c))"
    "map_of (user_collections t) = map_of (user_collections (view c))"
    "map_of (bsos t) = map_of (bsos (view c))"
    "map_of (batches t) = map_of (batches (view c))"
  using load_Inr [OF assms(1)] assms(2) same_rows_lookup by blast+

lemma everywhere_fails_back: "fails_back view saved c c' \<Longrightarrow> everywhere view saved P c \<Longrightarrow> everywhere view saved P c'"
  by (auto simp: fails_back_def everywhere_def)

lemma everywhere_calls:
  assumes "everywhere view saved P c"
  shows "load_rows eng m c = (rl, c') \<Longrightarrow> everywhere view saved P c'"
    and "begin_transaction eng c = (rb, c') \<Longrightarrow> everywhere view saved P c'"
    and "commit_transaction eng c = (rb, c') \<Longrightarrow> everywhere view saved P c'"
    and "rollback_transaction eng c = (rb, c') \<Longrightarrow> everywhere view saved P c'"
proof -
  show "everywhere view saved P c'" if "load_rows eng m c = (rl, c')"
    using that assms everywhere_fails_back load_Inl
    by (cases rl) (blast, auto simp: everywhere_def dest!: load_Inr)
  show "everywhere view saved P c'" if "begin_transaction eng c = (rb, c')"
    using that assms everywhere_fails_back begin_Inl
    by (cases rb) (blast, auto simp: everywhere_def dest!: begin_Inr)
  show "everywhere view saved P c'" if "commit_transaction eng c = (rb, c')"
    using that assms everywhere_fails_back commit_Inl
    by (cases rb) (blast, auto simp: everywhere_def dest!: commit_Inr dest: ball_tl)
  show "everywhere view saved P c'" if "rollback_transaction eng c = (rb, c')"
    using that assms everywhere_fails_back rollback_Inl
    by (cases rb) (blast, auto simp: everywhere_def dest!: rollback_Inr dest: ball_tl)
qed

lemma everywhere_execute:
  assumes "everywhere view saved P c" "execute_statement eng f c = (r, c')"
    and "\<And>k t n t'. k \<notin> fst ` set (collections t) \<Longrightarrow> FIRST_CUSTOM_COLLECTION_ID \<le> k \<Longrightarrow>
      P t \<Longrightarrow> f k t = Inr (n, t') \<Longrightarrow> P t'"
  shows "everywhere view saved P c'"
proof (cases r)
  case (Inl e)
  then show ?thesis
    using assms execute_Inl everywhere_fails_back by blast
next
  case (Inr n)
  then obtain k where "k \<ge> FIRST_CUSTOM_COLLECTION_ID" "k \<notin> fst ` set (collections (view c))"
    "f k (view c) = Inr (n, view c')" "saved c' = saved c"
    using assms(2) execute_Inr by blast
  then show ?thesis
    using assms(1,3) by (auto simp: everywhere_def)
qed

end

section \<open>A connection that meets the contract\<close>

text \<open>
  The simplest server: it delivers rows in storage order, numbers new collections from the
  largest one, and fails only where its fault plan \<open>faults\<close> (one entry per call) says so. It
  shows that the contract can be met, and is what the examples evaluate on.
\<close>

record mem_conn =
  mem_tables :: tables
  mem_saved :: "tables list"
  mem_faults :: "diesel_error option list"

definition next_fault :: "mem_conn \<Rightarrow> diesel_error option \<times> mem_conn" where
  "next_fault c =
     (case mem_faults c of [] \<Rightarrow> (None, c) | f # fs \<Rightarrow> (f, c\<lparr>mem_faults := fs\<rparr>))"

definition next_collection_id :: "tables \<Rightarrow> int" where
  "next_collection_id t = Max (insert 100 (fst ` set (collections t))) + 1"

definition mem_begin :: "mem_conn \<Rightarrow> (diesel_error + unit) \<times> mem_conn" where
  "mem_begin c =
     (case next_fault c of
        (Some e, c') \<Rightarrow> (Inl e, c')
      | (None, c') \<Rightarrow> (Inr (), c'\<lparr>mem_saved := mem_tables c' # mem_saved c'\<rparr>))"

definition mem_commit :: "mem_conn \<Rightarrow> (diesel_error + unit) \<times> mem_conn" where
  "mem_commit c =
     (case next_fault c of
        (Some e, c') \<Rightarrow> (Inl e, c')
      | (None, c') \<Rightarrow> (Inr (), c'\<lparr>mem_saved := tl (mem_saved c')\<rparr>))"

definition mem_rollback :: "mem_conn \<Rightarrow> (diesel_error + unit) \<times> mem_conn" where
  "mem_rollback c =
     (case next_fault c of
        (Some e, c') \<Rightarrow> (Inl e, c')
      | (None, c') \<Rightarrow>
          (case mem_saved c' of
             [] \<Rightarrow> (Inl (OtherDieselError ''no transaction''), c')
           | t # ts \<Rightarrow> (Inr (), c'\<lparr>mem_tables := t, mem_saved := ts\<rparr>)))"

definition mem_load :: "lock_mode \<Rightarrow> mem_conn \<Rightarrow> (diesel_error + tables) \<times> mem_conn" where
  "mem_load m c =
     (case next_fault c of (Some e, c') \<Rightarrow> (Inl e, c') | (None, c') \<Rightarrow> (Inr (mem_tables c'), c'))"

definition mem_execute :: "statement \<Rightarrow> mem_conn \<Rightarrow> (diesel_error + nat) \<times> mem_conn" where
  "mem_execute f c =
     (case next_fault c of
        (Some e, c') \<Rightarrow> (Inl e, c')
      | (None, c') \<Rightarrow>
          (case f (next_collection_id (mem_tables c')) (mem_tables c') of
             Inl e \<Rightarrow> (Inl e, c')
           | Inr (n, t) \<Rightarrow> (Inr n, c'\<lparr>mem_tables := t\<rparr>)))"

definition mem_engine :: "mem_conn sql_conn" where
  "mem_engine =
     \<lparr>begin_transaction = mem_begin, commit_transaction = mem_commit,
      rollback_transaction = mem_rollback, load_rows = mem_load,
      execute_statement = mem_execute\<rparr>"

lemma next_fault_frame:
  assumes "next_fault c = (f, c')"
  shows "mem_tables c' = mem_tables c" "mem_saved c' = mem_saved c"
  using assms by (auto simp: next_fault_def split: list.splits)

lemma next_collection_id_fresh: "next_collection_id t \<notin> fst ` set (collections t)"
proof
  assume a: "next_collection_id t \<in> fst ` set (collections t)"
  have "finite (insert 100 (fst ` set (collections t)))" by simp
  then have "next_collection_id t \<le> Max (insert 100 (fst ` set (collections t)))"
    using a by (intro Max_ge) auto
  then show False by (simp add: next_collection_id_def)
qed

lemma next_collection_id_custom: "FIRST_CUSTOM_COLLECTION_ID \<le> next_collection_id t"
proof -
  have "100 \<le> Max (insert 100 (fst ` set (collections t)))"
    by (intro Max_ge) auto
  then show ?thesis
    by (simp add: next_collection_id_def FIRST_CUSTOM_COLLECTION_ID_def)
qed

lemmas mem_defs = mem_engine_def mem_begin_def mem_commit_def mem_rollback_def mem_load_def
  mem_execute_def

interpretation mem: sql_connection mem_engine mem_tables mem_saved
proof unfold_locales
  fix f c n c'
  assume "execute_statement mem_engine f c = (Inr n, c')"
  then show "mem_saved c' = mem_saved c \<and>
      (\<exists>k\<ge>FIRST_CUSTOM_COLLECTION_ID. k \<notin> fst ` set (collections (mem_tables c)) \<and>
        f k (mem_tables c) = Inr (n, mem_tables c'))"
    using next_collection_id_fresh [of "mem_tables c"]
    by (auto simp: mem_defs next_collection_id_custom
        intro!: exI [of _ "next_collection_id (mem_tables c)"]
        split: prod.splits option.splits sum.splits dest: next_fault_frame)
qed (auto simp: mem_defs fails_back_def split: prod.splits option.splits sum.splits list.splits
    dest: next_fault_frame)

end
