(* ===== verification/Mysql_Pool.thy ===== *)
theory Mysql_Pool
  imports Sync_Params Sync_Errors
begin

text \<open>
  The cache of collection ids and names the sessions of a pool share
  (\<open>CollectionCache\<close> of \<open>src/db/mysql/pool.rs\<close>; \<open>src/db/spanner/pool.rs\<close> has the same). Each
  of its two maps is behind a lock, which is poisoned when a writer panicked: the flags say so,
  and every access to a poisoned lock is an error.
\<close>

record collection_cache =
  by_name :: "string \<rightharpoonup> int"
  by_id :: "int \<rightharpoonup> string"
  by_name_poisoned :: bool
  by_id_poisoned :: bool

definition cache_put :: "int \<Rightarrow> string \<Rightarrow> (collection_cache, db_error, unit) comp" where
  "cache_put i name c =
     (if by_name_poisoned c then (Inl (db_internal ''by_name write''), c)
      else
        let c = c\<lparr>by_name := (by_name c)(name \<mapsto> i)\<rparr>
        in if by_id_poisoned c then (Inl (db_internal ''by_id write''), c)
           else (Inr (), c\<lparr>by_id := (by_id c)(i \<mapsto> name)\<rparr>))"

definition cache_get_id :: "collection_cache \<Rightarrow> string \<Rightarrow> db_error + int option" where
  "cache_get_id c name =
     (if by_name_poisoned c then Inl (db_internal ''by_name read'') else Inr (by_name c name))"

definition cache_get_name :: "collection_cache \<Rightarrow> int \<Rightarrow> db_error + string option" where
  "cache_get_name c i =
     (if by_id_poisoned c then Inl (db_internal ''by_id read'') else Inr (by_id c i))"

definition default_collection_cache :: collection_cache where
  "default_collection_cache =
     \<lparr>by_name = map_of (map (\<lambda>(k, v). (v, k)) STD_COLLS), by_id = map_of STD_COLLS,
      by_name_poisoned = False, by_id_poisoned = False\<rparr>"

text \<open>
  Every pair of id and name the cache holds satisfies \<open>Q\<close>, whichever map holds it. What the
  cache answers is then a pair with \<open>Q\<close>, and \<open>put\<close> keeps it so, also when it fails half way.
\<close>

definition cache_all :: "(int \<Rightarrow> string \<Rightarrow> bool) \<Rightarrow> collection_cache \<Rightarrow> bool" where
  "cache_all Q c \<longleftrightarrow>
     (\<forall>name i. by_name c name = Some i \<longrightarrow> Q i name) \<and>
     (\<forall>name i. by_id c i = Some name \<longrightarrow> Q i name)"

lemma cache_all_put: "cache_all Q c \<Longrightarrow> Q i name \<Longrightarrow> cache_all Q (snd (cache_put i name c))"
  by (auto simp: cache_all_def cache_put_def Let_def)

lemma cache_all_get_id: "cache_all Q c \<Longrightarrow> cache_get_id c name = Inr (Some i) \<Longrightarrow> Q i name"
  by (auto simp: cache_all_def cache_get_id_def split: if_splits)

lemma cache_all_get_name: "cache_all Q c \<Longrightarrow> cache_get_name c i = Inr (Some name) \<Longrightarrow> Q i name"
  by (auto simp: cache_all_def cache_get_name_def split: if_splits)

lemma cache_all_mono:
  "cache_all Q c \<Longrightarrow> (\<And>i name. Q i name \<Longrightarrow> R i name) \<Longrightarrow> cache_all R c"
  by (auto simp: cache_all_def)

lemma cache_all_default: "cache_all (\<lambda>i name. (i, name) \<in> set STD_COLLS) default_collection_cache"
  by (auto simp: cache_all_def default_collection_cache_def dest!: map_of_SomeD)

lemma cache_put_get:
  assumes "cache_put i name c = (Inr (), c')"
  shows "cache_get_id c' name = Inr (Some i)" "cache_get_name c' i = Inr (Some name)"
  using assms by (auto simp: cache_put_def cache_get_id_def cache_get_name_def Let_def
      split: if_splits)

end
