(* ===== verification/Mysql_Models.thy ===== *)
theory Mysql_Models
  imports Sql_Conn Mysql_Pool
begin

text \<open>
  The MySQL session (\<open>src/db/mysql/models.rs\<close>): its state, the statements it executes and its
  operations. Every operation takes the connection \<open>eng\<close> first. A statement with a
  \<open>format!\<close>ted text is a function with the same switches. Metrics are left out.
\<close>

section \<open>State\<close>

datatype collection_lock = ReadLock | WriteLock

record mysql_session =
  ss_timestamp :: sync_timestamp
  coll_modified_cache :: "u32 \<times> int \<rightharpoonup> sync_timestamp"
  coll_locks :: "u32 \<times> int \<rightharpoonup> collection_lock"
  in_transaction :: bool
  in_write_transaction :: bool

definition default_session :: "int \<Rightarrow> mysql_session" where
  "default_session now =
     \<lparr>ss_timestamp = from_milliseconds (i64_as_u64 now), coll_modified_cache = Map.empty,
      coll_locks = Map.empty, in_transaction = False, in_write_transaction = False\<rparr>"

record 'c mysql_db =
  conn :: 'c
  session :: mysql_session
  coll_cache :: collection_cache

definition new_mysql_db :: "'c \<Rightarrow> collection_cache \<Rightarrow> int \<Rightarrow> 'c mysql_db" where
  "new_mysql_db c cache now = \<lparr>conn = c, session = default_session now, coll_cache = cache\<rparr>"

type_synonym ('c, 'a) db_op = "('c mysql_db, db_error, 'a) comp"

definition db_timestamp :: "'c mysql_db \<Rightarrow> sync_timestamp" where
  "db_timestamp db = ss_timestamp (session db)"

section \<open>Calls of the connection\<close>

definition on_conn :: "('c \<Rightarrow> ('e + 'a) \<times> 'c) \<Rightarrow> ('c mysql_db, 'e, 'a) comp" where
  "on_conn f db = (case f (conn db) of (r, c) \<Rightarrow> (r, db\<lparr>conn := c\<rparr>))"

definition on_session :: "(mysql_session \<Rightarrow> mysql_session) \<Rightarrow> ('c, unit) db_op" where
  "on_session f db = (Inr (), db\<lparr>session := f (session db)\<rparr>)"

definition on_cache :: "(collection_cache, db_error, 'a) comp \<Rightarrow> ('c, 'a) db_op" where
  "on_cache m db = (case m (coll_cache db) of (r, k) \<Rightarrow> (r, db\<lparr>coll_cache := k\<rparr>))"

text \<open>\<open>.load\<close> of a query, \<open>.execute\<close> of a statement, and \<open>Connection::transaction\<close>.\<close>

definition sql_query ::
  "'c sql_conn \<Rightarrow> lock_mode \<Rightarrow> (tables \<Rightarrow> 'a) \<Rightarrow> ('c mysql_db, diesel_error, 'a) comp" where
  "sql_query eng mode q =
     bind_r (on_conn (load_rows eng mode)) (\<lambda>t. return_r (q t))"

definition sql_load :: "'c sql_conn \<Rightarrow> lock_mode \<Rightarrow> (tables \<Rightarrow> 'a) \<Rightarrow> ('c, 'a) db_op" where
  "sql_load eng mode q = map_err_r db_error_of_diesel (sql_query eng mode q)"

definition sql_execute :: "'c sql_conn \<Rightarrow> statement \<Rightarrow> ('c mysql_db, diesel_error, nat) comp" where
  "sql_execute eng f = on_conn (execute_statement eng f)"

definition sql_run :: "'c sql_conn \<Rightarrow> statement \<Rightarrow> ('c, nat) db_op" where
  "sql_run eng f = map_err_r db_error_of_diesel (sql_execute eng f)"

definition diesel_transaction ::
  "'c sql_conn \<Rightarrow> (diesel_error \<Rightarrow> 'e) \<Rightarrow> ('c mysql_db, 'e, 'a) comp \<Rightarrow> ('c mysql_db, 'e, 'a) comp"
where
  "diesel_transaction eng from_diesel body =
     seq_r (map_err_r from_diesel (on_conn (begin_transaction eng)))
       (bind_r (try_r body)
         (\<lambda>r. case r of
            Inr a \<Rightarrow>
              seq_r (map_err_r from_diesel (on_conn (commit_transaction eng))) (return_r a)
          | Inl e \<Rightarrow>
              seq_r (map_err_r from_diesel (on_conn (rollback_transaction eng))) (throw_r e)))"

text \<open>The first row a query delivers (\<open>.first\<close>, \<open>.get_result\<close> with \<open>.optional\<close>).\<close>

definition first_row :: "'a list \<Rightarrow> 'a option" where
  "first_row rows = (case rows of [] \<Rightarrow> None | r # _ \<Rightarrow> Some r)"

section \<open>Statements\<close>

definition INSERT_IGNORE_COLLECTION :: "string \<Rightarrow> statement" where
  "INSERT_IGNORE_COLLECTION name k t =
     (if name \<in> snd ` set (collections t) then Inr (0, t)
      else Inr (1, t\<lparr>collections := collections t @ [(k, name)]\<rparr>))"

definition SELECT_COLLECTION_ID :: "string \<Rightarrow> tables \<Rightarrow> int list" where
  "SELECT_COLLECTION_ID name t = [i. (i, n) \<leftarrow> collections t, n = name]"

definition SELECT_COLLECTION_NAME :: "int \<Rightarrow> tables \<Rightarrow> string list" where
  "SELECT_COLLECTION_NAME i t = [n. (j, n) \<leftarrow> collections t, j = i]"

definition SELECT_COLLECTION_MODIFIED :: "int \<Rightarrow> int \<Rightarrow> tables \<Rightarrow> int list" where
  "SELECT_COLLECTION_MODIFIED user_id collection_id t =
     [m. (k, m) \<leftarrow> user_collections t, k = (user_id, collection_id)]"

definition UPSERT_USER_COLLECTION :: "int \<Rightarrow> int \<Rightarrow> int \<Rightarrow> statement" where
  "UPSERT_USER_COLLECTION user_id collection_id modified k t =
     Inr (1, t\<lparr>user_collections :=
       AList.update (user_id, collection_id) modified (user_collections t)\<rparr>)"

definition DELETE_BSO :: "(int \<Rightarrow> int \<Rightarrow> string \<Rightarrow> bso_row \<Rightarrow> bool) \<Rightarrow> statement" where
  "DELETE_BSO P k t =
     Inr (length (filter (\<lambda>((u, c, i), r). P u c i r) (bsos t)),
          t\<lparr>bsos := filter (\<lambda>((u, c, i), r). \<not> P u c i r) (bsos t)\<rparr>)"

definition DELETE_USER_COLLECTIONS :: "(int \<Rightarrow> int \<Rightarrow> bool) \<Rightarrow> statement" where
  "DELETE_USER_COLLECTIONS P k t =
     Inr (length (filter (\<lambda>((u, c), m). P u c) (user_collections t)),
          t\<lparr>user_collections := filter (\<lambda>((u, c), m). \<not> P u c) (user_collections t)\<rparr>)"

section \<open>Transactions\<close>

definition db_begin :: "'c sql_conn \<Rightarrow> bool \<Rightarrow> ('c, unit) db_op" where
  "db_begin eng for_write =
     seq_r (map_err_r db_error_of_diesel (on_conn (begin_transaction eng)))
       (seq_r (on_session (\<lambda>s. s\<lparr>in_transaction := True\<rparr>))
         (if for_write then on_session (\<lambda>s. s\<lparr>in_write_transaction := True\<rparr>)
          else return_r ()))"

definition commit_sync :: "'c sql_conn \<Rightarrow> ('c, unit) db_op" where
  "commit_sync eng =
     bind_r (get_r (\<lambda>db. in_transaction (session db)))
       (\<lambda>b. if b then map_err_r db_error_of_diesel (on_conn (commit_transaction eng))
            else return_r ())"

definition rollback_sync :: "'c sql_conn \<Rightarrow> ('c, unit) db_op" where
  "rollback_sync eng =
     bind_r (get_r (\<lambda>db. in_transaction (session db)))
       (\<lambda>b. if b then map_err_r db_error_of_diesel (on_conn (rollback_transaction eng))
            else return_r ())"

section \<open>Collection ids and names\<close>

definition get_or_create_collection_id :: "'c sql_conn \<Rightarrow> string \<Rightarrow> ('c, int) db_op" where
  "get_or_create_collection_id eng name =
     bind_r (get_r coll_cache) (\<lambda>k. bind_r (lift_r (cache_get_id k name))
       (\<lambda>cached. case cached of
          Some i \<Rightarrow> return_r i
        | None \<Rightarrow>
            bind_r
              (map_err_r db_error_of_diesel
                (diesel_transaction eng id
                  (seq_r (sql_execute eng (INSERT_IGNORE_COLLECTION name))
                    (bind_r (sql_query eng NoLock (SELECT_COLLECTION_ID name))
                      (\<lambda>rows. case first_row rows of
                         Some i \<Rightarrow> return_r i
                       | None \<Rightarrow> throw_r (OtherDieselError ''NotFound''))))))
              (\<lambda>i. bind_r (get_r (\<lambda>db. in_write_transaction (session db)))
                 (\<lambda>w. seq_r (if w then return_r () else on_cache (cache_put i name))
                   (return_r i)))))"

definition get_collection_id :: "'c sql_conn \<Rightarrow> string \<Rightarrow> ('c, int) db_op" where
  "get_collection_id eng name =
     bind_r (get_r coll_cache) (\<lambda>k. bind_r (lift_r (cache_get_id k name))
       (\<lambda>cached. case cached of
          Some i \<Rightarrow> return_r i
        | None \<Rightarrow>
            bind_r (sql_load eng NoLock (SELECT_COLLECTION_ID name))
              (\<lambda>rows. case first_row rows of
                 None \<Rightarrow> throw_r (db_error_of CollectionNotFound)
               | Some i \<Rightarrow>
                   bind_r (get_r (\<lambda>db. in_write_transaction (session db)))
                     (\<lambda>w. seq_r (if w then return_r () else on_cache (cache_put i name))
                       (return_r i)))))"

definition get_collection_name :: "'c sql_conn \<Rightarrow> int \<Rightarrow> ('c, string) db_op" where
  "get_collection_name eng i =
     bind_r (get_r coll_cache) (\<lambda>k. bind_r (lift_r (cache_get_name k i))
       (\<lambda>cached. case cached of
          Some name \<Rightarrow> return_r name
        | None \<Rightarrow>
            bind_r (sql_load eng NoLock (SELECT_COLLECTION_NAME i))
              (\<lambda>rows. case first_row rows of
                 None \<Rightarrow> throw_r (db_error_of CollectionNotFound)
               | Some name \<Rightarrow> return_r name)))"

text \<open>The loop over the requested ids, then over the rows of those the cache lacks.\<close>

fun cached_names :: "int list \<Rightarrow> ('c, (int, string) table \<times> int list) db_op" where
  "cached_names [] = return_r ([], [])"
| "cached_names (i # is) =
     bind_r (get_r coll_cache) (\<lambda>k. bind_r (lift_r (cache_get_name k i))
       (\<lambda>found. bind_r (cached_names is)
         (\<lambda>(names, uncached).
            case found of
              Some name \<Rightarrow> return_r (AList.update i name names, uncached)
            | None \<Rightarrow> return_r (names, i # uncached))))"

fun remember_names ::
  "(int \<times> string) list \<Rightarrow> (int, string) table \<Rightarrow> ('c, (int, string) table) db_op" where
  "remember_names [] names = return_r names"
| "remember_names ((i, name) # rows) names =
     bind_r (get_r (\<lambda>db. in_write_transaction (session db)))
       (\<lambda>w. seq_r (if w then return_r () else on_cache (cache_put i name))
         (remember_names rows (AList.update i name names)))"

definition load_collection_names :: "'c sql_conn \<Rightarrow> int list \<Rightarrow> ('c, (int, string) table) db_op"
where
  "load_collection_names eng collection_ids =
     bind_r (cached_names collection_ids)
       (\<lambda>(names, uncached).
          if uncached = [] then return_r names
          else bind_r
            (sql_load eng NoLock (\<lambda>t. filter (\<lambda>(i, _). i \<in> set uncached) (collections t)))
            (\<lambda>rows. remember_names rows names))"

fun take_names ::
  "(int \<times> 'v) list \<Rightarrow> (int, string) table \<Rightarrow> db_error + (string, 'v) table" where
  "take_names [] names = Inr []"
| "take_names ((i, v) # rows) names =
     (case map_of names i of
        None \<Rightarrow> Inl (db_internal ''load_collection_names unknown collection id'')
      | Some name \<Rightarrow>
          (case take_names rows (AList.delete i names) of
             Inl e \<Rightarrow> Inl e
           | Inr m \<Rightarrow> Inr (if name \<in> fst ` set m then m else (name, v) # m)))"

definition map_collection_names :: "'c sql_conn \<Rightarrow> (int, 'v) table \<Rightarrow> ('c, (string, 'v) table) db_op"
where
  "map_collection_names eng rows =
     bind_r (load_collection_names eng (map fst rows)) (\<lambda>names. lift_r (take_names rows names))"

section \<open>Locks\<close>

definition lock_for_read_sync :: "'c sql_conn \<Rightarrow> hawk_identifier \<Rightarrow> string \<Rightarrow> ('c, unit) db_op"
where
  "lock_for_read_sync eng hawk collection =
     (let user_id = u64_as_i64 (legacy_id hawk) in
      bind_r
        (catch_r (get_collection_id eng collection)
          (\<lambda>e. case db_kind e of CollectionNotFound \<Rightarrow> return_r 0 | _ \<Rightarrow> throw_r e))
        (\<lambda>collection_id.
           let key = (i64_as_u32 user_id, collection_id) in
           bind_r (get_r (\<lambda>db. coll_locks (session db) key))
             (\<lambda>lock. case lock of
                Some _ \<Rightarrow> return_r ()
              | None \<Rightarrow>
                  seq_r (db_begin eng False)
                  (bind_r (sql_load eng LockInShareMode
                            (SELECT_COLLECTION_MODIFIED user_id collection_id))
                    (\<lambda>rows.
                       seq_r
                         (case first_row rows of
                            None \<Rightarrow> return_r ()
                          | Some m \<Rightarrow>
                              bind_r (lift_r (ts_from_i64 m))
                                (\<lambda>modified. on_session (\<lambda>s. s\<lparr>coll_modified_cache :=
                                   (coll_modified_cache s)(key \<mapsto> modified)\<rparr>)))
                         (on_session (\<lambda>s. s\<lparr>coll_locks :=
                            (coll_locks s)(key \<mapsto> ReadLock)\<rparr>)))))))"

definition lock_for_write_sync :: "'c sql_conn \<Rightarrow> hawk_identifier \<Rightarrow> string \<Rightarrow> ('c, unit) db_op"
where
  "lock_for_write_sync eng hawk collection =
     (let user_id = u64_as_i64 (legacy_id hawk) in
      bind_r (get_or_create_collection_id eng collection)
        (\<lambda>collection_id.
           let key = (i64_as_u32 user_id, collection_id) in
           bind_r (get_r (\<lambda>db. coll_locks (session db) key))
             (\<lambda>lock.
                if lock = Some ReadLock
                then throw_r (db_internal ''Can't escalate read-lock to write-lock'')
                else
                  seq_r (db_begin eng True)
                  (bind_r (sql_load eng ForUpdate
                            (SELECT_COLLECTION_MODIFIED user_id collection_id))
                    (\<lambda>rows.
                       seq_r
                         (case first_row rows of
                            None \<Rightarrow> return_r ()
                          | Some m \<Rightarrow>
                              bind_r (lift_r (ts_from_i64 m))
                                (\<lambda>modified. bind_r (get_r db_timestamp)
                                   (\<lambda>now. if modified \<ge> now
                                      then throw_r (db_error_of Conflict)
                                      else on_session (\<lambda>s. s\<lparr>coll_modified_cache :=
                                        (coll_modified_cache s)(key \<mapsto> modified)\<rparr>))))
                         (on_session (\<lambda>s. s\<lparr>coll_locks :=
                            (coll_locks s)(key \<mapsto> WriteLock)\<rparr>)))))))"

section \<open>Reading BSOs\<close>

definition get_bso_of_row :: "string \<times> bso_row \<Rightarrow> diesel_error + get_bso_result" where
  "get_bso_of_row p =
     (case p of (i, r) \<Rightarrow>
        (case ts_from_sql (b_modified r) of
           Inl msg \<Rightarrow> Inl (OtherDieselError msg)
         | Inr ts \<Rightarrow>
             Inr \<lparr>gb_id = i, gb_modified = ts, gb_payload = b_payload r,
                  gb_sortindex = b_sortindex r, gb_expiry = b_expiry r\<rparr>))"

text \<open>\<open>ORDER BY\<close>: ties keep the order the server delivers; \<open>NULL\<close> sorts below every number.\<close>

definition order_rows :: "sorting \<Rightarrow> (string \<times> bso_row) list \<Rightarrow> (string \<times> bso_row) list" where
  "order_rows s rows =
     (case s of
        Index \<Rightarrow>
          sort_key (\<lambda>(_, r). - the (b_sortindex r)) (filter (\<lambda>(_, r). b_sortindex r \<noteq> None) rows) @
          filter (\<lambda>(_, r). b_sortindex r = None) rows
      | Newest \<Rightarrow> sort_key (\<lambda>(_, r). - b_modified r) rows
      | Oldest \<Rightarrow> sort_key (\<lambda>(_, r). b_modified r) rows
      | SortNone \<Rightarrow> rows)"

text \<open>A negative \<open>LIMIT\<close> or \<open>OFFSET\<close> is bound as a huge unsigned number.\<close>

definition limit_rows :: "int \<Rightarrow> int \<Rightarrow> 'a list \<Rightarrow> 'a list" where
  "limit_rows max_rows start rows =
     (let rest = (if start < 0 then [] else drop (nat start) rows)
      in if max_rows < 0 then rest else take (nat max_rows) rest)"

definition bso_matches :: "bso_query_params \<Rightarrow> int \<Rightarrow> string \<Rightarrow> bso_row \<Rightarrow> bool" where
  "bso_matches params now i r \<longleftrightarrow>
     b_expiry r > now \<and>
     (case older params of None \<Rightarrow> True | Some ts \<Rightarrow> b_modified r < as_i64 ts) \<and>
     (case newer params of None \<Rightarrow> True | Some ts \<Rightarrow> b_modified r > as_i64 ts) \<and>
     (ids params = [] \<or> i \<in> set (ids params))"

definition query_limit :: "bso_query_params \<Rightarrow> int" where
  "query_limit params = (case limit params of None \<Rightarrow> - 1 | Some n \<Rightarrow> int n)"

definition numeric_offset :: "bso_query_params \<Rightarrow> int" where
  "numeric_offset params =
     (case offset_opt params of None \<Rightarrow> 0 | Some off \<Rightarrow> u64_as_i64 (off_offset off))"

definition SELECT_BSOS ::
  "int \<Rightarrow> int \<Rightarrow> int \<Rightarrow> bso_query_params \<Rightarrow> tables \<Rightarrow> (string \<times> bso_row) list" where
  "SELECT_BSOS user_id collection_id now params t =
     (let max_rows = query_limit params;
          rows = [(i, r). ((u, c, i), r) \<leftarrow> bsos t,
                    u = user_id \<and> c = collection_id \<and> bso_matches params now i r]
      in limit_rows (if max_rows \<ge> 0 then max_rows + 1 else max_rows) (numeric_offset params)
           (order_rows (sort_by params) rows))"

text \<open>The extra row fetched tells whether there are more.\<close>

definition paginate :: "bso_query_params \<Rightarrow> 'a list \<Rightarrow> 'a paginated" where
  "paginate params rows =
     (let max_rows = query_limit params
      in if max_rows \<ge> 0 \<and> length rows > nat max_rows
         then \<lparr>pg_items = butlast rows,
               pg_offset = Some (show_int (wrap_i64 (max_rows + numeric_offset params)))\<rparr>
         else \<lparr>pg_items = rows, pg_offset = None\<rparr>)"

definition get_bsos_sync ::
  "'c sql_conn \<Rightarrow> hawk_identifier \<Rightarrow> string \<Rightarrow> bso_query_params \<Rightarrow>
     ('c, get_bso_result paginated) db_op" where
  "get_bsos_sync eng hawk collection params =
     (let user_id = u64_as_i64 (legacy_id hawk) in
      bind_r (get_collection_id eng collection)
        (\<lambda>collection_id. bind_r (get_r db_timestamp)
          (\<lambda>now. bind_r (sql_load eng NoLock
                           (SELECT_BSOS user_id collection_id (as_i64 now) params))
            (\<lambda>rows. bind_r
               (lift_r (map_sum db_error_of_diesel id (collect_r (map get_bso_of_row rows))))
               (\<lambda>bs. return_r (paginate params bs))))))"

definition get_bso_ids_sync ::
  "'c sql_conn \<Rightarrow> hawk_identifier \<Rightarrow> string \<Rightarrow> bso_query_params \<Rightarrow> ('c, string paginated) db_op"
where
  "get_bso_ids_sync eng hawk collection params =
     (let user_id = u64_as_i64 (legacy_id hawk) in
      bind_r (get_collection_id eng collection)
        (\<lambda>collection_id. bind_r (get_r db_timestamp)
          (\<lambda>now. bind_r (sql_load eng NoLock
                           (SELECT_BSOS user_id collection_id (as_i64 now) params))
            (\<lambda>rows. return_r (paginate params (map fst rows))))))"

definition get_bso_sync ::
  "'c sql_conn \<Rightarrow> hawk_identifier \<Rightarrow> string \<Rightarrow> string \<Rightarrow> ('c, get_bso_result option) db_op" where
  "get_bso_sync eng hawk collection i =
     (let user_id = u64_as_i64 (legacy_id hawk) in
      bind_r (get_collection_id eng collection)
        (\<lambda>collection_id. bind_r (get_r db_timestamp)
          (\<lambda>now. bind_r (sql_load eng NoLock
                (\<lambda>t. [(j, r). ((u, c, j), r) \<leftarrow> bsos t,
                        u = user_id \<and> c = collection_id \<and> j = i \<and> b_expiry r \<ge> as_i64 now]))
            (\<lambda>rows. case first_row rows of
               None \<Rightarrow> return_r None
             | Some row \<Rightarrow>
                 bind_r (lift_r (map_sum db_error_of_diesel id (get_bso_of_row row)))
                   (\<lambda>b. return_r (Some b))))))"

definition get_bso_timestamp_sync ::
  "'c sql_conn \<Rightarrow> hawk_identifier \<Rightarrow> string \<Rightarrow> string \<Rightarrow> ('c, sync_timestamp) db_op" where
  "get_bso_timestamp_sync eng hawk collection i =
     (let user_id = u64_as_i64 (legacy_id hawk) in
      bind_r (get_collection_id eng collection)
        (\<lambda>collection_id. bind_r (sql_load eng NoLock
              (\<lambda>t. [b_modified r. ((u, c, j), r) \<leftarrow> bsos t,
                      u = user_id \<and> c = collection_id \<and> j = i]))
          (\<lambda>rows. lift_r (ts_from_i64
             (case first_row rows of None \<Rightarrow> 0 | Some m \<Rightarrow> m)))))"

section \<open>Timestamps, counts and usage\<close>

definition get_storage_timestamp_sync ::
  "'c sql_conn \<Rightarrow> hawk_identifier \<Rightarrow> ('c, sync_timestamp) db_op" where
  "get_storage_timestamp_sync eng hawk =
     (let user_id = u64_as_i64 (legacy_id hawk) in
      bind_r (sql_load eng NoLock (\<lambda>t. [m. ((u, c), m) \<leftarrow> user_collections t, u = user_id]))
        (\<lambda>ms. lift_r (ts_from_i64 (if ms = [] then 0 else Max (set ms)))))"

definition get_collection_timestamp_sync ::
  "'c sql_conn \<Rightarrow> hawk_identifier \<Rightarrow> string \<Rightarrow> ('c, sync_timestamp) db_op" where
  "get_collection_timestamp_sync eng hawk collection =
     (let user_id = u64_as_u32 (legacy_id hawk) in
      bind_r (get_collection_id eng collection)
        (\<lambda>collection_id.
           bind_r (get_r (\<lambda>db. coll_modified_cache (session db) (user_id, collection_id)))
             (\<lambda>cached. case cached of
                Some modified \<Rightarrow> return_r modified
              | None \<Rightarrow>
                  bind_r (sql_load eng NoLock
                            (SELECT_COLLECTION_MODIFIED (uint user_id) collection_id))
                    (\<lambda>rows. case first_row rows of
                       None \<Rightarrow> throw_r (db_error_of CollectionNotFound)
                     | Some m \<Rightarrow>
                         lift_r (map_sum (\<lambda>msg. db_error_of_diesel (OtherDieselError msg)) id
                                   (ts_from_sql m))))))"

definition get_collection_timestamps_sync ::
  "'c sql_conn \<Rightarrow> hawk_identifier \<Rightarrow> ('c, (string, sync_timestamp) table) db_op" where
  "get_collection_timestamps_sync eng hawk =
     bind_r (sql_load eng NoLock
         (\<lambda>t. [(c, m). ((u, c), m) \<leftarrow> user_collections t,
                 u = u64_as_i64 (legacy_id hawk) \<and> c \<noteq> TOMBSTONE]))
       (\<lambda>rows. bind_r
          (lift_r (collect_r (map (\<lambda>(c, m). map_sum id (Pair c) (ts_from_i64 m)) rows)))
          (\<lambda>modifieds. map_collection_names eng modifieds))"

definition check_sync :: "(tables \<Rightarrow> nat) \<Rightarrow> 'c sql_conn \<Rightarrow> ('c, bool) db_op" where
  "check_sync status_rows eng =
     bind_r (sql_load eng NoLock status_rows) (\<lambda>n. return_r (n > 0))"

text \<open>The live payload lengths of a user, with their collections.\<close>

definition payload_lengths :: "int \<Rightarrow> int \<Rightarrow> tables \<Rightarrow> (int \<times> int) list" where
  "payload_lengths user_id now t =
     [(c, int (length (b_payload r))). ((u, c, i), r) \<leftarrow> bsos t, u = user_id \<and> b_expiry r > now]"

text \<open>\<open>GROUP BY\<close> of the rows by their first column.\<close>

definition group_by :: "('a list \<Rightarrow> 'b) \<Rightarrow> (int \<times> 'a) list \<Rightarrow> (int, 'b) table" where
  "group_by agg rows =
     map (\<lambda>c. (c, agg [x. (c', x) \<leftarrow> rows, c' = c])) (remdups (map fst rows))"

definition get_storage_usage_sync :: "'c sql_conn \<Rightarrow> hawk_identifier \<Rightarrow> ('c, u64) db_op" where
  "get_storage_usage_sync eng hawk =
     bind_r (get_r db_timestamp)
       (\<lambda>now. bind_r (sql_load eng NoLock
            (\<lambda>t. sum_list (map snd
               (payload_lengths (u64_as_i64 (legacy_id hawk)) (as_i64 now) t))))
          (\<lambda>total_size. return_r (i64_as_u64 total_size)))"

definition get_collection_usage_sync ::
  "'c sql_conn \<Rightarrow> hawk_identifier \<Rightarrow> ('c, (string, int) table) db_op" where
  "get_collection_usage_sync eng hawk =
     bind_r (get_r db_timestamp)
       (\<lambda>now. bind_r (sql_load eng NoLock
            (\<lambda>t. group_by sum_list
               (payload_lengths (u64_as_i64 (legacy_id hawk)) (as_i64 now) t)))
          (\<lambda>counts. map_collection_names eng counts))"

definition get_collection_counts_sync ::
  "'c sql_conn \<Rightarrow> hawk_identifier \<Rightarrow> ('c, (string, int) table) db_op" where
  "get_collection_counts_sync eng hawk =
     bind_r (get_r db_timestamp)
       (\<lambda>now. bind_r (sql_load eng NoLock
            (\<lambda>t. group_by (\<lambda>xs. int (length xs))
               (payload_lengths (u64_as_i64 (legacy_id hawk)) (as_i64 now) t)))
          (\<lambda>counts. map_collection_names eng counts))"

section \<open>Writing\<close>

definition touch_collection :: "'c sql_conn \<Rightarrow> u32 \<Rightarrow> int \<Rightarrow> ('c, sync_timestamp) db_op" where
  "touch_collection eng user_id collection_id =
     bind_r (get_r db_timestamp)
       (\<lambda>now. seq_r
          (sql_run eng (UPSERT_USER_COLLECTION (uint user_id) collection_id (as_i64 now)))
          (return_r now))"

definition erect_tombstone :: "'c sql_conn \<Rightarrow> int \<Rightarrow> ('c, unit) db_op" where
  "erect_tombstone eng user_id =
     bind_r (get_r db_timestamp)
       (\<lambda>now. seq_r (sql_run eng (UPSERT_USER_COLLECTION user_id TOMBSTONE (as_i64 now)))
          (return_r ()))"

definition delete_storage_sync :: "'c sql_conn \<Rightarrow> hawk_identifier \<Rightarrow> ('c, unit) db_op" where
  "delete_storage_sync eng hawk =
     (let user_id = u64_as_i64 (legacy_id hawk) in
      seq_r (sql_run eng (DELETE_BSO (\<lambda>u c i r. u = user_id)))
        (seq_r (sql_run eng (DELETE_USER_COLLECTIONS (\<lambda>u c. u = user_id))) (return_r ())))"

definition delete_collection_sync ::
  "'c sql_conn \<Rightarrow> hawk_identifier \<Rightarrow> string \<Rightarrow> ('c, sync_timestamp) db_op" where
  "delete_collection_sync eng hawk collection =
     (let user_id = u64_as_i64 (legacy_id hawk) in
      bind_r (get_collection_id eng collection)
        (\<lambda>collection_id.
           bind_r (sql_run eng (DELETE_BSO (\<lambda>u c i r. u = user_id \<and> c = collection_id)))
             (\<lambda>n. bind_r
                (sql_run eng (DELETE_USER_COLLECTIONS (\<lambda>u c. u = user_id \<and> c = collection_id)))
                (\<lambda>m. seq_r
                   (if n + m = 0 then throw_r (db_error_of CollectionNotFound)
                    else erect_tombstone eng (i64_as_i32 user_id))
                   (get_storage_timestamp_sync eng hawk)))))"

text \<open>
  The \<open>INSERT ... ON DUPLICATE KEY UPDATE\<close> of \<open>put_bso\<close>: a new row takes every value; an old
  one keeps the columns whose switch is off.
\<close>

definition UPSERT_BSO ::
  "int \<times> int \<times> string \<Rightarrow> bso_row \<Rightarrow> bool \<Rightarrow> bool \<Rightarrow> bool \<Rightarrow> bool \<Rightarrow> statement" where
  "UPSERT_BSO key new set_sortindex set_payload set_expiry set_modified k t =
     Inr (1, t\<lparr>bsos := AList.update key
       (case map_of (bsos t) key of
          None \<Rightarrow> new
        | Some old \<Rightarrow>
            \<lparr>b_sortindex = (if set_sortindex then b_sortindex new else b_sortindex old),
             b_payload = (if set_payload then b_payload new else b_payload old),
             b_modified = (if set_modified then b_modified new else b_modified old),
             b_expiry = (if set_expiry then b_expiry new else b_expiry old)\<rparr>)
       (bsos t)\<rparr>)"

definition put_bso_row :: "put_bso_params \<Rightarrow> int \<Rightarrow> bso_row" where
  "put_bso_row bso timestamp =
     \<lparr>b_sortindex = pp_sortindex bso,
      b_payload = (case pp_payload bso of None \<Rightarrow> [] | Some p \<Rightarrow> p),
      b_modified = timestamp,
      b_expiry = wrap_i64 (timestamp +
        int (case pp_ttl bso of None \<Rightarrow> DEFAULT_BSO_TTL | Some ttl \<Rightarrow> ttl) * 1000)\<rparr>"

definition put_bso_sync :: "'c sql_conn \<Rightarrow> put_bso_params \<Rightarrow> ('c, sync_timestamp) db_op" where
  "put_bso_sync eng bso =
     bind_r (get_or_create_collection_id eng (pp_collection bso))
       (\<lambda>collection_id.
          let user_id = legacy_id (pp_user_id bso) in
          bind_r (get_r (\<lambda>db. as_i64 (db_timestamp db)))
            (\<lambda>timestamp.
               diesel_transaction eng db_error_of_diesel
                 (seq_r
                   (sql_run eng
                     (UPSERT_BSO (u64_as_i64 user_id, collection_id, pp_id bso)
                        (put_bso_row bso timestamp)
                        (pp_sortindex bso \<noteq> None) (pp_payload bso \<noteq> None)
                        (pp_ttl bso \<noteq> None)
                        (pp_payload bso \<noteq> None \<or> pp_sortindex bso \<noteq> None)))
                   (touch_collection eng (u64_as_u32 user_id) collection_id))))"

definition delete_bso_sync ::
  "'c sql_conn \<Rightarrow> hawk_identifier \<Rightarrow> string \<Rightarrow> string \<Rightarrow> ('c, sync_timestamp) db_op" where
  "delete_bso_sync eng hawk collection bso_id =
     (let user_id = legacy_id hawk in
      bind_r (get_collection_id eng collection)
        (\<lambda>collection_id. bind_r (get_r db_timestamp)
          (\<lambda>now. bind_r
             (sql_run eng (DELETE_BSO (\<lambda>u c i r.
                u = u64_as_i64 user_id \<and> c = collection_id \<and> i = bso_id \<and>
                b_expiry r > as_i64 now)))
             (\<lambda>affected_rows.
                if affected_rows = 0 then throw_r (db_error_of BsoNotFound)
                else touch_collection eng (u64_as_u32 user_id) collection_id))))"

definition delete_bsos_sync ::
  "'c sql_conn \<Rightarrow> hawk_identifier \<Rightarrow> string \<Rightarrow> string list \<Rightarrow> ('c, sync_timestamp) db_op" where
  "delete_bsos_sync eng hawk collection bso_ids =
     (let user_id = u64_as_i64 (legacy_id hawk) in
      bind_r (get_collection_id eng collection)
        (\<lambda>collection_id.
           seq_r
             (sql_run eng (DELETE_BSO (\<lambda>u c i r.
                u = user_id \<and> c = collection_id \<and> i \<in> set bso_ids)))
             (touch_collection eng (i64_as_u32 user_id) collection_id)))"

definition put_of_post ::
  "hawk_identifier \<Rightarrow> string \<Rightarrow> post_collection_bso \<Rightarrow> put_bso_params" where
  "put_of_post hawk collection pbso =
     \<lparr>pp_user_id = hawk, pp_collection = collection, pp_id = pb_id pbso,
      pp_sortindex = pb_sortindex pbso, pp_payload = pb_payload pbso, pp_ttl = pb_ttl pbso\<rparr>"

definition note_put ::
  "string \<Rightarrow> db_error + sync_timestamp \<Rightarrow> post_bsos_result \<Rightarrow> post_bsos_result" where
  "note_put i put_result result =
     (case put_result of
        Inr _ \<Rightarrow> result\<lparr>pr_success := pr_success result @ [i]\<rparr>
      | Inl e \<Rightarrow> result\<lparr>pr_failed :=
          AList.update i (db_error_text (db_kind e)) (pr_failed result)\<rparr>)"

fun put_each ::
  "'c sql_conn \<Rightarrow> hawk_identifier \<Rightarrow> string \<Rightarrow> post_collection_bso list \<Rightarrow> post_bsos_result \<Rightarrow>
     ('c, post_bsos_result) db_op" where
  "put_each eng hawk collection [] result = return_r result"
| "put_each eng hawk collection (pbso # pbsos) result =
     bind_r (try_r (put_bso_sync eng (put_of_post hawk collection pbso)))
       (\<lambda>put_result.
          put_each eng hawk collection pbsos (note_put (pb_id pbso) put_result result))"

definition post_bsos_sync ::
  "'c sql_conn \<Rightarrow> hawk_identifier \<Rightarrow> string \<Rightarrow> post_collection_bso list \<Rightarrow> (string, string) table \<Rightarrow>
     ('c, post_bsos_result) db_op" where
  "post_bsos_sync eng hawk collection pbsos failed =
     bind_r (get_or_create_collection_id eng collection)
       (\<lambda>collection_id. bind_r (get_r db_timestamp)
          (\<lambda>now. bind_r
             (put_each eng hawk collection pbsos
                \<lparr>pr_modified = now, pr_success = [], pr_failed = failed\<rparr>)
             (\<lambda>result. seq_r
                (touch_collection eng (u64_as_u32 (legacy_id hawk)) collection_id)
                (return_r result))))"

end
