(* ===== verification/Mysql_Batch.thy ===== *)
theory Mysql_Batch
  imports Mysql_Models
begin

text \<open>
  Batched uploads (\<open>src/db/mysql/batch.rs\<close>): a batch is a row that holds its BSOs as lines of
  JSON until it is committed. The base64 and serde_json crates are the parameter
  \<open>batch_codec\<close>; what the program relies on is the locale \<open>codec\<close>.
\<close>

section \<open>Codecs\<close>

record batch_codec =
  base64_encode :: "string \<Rightarrow> string"
  base64_decode :: "string \<Rightarrow> string option"
  bso_to_json :: "post_collection_bso \<Rightarrow> string + string"
  bso_from_json :: "string \<Rightarrow> string + post_collection_bso"

text \<open>The values of the Rust type: UTF-8 strings, an \<open>i32\<close>, a \<open>u32\<close>.\<close>

definition wf_post_bso :: "post_collection_bso \<Rightarrow> bool" where
  "wf_post_bso b \<longleftrightarrow>
     is_utf8 (pb_id b) \<and> pred_option is_utf8 (pb_payload b) \<and>
     pred_option (\<lambda>k. - (2 ^ 31) \<le> k \<and> k < 2 ^ 31) (pb_sortindex b) \<and>
     pred_option (\<lambda>n. n < 2 ^ 32) (pb_ttl b)"

locale codec =
  fixes cd :: batch_codec
  assumes base64_roundtrip: "base64_decode cd (base64_encode cd s) = Some s"
    and json_total: "wf_post_bso b \<Longrightarrow> \<exists>s. bso_to_json cd b = Inr s"
    and json_roundtrip: "wf_post_bso b \<Longrightarrow> bso_to_json cd b = Inr s \<Longrightarrow> bso_from_json cd s = Inr b"
    and json_one_line: "wf_post_bso b \<Longrightarrow> bso_to_json cd b = Inr s \<Longrightarrow>
      newline \<notin> set s \<and> carriage_return \<notin> set s"

text \<open>The text of the parse error is left out of the message.\<close>

definition encode_id :: "batch_codec \<Rightarrow> int \<Rightarrow> string" where
  "encode_id cd i = base64_encode cd (show_int i)"

definition decode_id :: "batch_codec \<Rightarrow> string \<Rightarrow> db_error + int" where
  "decode_id cd i =
     (let bytes = (case base64_decode cd i of None \<Rightarrow> i | Some b \<Rightarrow> b);
          decoded = (if is_utf8 bytes then bytes else i)
      in case parse_i64 decoded of
           None \<Rightarrow> Inl (db_internal ''Invalid batch_id: '')
         | Some k \<Rightarrow> Inr k)"

definition validate_batch_id :: "batch_codec \<Rightarrow> string \<Rightarrow> db_error + unit" where
  "validate_batch_id cd i = map_sum id (\<lambda>_. ()) (decode_id cd i)"

definition batch_string_to_bsos :: "batch_codec \<Rightarrow> string \<Rightarrow> db_error + post_collection_bso list"
where
  "batch_string_to_bsos cd s =
     collect_r (map (\<lambda>line.
       map_sum (\<lambda>e. db_internal (''Couldn't deserialize batch::load_bsos bso: '' @ e)) id
         (bso_from_json cd line)) (str_lines s))"

definition bsos_to_batch_string :: "batch_codec \<Rightarrow> post_collection_bso list \<Rightarrow> db_error + string"
where
  "bsos_to_batch_string cd bs =
     map_sum id (\<lambda>ss. join [newline] ss @ (if bs = [] then [] else [newline]))
       (collect_r (map (\<lambda>b.
          map_sum (\<lambda>e. db_internal (''Couldn't serialize batch::create bso: '' @ e)) id
            (bso_to_json cd b)) bs))"

section \<open>Statements\<close>

definition INSERT_BATCH :: "int \<times> int \<times> int \<Rightarrow> string \<Rightarrow> int \<Rightarrow> statement" where
  "INSERT_BATCH key bs expiry k t =
     (if key \<in> fst ` set (batches t) then Inl (UniqueViolation ''Duplicate entry'')
      else Inr (1, t\<lparr>batches := batches t @ [(key, \<lparr>bt_bsos = bs, bt_expiry = expiry\<rparr>)]\<rparr>))"

definition SELECT_BATCH :: "int \<times> int \<times> int \<Rightarrow> int \<Rightarrow> tables \<Rightarrow> batch_row list" where
  "SELECT_BATCH key now t = [r. (k, r) \<leftarrow> batches t, k = key \<and> bt_expiry r > now]"

text \<open>The count is of the matched rows (diesel connects with \<open>CLIENT_FOUND_ROWS\<close>).\<close>

definition APPEND_BATCH :: "int \<times> int \<times> int \<Rightarrow> int \<Rightarrow> string \<Rightarrow> statement" where
  "APPEND_BATCH key now bs k t =
     Inr (length (SELECT_BATCH key now t),
          t\<lparr>batches := map (\<lambda>(j, r).
            (j, if j = key \<and> bt_expiry r > now then r\<lparr>bt_bsos := bt_bsos r @ bs\<rparr> else r))
            (batches t)\<rparr>)"

definition DELETE_BATCH :: "int \<times> int \<times> int \<Rightarrow> statement" where
  "DELETE_BATCH key k t =
     Inr (length (filter (\<lambda>(j, r). j = key) (batches t)),
          t\<lparr>batches := filter (\<lambda>(j, r). j \<noteq> key) (batches t)\<rparr>)"

section \<open>Operations\<close>

definition batch_create ::
  "'c sql_conn \<Rightarrow> batch_codec \<Rightarrow> hawk_identifier \<Rightarrow> string \<Rightarrow> post_collection_bso list \<Rightarrow>
     ('c, string) db_op" where
  "batch_create eng cd hawk collection pbsos =
     (let user_id = u64_as_i64 (legacy_id hawk) in
      bind_r (get_collection_id eng collection)
        (\<lambda>collection_id. bind_r (get_r (\<lambda>db. as_i64 (db_timestamp db)))
          (\<lambda>timestamp. bind_r (lift_r (bsos_to_batch_string cd pbsos))
            (\<lambda>bs. seq_r
               (map_err_r
                  (\<lambda>e. case e of
                     UniqueViolation _ \<Rightarrow> db_error_of Conflict
                   | _ \<Rightarrow> db_error_of_diesel e)
                  (sql_execute eng (INSERT_BATCH (user_id, collection_id, timestamp) bs
                     (wrap_i64 (timestamp + BATCH_LIFETIME)))))
               (return_r (encode_id cd timestamp))))))"

definition batch_validate ::
  "'c sql_conn \<Rightarrow> batch_codec \<Rightarrow> hawk_identifier \<Rightarrow> string \<Rightarrow> string \<Rightarrow> ('c, bool) db_op" where
  "batch_validate eng cd hawk collection b =
     bind_r (lift_r (decode_id cd b))
       (\<lambda>i. let user_id = u64_as_i64 (legacy_id hawk) in
          bind_r (get_collection_id eng collection)
            (\<lambda>collection_id. bind_r (get_r db_timestamp)
              (\<lambda>now. bind_r
                 (sql_load eng NoLock (SELECT_BATCH (user_id, collection_id, i) (as_i64 now)))
                 (\<lambda>rows. return_r (first_row rows \<noteq> None)))))"

definition batch_append ::
  "'c sql_conn \<Rightarrow> batch_codec \<Rightarrow> hawk_identifier \<Rightarrow> string \<Rightarrow> string \<Rightarrow>
     post_collection_bso list \<Rightarrow> ('c, unit) db_op" where
  "batch_append eng cd hawk collection b pbsos =
     bind_r (lift_r (decode_id cd b))
       (\<lambda>i. let user_id = u64_as_i64 (legacy_id hawk) in
          bind_r (get_collection_id eng collection)
            (\<lambda>collection_id. bind_r (lift_r (bsos_to_batch_string cd pbsos))
              (\<lambda>bs. bind_r (get_r db_timestamp)
                (\<lambda>now. bind_r
                   (sql_run eng
                     (APPEND_BATCH (user_id, collection_id, i) (as_i64 now) bs))
                   (\<lambda>affected_rows.
                      if affected_rows = 1 then return_r ()
                      else throw_r (db_error_of BatchNotFound))))))"

definition batch_get ::
  "'c sql_conn \<Rightarrow> batch_codec \<Rightarrow> hawk_identifier \<Rightarrow> string \<Rightarrow> string \<Rightarrow> ('c, batch option) db_op"
where
  "batch_get eng cd hawk collection b =
     bind_r (lift_r (decode_id cd b))
       (\<lambda>i. let user_id = u64_as_i64 (legacy_id hawk) in
          bind_r (get_collection_id eng collection)
            (\<lambda>collection_id. bind_r (get_r db_timestamp)
              (\<lambda>now. bind_r
                 (sql_load eng NoLock (SELECT_BATCH (user_id, collection_id, i) (as_i64 now)))
                 (\<lambda>rows. return_r (map_option
                    (\<lambda>r. \<lparr>batch_id = encode_id cd i, batch_bsos = bt_bsos r,
                          batch_expiry = bt_expiry r\<rparr>) (first_row rows))))))"

definition batch_delete ::
  "'c sql_conn \<Rightarrow> batch_codec \<Rightarrow> hawk_identifier \<Rightarrow> string \<Rightarrow> string \<Rightarrow> ('c, unit) db_op" where
  "batch_delete eng cd hawk collection b =
     bind_r (lift_r (decode_id cd b))
       (\<lambda>i. let user_id = u64_as_i64 (legacy_id hawk) in
          bind_r (get_collection_id eng collection)
            (\<lambda>collection_id.
               seq_r (sql_run eng (DELETE_BATCH (user_id, collection_id, i))) (return_r ())))"

text \<open>The batch is deleted whether the BSOs were stored or not.\<close>

definition batch_commit ::
  "'c sql_conn \<Rightarrow> batch_codec \<Rightarrow> hawk_identifier \<Rightarrow> string \<Rightarrow> batch \<Rightarrow>
     ('c, post_bsos_result) db_op" where
  "batch_commit eng cd hawk collection b =
     bind_r (lift_r (batch_string_to_bsos cd (batch_bsos b)))
       (\<lambda>pbsos. bind_r (try_r (post_bsos_sync eng hawk collection pbsos []))
          (\<lambda>result. seq_r (batch_delete eng cd hawk collection (batch_id b))
             (lift_r result)))"

end
