(* ===== verification/Mysql_Facts.thy ===== *)
theory Mysql_Facts
  imports Mysql_Batch
begin

text \<open>
  Facts about the MySQL operations for every connection that meets its contract: what each
  statement may change, what each operation keeps (also when it fails or rolls back), and what
  each operation does when it succeeds.
\<close>

section \<open>What statements may change\<close>

text \<open>
  \<open>user_step U t t'\<close>: the keys stay unique, no collection is renamed or dropped, and the rows
  of the users outside \<open>U\<close> are untouched.
\<close>

definition user_rows :: "int \<Rightarrow> tables \<Rightarrow>
  (int \<times> int, int) table \<times> (int \<times> int \<times> string, bso_row) table \<times>
  (int \<times> int \<times> int, batch_row) table" where
  "user_rows u t =
     (filter (\<lambda>(k, r). fst k = u) (user_collections t),
      filter (\<lambda>(k, r). fst k = u) (bsos t),
      filter (\<lambda>(k, r). fst k = u) (batches t))"

definition user_step :: "int set \<Rightarrow> tables \<Rightarrow> tables \<Rightarrow> bool" where
  "user_step U t t' \<longleftrightarrow>
     (wf_tables t \<longrightarrow> wf_tables t') \<and>
     set (collections t) \<subseteq> set (collections t') \<and>
     (\<forall>u. u \<notin> U \<longrightarrow> user_rows u t' = user_rows u t)"

definition statement_step :: "int set \<Rightarrow> statement \<Rightarrow> bool" where
  "statement_step U f \<longleftrightarrow>
     (\<forall>k t n t'. k \<notin> fst ` set (collections t) \<longrightarrow> FIRST_CUSTOM_COLLECTION_ID \<le> k \<longrightarrow>
        f k t = Inr (n, t') \<longrightarrow> user_step U t t')"

named_theorems statement_steps \<open>what the statements may change\<close>

lemma user_step_refl: "user_step U t t"
  by (simp add: user_step_def)

lemma user_step_trans: "user_step U t t' \<Longrightarrow> user_step U t' t'' \<Longrightarrow> user_step U t t''"
  by (auto simp: user_step_def)

lemma filter_update_other:
  "(\<And>r. \<not> P (k, r)) \<Longrightarrow> filter P (AList.update k v t) = filter P t"
  by (induction t) auto

lemma filter_map_other:
  assumes "\<And>k r. P k \<Longrightarrow> f k r = r"
  shows "filter (\<lambda>(k, r). P k) (map (\<lambda>(k, r). (k, f k r)) t) = filter (\<lambda>(k, r). P k) t"
  by (induction t) (auto simp: assms)

lemma statement_step_insert_collection [statement_steps]:
  "statement_step U (INSERT_IGNORE_COLLECTION name)"
proof -
  have "wf_tables (t\<lparr>collections := collections t @ [(k, name)]\<rparr>)"
    if "k \<notin> fst ` set (collections t)" "name \<notin> snd ` set (collections t)" "wf_tables t" for k t
    using that by (auto simp: wf_tables_def keyed_def)
  then show ?thesis
    by (auto simp: statement_step_def INSERT_IGNORE_COLLECTION_def user_step_def user_rows_def
        split: if_splits)
qed

lemma statement_step_upsert_user_collection [statement_steps]:
  "u \<in> U \<Longrightarrow> statement_step U (UPSERT_USER_COLLECTION u c m)"
  by (auto simp: statement_step_def UPSERT_USER_COLLECTION_def user_step_def wf_tables_def
      user_rows_def intro!: filter_update_other)

lemma statement_step_upsert_bso [statement_steps]:
  "u \<in> U \<Longrightarrow> statement_step U (UPSERT_BSO (u, c, i) new a b d e)"
  by (auto simp: statement_step_def UPSERT_BSO_def user_step_def wf_tables_def
      user_rows_def intro!: filter_update_other)

lemma statement_step_delete_bso [statement_steps]:
  "(\<And>u c i r. P u c i r \<Longrightarrow> u \<in> U) \<Longrightarrow> statement_step U (DELETE_BSO P)"
  by (auto simp: statement_step_def DELETE_BSO_def user_step_def wf_tables_def
      user_rows_def intro!: filter_cong)

lemma statement_step_delete_user_collections [statement_steps]:
  "(\<And>u c. P u c \<Longrightarrow> u \<in> U) \<Longrightarrow> statement_step U (DELETE_USER_COLLECTIONS P)"
  by (auto simp: statement_step_def DELETE_USER_COLLECTIONS_def user_step_def wf_tables_def
      user_rows_def intro!: filter_cong)

lemma statement_step_insert_batch [statement_steps]:
  "u \<in> U \<Longrightarrow> statement_step U (INSERT_BATCH (u, c, i) bs e)"
  by (auto simp: statement_step_def INSERT_BATCH_def user_step_def wf_tables_def keyed_def
      user_rows_def split: if_splits)

lemma statement_step_append_batch [statement_steps]:
  "u \<in> U \<Longrightarrow> statement_step U (APPEND_BATCH (u, c, i) now bs)"
  by (auto simp: statement_step_def APPEND_BATCH_def user_step_def wf_tables_def
      user_rows_def intro!: filter_map_other)

lemma statement_step_delete_batch [statement_steps]:
  "u \<in> U \<Longrightarrow> statement_step U (DELETE_BATCH (u, c, i))"
  by (auto simp: statement_step_def DELETE_BATCH_def user_step_def wf_tables_def
      user_rows_def intro!: filter_cong)

section \<open>What operations may change\<close>

text \<open>The user ids the operations of a user write under, through the casts of the code.\<close>

definition touched_users :: "hawk_identifier \<Rightarrow> int set" where
  "touched_users hawk =
     {u64_as_i64 (legacy_id hawk), uint (u64_as_u32 (legacy_id hawk)),
      i64_as_i32 (u64_as_i64 (legacy_id hawk))}"

named_theorems op_stays \<open>what the operations keep\<close>

lemma case_prod_preserves [preserves_intros]:
  "(\<And>a b. preserves I (f a b)) \<Longrightarrow> preserves I (case x of (a, b) \<Rightarrow> f a b)"
  by (cases x) simp

lemma i64_as_u32_u64_as_i64 [simp]: "i64_as_u32 (u64_as_i64 w) = u64_as_u32 w"
  by (rule bit_word_eqI)
    (auto simp: i64_as_u32_def u64_as_i64_def u64_as_u32_def bit_word_of_int_iff bit_sint_iff bit_signed_iff
      bit_unsigned_iff)

lemma preserves_db_error_cases:
  "preserves I n \<Longrightarrow> preserves I m \<Longrightarrow> preserves I (case k of CollectionNotFound \<Rightarrow> n | _ \<Rightarrow> m)"
  by (cases k) auto

text \<open>
  A relation on sessions that no call of the connection and no change of the session breaks is
  kept by every operation of a user that writes under the ids \<open>U\<close>. The end of the outer
  transaction is set apart: not every such relation survives a commit or a rollback.
\<close>

locale mysql_frame =
  fixes eng :: "'c sql_conn"
    and R :: "'c mysql_db \<Rightarrow> 'c mysql_db \<Rightarrow> bool"
    and U :: "int set"
  assumes R_order [preserves_intros]: "reflp R" "transp R"
    and R_session [op_stays]: "preserves R (on_session f)"
    and R_cache [op_stays]: "preserves R (on_cache (k :: (collection_cache, db_error, unit) comp))"
    and R_load [op_stays]: "preserves R (on_conn (load_rows eng m))"
    and R_begin [op_stays]: "preserves R (on_conn (begin_transaction eng))"
    and R_execute: "statement_step U st \<Longrightarrow> preserves R (sql_execute eng st)"
    and R_create: "preserves R (b :: ('c mysql_db, diesel_error, int) comp) \<Longrightarrow>
      preserves R (diesel_transaction eng id b)"
    and R_put: "preserves R (p :: ('c, sync_timestamp) db_op) \<Longrightarrow>
      preserves R (diesel_transaction eng db_error_of_diesel p)"
begin

lemma stays_run: "statement_step U st \<Longrightarrow> preserves R (sql_run eng st)"
  by (simp add: sql_run_def preserves_map_err R_execute)

lemma stays_query [op_stays]: "preserves R (sql_query eng m q)"
  unfolding sql_query_def by (intro preserves_intros op_stays)

lemma stays_load [op_stays]: "preserves R (sql_load eng m q)"
  unfolding sql_load_def by (intro preserves_intros op_stays)

lemma stays_db_begin [op_stays]: "preserves R (db_begin eng w)"
  unfolding db_begin_def by (intro preserves_intros op_stays)

lemma stays_ids [op_stays]:
  "preserves R (get_or_create_collection_id eng name)"
  "preserves R (get_collection_id eng name)"
  "preserves R (get_collection_name eng i)"
  unfolding get_or_create_collection_id_def get_collection_id_def get_collection_name_def
  by (intro preserves_intros op_stays R_create R_execute statement_steps)+

lemma stays_cached_names [op_stays]: "preserves R (cached_names is)"
proof (induction "is")
  case Nil
  show ?case unfolding cached_names.simps by (intro preserves_intros)
next
  case (Cons i "is")
  show ?case unfolding cached_names.simps by (intro preserves_intros Cons)
qed

lemma stays_remember_names [op_stays]:
  "preserves R (remember_names rows names)"
proof (induction rows names rule: remember_names.induct)
  case (1 names)
  show ?case unfolding remember_names.simps by (intro preserves_intros)
next
  case (2 i name rows names)
  show ?case unfolding remember_names.simps by (intro preserves_intros op_stays 2)
qed

lemma stays_names [op_stays]:
  "preserves R (load_collection_names eng is)"
  "preserves R (map_collection_names eng rows)"
proof -
  show "preserves R (load_collection_names eng is)" for "is"
    unfolding load_collection_names_def by (intro preserves_intros op_stays)
  then show "preserves R (map_collection_names eng rows)"
    unfolding map_collection_names_def by (intro preserves_intros)
qed

lemma stays_locks [op_stays]:
  "preserves R (lock_for_read_sync eng hawk coll)"
  "preserves R (lock_for_write_sync eng hawk coll)"
  unfolding lock_for_read_sync_def lock_for_write_sync_def Let_def
  by (intro preserves_intros op_stays preserves_db_error_cases)+

lemma stays_reads [op_stays]:
  "preserves R (get_bsos_sync eng hawk coll params)"
  "preserves R (get_bso_ids_sync eng hawk coll params)"
  "preserves R (get_bso_sync eng hawk coll i)"
  "preserves R (get_bso_timestamp_sync eng hawk coll i)"
  "preserves R (get_storage_timestamp_sync eng hawk)"
  "preserves R (get_collection_timestamp_sync eng hawk coll)"
  "preserves R (get_collection_timestamps_sync eng hawk)"
  "preserves R (check_sync status_rows eng)"
  "preserves R (get_storage_usage_sync eng hawk)"
  "preserves R (get_collection_usage_sync eng hawk)"
  "preserves R (get_collection_counts_sync eng hawk)"
  unfolding get_bsos_sync_def get_bso_ids_sync_def get_bso_sync_def get_bso_timestamp_sync_def
    get_storage_timestamp_sync_def get_collection_timestamp_sync_def
    get_collection_timestamps_sync_def check_sync_def get_storage_usage_sync_def
    get_collection_usage_sync_def get_collection_counts_sync_def Let_def
  by (intro preserves_intros op_stays)+

lemma stays_touch:
  "uint user_id \<in> U \<Longrightarrow> preserves R (touch_collection eng user_id c)"
  "u \<in> U \<Longrightarrow> preserves R (erect_tombstone eng u)"
  unfolding touch_collection_def erect_tombstone_def
  by (intro preserves_intros op_stays stays_run statement_steps; assumption)+

lemma stays_deletes [op_stays]:
  assumes "touched_users hawk \<subseteq> U"
  shows "preserves R (delete_storage_sync eng hawk)"
    "preserves R (delete_collection_sync eng hawk coll)"
    "preserves R (delete_bso_sync eng hawk coll i)"
    "preserves R (delete_bsos_sync eng hawk coll is)"
  unfolding delete_storage_sync_def delete_collection_sync_def delete_bso_sync_def
    delete_bsos_sync_def Let_def
  using assms
  by (intro preserves_intros op_stays stays_run stays_touch statement_steps;
      auto simp: touched_users_def)+

lemma stays_put [op_stays]:
  assumes "touched_users (pp_user_id bso) \<subseteq> U"
  shows "preserves R (put_bso_sync eng bso)"
  unfolding put_bso_sync_def Let_def
  using assms
  by (intro preserves_intros op_stays R_put stays_run stays_touch statement_steps;
      auto simp: touched_users_def)

lemma stays_put_each [op_stays]:
  assumes "touched_users hawk \<subseteq> U"
  shows "preserves R (put_each eng hawk coll pbsos result)"
  using assms
  by (induction pbsos arbitrary: result)
    (auto intro!: preserves_intros op_stays simp: put_of_post_def)

lemma stays_post [op_stays]:
  assumes "touched_users hawk \<subseteq> U"
  shows "preserves R (post_bsos_sync eng hawk coll pbsos failed)"
  unfolding post_bsos_sync_def using assms
  by (intro preserves_intros op_stays stays_touch; auto simp: touched_users_def)

lemma stays_batch [op_stays]:
  assumes "touched_users hawk \<subseteq> U"
  shows "preserves R (batch_create eng cd hawk coll pbsos)"
    "preserves R (batch_validate eng cd hawk coll b)"
    "preserves R (batch_append eng cd hawk coll b pbsos)"
    "preserves R (batch_get eng cd hawk coll b)"
    "preserves R (batch_delete eng cd hawk coll b)"
  unfolding batch_create_def batch_validate_def batch_append_def batch_get_def batch_delete_def
    Let_def
  using assms
  by (intro preserves_intros op_stays stays_run R_execute statement_steps;
      auto simp: touched_users_def)+

lemma stays_batch_commit [op_stays]:
  assumes "touched_users hawk \<subseteq> U"
  shows "preserves R (batch_commit eng cd hawk coll batch)"
  unfolding batch_commit_def using assms by (intro preserves_intros op_stays)

end

locale mysql_frame_tx = mysql_frame +
  assumes R_commit [op_stays]: "preserves R (on_conn (commit_transaction eng))"
    and R_rollback [op_stays]: "preserves R (on_conn (rollback_transaction eng))"
begin

lemma stays_commit_rollback:
  "preserves R (commit_sync eng)" "preserves R (rollback_sync eng)"
  unfolding commit_sync_def rollback_sync_def by (intro preserves_intros op_stays)+

end

section \<open>The rows of the other users\<close>

definition user_stays ::
  "('c \<Rightarrow> tables) \<Rightarrow> ('c \<Rightarrow> tables list) \<Rightarrow> int set \<Rightarrow> 'c mysql_db \<Rightarrow> 'c mysql_db \<Rightarrow> bool" where
  "user_stays view saved U db db' \<longleftrightarrow>
     (\<forall>t0. everywhere view saved (user_step U t0) (conn db) \<longrightarrow>
           everywhere view saved (user_step U t0) (conn db'))"

lemma user_stays_order:
  "reflp (user_stays view saved U)" "transp (user_stays view saved U)"
  by (auto simp: user_stays_def reflp_def transp_def)

lemma user_stays_conn_eq: "conn db' = conn db \<Longrightarrow> user_stays view saved U db db'"
  by (simp add: user_stays_def)

lemma user_stays_local:
  "preserves (user_stays view saved U) (on_session f)"
  "preserves (user_stays view saved U) (on_cache m)"
  by (simp_all add: preserves_def on_session_def on_cache_def user_stays_conn_eq split: prod.split)

lemma user_stays_on_conn:
  assumes "\<And>t0 c r c'. everywhere view saved (user_step U t0) c \<Longrightarrow> f c = (r, c') \<Longrightarrow>
    everywhere view saved (user_step U t0) c'"
  shows "preserves (user_stays view saved U) (on_conn f)"
  using assms by (auto simp: preserves_def on_conn_def user_stays_def split: prod.split)

context sql_connection
begin

lemma user_stays_calls:
  "preserves (user_stays view saved U) (on_conn (load_rows eng m))"
  "preserves (user_stays view saved U) (on_conn (begin_transaction eng))"
  "preserves (user_stays view saved U) (on_conn (commit_transaction eng))"
  "preserves (user_stays view saved U) (on_conn (rollback_transaction eng))"
  by (intro user_stays_on_conn; erule (1) everywhere_calls)+

lemma user_stays_execute:
  assumes "statement_step U f"
  shows "preserves (user_stays view saved U) (sql_execute eng f)"
proof -
  have "everywhere view saved (user_step U t0) c'"
    if "everywhere view saved (user_step U t0) c" "execute_statement eng f c = (r, c')" for t0 c r c'
    using everywhere_execute [OF that] assms
    by (meson statement_step_def user_step_trans)
  then show ?thesis
    unfolding sql_execute_def by (rule user_stays_on_conn)
qed

lemma user_stays_transaction:
  "preserves (user_stays view saved U) m \<Longrightarrow>
     preserves (user_stays view saved U) (diesel_transaction eng h m)"
  unfolding diesel_transaction_def
  by (intro preserves_intros user_stays_order user_stays_calls)

end

sublocale sql_connection \<subseteq> users: mysql_frame_tx eng "user_stays view saved U" U for U
  by unfold_locales
    (simp_all only: user_stays_order user_stays_local user_stays_calls user_stays_execute
      user_stays_transaction)

section \<open>The depth of the transactions\<close>

text \<open>Nothing but the end of the outer transaction goes below the transactions that are open.\<close>

definition deeper :: "('c \<Rightarrow> tables list) \<Rightarrow> 'c mysql_db \<Rightarrow> 'c mysql_db \<Rightarrow> bool" where
  "deeper saved db db' \<longleftrightarrow> (\<exists>ts. saved (conn db') = ts @ saved (conn db))"

lemma deeper_order: "reflp (deeper saved)" "transp (deeper saved)"
  by (auto simp: deeper_def reflp_def transp_def)

lemma deeper_local:
  "preserves (deeper saved) (on_session f)" "preserves (deeper saved) (on_cache m)"
  by (simp_all add: preserves_def on_session_def on_cache_def deeper_def split: prod.split)

context sql_connection
begin

lemma deeper_calls:
  "preserves (deeper saved) (on_conn (load_rows eng m))"
  "preserves (deeper saved) (on_conn (begin_transaction eng))"
  "preserves (deeper saved) (sql_execute eng f)"
proof -
  have "saved c' = saved c" if "load_rows eng m c = (r, c')" for c r c'
    using that load_Inr load_Inl by (cases r) blast+
  then show "preserves (deeper saved) (on_conn (load_rows eng m))"
    by (auto simp: preserves_def on_conn_def deeper_def split: prod.split)
  have "\<exists>ts. saved c' = ts @ saved c" if "begin_transaction eng c = (r, c')" for c r c'
    using that begin_Inr begin_Inl by (cases r) (metis append_Nil, metis append_Cons append_Nil)
  then show "preserves (deeper saved) (on_conn (begin_transaction eng))"
    by (auto simp: preserves_def on_conn_def deeper_def split: prod.split)
  have "saved c' = saved c" if "execute_statement eng f c = (r, c')" for c r c'
    using that execute_Inr execute_Inl by (cases r) blast+
  then show "preserves (deeper saved) (sql_execute eng f)"
    by (auto simp: preserves_def sql_execute_def on_conn_def deeper_def split: prod.split)
qed

lemma saved_end:
  "commit_transaction eng c = (r, c') \<Longrightarrow> saved c' = saved c \<or> saved c' = tl (saved c)"
  "rollback_transaction eng c = (r, c') \<Longrightarrow> saved c' = saved c \<or> saved c' = tl (saved c)"
  using commit_Inr commit_Inl rollback_Inr rollback_Inl by (cases r; blast)+

lemma deeper_transaction:
  assumes "preserves (deeper saved) b"
  shows "preserves (deeper saved) (diesel_transaction eng h b)"
  unfolding preserves_def
proof
  fix db :: "'c mysql_db"
  obtain rb c1 where opened: "begin_transaction eng (conn db) = (rb, c1)"
    by (metis prod.collapse)
  show "deeper saved db (snd (diesel_transaction eng h b db))"
  proof (cases rb)
    case (Inl e)
    then show ?thesis
      using opened begin_Inl [of "conn db" e c1]
      by (simp add: diesel_transaction_def seq_r_def bind_r_def map_err_r_def on_conn_def deeper_def)
  next
    case (Inr u)
    obtain r db1 where run: "b (db\<lparr>conn := c1\<rparr>) = (r, db1)"
      by (metis prod.collapse)
    have "saved c1 = view (conn db) # saved (conn db)"
      using opened begin_Inr Inr by blast
    then obtain ts where ts: "saved (conn db1) = ts @ view (conn db) # saved (conn db)"
      using preservesD [OF assms run] by (auto simp: deeper_def)
    have closed: "\<exists>ts. saved c2 = ts @ saved (conn db)"
      if "saved c2 = saved (conn db1) \<or> saved c2 = tl (saved (conn db1))" for c2
      using that ts by (cases ts) (force simp: append_eq_append_conv2)+
    obtain rc cc rr cr where ends: "commit_transaction eng (conn db1) = (rc, cc)"
      "rollback_transaction eng (conn db1) = (rr, cr)"
      by (metis prod.collapse)
    show ?thesis
      using closed [OF saved_end(1) [OF ends(1)]] closed [OF saved_end(2) [OF ends(2)]]
      using opened Inr run ends
      by (cases r; cases rc; cases rr)
        (simp_all add: diesel_transaction_def seq_r_def bind_r_def map_err_r_def on_conn_def
          try_r_def deeper_def)
  qed
qed

end

sublocale sql_connection \<subseteq> depth: mysql_frame eng "deeper saved" UNIV
  by unfold_locales
    (simp_all only: deeper_order deeper_local deeper_calls deeper_transaction)

end
