(* ===== verification/Mysql_Effects.thy ===== *)
theory Mysql_Effects
  imports Mysql_Facts
begin

text \<open>
  What the MySQL operations do when they succeed, as updates of an abstract store: the BSOs
  of a user by collection name and id. The collection ids, the cache of ids, the order of rows
  and the transactions of the model are below the abstraction.
\<close>

section \<open>Queries by key\<close>

lemma keyed_select:
  assumes "keyed t"
  shows "concat (map (\<lambda>(k, r). if k = key \<and> P r then [g r] else []) t) =
    (case map_of t key of None \<Rightarrow> [] | Some r \<Rightarrow> if P r then [g r] else [])"
  using assms
proof (induction t)
  case (Cons p t)
  obtain k r where p: "p = (k, r)" by (cases p)
  have "keyed t" "k = key \<Longrightarrow> map_of t key = None"
    using Cons.prems by (auto simp: p keyed_def map_of_eq_None_iff)
  then show ?case
    using Cons.IH by (auto simp: p split: option.splits)
qed simp

lemma swap_snd: "snd (prod.swap p) = fst p"
  by (cases p) simp

lemma select_collection_id:
  assumes "wf_tables t"
  shows "SELECT_COLLECTION_ID name t =
    (case map_of (map prod.swap (collections t)) name of None \<Rightarrow> [] | Some i \<Rightarrow> [i])"
proof -
  have "keyed (map prod.swap (collections t))"
    using assms by (simp add: wf_tables_def keyed_def comp_def)
  from keyed_select [OF this, of name "\<lambda>_. True" "\<lambda>i. i"]
  show ?thesis
    by (simp add: SELECT_COLLECTION_ID_def comp_def case_prod_unfold swap_snd
        cong: option.case_cong if_cong)
qed

lemma select_collection_modified:
  "keyed (user_collections t) \<Longrightarrow>
     SELECT_COLLECTION_MODIFIED u c t =
     (case map_of (user_collections t) (u, c) of None \<Rightarrow> [] | Some m \<Rightarrow> [m])"
  using keyed_select [of "user_collections t" "(u, c)" "\<lambda>_. True" "\<lambda>m. m"]
  by (simp add: SELECT_COLLECTION_MODIFIED_def cong: option.case_cong)

lemma select_bso:
  assumes "keyed (bsos t)"
  shows "concat (map (\<lambda>((u, c, j), r).
      if u = user_id \<and> c = collection_id \<and> j = i \<and> P r then [(j, r)] else []) (bsos t)) =
    (case map_of (bsos t) (user_id, collection_id, i) of
       None \<Rightarrow> [] | Some r \<Rightarrow> if P r then [(i, r)] else [])"
proof -
  have eq: "map (\<lambda>((u, c, j), r).
      if u = user_id \<and> c = collection_id \<and> j = i \<and> P r then [(j, r)] else []) (bsos t) =
    map (\<lambda>(k, r). if k = (user_id, collection_id, i) \<and> P r then [(i, r)] else []) (bsos t)"
    by auto
  show ?thesis
    unfolding eq using assms by (rule keyed_select)
qed

lemma select_batch:
  "keyed (batches t) \<Longrightarrow>
     SELECT_BATCH key now t =
     (case map_of (batches t) key of None \<Rightarrow> [] | Some r \<Rightarrow> if bt_expiry r > now then [r] else [])"
  using keyed_select [of "batches t" key "\<lambda>r. bt_expiry r > now" "\<lambda>r. r"]
  by (simp add: SELECT_BATCH_def)

lemma swap_lookup_cong:
  assumes "same_rows t t'" "wf_tables t'"
  shows "map_of (map prod.swap (collections t)) = map_of (map prod.swap (collections t'))"
  using assms
  by (intro map_of_mset_cong) (auto simp: same_rows_def wf_tables_def keyed_def comp_def)

lemma swap_lookup_iff:
  "wf_tables t \<Longrightarrow>
     map_of (map prod.swap (collections t)) name = Some i \<longleftrightarrow> (i, name) \<in> set (collections t)"
  by (subst map_of_eq_Some_iff)
    (auto simp: wf_tables_def comp_def image_iff intro!: bexI [of _ "(i, name)"])

section \<open>Steps that succeed\<close>

text \<open>The session, the cache and the transactions are as before.\<close>

definition quiet :: "('c \<Rightarrow> tables list) \<Rightarrow> 'c mysql_db \<Rightarrow> 'c mysql_db \<Rightarrow> bool" where
  "quiet saved db db' \<longleftrightarrow>
     session db' = session db \<and> coll_cache db' = coll_cache db \<and>
     saved (conn db') = saved (conn db)"

section \<open>The abstract store\<close>

definition collection_ids :: "tables \<Rightarrow> string \<rightharpoonup> int" where
  "collection_ids t = map_of (map prod.swap (collections t))"

text \<open>A BSO of a user by collection name and id, and when a collection was last changed.\<close>

definition stored :: "tables \<Rightarrow> int \<Rightarrow> string \<Rightarrow> string \<rightharpoonup> bso_row" where
  "stored t u name i =
     (case collection_ids t name of None \<Rightarrow> None | Some c \<Rightarrow> map_of (bsos t) (u, c, i))"

definition last_changed :: "tables \<Rightarrow> int \<Rightarrow> string \<rightharpoonup> int" where
  "last_changed t u name =
     (case collection_ids t name of None \<Rightarrow> None | Some c \<Rightarrow> map_of (user_collections t) (u, c))"

text \<open>Rows refer to collections that exist; id 0 is not one, it marks the tombstone.\<close>

definition refs_ok :: "tables \<Rightarrow> bool" where
  "refs_ok t \<longleftrightarrow>
     map_of (collections t) TOMBSTONE = None \<and>
     (\<forall>u c i. map_of (bsos t) (u, c, i) \<noteq> None \<longrightarrow> map_of (collections t) c \<noteq> None) \<and>
     (\<forall>u c. map_of (user_collections t) (u, c) \<noteq> None \<longrightarrow>
        c = TOMBSTONE \<or> map_of (collections t) c \<noteq> None)"

definition tables_ok :: "tables \<Rightarrow> bool" where
  "tables_ok t \<longleftrightarrow> wf_tables t \<and> refs_ok t"

definition cache_ok :: "tables \<Rightarrow> collection_cache \<Rightarrow> bool" where
  "cache_ok t k \<longleftrightarrow> cache_all (\<lambda>i name. (i, name) \<in> set (collections t)) k"

definition db_ok :: "('c \<Rightarrow> tables) \<Rightarrow> 'c mysql_db \<Rightarrow> bool" where
  "db_ok view db \<longleftrightarrow> tables_ok (view (conn db)) \<and> cache_ok (view (conn db)) (coll_cache db)"

lemma collection_ids_iff:
  "wf_tables t \<Longrightarrow> collection_ids t name = Some i \<longleftrightarrow> (i, name) \<in> set (collections t)"
  by (simp add: collection_ids_def swap_lookup_iff)

lemma collection_ids_inj:
  assumes "wf_tables t" "collection_ids t name = Some i" "collection_ids t name' = Some i"
  shows "name = name'"
  using assms by (auto simp: collection_ids_iff wf_tables_def keyed_def eq_key_imp_eq_value)

lemma collection_ids_tombstone: "tables_ok t \<Longrightarrow> collection_ids t name \<noteq> Some TOMBSTONE"
  by (auto simp: tables_ok_def collection_ids_iff refs_ok_def map_of_eq_None_iff rev_image_eqI)

lemma collection_ids_known:
  "wf_tables t \<Longrightarrow> collection_ids t name = Some c \<Longrightarrow> map_of (collections t) c \<noteq> None"
  by (auto simp: collection_ids_iff map_of_eq_None_iff rev_image_eqI)

lemma stored_cong:
  "collections t' = collections t \<Longrightarrow> bsos t' = bsos t \<Longrightarrow> stored t' = stored t"
  by (simp add: stored_def fun_eq_iff collection_ids_def cong: option.case_cong)

lemma last_changed_cong:
  "collections t' = collections t \<Longrightarrow> user_collections t' = user_collections t \<Longrightarrow>
     last_changed t' = last_changed t"
  by (simp add: last_changed_def fun_eq_iff collection_ids_def cong: option.case_cong)

text \<open>A new collection has no rows yet.\<close>

definition with_collection :: "int \<Rightarrow> string \<Rightarrow> tables \<Rightarrow> tables" where
  "with_collection k name t = t\<lparr>collections := collections t @ [(k, name)]\<rparr>"

lemma with_collection_sel:
  "user_collections (with_collection k name t) = user_collections t"
  "bsos (with_collection k name t) = bsos t" "batches (with_collection k name t) = batches t"
  by (simp_all add: with_collection_def)

lemma with_collection:
  assumes "tables_ok t" "k \<notin> fst ` set (collections t)" "k \<noteq> TOMBSTONE"
    and "name \<notin> snd ` set (collections t)"
  shows "tables_ok (with_collection k name t)"
    "collection_ids (with_collection k name t) = (collection_ids t)(name \<mapsto> k)"
    "stored (with_collection k name t) = stored t"
    "last_changed (with_collection k name t) = last_changed t"
proof -
  have new: "map_of (collections t) k = None"
    using assms(2) by (simp add: map_of_eq_None_iff)
  have colls: "map_of (collections (with_collection k name t)) = (map_of (collections t))(k \<mapsto> name)"
    using new by (auto simp: with_collection_def map_add_def fun_eq_iff split: option.split)
  have "wf_tables (with_collection k name t)"
    using assms by (auto simp: tables_ok_def wf_tables_def keyed_def with_collection_def)
  moreover have "refs_ok (with_collection k name t)"
    using assms(1,3) unfolding tables_ok_def refs_ok_def colls with_collection_sel fun_upd_apply
    by (metis option.distinct(1))
  ultimately show "tables_ok (with_collection k name t)"
    by (simp add: tables_ok_def)
  have none: "collection_ids t name = None"
    using assms(1,4) collection_ids_iff [of t name]
    by (cases "collection_ids t name") (force simp: tables_ok_def)+
  show ids: "collection_ids (with_collection k name t) = (collection_ids t)(name \<mapsto> k)"
    using none by (auto simp: collection_ids_def with_collection_def map_add_def fun_eq_iff
        split: option.split)
  have "map_of (bsos t) (u, k, i) = None" for u i
    using assms(1) new unfolding tables_ok_def refs_ok_def by blast
  then show "stored (with_collection k name t) = stored t"
    using none ids by (auto simp: stored_def fun_eq_iff with_collection_sel
        cong: option.case_cong)
  have "map_of (user_collections t) (u, k) = None" for u
    using assms(1,3) new unfolding tables_ok_def refs_ok_def by blast
  then show "last_changed (with_collection k name t) = last_changed t"
    using none ids by (auto simp: last_changed_def fun_eq_iff with_collection_sel
        cong: option.case_cong)
qed

section \<open>Statements on the abstract store\<close>

lemma upsert_user_collection_effect:
  assumes "tables_ok t" "UPSERT_USER_COLLECTION u c m k t = Inr (n, t')"
    and "c = TOMBSTONE \<or> map_of (collections t) c \<noteq> None"
  shows "tables_ok t'" "collections t' = collections t" "stored t' = stored t"
    "map_of (user_collections t') = (map_of (user_collections t))((u, c) \<mapsto> m)"
    "batches t' = batches t"
proof -
  have t': "t' = t\<lparr>user_collections := AList.update (u, c) m (user_collections t)\<rparr>"
    using assms(2) by (simp add: UPSERT_USER_COLLECTION_def)
  show "tables_ok t'" "collections t' = collections t" "batches t' = batches t"
    "map_of (user_collections t') = (map_of (user_collections t))((u, c) \<mapsto> m)"
    using assms(1,3) by (auto simp: t' tables_ok_def wf_tables_def refs_ok_def update_conv')
  show "stored t' = stored t"
    by (rule stored_cong) (simp_all add: t')
qed

text \<open>What \<open>put_bso\<close> makes of the row a BSO has.\<close>

definition merged_row :: "put_bso_params \<Rightarrow> int \<Rightarrow> bso_row option \<Rightarrow> bso_row" where
  "merged_row bso now old =
     (case old of
        None \<Rightarrow> put_bso_row bso now
      | Some r \<Rightarrow>
          \<lparr>b_sortindex = (case pp_sortindex bso of None \<Rightarrow> b_sortindex r | Some k \<Rightarrow> Some k),
           b_payload = (case pp_payload bso of None \<Rightarrow> b_payload r | Some p \<Rightarrow> p),
           b_modified = (if pp_payload bso = None \<and> pp_sortindex bso = None
                         then b_modified r else now),
           b_expiry = (if pp_ttl bso = None then b_expiry r
                       else b_expiry (put_bso_row bso now))\<rparr>)"

definition abs_put ::
  "put_bso_params \<Rightarrow> int \<Rightarrow> (string \<Rightarrow> string \<rightharpoonup> bso_row) \<Rightarrow> (string \<Rightarrow> string \<rightharpoonup> bso_row)" where
  "abs_put bso now st =
     st(pp_collection bso := (st (pp_collection bso))
       (pp_id bso \<mapsto> merged_row bso now (st (pp_collection bso) (pp_id bso))))"

lemma stored_update:
  assumes "wf_tables t" "collection_ids t name = Some c" "collections t' = collections t"
    and "map_of (bsos t') = (map_of (bsos t))((u, c, i) := v)"
  shows "stored t' = (stored t)(u := (stored t u)(name := (stored t u name)(i := v)))"
proof (intro ext)
  fix u' name' i'
  have ids: "collection_ids t' = collection_ids t"
    by (simp add: collection_ids_def assms(3))
  show "stored t' u' name' i' =
      ((stored t)(u := (stored t u)(name := (stored t u name)(i := v)))) u' name' i'"
  proof (cases "collection_ids t name'")
    case None
    then show ?thesis
      using assms(2) by (auto simp: stored_def ids)
  next
    case (Some c')
    have "c' = c \<longleftrightarrow> name' = name"
      using collection_ids_inj assms(1,2) Some by auto
    then show ?thesis
      by (auto simp: stored_def ids Some assms(2,4))
  qed
qed

lemma refs_ok_bsos:
  assumes "refs_ok t" "collections t' = collections t" "user_collections t' = user_collections t"
    and "\<And>u c i. map_of (bsos t') (u, c, i) \<noteq> None \<Longrightarrow>
      map_of (bsos t) (u, c, i) \<noteq> None \<or> map_of (collections t) c \<noteq> None"
  shows "refs_ok t'"
  using assms unfolding refs_ok_def by metis

lemma upsert_bso_effect:
  assumes "tables_ok t" "collection_ids t (pp_collection bso) = Some c"
    and "UPSERT_BSO (u, c, pp_id bso) (put_bso_row bso now) (pp_sortindex bso \<noteq> None)
      (pp_payload bso \<noteq> None) (pp_ttl bso \<noteq> None)
      (pp_payload bso \<noteq> None \<or> pp_sortindex bso \<noteq> None) k t = Inr (n, t')"
  shows "tables_ok t'" "collections t' = collections t" "batches t' = batches t"
    "user_collections t' = user_collections t"
    "stored t' = (stored t)(u := abs_put bso now (stored t u))"
proof -
  have old: "stored t u (pp_collection bso) (pp_id bso) = map_of (bsos t) (u, c, pp_id bso)"
    using assms(2) by (simp add: stored_def)
  have t': "t' = t\<lparr>bsos := AList.update (u, c, pp_id bso)
      (merged_row bso now (map_of (bsos t) (u, c, pp_id bso))) (bsos t)\<rparr>"
    using assms(3)
    by (auto simp: UPSERT_BSO_def merged_row_def put_bso_row_def split: option.splits)
  have "map_of (collections t) c \<noteq> None"
    using assms(1,2) collection_ids_known by (auto simp: tables_ok_def)
  moreover have "refs_ok t" "collections t' = collections t"
    "user_collections t' = user_collections t"
    using assms(1) by (simp_all add: t' tables_ok_def)
  moreover have "map_of (bsos t') (v, d, j) = (if (v, d, j) = (u, c, pp_id bso)
      then Some (merged_row bso now (map_of (bsos t) (u, c, pp_id bso)))
      else map_of (bsos t) (v, d, j))" for v d j
    by (simp add: t' update_conv')
  ultimately have "refs_ok t'"
    by (elim refs_ok_bsos) (auto split: if_splits)
  then show "tables_ok t'"
    using assms(1) by (simp add: t' tables_ok_def wf_tables_def)
  show "collections t' = collections t" "batches t' = batches t"
    "user_collections t' = user_collections t"
    by (simp_all add: t')
  show "stored t' = (stored t)(u := abs_put bso now (stored t u))"
    unfolding abs_put_def old
    using assms(1,2) by (intro stored_update) (auto simp: t' tables_ok_def update_conv')
qed

text \<open>Deletion by collection and id.\<close>

lemma delete_bso_effect:
  assumes "tables_ok t" "DELETE_BSO P k t = Inr (n, t')"
  shows "tables_ok t'" "collections t' = collections t" "batches t' = batches t"
    "user_collections t' = user_collections t"
    "map_of (bsos t') (u, c, i) = (case map_of (bsos t) (u, c, i) of
       None \<Rightarrow> None | Some r \<Rightarrow> if P u c i r then None else Some r)"
    "n = 0 \<longleftrightarrow> (\<forall>((u, c, i), r) \<in> set (bsos t). \<not> P u c i r)"
proof -
  have t': "t' = t\<lparr>bsos := filter (\<lambda>(k, r). (\<lambda>(u, c, i) r. \<not> P u c i r) k r) (bsos t)\<rparr>"
    and n: "n = length (filter (\<lambda>((u, c, i), r). P u c i r) (bsos t))"
    using assms(2) by (auto simp: DELETE_BSO_def case_prod_unfold)
  have key: "keyed (bsos t)"
    using assms(1) by (simp add: tables_ok_def wf_tables_def)
  show look: "map_of (bsos t') (u, c, i) = (case map_of (bsos t) (u, c, i) of
      None \<Rightarrow> None | Some r \<Rightarrow> if P u c i r then None else Some r)" for u c i
    unfolding t' using map_of_filter_row [OF key] by (simp split: option.split)
  show "collections t' = collections t" "batches t' = batches t"
    "user_collections t' = user_collections t"
    by (simp_all add: t')
  have "map_of (bsos t) (u, c, i) \<noteq> None \<or> map_of (collections t) c \<noteq> None"
    if "map_of (bsos t') (u, c, i) \<noteq> None" for u c i
    using that unfolding look by (auto split: option.splits)
  moreover have "refs_ok t" "collections t' = collections t"
    "user_collections t' = user_collections t"
    using assms(1) by (simp_all add: t' tables_ok_def)
  ultimately have "refs_ok t'"
    by (elim refs_ok_bsos)
  moreover have "wf_tables t'"
    using assms(1) by (simp add: t' tables_ok_def wf_tables_def)
  ultimately show "tables_ok t'"
    by (simp add: tables_ok_def)
  show "n = 0 \<longleftrightarrow> (\<forall>((u, c, i), r) \<in> set (bsos t). \<not> P u c i r)"
    unfolding n by (simp add: filter_empty_conv case_prod_unfold)
qed

section \<open>Operations that succeed\<close>

lemma db_ok_tables: "db_ok view db \<Longrightarrow> tables_ok (view (conn db))"
  by (simp add: db_ok_def)

lemma db_ok_wf: "db_ok view db \<Longrightarrow> wf_tables (view (conn db))"
  by (simp add: db_ok_def tables_ok_def)

lemma cache_ok_mono:
  "cache_ok t k \<Longrightarrow> set (collections t) \<subseteq> set (collections t') \<Longrightarrow> cache_ok t' k"
  unfolding cache_ok_def by (erule cache_all_mono) blast

lemma quiet_db_ok:
  "quiet saved db db' \<Longrightarrow> db_ok view db \<Longrightarrow> tables_ok (view (conn db')) \<Longrightarrow>
     set (collections (view (conn db))) \<subseteq> set (collections (view (conn db'))) \<Longrightarrow> db_ok view db'"
  by (auto simp: db_ok_def quiet_def elim: cache_ok_mono)

lemma quiet_trans: "quiet saved db db' \<Longrightarrow> quiet saved db' db'' \<Longrightarrow> quiet saved db db''"
  by (simp add: quiet_def)

context sql_connection
begin

lemma sql_query_Inr:
  assumes "sql_query eng m q db = (Inr a, db')"
  obtains t where "a = q t" "same_rows t (view (conn db))"
    "view (conn db') = view (conn db)" "quiet saved db db'"
  using assms load_Inr
  by (auto simp: sql_query_def bind_r_Inr_iff on_conn_def quiet_def split: prod.splits)

lemma sql_load_Inr:
  assumes "sql_load eng m q db = (Inr a, db')"
  obtains t where "a = q t" "same_rows t (view (conn db))"
    "view (conn db') = view (conn db)" "quiet saved db db'"
  using assms by (auto simp: sql_load_def elim: sql_query_Inr)

lemma sql_execute_Inr:
  assumes "sql_execute eng f db = (Inr n, db')"
  obtains k where "FIRST_CUSTOM_COLLECTION_ID \<le> k" "k \<notin> fst ` set (collections (view (conn db)))"
    "f k (view (conn db)) = Inr (n, view (conn db'))" "quiet saved db db'"
  using assms execute_Inr
  by (force simp: sql_execute_def on_conn_def quiet_def split: prod.splits)

lemma sql_run_Inr:
  assumes "sql_run eng f db = (Inr n, db')"
  obtains k where "FIRST_CUSTOM_COLLECTION_ID \<le> k" "k \<notin> fst ` set (collections (view (conn db)))"
    "f k (view (conn db)) = Inr (n, view (conn db'))" "quiet saved db db'"
  using assms by (auto simp: sql_run_def elim: sql_execute_Inr)

lemma transaction_Inr:
  assumes "diesel_transaction eng h m db = (Inr a, db')"
  obtains db1 db2 where "m db1 = (Inr a, db2)" "view (conn db1) = view (conn db)"
    "saved (conn db1) = view (conn db) # saved (conn db)" "session db1 = session db"
    "coll_cache db1 = coll_cache db" "view (conn db') = view (conn db2)"
    "saved (conn db') = tl (saved (conn db2))" "session db' = session db2"
    "coll_cache db' = coll_cache db2"
proof -
  from assms obtain db1 r db2 where b: "on_conn (begin_transaction eng) db = (Inr (), db1)"
    and m: "m db1 = (r, db2)"
    and rest: "(case r of
        Inr a \<Rightarrow> seq_r (map_err_r h (on_conn (commit_transaction eng))) (return_r a)
      | Inl e \<Rightarrow> seq_r (map_err_r h (on_conn (rollback_transaction eng))) (throw_r e)) db2 =
        (Inr a, db')"
    by (auto simp: diesel_transaction_def seq_r_Inr_iff bind_r_Inr_iff try_r_iff)
  from rest have c: "on_conn (commit_transaction eng) db2 = (Inr (), db')" and r: "r = Inr a"
    by (auto simp: seq_r_Inr_iff split: sum.splits)
  show ?thesis
    using that [OF m [unfolded r]] b c begin_Inr commit_Inr
    by (auto simp: on_conn_def split: prod.splits)
qed

lemma remember_id_Inr:
  assumes "(if w then return_r () else on_cache (cache_put i name)) db = (Inr u, db')"
    and "db_ok view db" "(i, name) \<in> set (collections (view (conn db)))"
  shows "conn db' = conn db" "session db' = session db" "db_ok view db'"
proof -
  have cases: "w \<and> db' = db \<or> \<not> w \<and> on_cache (cache_put i name) db = (Inr u, db')"
    using assms(1) by (cases w) auto
  show c: "conn db' = conn db" "session db' = session db"
    using cases by (auto simp: on_cache_def split: prod.splits)
  have "cache_ok (view (conn db)) (coll_cache db')"
    using cases assms(2,3) cache_all_put [of _ "coll_cache db" i name]
    by (auto simp: on_cache_def db_ok_def cache_ok_def split: prod.splits)
  then show "db_ok view db'"
    using assms(2) c by (simp add: db_ok_def)
qed

lemma get_collection_id_Inr:
  assumes "get_collection_id eng name db = (Inr c, db')" "db_ok view db"
  shows "collection_ids (view (conn db)) name = Some c" "view (conn db') = view (conn db)"
    "session db' = session db" "saved (conn db') = saved (conn db)" "db_ok view db'"
proof -
  obtain cached where cached: "cache_get_id (coll_cache db) name = Inr cached"
    and rest: "(case cached of
      Some i \<Rightarrow> return_r i
    | None \<Rightarrow> bind_r (sql_load eng NoLock (SELECT_COLLECTION_ID name))
        (\<lambda>rows. case first_row rows of
           None \<Rightarrow> throw_r (db_error_of CollectionNotFound)
         | Some i \<Rightarrow> bind_r (get_r (\<lambda>db. in_write_transaction (session db)))
             (\<lambda>w. seq_r (if w then return_r () else on_cache (cache_put i name)) (return_r i)))) db
      = (Inr c, db')"
    using assms(1) by (auto simp: get_collection_id_def bind_r_Inr_iff)
  have wf: "wf_tables (view (conn db))"
    using assms(2) by (rule db_ok_wf)
  have "collection_ids (view (conn db)) name = Some c \<and> view (conn db') = view (conn db) \<and>
    session db' = session db \<and> saved (conn db') = saved (conn db) \<and> db_ok view db'"
  proof (cases cached)
    case (Some i)
    then have "(c, name) \<in> set (collections (view (conn db)))" "db' = db"
      using cached rest assms(2) by (auto simp: db_ok_def cache_ok_def dest: cache_all_get_id)
    then show ?thesis
      using assms(2) wf by (simp add: collection_ids_iff)
  next
    case None
    with rest obtain rows db1 where load: "sql_load eng NoLock (SELECT_COLLECTION_ID name) db = (Inr rows, db1)"
      and first: "first_row rows = Some c"
      and put: "(if in_write_transaction (session db1) then return_r ()
        else on_cache (cache_put c name)) db1 = (Inr (), db')"
      by (auto simp: bind_r_Inr_iff seq_r_Inr_iff split: option.splits)
    obtain t where t: "rows = SELECT_COLLECTION_ID name t" "same_rows t (view (conn db))"
      "view (conn db1) = view (conn db)" "quiet saved db db1"
      using sql_load_Inr [OF load] by blast
    have "collection_ids (view (conn db)) name = Some c"
      using first select_collection_id [OF same_rows_wf [OF t(2) wf]]
      by (auto simp: t(1) collection_ids_def first_row_def swap_lookup_cong [OF t(2) wf]
          split: option.splits)
    moreover from this have "(c, name) \<in> set (collections (view (conn db1)))"
      using wf by (simp add: collection_ids_iff t(3))
    moreover have "db_ok view db1"
      using quiet_db_ok [OF t(4) assms(2)] assms(2) by (simp add: t(3) db_ok_def)
    ultimately show ?thesis
      using remember_id_Inr [OF put] t(3,4) by (simp add: quiet_def)
  qed
  then show "collection_ids (view (conn db)) name = Some c" "view (conn db') = view (conn db)"
    "session db' = session db" "saved (conn db') = saved (conn db)" "db_ok view db'"
    by blast+
qed

text \<open>A collection id that is created changes nothing of what the users stored.\<close>

lemma get_or_create_collection_id_Inr:
  assumes "get_or_create_collection_id eng name db = (Inr c, db')" "db_ok view db"
  shows "view (conn db') = view (conn db) \<and> collection_ids (view (conn db)) name = Some c \<or>
      view (conn db') = with_collection c name (view (conn db)) \<and>
      c \<notin> fst ` set (collections (view (conn db))) \<and> c \<noteq> TOMBSTONE \<and>
      name \<notin> snd ` set (collections (view (conn db)))"
    and "session db' = session db" "saved (conn db') = saved (conn db)" "db_ok view db'"
proof -
  let ?t = "view (conn db)"
  have wf: "wf_tables ?t"
    using assms(2) by (rule db_ok_wf)
  obtain cached where cached: "cache_get_id (coll_cache db) name = Inr cached"
    using assms(1) by (auto simp: get_or_create_collection_id_def bind_r_Inr_iff)
  have "(view (conn db') = ?t \<and> collection_ids ?t name = Some c \<or>
      view (conn db') = with_collection c name ?t \<and> c \<notin> fst ` set (collections ?t) \<and>
      c \<noteq> TOMBSTONE \<and> name \<notin> snd ` set (collections ?t)) \<and>
    session db' = session db \<and> saved (conn db') = saved (conn db) \<and> db_ok view db'"
  proof (cases cached)
    case (Some i)
    then have "(c, name) \<in> set (collections ?t)" "db' = db"
      using cached assms by (auto simp: get_or_create_collection_id_def bind_r_Inr_iff db_ok_def
          cache_ok_def dest: cache_all_get_id)
    then show ?thesis
      using assms(2) wf by (simp add: collection_ids_iff)
  next
    case None
    let ?body = "seq_r (sql_execute eng (INSERT_IGNORE_COLLECTION name))
      (bind_r (sql_query eng NoLock (SELECT_COLLECTION_ID name))
        (\<lambda>rows. case first_row rows of
           Some i \<Rightarrow> return_r i
         | None \<Rightarrow> throw_r (OtherDieselError ''NotFound'')))"
    from assms(1) cached None obtain db1
      where tx: "diesel_transaction eng id ?body db = (Inr c, db1)"
        and put: "(if in_write_transaction (session db1) then return_r ()
          else on_cache (cache_put c name)) db1 = (Inr (), db')"
      by (auto simp: get_or_create_collection_id_def bind_r_Inr_iff seq_r_Inr_iff)
    obtain dba dbb where body: "?body dba = (Inr c, dbb)" and a: "view (conn dba) = ?t"
      "saved (conn dba) = ?t # saved (conn db)" "session dba = session db"
      "coll_cache dba = coll_cache db"
      and b: "view (conn db1) = view (conn dbb)" "saved (conn db1) = tl (saved (conn dbb))"
      "session db1 = session dbb" "coll_cache db1 = coll_cache dbb"
      using transaction_Inr [OF tx] by metis
    from body obtain n dbi rows where ins: "sql_execute eng (INSERT_IGNORE_COLLECTION name) dba = (Inr n, dbi)"
      and sel: "sql_query eng NoLock (SELECT_COLLECTION_ID name) dbi = (Inr rows, dbb)"
      and first: "first_row rows = Some c"
      by (auto simp: seq_r_Inr_iff bind_r_Inr_iff split: option.splits)
    obtain k where k: "FIRST_CUSTOM_COLLECTION_ID \<le> k" "k \<notin> fst ` set (collections ?t)"
      "INSERT_IGNORE_COLLECTION name k ?t = Inr (n, view (conn dbi))" "quiet saved dba dbi"
      using sql_execute_Inr [OF ins] a(1) by metis
    obtain t where t: "rows = SELECT_COLLECTION_ID name t" "same_rows t (view (conn dbi))"
      "view (conn dbb) = view (conn dbi)" "quiet saved dbi dbb"
      using sql_query_Inr [OF sel] by blast
    have nt: "k \<noteq> TOMBSTONE"
      using k(1) by (simp add: FIRST_CUSTOM_COLLECTION_ID_def TOMBSTONE_def)
    have ins_view: "view (conn dbi) = ?t \<and> name \<in> snd ` set (collections ?t) \<or>
        view (conn dbi) = with_collection k name ?t \<and> name \<notin> snd ` set (collections ?t)"
      using k(3) by (auto simp: INSERT_IGNORE_COLLECTION_def with_collection_def split: if_splits)
    have ok: "tables_ok (view (conn dbi))"
      using ins_view with_collection(1) [OF db_ok_tables [OF assms(2)] k(2) nt]
        db_ok_tables [OF assms(2)] by auto
    then have wfi: "wf_tables (view (conn dbi))"
      by (simp add: tables_ok_def)
    have idc: "collection_ids (view (conn dbi)) name = Some c"
      using first select_collection_id [OF same_rows_wf [OF t(2) wfi]]
      by (auto simp: t(1) collection_ids_def first_row_def swap_lookup_cong [OF t(2) wfi]
          split: option.splits)
    have q: "quiet saved dba dbb"
      using k(4) t(4) by (rule quiet_trans)
    have sub: "set (collections ?t) \<subseteq> set (collections (view (conn dbi)))"
      using ins_view by (auto simp: with_collection_def)
    have ok1: "db_ok view db1"
      using assms(2) ok q a b sub by (auto simp: db_ok_def quiet_def t(3) elim: cache_ok_mono)
    have "(c, name) \<in> set (collections (view (conn db1)))"
      using idc wfi by (simp add: collection_ids_iff b(1) t(3))
    from remember_id_Inr [OF put ok1 this]
    have "db_ok view db'" "conn db' = conn db1" "session db' = session db1"
      by simp_all
    moreover have "view (conn dbi) = ?t \<and> collection_ids ?t name = Some c \<or>
        view (conn dbi) = with_collection c name ?t \<and> c \<notin> fst ` set (collections ?t) \<and>
        c \<noteq> TOMBSTONE \<and> name \<notin> snd ` set (collections ?t)"
      using ins_view idc k(2) nt with_collection(2) [OF db_ok_tables [OF assms(2)] k(2) nt]
      by (cases "name \<in> snd ` set (collections ?t)") simp_all
    ultimately show ?thesis
      using a b q by (simp add: quiet_def t(3))
  qed
  then show "view (conn db') = ?t \<and> collection_ids ?t name = Some c \<or>
      view (conn db') = with_collection c name ?t \<and> c \<notin> fst ` set (collections ?t) \<and>
      c \<noteq> TOMBSTONE \<and> name \<notin> snd ` set (collections ?t)"
    "session db' = session db" "saved (conn db') = saved (conn db)" "db_ok view db'"
    by blast+
qed

text \<open>What the callers use.\<close>

lemma get_or_create_effect:
  assumes "get_or_create_collection_id eng name db = (Inr c, db')" "db_ok view db"
  shows "collection_ids (view (conn db')) name = Some c"
    "stored (view (conn db')) = stored (view (conn db))"
    "last_changed (view (conn db')) = last_changed (view (conn db))"
    "batches (view (conn db')) = batches (view (conn db))"
    "user_collections (view (conn db')) = user_collections (view (conn db))"
    "map_of (collections (view (conn db'))) c \<noteq> None"
proof -
  note r = get_or_create_collection_id_Inr [OF assms]
  note w = with_collection [OF db_ok_tables [OF assms(2)]]
  show id: "collection_ids (view (conn db')) name = Some c"
    using r(1) w(2) by auto
  show "stored (view (conn db')) = stored (view (conn db))"
    "last_changed (view (conn db')) = last_changed (view (conn db))"
    "batches (view (conn db')) = batches (view (conn db))"
    "user_collections (view (conn db')) = user_collections (view (conn db))"
    using r(1) w(3,4) by (auto simp: with_collection_sel)
  show "map_of (collections (view (conn db'))) c \<noteq> None"
    using id collection_ids_known db_ok_wf [OF r(4)] by blast
qed

end

end
