(* ===== verification/Mysql_Refinement.thy ===== *)
theory Mysql_Refinement
  imports Mysql_Effects
begin

text \<open>
  The MySQL operations refine an abstract store: on success each writing operation is an
  update of the stored BSOs of the user and of the time its collection last changed, and each
  reading operation answers from them. The contract of the connection is the only hypothesis
  on it.
\<close>

text \<open>The users as the code casts them.\<close>

definition user_of :: "hawk_identifier \<Rightarrow> int" where
  "user_of hawk = u64_as_i64 (legacy_id hawk)"

definition touched_user_of :: "hawk_identifier \<Rightarrow> int" where
  "touched_user_of hawk = uint (u64_as_u32 (legacy_id hawk))"

definition update_at :: "('a \<Rightarrow> 'b \<Rightarrow> 'c) \<Rightarrow> 'a \<Rightarrow> 'b \<Rightarrow> 'c \<Rightarrow> 'a \<Rightarrow> 'b \<Rightarrow> 'c" where
  "update_at f a b v = f(a := (f a)(b := v))"

lemma last_changed_update:
  assumes "wf_tables t" "collection_ids t name = Some c" "collections t' = collections t"
    and "map_of (user_collections t') = (map_of (user_collections t))((u, c) := v)"
  shows "last_changed t' = update_at (last_changed t) u name v"
proof (intro ext)
  fix u' name'
  have ids: "collection_ids t' = collection_ids t"
    by (simp add: collection_ids_def assms(3))
  show "last_changed t' u' name' = update_at (last_changed t) u name v u' name'"
  proof (cases "collection_ids t name'")
    case None
    then show ?thesis
      using assms(2) by (auto simp: last_changed_def ids update_at_def)
  next
    case (Some c')
    have "c' = c \<longleftrightarrow> name' = name"
      using collection_ids_inj assms(1,2) Some by auto
    then show ?thesis
      by (auto simp: last_changed_def ids Some assms(2,4) update_at_def)
  qed
qed

text \<open>The session and the open transactions are as before.\<close>

definition same_session :: "('c \<Rightarrow> tables list) \<Rightarrow> 'c mysql_db \<Rightarrow> 'c mysql_db \<Rightarrow> bool" where
  "same_session saved db db' \<longleftrightarrow>
     session db' = session db \<and> saved (conn db') = saved (conn db)"

context sql_connection
begin

lemma touch_collection_Inr:
  assumes "touch_collection eng user_id c db = (Inr ts, db')" "db_ok view db"
    and "c = TOMBSTONE \<or> map_of (collections (view (conn db))) c \<noteq> None"
  shows "ts = db_timestamp db" "db_ok view db'" "same_session saved db db'"
    "collections (view (conn db')) = collections (view (conn db))"
    "stored (view (conn db')) = stored (view (conn db))"
    "batches (view (conn db')) = batches (view (conn db))"
    "map_of (user_collections (view (conn db'))) =
      (map_of (user_collections (view (conn db))))((uint user_id, c) \<mapsto> as_i64 ts)"
proof -
  obtain n where ts: "ts = db_timestamp db" and run:
    "sql_run eng (UPSERT_USER_COLLECTION (uint user_id) c (as_i64 ts)) db = (Inr n, db')"
    using assms(1) by (auto simp: touch_collection_def bind_r_Inr_iff seq_r_Inr_iff)
  obtain k where k: "UPSERT_USER_COLLECTION (uint user_id) c (as_i64 ts) k (view (conn db)) =
      Inr (n, view (conn db'))" and q: "quiet saved db db'"
    using sql_run_Inr [OF run] by blast
  note e = upsert_user_collection_effect [OF db_ok_tables [OF assms(2)] k assms(3)]
  show "ts = db_timestamp db" by (rule ts)
  show "db_ok view db'"
    using quiet_db_ok [OF q assms(2)] e by simp
  show "same_session saved db db'"
    using q by (simp add: quiet_def same_session_def)
  show "collections (view (conn db')) = collections (view (conn db))"
    "stored (view (conn db')) = stored (view (conn db))"
    "batches (view (conn db')) = batches (view (conn db))"
    "map_of (user_collections (view (conn db'))) =
      (map_of (user_collections (view (conn db))))((uint user_id, c) \<mapsto> as_i64 ts)"
    by (rule e)+
qed

text \<open>A collection of the user is marked as changed now.\<close>

lemma touch_named_collection_Inr:
  assumes "touch_collection eng user_id c db = (Inr ts, db')" "db_ok view db"
    and "collection_ids (view (conn db)) name = Some c"
  shows "ts = db_timestamp db" "db_ok view db'" "same_session saved db db'"
    "stored (view (conn db')) = stored (view (conn db))"
    "batches (view (conn db')) = batches (view (conn db))"
    "last_changed (view (conn db')) =
      update_at (last_changed (view (conn db))) (uint user_id) name (Some (as_i64 ts))"
    "collections (view (conn db')) = collections (view (conn db))"
proof -
  have "map_of (collections (view (conn db))) c \<noteq> None"
    using assms(3) collection_ids_known db_ok_wf [OF assms(2)] by blast
  note e = touch_collection_Inr [OF assms(1,2) disjI2 [OF this]]
  show "ts = db_timestamp db" "db_ok view db'" "same_session saved db db'"
    "stored (view (conn db')) = stored (view (conn db))"
    "batches (view (conn db')) = batches (view (conn db))"
    by (rule e)+
  show "last_changed (view (conn db')) =
      update_at (last_changed (view (conn db))) (uint user_id) name (Some (as_i64 ts))"
    by (rule last_changed_update [OF db_ok_wf [OF assms(2)] assms(3) e(4,7)])
  show "collections (view (conn db')) = collections (view (conn db))"
    by (rule e(4))
qed

lemma put_bso_Inr:
  assumes "put_bso_sync eng bso db = (Inr ts, db')" "db_ok view db"
  defines "hawk \<equiv> pp_user_id bso"
  shows "ts = db_timestamp db" "db_ok view db'" "same_session saved db db'"
    "stored (view (conn db')) = (stored (view (conn db)))
      (user_of hawk := abs_put bso (as_i64 ts) (stored (view (conn db)) (user_of hawk)))"
    "last_changed (view (conn db')) = update_at (last_changed (view (conn db)))
      (touched_user_of hawk) (pp_collection bso) (Some (as_i64 ts))"
    "batches (view (conn db')) = batches (view (conn db))"
    "set (collections (view (conn db))) \<subseteq> set (collections (view (conn db')))"
proof -
  let ?now = "as_i64 (db_timestamp db)"
  let ?upsert = "\<lambda>c. UPSERT_BSO (user_of hawk, c, pp_id bso) (put_bso_row bso ?now)
    (pp_sortindex bso \<noteq> None) (pp_payload bso \<noteq> None) (pp_ttl bso \<noteq> None)
    (pp_payload bso \<noteq> None \<or> pp_sortindex bso \<noteq> None)"
  let ?body = "\<lambda>c. seq_r (sql_run eng (?upsert c))
    (touch_collection eng (u64_as_u32 (legacy_id hawk)) c)"
  obtain c db1 where create: "get_or_create_collection_id eng (pp_collection bso) db = (Inr c, db1)"
    by (use assms(1) in \<open>auto simp: put_bso_sync_def bind_r_Inr_iff\<close>)
  note g = get_or_create_collection_id_Inr [OF create assms(2)]
  note ge = get_or_create_effect [OF create assms(2)]
  have now: "db_timestamp db1 = db_timestamp db"
    using g(2) by (simp add: db_timestamp_def)
  have tx: "diesel_transaction eng db_error_of_diesel (?body c) db1 = (Inr ts, db')"
    using assms(1) create
    by (simp add: put_bso_sync_def bind_r_Inr_iff Let_def now user_of_def hawk_def)
  obtain dba dbb where body: "?body c dba = (Inr ts, dbb)"
    and a: "view (conn dba) = view (conn db1)"
      "saved (conn dba) = view (conn db1) # saved (conn db1)" "session dba = session db1"
      "coll_cache dba = coll_cache db1"
    and b: "view (conn db') = view (conn dbb)" "saved (conn db') = tl (saved (conn dbb))"
      "session db' = session dbb" "coll_cache db' = coll_cache dbb"
    using transaction_Inr [OF tx] by metis
  obtain n dbi where up: "sql_run eng (?upsert c) dba = (Inr n, dbi)"
    and touch: "touch_collection eng (u64_as_u32 (legacy_id hawk)) c dbi = (Inr ts, dbb)"
    using body by (auto simp: seq_r_Inr_iff)
  obtain k where k: "?upsert c k (view (conn db1)) = Inr (n, view (conn dbi))"
    and q: "quiet saved dba dbi"
    using sql_run_Inr [OF up] a(1) by metis
  note u = upsert_bso_effect [OF db_ok_tables [OF g(4)] ge(1) k]
  have oka: "db_ok view dba"
    using g(4) a by (simp add: db_ok_def)
  have oki: "db_ok view dbi"
    using quiet_db_ok [OF q oka] u(1,2) a(1) by simp
  have ids: "collection_ids (view (conn dbi)) (pp_collection bso) = Some c"
    using ge(1) u(2) by (simp add: collection_ids_def)
  note t = touch_named_collection_Inr [OF touch oki ids]
  show ts: "ts = db_timestamp db"
    using t(1) q a(3) now by (simp add: quiet_def db_timestamp_def)
  show "db_ok view db'"
    using t(2) b by (simp add: db_ok_def)
  show "same_session saved db db'"
    using t(3) q a b g(2,3) by (simp add: same_session_def quiet_def)
  show "stored (view (conn db')) = (stored (view (conn db)))
      (user_of hawk := abs_put bso (as_i64 ts) (stored (view (conn db)) (user_of hawk)))"
    using t(4) u(5) ge(2) by (simp add: b(1) ts)
  show "last_changed (view (conn db')) = update_at (last_changed (view (conn db)))
      (touched_user_of hawk) (pp_collection bso) (Some (as_i64 ts))"
    using t(6) u(2,4) ge(3) last_changed_cong [of "view (conn dbi)" "view (conn db1)"]
    by (simp add: b(1) touched_user_of_def)
  show "batches (view (conn db')) = batches (view (conn db))"
    using t(5) u(3) ge(4) by (simp add: b(1))
  show "set (collections (view (conn db))) \<subseteq> set (collections (view (conn db')))"
    using g(1) u(2) t(7) by (auto simp: b(1) with_collection_def)
qed

end

section \<open>Reading\<close>

text \<open>How a row is shown to the client.\<close>

definition bso_view :: "string \<Rightarrow> bso_row \<Rightarrow> get_bso_result" where
  "bso_view i r =
     \<lparr>gb_id = i, gb_modified = from_milliseconds (i64_as_u64 (b_modified r)),
      gb_payload = b_payload r, gb_sortindex = b_sortindex r, gb_expiry = b_expiry r\<rparr>"

lemma get_bso_of_row_Inr: "get_bso_of_row (i, r) = Inr b \<Longrightarrow> b = bso_view i r \<and> 0 \<le> b_modified r"
  by (auto simp: get_bso_of_row_def bso_view_def ts_from_sql_def ts_from_i64_def
      split: sum.splits if_splits)

lemma collect_bso_rows:
  "collect_r (map get_bso_of_row rows) = Inr bs \<Longrightarrow> bs = map (\<lambda>(i, r). bso_view i r) rows"
  by (drule collect_r_Inr, induction rows arbitrary: bs) (auto dest: get_bso_of_row_Inr)

lemma same_rows_keyed_bsos: "same_rows t t' \<Longrightarrow> wf_tables t' \<Longrightarrow> keyed (bsos t)"
  using same_rows_wf by (auto simp: wf_tables_def)

context sql_connection
begin

lemma load_same_session:
  assumes "sql_load eng m q db = (Inr a, db')" "db_ok view db"
  shows "view (conn db') = view (conn db)" "same_session saved db db'" "db_ok view db'"
proof -
  obtain t where t: "view (conn db') = view (conn db)" "quiet saved db db'"
    using sql_load_Inr [OF assms(1)] by blast
  show "view (conn db') = view (conn db)" "same_session saved db db'"
    using t by (simp_all add: quiet_def same_session_def)
  show "db_ok view db'"
    using quiet_db_ok [OF t(2) assms(2)] assms(2) by (simp add: t(1) db_ok_def)
qed

lemma get_bso_Inr:
  assumes "get_bso_sync eng hawk coll i db = (Inr res, db')" "db_ok view db"
  shows "res = (case stored (view (conn db)) (user_of hawk) coll i of
      None \<Rightarrow> None
    | Some r \<Rightarrow> if b_expiry r \<ge> as_i64 (db_timestamp db) then Some (bso_view i r) else None)"
    "view (conn db') = view (conn db)" "same_session saved db db'" "db_ok view db'"
proof -
  let ?u = "user_of hawk"
  obtain c db1 where id: "get_collection_id eng coll db = (Inr c, db1)"
    using assms(1) by (auto simp: get_bso_sync_def bind_r_Inr_iff Let_def)
  note g = get_collection_id_Inr [OF id assms(2)]
  let ?now = "as_i64 (db_timestamp db)"
  let ?q = "\<lambda>t. [(j, r). ((u, d, j), r) \<leftarrow> bsos t,
    u = ?u \<and> d = c \<and> j = i \<and> b_expiry r \<ge> ?now]"
  have now: "db_timestamp db1 = db_timestamp db"
    using g(3) by (simp add: db_timestamp_def)
  obtain rows db2 where load: "sql_load eng NoLock ?q db1 = (Inr rows, db2)"
    and rest: "(case first_row rows of
        None \<Rightarrow> return_r None
      | Some row \<Rightarrow> bind_r (lift_r (map_sum db_error_of_diesel id (get_bso_of_row row)))
          (\<lambda>b. return_r (Some b))) db2 = (Inr res, db')"
    using assms(1) id by (auto simp: get_bso_sync_def bind_r_Inr_iff Let_def user_of_def now)
  obtain t where t: "rows = ?q t" "same_rows t (view (conn db1))"
    using sql_load_Inr [OF load] by blast
  note l = load_same_session [OF load g(5)]
  have db': "db' = db2"
    using rest by (auto simp: bind_r_Inr_iff split: option.splits)
  have wf: "wf_tables (view (conn db1))"
    using g(5) by (rule db_ok_wf)
  have rows: "rows = (case stored (view (conn db)) ?u coll i of
      None \<Rightarrow> [] | Some r \<Rightarrow> if b_expiry r \<ge> ?now then [(i, r)] else [])"
    unfolding t(1) select_bso [OF same_rows_keyed_bsos [OF t(2) wf]]
    using g(1,2) same_rows_lookup(3) [OF t(2) wf] by (simp add: stored_def)
  show "res = (case stored (view (conn db)) ?u coll i of
      None \<Rightarrow> None | Some r \<Rightarrow> if b_expiry r \<ge> ?now then Some (bso_view i r) else None)"
    using rest unfolding rows
    by (auto simp: first_row_def bind_r_Inr_iff map_sum_Inr_iff dest: get_bso_of_row_Inr
        split: option.splits if_splits)
  show "view (conn db') = view (conn db)" "same_session saved db db'" "db_ok view db'"
    using l g by (simp_all add: db' same_session_def)
qed

end

section \<open>Deleting and posting\<close>

definition abs_delete ::
  "string \<Rightarrow> string set \<Rightarrow> (string \<Rightarrow> string \<rightharpoonup> bso_row) \<Rightarrow> (string \<Rightarrow> string \<rightharpoonup> bso_row)" where
  "abs_delete coll is st = st(coll := (\<lambda>i. if i \<in> is then None else st coll i))"

lemma stored_delete:
  assumes "wf_tables t" "collection_ids t name = Some c" "collections t' = collections t"
    and "\<And>v d i. map_of (bsos t') (v, d, i) =
      (if v = u \<and> d = c \<and> i \<in> is then None else map_of (bsos t) (v, d, i))"
  shows "stored t' = (stored t)(u := abs_delete name is (stored t u))"
proof (intro ext)
  fix u' name' i'
  have ids: "collection_ids t' = collection_ids t"
    by (simp add: collection_ids_def assms(3))
  show "stored t' u' name' i' = ((stored t)(u := abs_delete name is (stored t u))) u' name' i'"
  proof (cases "collection_ids t name'")
    case None
    then show ?thesis
      using assms(2) by (auto simp: stored_def ids abs_delete_def)
  next
    case (Some c')
    have "c' = c \<longleftrightarrow> name' = name"
      using collection_ids_inj assms(1,2) Some by auto
    then show ?thesis
      by (auto simp: stored_def ids Some assms(2,4) abs_delete_def)
  qed
qed

text \<open>
  A posted list whose BSOs were all stored is the puts, one after the other.
\<close>

definition abs_post ::
  "hawk_identifier \<Rightarrow> string \<Rightarrow> int \<Rightarrow> post_collection_bso list \<Rightarrow>
     (string \<Rightarrow> string \<rightharpoonup> bso_row) \<Rightarrow> (string \<Rightarrow> string \<rightharpoonup> bso_row)" where
  "abs_post hawk coll now pbsos st =
     fold (\<lambda>b. abs_put (put_of_post hawk coll b) now) pbsos st"

context sql_connection
begin

text \<open>One deleting statement on a collection of the user.\<close>

lemma run_delete_bso:
  assumes "sql_run eng (DELETE_BSO P) db = (Inr n, db')" "db_ok view db"
    and "collection_ids (view (conn db)) coll = Some c"
    and "\<And>v d i r. map_of (bsos (view (conn db))) (v, d, i) = Some r \<Longrightarrow>
      P v d i r \<longleftrightarrow> v = u \<and> d = c \<and> i \<in> is"
  shows "db_ok view db'" "quiet saved db db'"
    "collections (view (conn db')) = collections (view (conn db))"
    "user_collections (view (conn db')) = user_collections (view (conn db))"
    "batches (view (conn db')) = batches (view (conn db))"
    "stored (view (conn db')) = (stored (view (conn db)))
      (u := abs_delete coll is (stored (view (conn db)) u))"
proof -
  obtain k where k: "DELETE_BSO P k (view (conn db)) = Inr (n, view (conn db'))"
    and q: "quiet saved db db'"
    using sql_run_Inr [OF assms(1)] by blast
  note d = delete_bso_effect [OF db_ok_tables [OF assms(2)] k]
  show "quiet saved db db'" by (rule q)
  show "db_ok view db'"
    using quiet_db_ok [OF q assms(2)] d(1,2) by simp
  show "collections (view (conn db')) = collections (view (conn db))"
    "user_collections (view (conn db')) = user_collections (view (conn db))"
    "batches (view (conn db')) = batches (view (conn db))"
    by (rule d)+
  have "map_of (bsos (view (conn db'))) (v, e, i) =
      (if v = u \<and> e = c \<and> i \<in> is then None else map_of (bsos (view (conn db))) (v, e, i))" for v e i
    unfolding d(5) using assms(4) by (auto split: option.splits)
  then show "stored (view (conn db')) = (stored (view (conn db)))
      (u := abs_delete coll is (stored (view (conn db)) u))"
    by (rule stored_delete [OF db_ok_wf [OF assms(2)] assms(3) d(2)])
qed

lemma delete_bsos_Inr:
  assumes "delete_bsos_sync eng hawk coll is db = (Inr ts, db')" "db_ok view db"
  shows "ts = db_timestamp db" "db_ok view db'" "same_session saved db db'"
    "stored (view (conn db')) = (stored (view (conn db)))
      (user_of hawk := abs_delete coll (set is) (stored (view (conn db)) (user_of hawk)))"
    "last_changed (view (conn db')) = update_at (last_changed (view (conn db)))
      (touched_user_of hawk) coll (Some (as_i64 ts))"
    "batches (view (conn db')) = batches (view (conn db))"
proof -
  obtain c db1 n db2 where id: "get_collection_id eng coll db = (Inr c, db1)"
    and del: "sql_run eng (DELETE_BSO (\<lambda>u d i r. u = user_of hawk \<and> d = c \<and> i \<in> set is)) db1 =
      (Inr n, db2)"
    and touch: "touch_collection eng (u64_as_u32 (legacy_id hawk)) c db2 = (Inr ts, db')"
    using assms(1)
    by (auto simp: delete_bsos_sync_def bind_r_Inr_iff seq_r_Inr_iff Let_def user_of_def)
  note g = get_collection_id_Inr [OF id assms(2)]
  have c: "collection_ids (view (conn db1)) coll = Some c"
    using g(1,2) by simp
  have d: "db_ok view db2" "quiet saved db1 db2"
    "collections (view (conn db2)) = collections (view (conn db1))"
    "user_collections (view (conn db2)) = user_collections (view (conn db1))"
    "batches (view (conn db2)) = batches (view (conn db1))"
    "stored (view (conn db2)) = (stored (view (conn db1)))
      (user_of hawk := abs_delete coll (set is) (stored (view (conn db1)) (user_of hawk)))"
    by (rule run_delete_bso [OF del g(5) c], rule refl)+
  have c2: "collection_ids (view (conn db2)) coll = Some c"
    using c d(3) by (simp add: collection_ids_def)
  note t = touch_named_collection_Inr [OF touch d(1) c2]
  show "ts = db_timestamp db"
    using t(1) d(2) g(3) by (simp add: quiet_def db_timestamp_def)
  show "db_ok view db'" by (rule t)
  show "same_session saved db db'"
    using t(3) d(2) g(3,4) by (simp add: same_session_def quiet_def)
  show "stored (view (conn db')) = (stored (view (conn db)))
      (user_of hawk := abs_delete coll (set is) (stored (view (conn db)) (user_of hawk)))"
    using t(4) d(6) g(2) by simp
  show "last_changed (view (conn db')) = update_at (last_changed (view (conn db)))
      (touched_user_of hawk) coll (Some (as_i64 ts))"
    using t(6) last_changed_cong [OF d(3,4)] g(2) by (simp add: touched_user_of_def)
  show "batches (view (conn db')) = batches (view (conn db))"
    using t(5) d(5) g(2) by simp
qed

lemma delete_bso_Inr:
  assumes "delete_bso_sync eng hawk coll i db = (Inr ts, db')" "db_ok view db"
  shows "ts = db_timestamp db" "db_ok view db'" "same_session saved db db'"
    "stored (view (conn db')) = (stored (view (conn db)))
      (user_of hawk := abs_delete coll {i} (stored (view (conn db)) (user_of hawk)))"
    "last_changed (view (conn db')) = update_at (last_changed (view (conn db)))
      (touched_user_of hawk) coll (Some (as_i64 ts))"
    "\<exists>r. stored (view (conn db)) (user_of hawk) coll i = Some r \<and> b_expiry r > as_i64 ts"
proof -
  let ?now = "as_i64 (db_timestamp db)"
  let ?P = "\<lambda>c u d j r. u = user_of hawk \<and> d = c \<and> j = i \<and> b_expiry r > ?now"
  obtain c db1 where id: "get_collection_id eng coll db = (Inr c, db1)"
    using assms(1) by (auto simp: delete_bso_sync_def bind_r_Inr_iff Let_def)
  note g = get_collection_id_Inr [OF id assms(2)]
  have now: "db_timestamp db1 = db_timestamp db"
    using g(3) by (simp add: db_timestamp_def)
  obtain n db2 where del: "sql_run eng (DELETE_BSO (?P c)) db1 = (Inr n, db2)" and n: "n \<noteq> 0"
    and touch: "touch_collection eng (u64_as_u32 (legacy_id hawk)) c db2 = (Inr ts, db')"
    using assms(1) id
    by (auto simp: delete_bso_sync_def bind_r_Inr_iff Let_def user_of_def now split: if_splits)
  have c: "collection_ids (view (conn db1)) coll = Some c"
    using g(1,2) by simp
  obtain k where k: "DELETE_BSO (?P c) k (view (conn db1)) = Inr (n, view (conn db2))"
    using sql_run_Inr [OF del] by blast
  obtain r where r: "((user_of hawk, c, i), r) \<in> set (bsos (view (conn db1)))" "b_expiry r > ?now"
    using n delete_bso_effect(6) [OF db_ok_tables [OF g(5)] k] by auto
  have key: "keyed (bsos (view (conn db1)))"
    using db_ok_wf [OF g(5)] by (simp add: wf_tables_def)
  with r(1) have row: "map_of (bsos (view (conn db1))) (user_of hawk, c, i) = Some r"
    by (simp add: keyed_in_set)
  have P: "?P c v d j q \<longleftrightarrow> v = user_of hawk \<and> d = c \<and> j \<in> {i}"
    if "map_of (bsos (view (conn db1))) (v, d, j) = Some q" for v d j q
    using that row r(2) by auto
  have d: "db_ok view db2" "quiet saved db1 db2"
    "collections (view (conn db2)) = collections (view (conn db1))"
    "user_collections (view (conn db2)) = user_collections (view (conn db1))"
    "batches (view (conn db2)) = batches (view (conn db1))"
    "stored (view (conn db2)) = (stored (view (conn db1)))
      (user_of hawk := abs_delete coll {i} (stored (view (conn db1)) (user_of hawk)))"
    by (rule run_delete_bso [OF del g(5) c P], assumption)+
  have c2: "collection_ids (view (conn db2)) coll = Some c"
    using c d(3) by (simp add: collection_ids_def)
  note t = touch_named_collection_Inr [OF touch d(1) c2]
  show ts: "ts = db_timestamp db"
    using t(1) d(2) g(3) by (simp add: quiet_def db_timestamp_def)
  show "db_ok view db'" by (rule t)
  show "same_session saved db db'"
    using t(3) d(2) g(3,4) by (simp add: same_session_def quiet_def)
  show "stored (view (conn db')) = (stored (view (conn db)))
      (user_of hawk := abs_delete coll {i} (stored (view (conn db)) (user_of hawk)))"
    using t(4) d(6) g(2) by simp
  show "last_changed (view (conn db')) = update_at (last_changed (view (conn db)))
      (touched_user_of hawk) coll (Some (as_i64 ts))"
    using t(6) last_changed_cong [OF d(3,4)] g(2) by (simp add: touched_user_of_def)
  show "\<exists>r. stored (view (conn db)) (user_of hawk) coll i = Some r \<and> b_expiry r > as_i64 ts"
    using row r(2) g(1,2) by (simp add: stored_def ts)
qed

lemma put_each_success:
  assumes "put_each eng hawk coll pbsos result db = (Inr result', db')"
  shows "pr_modified result' = pr_modified result"
    "\<exists>ids. pr_success result' = pr_success result @ ids \<and> length ids \<le> length pbsos"
  using assms
proof (induction pbsos arbitrary: result db)
  case (Cons b pbsos)
  { case 1
    then obtain r db1 where
      "put_each eng hawk coll pbsos (note_put (pb_id b) r result) db1 = (Inr result', db')"
      by (auto simp: bind_r_Inr_iff)
    from Cons.IH(1) [OF this] show ?case
      by (cases r) (auto simp: note_put_def)
  next
    case 2
    then obtain r db1 where
      "put_each eng hawk coll pbsos (note_put (pb_id b) r result) db1 = (Inr result', db')"
      by (auto simp: bind_r_Inr_iff)
    from Cons.IH(2) [OF this] show ?case
      by (cases r) (auto simp: note_put_def intro: le_SucI)
  }
qed simp_all

lemma put_each_Inr:
  assumes "put_each eng hawk coll pbsos result db = (Inr result', db')" "db_ok view db"
    and "pr_success result' = pr_success result @ map pb_id pbsos"
  defines "now \<equiv> as_i64 (db_timestamp db)"
  shows "db_ok view db'" "same_session saved db db'" "pr_failed result' = pr_failed result"
    "stored (view (conn db')) = (stored (view (conn db)))
      (user_of hawk := abs_post hawk coll now pbsos (stored (view (conn db)) (user_of hawk)))"
    "batches (view (conn db')) = batches (view (conn db))"
    "set (collections (view (conn db))) \<subseteq> set (collections (view (conn db')))"
proof -
  have "db_ok view db' \<and> same_session saved db db' \<and> pr_failed result' = pr_failed result \<and>
    stored (view (conn db')) = (stored (view (conn db)))
      (user_of hawk := abs_post hawk coll now pbsos (stored (view (conn db)) (user_of hawk))) \<and>
    batches (view (conn db')) = batches (view (conn db)) \<and>
    set (collections (view (conn db))) \<subseteq> set (collections (view (conn db')))"
    using assms(1-3) unfolding now_def
  proof (induction pbsos arbitrary: result db)
    case Nil
    then show ?case
      by (simp add: same_session_def abs_post_def)
  next
    case (Cons b pbsos)
    obtain r db1 where put: "put_bso_sync eng (put_of_post hawk coll b) db = (r, db1)"
      and rest: "put_each eng hawk coll pbsos (note_put (pb_id b) r result) db1 = (Inr result', db')"
      using Cons.prems(1) by (auto simp: bind_r_Inr_iff try_r_iff)
    obtain ts where r: "r = Inr ts"
    proof (cases r)
      case (Inl e)
      then show ?thesis
        using put_each_success(2) [OF rest] Cons.prems(3) by (auto simp: note_put_def)
    qed auto
    note p = put_bso_Inr [OF put [unfolded r] Cons.prems(2)]
    have u: "pp_user_id (put_of_post hawk coll b) = hawk"
      by (simp add: put_of_post_def)
    have now: "db_timestamp db1 = db_timestamp db"
      using p(3) by (simp add: same_session_def db_timestamp_def)
    show ?case
      using Cons.IH [OF rest [unfolded r note_put_def, simplified] p(2)] Cons.prems(3) p(1,3,4,6,7)
      by (auto simp: same_session_def abs_post_def now u cong: if_cong)
  qed
  then show "db_ok view db'" "same_session saved db db'" "pr_failed result' = pr_failed result"
    "stored (view (conn db')) = (stored (view (conn db)))
      (user_of hawk := abs_post hawk coll now pbsos (stored (view (conn db)) (user_of hawk)))"
    "batches (view (conn db')) = batches (view (conn db))"
    "set (collections (view (conn db))) \<subseteq> set (collections (view (conn db')))"
    by blast+
qed

lemma post_bsos_Inr:
  assumes "post_bsos_sync eng hawk coll pbsos failed db = (Inr result, db')" "db_ok view db"
    and "pr_success result = map pb_id pbsos"
  defines "now \<equiv> db_timestamp db"
  shows "db_ok view db'" "same_session saved db db'" "pr_modified result = now"
    "pr_failed result = failed"
    "stored (view (conn db')) = (stored (view (conn db)))
      (user_of hawk :=
        abs_post hawk coll (as_i64 now) pbsos (stored (view (conn db)) (user_of hawk)))"
    "last_changed (view (conn db')) (touched_user_of hawk) coll = Some (as_i64 now)"
    "batches (view (conn db')) = batches (view (conn db))"
    "set (collections (view (conn db))) \<subseteq> set (collections (view (conn db')))"
proof -
  obtain c db1 where create: "get_or_create_collection_id eng coll db = (Inr c, db1)"
    using assms(1) by (auto simp: post_bsos_sync_def bind_r_Inr_iff)
  note g = get_or_create_collection_id_Inr [OF create assms(2)]
  note ge = get_or_create_effect [OF create assms(2)]
  have n1: "db_timestamp db1 = now"
    using g(2) by (simp add: db_timestamp_def now_def)
  obtain db2 where each: "put_each eng hawk coll pbsos
      \<lparr>pr_modified = now, pr_success = [], pr_failed = failed\<rparr> db1 = (Inr result, db2)"
    and touch: "\<exists>ts. touch_collection eng (u64_as_u32 (legacy_id hawk)) c db2 = (Inr ts, db')"
    using assms(1) create by (auto simp: post_bsos_sync_def bind_r_Inr_iff seq_r_Inr_iff n1)
  obtain ts where ts: "touch_collection eng (u64_as_u32 (legacy_id hawk)) c db2 = (Inr ts, db')"
    using touch by blast
  have "pr_success result = pr_success \<lparr>pr_modified = now, pr_success = [], pr_failed = failed\<rparr> @
      map pb_id pbsos"
    using assms(3) by simp
  note e = put_each_Inr [OF each g(4) this]
  have "(c, coll) \<in> set (collections (view (conn db2)))"
    using e(6) ge(1) db_ok_wf [OF g(4)] by (auto simp: collection_ids_iff)
  then have c2: "collection_ids (view (conn db2)) coll = Some c"
    using db_ok_wf [OF e(1)] by (simp add: collection_ids_iff)
  note t = touch_named_collection_Inr [OF ts e(1) c2]
  have ts_now: "ts = now"
    using t(1) e(2) n1 by (simp add: same_session_def db_timestamp_def)
  show "db_ok view db'" by (rule t)
  show "same_session saved db db'"
    using t(3) e(2) g(2,3) by (simp add: same_session_def)
  show "pr_modified result = now"
    using put_each_success(1) [OF each] by simp
  show "pr_failed result = failed"
    using e(3) by simp
  show "stored (view (conn db')) = (stored (view (conn db)))
      (user_of hawk :=
        abs_post hawk coll (as_i64 now) pbsos (stored (view (conn db)) (user_of hawk)))"
    using t(4) e(4) ge(2) by (simp add: n1)
  show "last_changed (view (conn db')) (touched_user_of hawk) coll = Some (as_i64 now)"
    using t(6) by (simp add: update_at_def touched_user_of_def ts_now)
  show "batches (view (conn db')) = batches (view (conn db))"
    using t(5) e(5) ge(4) by simp
  show "set (collections (view (conn db))) \<subseteq> set (collections (view (conn db')))"
    using g(1) e(6) t(7) by (auto simp: with_collection_def)
qed

end

end
