(* ===== verification/Mysql_Locks.thy ===== *)
theory Mysql_Locks
  imports Mysql_Refinement
begin

text \<open>
  Locks, whole-collection deletion and timestamps of the MySQL session when they succeed.
\<close>

text \<open>The timestamp a stored modification time stands for.\<close>

definition shown_ts :: "int \<Rightarrow> sync_timestamp" where
  "shown_ts m = from_milliseconds (i64_as_u64 m)"

lemma ts_from_i64_Inr: "ts_from_i64 m = Inr ts \<longleftrightarrow> 0 \<le> m \<and> ts = shown_ts m"
  by (auto simp: ts_from_i64_def shown_ts_def)

context sql_connection
begin

lemma db_begin_Inr:
  assumes "db_begin eng w db = (Inr u, db')" "db_ok view db"
  shows "view (conn db') = view (conn db)" "saved (conn db') = view (conn db) # saved (conn db)"
    "db_ok view db'" "in_transaction (session db')"
    "in_write_transaction (session db') \<longleftrightarrow> w \<or> in_write_transaction (session db)"
    "coll_locks (session db') = coll_locks (session db)"
    "coll_modified_cache (session db') = coll_modified_cache (session db)"
    "db_timestamp db' = db_timestamp db"
  using assms begin_Inr
  by (auto simp: db_begin_def seq_r_Inr_iff on_conn_def on_session_def db_ok_def db_timestamp_def
      split: prod.splits if_splits)

lemma on_session_Inr:
  "on_session f db = (r, db') \<longleftrightarrow> r = Inr () \<and> db' = db\<lparr>session := f (session db)\<rparr>"
  by (auto simp: on_session_def)

lemma select_modified_lookup:
  assumes "same_rows t t'" "wf_tables t'" "collection_ids t' name = Some c"
  shows "first_row (SELECT_COLLECTION_MODIFIED u c t) = last_changed t' u name"
  using assms same_rows_wf [OF assms(1,2)] same_rows_lookup(2) [OF assms(1,2)]
  by (simp add: select_collection_modified wf_tables_def first_row_def last_changed_def
      split: option.split)

lemma lock_for_write_Inr:
  assumes "lock_for_write_sync eng hawk coll db = (Inr u, db')" "db_ok view db"
  shows "db_ok view db'"
    "stored (view (conn db')) = stored (view (conn db))"
    "last_changed (view (conn db')) = last_changed (view (conn db))"
    "saved (conn db') = view (conn db') # saved (conn db)"
    "in_transaction (session db')" "in_write_transaction (session db')"
    "db_timestamp db' = db_timestamp db"
    "\<exists>c. collection_ids (view (conn db')) coll = Some c \<and>
      coll_locks (session db') = (coll_locks (session db))
        ((u64_as_u32 (legacy_id hawk), c) \<mapsto> WriteLock) \<and>
      coll_locks (session db) (u64_as_u32 (legacy_id hawk), c) \<noteq> Some ReadLock"
    "\<forall>m. last_changed (view (conn db)) (user_of hawk) coll = Some m \<longrightarrow>
      0 \<le> m \<and> shown_ts m < db_timestamp db"
    "batches (view (conn db')) = batches (view (conn db))"
proof -
  let ?key = "\<lambda>c. (u64_as_u32 (legacy_id hawk), c)"
  obtain c db1 where create: "get_or_create_collection_id eng coll db = (Inr c, db1)"
    using assms(1) by (auto simp: lock_for_write_sync_def Let_def bind_r_Inr_iff)
  note g = get_or_create_collection_id_Inr [OF create assms(2)]
  note ge = get_or_create_effect [OF create assms(2)]
  let ?check = "\<lambda>rows. case first_row rows of
      None \<Rightarrow> return_r ()
    | Some m \<Rightarrow> bind_r (lift_r (ts_from_i64 m))
        (\<lambda>modified. bind_r (get_r db_timestamp)
          (\<lambda>now. if modified \<ge> now then throw_r (db_error_of Conflict)
             else on_session (\<lambda>s. s\<lparr>coll_modified_cache :=
               (coll_modified_cache s)
                 ((i64_as_u32 (u64_as_i64 (legacy_id hawk)), c) \<mapsto> modified)\<rparr>)))"
  have lock: "coll_locks (session db) (?key c) \<noteq> Some ReadLock"
    using assms(1) create g(2)
    by (auto simp: lock_for_write_sync_def Let_def bind_r_Inr_iff split: if_splits)
  obtain db2 rows db3 db4 where b: "db_begin eng True db1 = (Inr (), db2)"
    and load: "sql_load eng ForUpdate (SELECT_COLLECTION_MODIFIED (user_of hawk) c) db2 = (Inr rows, db3)"
    and check: "?check rows db3 = (Inr (), db4)"
    and set: "on_session (\<lambda>s. s\<lparr>coll_locks := (coll_locks s)(?key c \<mapsto> WriteLock)\<rparr>) db4 = (Inr u, db')"
    using assms(1) create
    by (auto simp: lock_for_write_sync_def Let_def bind_r_Inr_iff seq_r_Inr_iff user_of_def
        split: if_splits)
  note bb = db_begin_Inr [OF b g(4)]
  note l = load_same_session [OF load bb(3)]
  obtain t where t: "rows = SELECT_COLLECTION_MODIFIED (user_of hawk) c t" "same_rows t (view (conn db2))"
    using sql_load_Inr [OF load] by blast
  have id2: "collection_ids (view (conn db2)) coll = Some c"
    using ge(1) bb(1) by simp
  have first: "first_row rows = last_changed (view (conn db2)) (user_of hawk) coll"
    unfolding t(1) by (rule select_modified_lookup [OF t(2) db_ok_wf [OF bb(3)] id2])
  have now: "db_timestamp db3 = db_timestamp db"
    using l(2) bb(8) g(2) by (simp add: same_session_def db_timestamp_def)
  show "\<forall>m. last_changed (view (conn db)) (user_of hawk) coll = Some m \<longrightarrow>
      0 \<le> m \<and> shown_ts m < db_timestamp db"
    using check first bb(1) ge(3) now
    by (auto simp: bind_r_Inr_iff ts_from_i64_Inr split: if_splits)
  have s4: "conn db4 = conn db3" "coll_cache db4 = coll_cache db3"
    "coll_locks (session db4) = coll_locks (session db3)"
    "in_transaction (session db4) = in_transaction (session db3)"
    "in_write_transaction (session db4) = in_write_transaction (session db3)"
    "ss_timestamp (session db4) = ss_timestamp (session db3)"
    using check by (auto simp: bind_r_Inr_iff on_session_Inr split: option.splits if_splits)
  have db': "db' = db4\<lparr>session := (session db4)\<lparr>coll_locks :=
      (coll_locks (session db4))(?key c \<mapsto> WriteLock)\<rparr>\<rparr>"
    using set by (simp add: on_session_Inr)
  have v: "view (conn db') = view (conn db1)"
    using s4(1) l(1) bb(1) by (simp add: db')
  show "db_ok view db'"
    using l(3) s4 by (simp add: db' db_ok_def)
  show "stored (view (conn db')) = stored (view (conn db))"
    "last_changed (view (conn db')) = last_changed (view (conn db))"
    "batches (view (conn db')) = batches (view (conn db))"
    using v ge by simp_all
  show "saved (conn db') = view (conn db') # saved (conn db)"
    using v s4(1) l(2) bb(2) g(3) by (simp add: db' same_session_def)
  show "in_transaction (session db')" "in_write_transaction (session db')"
    "db_timestamp db' = db_timestamp db"
    using s4 l(2) bb now by (simp_all add: db' same_session_def db_timestamp_def)
  show "\<exists>c. collection_ids (view (conn db')) coll = Some c \<and>
      coll_locks (session db') = (coll_locks (session db))(?key c \<mapsto> WriteLock) \<and>
      coll_locks (session db) (?key c) \<noteq> Some ReadLock"
    using v ge(1) lock s4(3) l(2) bb(6) g(2)
    by (intro exI [of _ c]) (simp add: db' same_session_def)
qed

end

section \<open>Deleting whole collections and storages\<close>

lemma delete_user_collections_effect:
  assumes "tables_ok t" "DELETE_USER_COLLECTIONS P k t = Inr (n, t')"
  shows "tables_ok t'" "collections t' = collections t" "batches t' = batches t"
    "bsos t' = bsos t"
    "map_of (user_collections t') (u, c) =
      (if P u c then None else map_of (user_collections t) (u, c))"
proof -
  have t': "t' = t\<lparr>user_collections :=
      filter (\<lambda>(k, r). (\<lambda>(u, c). \<not> P u c) k) (user_collections t)\<rparr>"
    using assms(2) by (auto simp: DELETE_USER_COLLECTIONS_def case_prod_unfold)
  show look: "map_of (user_collections t') (u, c) =
      (if P u c then None else map_of (user_collections t) (u, c))" for u c
    unfolding t' using map_of_filter_key [of "\<lambda>(u, c). \<not> P u c" "user_collections t" "(u, c)"]
    by simp
  show same: "collections t' = collections t" "batches t' = batches t" "bsos t' = bsos t"
    by (simp_all add: t')
  have "refs_ok t'"
    using assms(1) unfolding tables_ok_def refs_ok_def look same by simp
  moreover have "wf_tables t'"
    using assms(1) by (simp add: t' tables_ok_def wf_tables_def)
  ultimately show "tables_ok t'"
    by (simp add: tables_ok_def)
qed

text \<open>The latest change of any collection of the user, 0 when there is none.\<close>

definition storage_modified :: "tables \<Rightarrow> int \<Rightarrow> int" where
  "storage_modified t u =
     Max (insert 0 (set [m. ((v, c), m) \<leftarrow> user_collections t, v = u]))"

lemma user_collection_rows_set:
  "set [m. ((v, c), m) \<leftarrow> rows, v = u] = {m. \<exists>c. ((u, c), m) \<in> set rows}"
  by force

lemma storage_modified_ge:
  assumes "map_of (user_collections t) (u, c) = Some m"
  shows "m \<le> storage_modified t u"
  unfolding storage_modified_def user_collection_rows_set
proof (intro Max_ge)
  show "m \<in> insert 0 {m. \<exists>c. ((u, c), m) \<in> set (user_collections t)}"
    using map_of_SomeD [OF assms] by blast
  have "finite (set [m. ((v, c), m) \<leftarrow> user_collections t, v = u])" by (rule finite_set)
  then show "finite (insert 0 {m. \<exists>c. ((u, c), m) \<in> set (user_collections t)})"
    unfolding user_collection_rows_set by simp
qed

context sql_connection
begin

lemma get_storage_timestamp_Inr:
  assumes "get_storage_timestamp_sync eng hawk db = (Inr ts, db')" "db_ok view db"
  shows "ts = shown_ts (storage_modified (view (conn db)) (user_of hawk))"
    "view (conn db') = view (conn db)" "same_session saved db db'" "db_ok view db'"
proof -
  let ?q = "\<lambda>t. [m. ((u, c), m) \<leftarrow> user_collections t, u = user_of hawk]"
  obtain ms db1 where load: "sql_load eng NoLock ?q db = (Inr ms, db1)"
    and ts: "ts_from_i64 (if ms = [] then 0 else Max (set ms)) = Inr ts" and db': "db' = db1"
    using assms(1) by (auto simp: get_storage_timestamp_sync_def Let_def bind_r_Inr_iff user_of_def)
  obtain t where t: "ms = ?q t" "same_rows t (view (conn db))"
    using sql_load_Inr [OF load] by blast
  have "set ms = set (?q (view (conn db)))"
    unfolding t(1) user_collection_rows_set same_rows_set(2) [OF t(2)] ..
  then have m: "storage_modified (view (conn db)) (user_of hawk) = Max (insert 0 (set ms))"
    by (simp add: storage_modified_def)
  have "(if ms = [] then 0 else Max (set ms)) = Max (insert 0 (set ms))"
    using ts by (cases "ms = []") (auto simp: ts_from_i64_Inr max_def)
  then show "ts = shown_ts (storage_modified (view (conn db)) (user_of hawk))"
    using ts by (simp only: m ts_from_i64_Inr)
  show "view (conn db') = view (conn db)" "same_session saved db db'" "db_ok view db'"
    using load_same_session [OF load assms(2)] by (simp_all add: db')
qed

lemma run_delete_user_collections:
  assumes "sql_run eng (DELETE_USER_COLLECTIONS P) db = (Inr n, db')" "db_ok view db"
  shows "db_ok view db'" "quiet saved db db'"
    "collections (view (conn db')) = collections (view (conn db))"
    "stored (view (conn db')) = stored (view (conn db))"
    "batches (view (conn db')) = batches (view (conn db))"
    "map_of (user_collections (view (conn db'))) (u, c) =
      (if P u c then None else map_of (user_collections (view (conn db))) (u, c))"
proof -
  obtain k where k: "DELETE_USER_COLLECTIONS P k (view (conn db)) = Inr (n, view (conn db'))"
    and q: "quiet saved db db'"
    using sql_run_Inr [OF assms(1)] by blast
  note d = delete_user_collections_effect [OF db_ok_tables [OF assms(2)] k]
  show "quiet saved db db'" by (rule q)
  show "db_ok view db'"
    using quiet_db_ok [OF q assms(2)] d(1,2) by simp
  show "collections (view (conn db')) = collections (view (conn db))"
    "batches (view (conn db')) = batches (view (conn db))"
    "map_of (user_collections (view (conn db'))) (u, c) =
      (if P u c then None else map_of (user_collections (view (conn db))) (u, c))"
    by (rule d)+
  show "stored (view (conn db')) = stored (view (conn db))"
    using d(2,4) by (rule stored_cong)
qed

lemma delete_collection_Inr:
  assumes "delete_collection_sync eng hawk coll db = (Inr ts, db')" "db_ok view db"
  defines "now \<equiv> as_i64 (db_timestamp db)"
  shows "db_ok view db'" "same_session saved db db'"
    "stored (view (conn db')) = (stored (view (conn db)))
      (user_of hawk := abs_delete coll UNIV (stored (view (conn db)) (user_of hawk)))"
    "last_changed (view (conn db')) (user_of hawk) coll = None"
    "map_of (user_collections (view (conn db'))) (i64_as_i32 (user_of hawk), TOMBSTONE) = Some now"
    "ts = shown_ts (storage_modified (view (conn db')) (user_of hawk))"
proof -
  let ?u = "user_of hawk"
  obtain c db1 n db2 m db3 db4 where id: "get_collection_id eng coll db = (Inr c, db1)"
    and del: "sql_run eng (DELETE_BSO (\<lambda>u d i r. u = ?u \<and> d = c)) db1 = (Inr n, db2)"
    and delc: "sql_run eng (DELETE_USER_COLLECTIONS (\<lambda>u d. u = ?u \<and> d = c)) db2 = (Inr m, db3)"
    and tomb: "erect_tombstone eng (i64_as_i32 ?u) db3 = (Inr (), db4)"
    and get: "get_storage_timestamp_sync eng hawk db4 = (Inr ts, db')"
    using assms(1)
    by (auto simp: delete_collection_sync_def bind_r_Inr_iff seq_r_Inr_iff Let_def user_of_def
        split: if_splits)
  note g = get_collection_id_Inr [OF id assms(2)]
  have c: "collection_ids (view (conn db1)) coll = Some c"
    using g(1,2) by simp
  have P: "v = ?u \<and> d = c \<longleftrightarrow> v = ?u \<and> d = c \<and> i \<in> UNIV" for v d and i :: string
    by simp
  note d = run_delete_bso [OF del g(5) c P]
  note e = run_delete_user_collections [OF delc d(1)]
  obtain k where run: "sql_run eng (UPSERT_USER_COLLECTION (i64_as_i32 ?u) TOMBSTONE
      (as_i64 (db_timestamp db3))) db3 = (Inr k, db4)"
    using tomb by (auto simp: erect_tombstone_def bind_r_Inr_iff seq_r_Inr_iff)
  obtain j where j: "UPSERT_USER_COLLECTION (i64_as_i32 ?u) TOMBSTONE (as_i64 (db_timestamp db3)) j
      (view (conn db3)) = Inr (k, view (conn db4))" and q: "quiet saved db3 db4"
    using sql_run_Inr [OF run] by blast
  note t = upsert_user_collection_effect [OF db_ok_tables [OF e(1)] j disjI1 [OF refl]]
  have ok4: "db_ok view db4"
    using quiet_db_ok [OF q e(1)] t(1,2) by simp
  note s = get_storage_timestamp_Inr [OF get ok4]
  have now: "as_i64 (db_timestamp db3) = now"
    using g(3) d(2) e(2) by (simp add: now_def db_timestamp_def quiet_def)
  show "db_ok view db'" by (rule s)
  show "same_session saved db db'"
    using g(3,4) d(2) e(2) q s(3) by (simp add: same_session_def quiet_def)
  show "stored (view (conn db')) = (stored (view (conn db)))
      (?u := abs_delete coll UNIV (stored (view (conn db)) ?u))"
    using s(2) t(3) e(4) d(6) g(2) by simp
  have ids: "collection_ids (view (conn db')) coll = Some c"
    using c s(2) t(2) e(3) d(3) by (simp add: collection_ids_def)
  have "c \<noteq> TOMBSTONE"
    using collection_ids_tombstone [OF db_ok_tables [OF g(5)], of coll] c by auto
  then show "last_changed (view (conn db')) ?u coll = None"
    using ids s(2) t(4) e(6) by (simp add: last_changed_def)
  show "map_of (user_collections (view (conn db'))) (i64_as_i32 ?u, TOMBSTONE) = Some now"
    using s(2) t(4) by (simp add: now)
  show "ts = shown_ts (storage_modified (view (conn db')) ?u)"
    using s(1,2) by simp
qed

lemma delete_storage_Inr:
  assumes "delete_storage_sync eng hawk db = (Inr u, db')" "db_ok view db"
  shows "db_ok view db'" "same_session saved db db'"
    "stored (view (conn db')) = (stored (view (conn db))) (user_of hawk := (\<lambda>_ _. None))"
    "map_of (user_collections (view (conn db'))) (v, c) =
      (if v = user_of hawk then None else map_of (user_collections (view (conn db))) (v, c))"
    "batches (view (conn db')) = batches (view (conn db))"
proof -
  let ?u = "user_of hawk"
  obtain n db1 m where del: "sql_run eng (DELETE_BSO (\<lambda>u d i r. u = ?u)) db = (Inr n, db1)"
    and delc: "sql_run eng (DELETE_USER_COLLECTIONS (\<lambda>u d. u = ?u)) db1 = (Inr m, db')"
    using assms(1)
    by (auto simp: delete_storage_sync_def seq_r_Inr_iff Let_def user_of_def)
  obtain k where k: "DELETE_BSO (\<lambda>u d i r. u = ?u) k (view (conn db)) = Inr (n, view (conn db1))"
    and q: "quiet saved db db1"
    using sql_run_Inr [OF del] by blast
  note d = delete_bso_effect [OF db_ok_tables [OF assms(2)] k]
  have ok1: "db_ok view db1"
    using quiet_db_ok [OF q assms(2)] d(1,2) by simp
  note e = run_delete_user_collections [OF delc ok1]
  show "db_ok view db'" by (rule e)
  show "same_session saved db db'"
    using q e(2) by (simp add: same_session_def quiet_def)
  have "stored (view (conn db1)) = (stored (view (conn db))) (?u := (\<lambda>_ _. None))"
    using d(2,5)
    by (auto simp: stored_def collection_ids_def fun_eq_iff split: option.split)
  then show "stored (view (conn db')) = (stored (view (conn db))) (?u := (\<lambda>_ _. None))"
    using e(4) by simp
  show "map_of (user_collections (view (conn db'))) (v, c) =
      (if v = ?u then None else map_of (user_collections (view (conn db))) (v, c))"
    using e(6) d(4) by simp
  show "batches (view (conn db')) = batches (view (conn db))"
    using e(5) d(3) by simp
qed

end

end
