(* ===== verification/Batch_Codec.thy ===== *)
theory Batch_Codec
  imports Mysql_Batch
begin

text \<open>
  Round trips of batch ids and batch strings, for every codec that meets its contract, and a
  codec that meets it: hexadecimal text in place of base64 and JSON.
\<close>

lemma show_int_ascii: "is_ascii (show_int k)"
proof -
  have "list_all is_digit (show_nat n)" for n
    using show_nat_props by blast
  then have "is_ascii (show_nat n)" for n
    unfolding is_ascii_def by (metis (no_types, lifting) is_ascii_digit list_all_iff)
  then show ?thesis
    by (auto simp: show_int_def is_ascii_def byte_in_def)
qed

context codec
begin

lemma decode_encode_id:
  assumes "- (2 ^ 63) \<le> i" "i < 2 ^ 63"
  shows "decode_id cd (encode_id cd i) = Inr i"
  using parse_i64_show_int [OF assms] is_utf8_ascii [OF show_int_ascii]
  by (simp add: decode_id_def encode_id_def base64_roundtrip)

lemma bsos_to_batch_string_lines:
  assumes "list_all wf_post_bso bs"
  obtains ss where "map (bso_to_json cd) bs = map Inr ss"
    "bsos_to_batch_string cd bs = Inr (unlines ss)"
proof -
  have "\<exists>ss. map (bso_to_json cd) bs = map Inr ss"
    using assms by (induction bs) (auto dest!: json_total, metis list.simps(9))
  then obtain ss where ss: "map (bso_to_json cd) bs = map Inr ss" by blast
  have "map (\<lambda>b. map_sum h id (bso_to_json cd b)) bs = map Inr ss" for h :: "string \<Rightarrow> db_error"
    using ss by (induction bs arbitrary: ss) (auto simp: Cons_eq_map_conv)
  moreover have "bs = [] \<longleftrightarrow> ss = []"
    using ss by auto
  ultimately have "bsos_to_batch_string cd bs = Inr (unlines ss)"
    unfolding bsos_to_batch_string_def by (simp add: join_newline)
  with ss that show ?thesis by blast
qed

lemma lines_to_bsos:
  assumes "list_all wf_post_bso bs" "map (bso_to_json cd) bs = map Inr ss"
  shows "batch_string_to_bsos cd (unlines ss) = Inr bs"
proof -
  have "\<forall>l \<in> set ss. newline \<notin> set l \<and> carriage_return \<notin> set l"
    using assms by (induction bs arbitrary: ss) (auto simp: Cons_eq_map_conv dest: json_one_line)
  then have "str_lines (unlines ss) = ss"
    by (rule str_lines_unlines)
  moreover have "map (\<lambda>l. map_sum h id (bso_from_json cd l)) ss = map Inr bs"
    for h :: "string \<Rightarrow> db_error"
    using assms
    by (induction bs arbitrary: ss) (auto simp: Cons_eq_map_conv dest: json_roundtrip)
  ultimately show ?thesis
    by (simp add: batch_string_to_bsos_def)
qed

text \<open>Appending batch strings is appending the lists.\<close>

lemma batch_string_append:
  assumes "list_all wf_post_bso bs" "list_all wf_post_bso cs"
    and "bsos_to_batch_string cd bs = Inr s" "bsos_to_batch_string cd cs = Inr t"
  shows "batch_string_to_bsos cd (s @ t) = Inr (bs @ cs)"
proof -
  obtain ss where ss: "map (bso_to_json cd) bs = map Inr ss" "s = unlines ss"
    using bsos_to_batch_string_lines [OF assms(1)] assms(3) by auto
  obtain ts where ts: "map (bso_to_json cd) cs = map Inr ts" "t = unlines ts"
    using bsos_to_batch_string_lines [OF assms(2)] assms(4) by auto
  have "batch_string_to_bsos cd (unlines (ss @ ts)) = Inr (bs @ cs)"
    using assms(1,2) ss(1) ts(1) by (intro lines_to_bsos) simp_all
  then show ?thesis
    by (simp add: ss(2) ts(2))
qed

lemma batch_string_roundtrip:
  assumes "list_all wf_post_bso bs"
  shows "\<exists>s. bsos_to_batch_string cd bs = Inr s \<and> batch_string_to_bsos cd s = Inr bs"
  using bsos_to_batch_string_lines [OF assms] lines_to_bsos [OF assms] by metis

end

section \<open>A codec that meets the contract\<close>

definition hex_char :: "char \<Rightarrow> string" where
  "hex_char c = [char_of (65 + of_char c div 16 :: nat), char_of (65 + of_char c mod 16 :: nat)]"

definition hex_encode :: "string \<Rightarrow> string" where
  "hex_encode s = concat (map hex_char s)"

fun hex_decode :: "string \<Rightarrow> string" where
  "hex_decode (a # b # s) =
     char_of ((of_char a - 65) * 16 + (of_char b - 65) :: nat) # hex_decode s"
| "hex_decode s = []"

definition field_of :: "('a \<Rightarrow> string) \<Rightarrow> 'a option \<Rightarrow> string" where
  "field_of sh x = (case x of None \<Rightarrow> [] | Some a \<Rightarrow> CHR ''='' # sh a)"

definition of_field :: "(string \<Rightarrow> 'a) \<Rightarrow> string \<Rightarrow> 'a option" where
  "of_field rd s = (case s of [] \<Rightarrow> None | _ # a \<Rightarrow> Some (rd a))"

definition line_of_bso :: "post_collection_bso \<Rightarrow> string" where
  "line_of_bso b =
     hex_encode (pb_id b) @ CHR '';'' # field_of show_int (pb_sortindex b) @ CHR '';'' #
     field_of hex_encode (pb_payload b) @ CHR '';'' # field_of (\<lambda>n. show_int (int n)) (pb_ttl b)"

definition bso_of_line :: "string \<Rightarrow> string + post_collection_bso" where
  "bso_of_line s =
     (case split_at CHR '';'' s of
        [i, k, p, t] \<Rightarrow>
          Inr \<lparr>pb_id = hex_decode i, pb_sortindex = of_field (\<lambda>x. the (parse_i64 x)) k,
               pb_payload = of_field hex_decode p,
               pb_ttl = of_field (\<lambda>x. nat (the (parse_i64 x))) t\<rparr>
      | _ \<Rightarrow> Inl ''malformed'')"

definition text_codec :: batch_codec where
  "text_codec =
     \<lparr>base64_encode = hex_encode, base64_decode = (\<lambda>s. Some (hex_decode s)),
      bso_to_json = (\<lambda>b. Inr (line_of_bso b)), bso_from_json = bso_of_line\<rparr>"

lemma of_char_less: "(of_char c :: nat) < 256"
  by (metis mod_less_divisor of_char_mod_256 zero_less_numeral)

lemma hex_roundtrip [simp]: "hex_decode (hex_encode s) = s"
proof (induction s)
  case (Cons c s)
  have "(of_char c :: nat) < 256"
    by (rule of_char_less)
  then have "(of_char c :: nat) div 16 < 16" "(of_char c :: nat) mod 16 < 16"
    by (simp_all add: less_mult_imp_div_less)
  then show ?case
    using Cons by (simp add: hex_encode_def hex_char_def)
qed (simp add: hex_encode_def)

lemma hex_chars: "c \<in> set (hex_encode s) \<Longrightarrow> 65 \<le> (of_char c :: nat)"
proof (induction s)
  case (Cons d s)
  have "(of_char d :: nat) < 256"
    by (rule of_char_less)
  then have "(of_char d :: nat) div 16 < 16"
    by (simp add: less_mult_imp_div_less)
  with Cons show ?case
    by (auto simp: hex_encode_def hex_char_def)
qed (simp add: hex_encode_def)

lemma show_int_chars: "c \<in> set (show_int k) \<Longrightarrow> c = CHR ''-'' \<or> is_digit c"
proof -
  have "list_all is_digit (show_nat n)" for n
    using show_nat_props by blast
  then show "c \<in> set (show_int k) \<Longrightarrow> c = CHR ''-'' \<or> is_digit c"
    by (auto simp: show_int_def list_all_iff split: if_splits)
qed

lemma field_chars:
  assumes "\<And>a. c \<notin> set (sh a)" "c \<noteq> CHR ''=''"
  shows "c \<notin> set (field_of sh x)"
  using assms by (simp add: field_of_def split: option.split)

lemma not_hex: "(of_char c :: nat) < 65 \<Longrightarrow> c \<notin> set (hex_encode s)"
  using hex_chars by fastforce

lemma not_int: "c \<noteq> CHR ''-'' \<Longrightarrow> \<not> is_digit c \<Longrightarrow> c \<notin> set (show_int k)"
  using show_int_chars by blast

interpretation hex: codec text_codec
proof
  fix b s
  assume b: "wf_post_bso b" and s: "bso_to_json text_codec b = Inr s"
  have s': "s = line_of_bso b"
    using s by (simp add: text_codec_def)
  have "split_at CHR '';'' s = [hex_encode (pb_id b), field_of show_int (pb_sortindex b),
      field_of hex_encode (pb_payload b), field_of (\<lambda>n. show_int (int n)) (pb_ttl b)]"
    by (simp add: s' line_of_bso_def split_at_append split_at_none field_chars not_hex not_int
        is_digit_def)
  moreover have "of_field (\<lambda>x. the (parse_i64 x)) (field_of show_int (pb_sortindex b)) = pb_sortindex b"
    using b parse_i64_show_int
    by (auto simp: of_field_def field_of_def wf_post_bso_def split: option.splits)
  moreover have "of_field hex_decode (field_of hex_encode (pb_payload b)) = pb_payload b"
    by (simp add: of_field_def field_of_def split: option.split)
  moreover have "of_field (\<lambda>x. nat (the (parse_i64 x))) (field_of (\<lambda>n. show_int (int n)) (pb_ttl b)) =
      pb_ttl b"
    using b parse_i64_show_int
    by (auto simp: of_field_def field_of_def wf_post_bso_def split: option.splits)
  ultimately show "bso_from_json text_codec s = Inr b"
    by (simp add: text_codec_def bso_of_line_def)
  show "newline \<notin> set s \<and> carriage_return \<notin> set s"
    by (simp add: s' line_of_bso_def field_chars not_hex not_int is_digit_def)
qed (simp_all add: text_codec_def)

end
