(* ===== verification/Mysql_Batch_Facts.thy ===== *)
theory Mysql_Batch_Facts
  imports Mysql_Locks Batch_Codec
begin

text \<open>
  The life of a batch in the tables: what creating, appending to, reading, deleting and
  committing it do when they succeed.
\<close>

text \<open>The batch \<open>i\<close> of the user holds the BSOs \<open>bs\<close> until \<open>e\<close>.\<close>

definition batch_holds ::
  "batch_codec \<Rightarrow> tables \<Rightarrow> int \<Rightarrow> string \<Rightarrow> int \<Rightarrow> post_collection_bso list \<Rightarrow> int \<Rightarrow> bool" where
  "batch_holds cd t u name i bs e \<longleftrightarrow>
     list_all wf_post_bso bs \<and>
     (\<exists>c ss. collection_ids t name = Some c \<and> map (bso_to_json cd) bs = map Inr ss \<and>
        map_of (batches t) (u, c, i) = Some \<lparr>bt_bsos = unlines ss, bt_expiry = e\<rparr>)"

definition batch_absent :: "tables \<Rightarrow> int \<Rightarrow> string \<Rightarrow> int \<Rightarrow> bool" where
  "batch_absent t u name i \<longleftrightarrow>
     (\<forall>c. collection_ids t name = Some c \<longrightarrow> map_of (batches t) (u, c, i) = None)"

text \<open>Statements on the batches leave the rest alone.\<close>

definition only_batches :: "tables \<Rightarrow> tables \<Rightarrow> bool" where
  "only_batches t t' \<longleftrightarrow>
     collections t' = collections t \<and> user_collections t' = user_collections t \<and> bsos t' = bsos t"

lemma only_batches_eqs:
  assumes "only_batches t t'"
  shows "collections t' = collections t" "collection_ids t' = collection_ids t"
    "stored t' = stored t" "last_changed t' = last_changed t"
    "refs_ok t' = refs_ok t"
  using assms stored_cong [of t' t] last_changed_cong [of t' t]
  by (auto simp: only_batches_def collection_ids_def refs_ok_def)

lemma insert_batch_effect:
  assumes "INSERT_BATCH key s e k t = Inr (n, t')" "tables_ok t"
  shows "only_batches t t'" "tables_ok t'" "map_of (batches t) key = None"
    "map_of (batches t') = (map_of (batches t))(key \<mapsto> \<lparr>bt_bsos = s, bt_expiry = e\<rparr>)"
proof -
  have new: "key \<notin> fst ` set (batches t)"
    and t': "t' = t\<lparr>batches := batches t @ [(key, \<lparr>bt_bsos = s, bt_expiry = e\<rparr>)]\<rparr>"
    using assms(1) by (auto simp: INSERT_BATCH_def split: if_splits)
  show "only_batches t t'"
    by (simp add: t' only_batches_def)
  show "map_of (batches t) key = None"
    using new by (simp add: map_of_eq_None_iff)
  then show "map_of (batches t') = (map_of (batches t))(key \<mapsto> \<lparr>bt_bsos = s, bt_expiry = e\<rparr>)"
    by (auto simp: t' map_add_def fun_eq_iff split: option.split)
  have "refs_ok t'"
    using assms(2) only_batches_eqs(5) [of t t'] by (simp add: t' only_batches_def tables_ok_def)
  then show "tables_ok t'"
    using assms(2) new by (auto simp: t' tables_ok_def wf_tables_def keyed_def)
qed

lemma append_batch_effect:
  assumes "APPEND_BATCH key now s k t = Inr (n, t')" "tables_ok t"
  shows "only_batches t t'" "tables_ok t'"
    "n = 1 \<Longrightarrow> \<exists>r. map_of (batches t) key = Some r \<and> bt_expiry r > now \<and>
      map_of (batches t') = (map_of (batches t))(key \<mapsto> r\<lparr>bt_bsos := bt_bsos r @ s\<rparr>)"
proof -
  let ?f = "\<lambda>j r. if j = key \<and> bt_expiry r > now then r\<lparr>bt_bsos := bt_bsos r @ s\<rparr> else r"
  have n: "n = length (SELECT_BATCH key now t)"
    and t': "t' = t\<lparr>batches := map (\<lambda>(j, r). (j, ?f j r)) (batches t)\<rparr>"
    using assms(1) by (auto simp: APPEND_BATCH_def)
  show "only_batches t t'"
    by (simp add: t' only_batches_def)
  then have "refs_ok t'"
    using assms(2) only_batches_eqs(5) by (simp add: tables_ok_def)
  moreover have "keyed (batches t')"
    using assms(2) by (simp add: t' tables_ok_def wf_tables_def)
  ultimately show "tables_ok t'"
    using assms(2) by (auto simp: t' tables_ok_def wf_tables_def)
  show "\<exists>r. map_of (batches t) key = Some r \<and> bt_expiry r > now \<and>
      map_of (batches t') = (map_of (batches t))(key \<mapsto> r\<lparr>bt_bsos := bt_bsos r @ s\<rparr>)"
    if one: "n = 1"
  proof -
    have "keyed (batches t)"
      using assms(2) by (simp add: tables_ok_def wf_tables_def)
    then obtain r where r: "map_of (batches t) key = Some r" "bt_expiry r > now"
      using one n select_batch [of t key now] by (auto split: option.splits if_splits)
    have "map_of (batches t') j = map_option (?f j) (map_of (batches t) j)" for j
      by (simp add: t' map_of_map_row)
    then have "map_of (batches t') = (map_of (batches t))(key \<mapsto> r\<lparr>bt_bsos := bt_bsos r @ s\<rparr>)"
      using r by (auto simp: fun_eq_iff map_option_case split: option.split)
    with r show ?thesis by blast
  qed
qed

lemma delete_batch_effect:
  assumes "DELETE_BATCH key k t = Inr (n, t')" "tables_ok t"
  shows "only_batches t t'" "tables_ok t'" "map_of (batches t') = (map_of (batches t))(key := None)"
proof -
  have t': "t' = t\<lparr>batches := filter (\<lambda>(j, r). j \<noteq> key) (batches t)\<rparr>"
    using assms(1) by (auto simp: DELETE_BATCH_def)
  show "only_batches t t'"
    by (simp add: t' only_batches_def)
  then have "refs_ok t'"
    using assms(2) only_batches_eqs(5) by (simp add: tables_ok_def)
  then show "tables_ok t'"
    using assms(2) by (auto simp: t' tables_ok_def wf_tables_def)
  show "map_of (batches t') = (map_of (batches t))(key := None)"
    by (auto simp: t' map_of_filter_key fun_eq_iff)
qed


context sql_connection
begin

lemma only_batches_db_ok:
  assumes "quiet saved db db'" "db_ok view db" "only_batches (view (conn db)) (view (conn db'))"
    and "tables_ok (view (conn db'))"
  shows "db_ok view db'"
  using quiet_db_ok [OF assms(1,2,4)] only_batches_eqs(1) [OF assms(3)] by simp

lemma batch_create_Inr:
  assumes "batch_create eng cd hawk coll pbsos db = (Inr b, db')" "db_ok view db"
    and "codec cd" "list_all wf_post_bso pbsos"
  defines "now \<equiv> as_i64 (db_timestamp db)"
  shows "b = encode_id cd now" "db_ok view db'" "same_session saved db db'"
    "batch_absent (view (conn db)) (user_of hawk) coll now"
    "batch_holds cd (view (conn db')) (user_of hawk) coll now pbsos
      (wrap_i64 (now + BATCH_LIFETIME))"
    "only_batches (view (conn db)) (view (conn db'))"
proof -
  obtain c db1 where id: "get_collection_id eng coll db = (Inr c, db1)"
    using assms(1) by (auto simp: batch_create_def bind_r_Inr_iff Let_def)
  note g = get_collection_id_Inr [OF id assms(2)]
  have now: "as_i64 (db_timestamp db1) = now"
    using g(3) by (simp add: db_timestamp_def now_def)
  obtain ss where ss: "map (bso_to_json cd) pbsos = map Inr ss"
    "bsos_to_batch_string cd pbsos = Inr (unlines ss)"
    using codec.bsos_to_batch_string_lines [OF assms(3,4)] by blast
  obtain n where run: "sql_execute eng (INSERT_BATCH (user_of hawk, c, now) (unlines ss)
      (wrap_i64 (now + BATCH_LIFETIME))) db1 = (Inr n, db')" and b: "b = encode_id cd now"
    using assms(1) id ss(2)
    by (auto simp: batch_create_def bind_r_Inr_iff seq_r_Inr_iff Let_def user_of_def now)
  obtain k where k: "INSERT_BATCH (user_of hawk, c, now) (unlines ss)
      (wrap_i64 (now + BATCH_LIFETIME)) k (view (conn db1)) = Inr (n, view (conn db'))"
    and q: "quiet saved db1 db'"
    using sql_execute_Inr [OF run] by blast
  note e = insert_batch_effect [OF k db_ok_tables [OF g(5)]]
  show "b = encode_id cd now" by (rule b)
  show "db_ok view db'"
    by (rule only_batches_db_ok [OF q g(5) e(1,2)])
  show "same_session saved db db'"
    using q g(3,4) by (simp add: quiet_def same_session_def)
  show "batch_absent (view (conn db)) (user_of hawk) coll now"
    using e(3) g(1,2) by (simp add: batch_absent_def)
  show "batch_holds cd (view (conn db')) (user_of hawk) coll now pbsos
      (wrap_i64 (now + BATCH_LIFETIME))"
    using assms(4) ss(1) g(1,2) only_batches_eqs(2) [OF e(1)] e(4)
    by (auto simp: batch_holds_def)
  show "only_batches (view (conn db)) (view (conn db'))"
    using e(1) g(2) by simp
qed

lemma batch_append_Inr:
  assumes "batch_append eng cd hawk coll b pbsos db = (Inr u, db')" "db_ok view db"
    and "codec cd" "list_all wf_post_bso pbsos" "decode_id cd b = Inr i"
    and "batch_holds cd (view (conn db)) (user_of hawk) coll i bs e"
  shows "db_ok view db'" "same_session saved db db'" "e > as_i64 (db_timestamp db)"
    "batch_holds cd (view (conn db')) (user_of hawk) coll i (bs @ pbsos) e"
    "only_batches (view (conn db)) (view (conn db'))"
proof -
  let ?now = "as_i64 (db_timestamp db)"
  obtain c db1 where id: "get_collection_id eng coll db = (Inr c, db1)"
    using assms(1,5) by (auto simp: batch_append_def bind_r_Inr_iff Let_def)
  note g = get_collection_id_Inr [OF id assms(2)]
  have now: "db_timestamp db1 = db_timestamp db"
    using g(3) by (simp add: db_timestamp_def)
  obtain ts where ts: "map (bso_to_json cd) pbsos = map Inr ts"
    "bsos_to_batch_string cd pbsos = Inr (unlines ts)"
    using codec.bsos_to_batch_string_lines [OF assms(3,4)] by blast
  obtain n where run: "sql_run eng (APPEND_BATCH (user_of hawk, c, i) ?now (unlines ts)) db1 =
      (Inr n, db')" and n: "n = 1"
    using assms(1,5) id ts(2)
    by (auto simp: batch_append_def bind_r_Inr_iff Let_def user_of_def now split: if_splits)
  obtain k where k: "APPEND_BATCH (user_of hawk, c, i) ?now (unlines ts) k (view (conn db1)) =
      Inr (n, view (conn db'))" and q: "quiet saved db1 db'"
    using sql_run_Inr [OF run] by blast
  note a = append_batch_effect [OF k db_ok_tables [OF g(5)]]
  obtain ss where ss: "list_all wf_post_bso bs" "map (bso_to_json cd) bs = map Inr ss"
    "map_of (batches (view (conn db1))) (user_of hawk, c, i) =
      Some \<lparr>bt_bsos = unlines ss, bt_expiry = e\<rparr>"
    using assms(6) g(1,2) by (auto simp: batch_holds_def)
  have new: "map_of (batches (view (conn db'))) (user_of hawk, c, i) =
      Some \<lparr>bt_bsos = unlines (ss @ ts), bt_expiry = e\<rparr>" and live: "e > ?now"
    using a(3) [OF n] ss(3) by auto
  show "e > ?now" by (rule live)
  show "db_ok view db'"
    by (rule only_batches_db_ok [OF q g(5) a(1,2)])
  show "same_session saved db db'"
    using q g(3,4) by (simp add: quiet_def same_session_def)
  show "batch_holds cd (view (conn db')) (user_of hawk) coll i (bs @ pbsos) e"
    unfolding batch_holds_def
    using assms(4) ss(1,2) ts(1) new g(1,2) only_batches_eqs(2) [OF a(1)]
    by (intro conjI exI [of _ c] exI [of _ "ss @ ts"]) simp_all
  show "only_batches (view (conn db)) (view (conn db'))"
    using a(1) g(2) by simp
qed

text \<open>A batch is found until it expires.\<close>

lemma batch_get_found:
  assumes "batch_get eng cd hawk coll b db = (Inr found, db')" "db_ok view db"
    and "codec cd" "decode_id cd b = Inr i"
    and "batch_holds cd (view (conn db)) (user_of hawk) coll i bs e"
  shows "db_ok view db'" "same_session saved db db'" "view (conn db') = view (conn db)"
    "\<exists>s. batch_string_to_bsos cd s = Inr bs \<and> found =
      (if e > as_i64 (db_timestamp db)
       then Some \<lparr>batch_id = encode_id cd i, batch_bsos = s, batch_expiry = e\<rparr> else None)"
proof -
  let ?now = "as_i64 (db_timestamp db)"
  obtain c db1 where id: "get_collection_id eng coll db = (Inr c, db1)"
    using assms(1,4) by (auto simp: batch_get_def bind_r_Inr_iff Let_def)
  note g = get_collection_id_Inr [OF id assms(2)]
  have now: "db_timestamp db1 = db_timestamp db"
    using g(3) by (simp add: db_timestamp_def)
  obtain rows where load: "sql_load eng NoLock (SELECT_BATCH (user_of hawk, c, i) ?now) db1 =
      (Inr rows, db')"
    and found: "found = map_option (\<lambda>r. \<lparr>batch_id = encode_id cd i, batch_bsos = bt_bsos r,
      batch_expiry = bt_expiry r\<rparr>) (first_row rows)"
    using assms(1,4) id
    by (auto simp: batch_get_def bind_r_Inr_iff Let_def user_of_def now)
  obtain t where t: "rows = SELECT_BATCH (user_of hawk, c, i) ?now t" "same_rows t (view (conn db1))"
    using sql_load_Inr [OF load] by blast
  have wf: "wf_tables (view (conn db1))" "wf_tables t"
    using db_ok_wf [OF g(5)] same_rows_wf [OF t(2)] by blast+
  obtain ss where ss: "list_all wf_post_bso bs" "map (bso_to_json cd) bs = map Inr ss"
    "map_of (batches (view (conn db1))) (user_of hawk, c, i) =
      Some \<lparr>bt_bsos = unlines ss, bt_expiry = e\<rparr>"
    using assms(5) g(1,2) by (auto simp: batch_holds_def)
  have "rows = (if e > ?now then [\<lparr>bt_bsos = unlines ss, bt_expiry = e\<rparr>] else [])"
    using ss(3) same_rows_lookup(4) [OF t(2) wf(1)] wf(2)
    by (simp add: t(1) select_batch wf_tables_def)
  then show "\<exists>s. batch_string_to_bsos cd s = Inr bs \<and> found =
      (if e > ?now then Some \<lparr>batch_id = encode_id cd i, batch_bsos = s, batch_expiry = e\<rparr> else None)"
    using codec.lines_to_bsos [OF assms(3) ss(1,2)] found
    by (intro exI [of _ "unlines ss"]) (simp add: first_row_def)
  show "db_ok view db'" "same_session saved db db'" "view (conn db') = view (conn db)"
    using load_same_session [OF load g(5)] g(2-4) by (simp_all add: same_session_def)
qed

lemma batch_get_Inr:
  assumes "batch_get eng cd hawk coll b db = (Inr (Some ba), db')" "db_ok view db"
    and "codec cd" "decode_id cd b = Inr i"
    and "batch_holds cd (view (conn db)) (user_of hawk) coll i bs e"
  shows "db_ok view db'" "same_session saved db db'" "view (conn db') = view (conn db)"
    "batch_id ba = encode_id cd i" "batch_expiry ba = e" "e > as_i64 (db_timestamp db)"
    "batch_string_to_bsos cd (batch_bsos ba) = Inr bs"
  using batch_get_found [OF assms] by (auto split: if_splits)

lemma batch_delete_Inr:
  assumes "batch_delete eng cd hawk coll b db = (Inr u, db')" "db_ok view db"
    and "decode_id cd b = Inr i"
  shows "db_ok view db'" "same_session saved db db'"
    "only_batches (view (conn db)) (view (conn db'))"
    "batch_absent (view (conn db')) (user_of hawk) coll i"
proof -
  obtain c db1 n where id: "get_collection_id eng coll db = (Inr c, db1)"
    and run: "sql_run eng (DELETE_BATCH (user_of hawk, c, i)) db1 = (Inr n, db')"
    using assms(1,3)
    by (auto simp: batch_delete_def bind_r_Inr_iff seq_r_Inr_iff Let_def user_of_def)
  note g = get_collection_id_Inr [OF id assms(2)]
  obtain k where k: "DELETE_BATCH (user_of hawk, c, i) k (view (conn db1)) =
      Inr (n, view (conn db'))" and q: "quiet saved db1 db'"
    using sql_run_Inr [OF run] by blast
  note d = delete_batch_effect [OF k db_ok_tables [OF g(5)]]
  show "db_ok view db'"
    by (rule only_batches_db_ok [OF q g(5) d(1,2)])
  show "same_session saved db db'"
    using q g(3,4) by (simp add: quiet_def same_session_def)
  show "only_batches (view (conn db)) (view (conn db'))"
    using d(1) g(2) by simp
  show "batch_absent (view (conn db')) (user_of hawk) coll i"
    using d(3) g(1,2) only_batches_eqs(2) [OF d(1)] by (simp add: batch_absent_def)
qed

text \<open>A committed batch whose BSOs were all stored is the posts of its BSOs, in order.\<close>

lemma batch_commit_Inr:
  assumes "batch_commit eng cd hawk coll ba db = (Inr result, db')" "db_ok view db"
    and "batch_string_to_bsos cd (batch_bsos ba) = Inr bs" "decode_id cd (batch_id ba) = Inr i"
    and "pr_success result = map pb_id bs"
  defines "now \<equiv> db_timestamp db"
  shows "db_ok view db'" "same_session saved db db'" "pr_modified result = now"
    "stored (view (conn db')) = (stored (view (conn db)))
      (user_of hawk := abs_post hawk coll (as_i64 now) bs (stored (view (conn db)) (user_of hawk)))"
    "last_changed (view (conn db')) (touched_user_of hawk) coll = Some (as_i64 now)"
    "batch_absent (view (conn db')) (user_of hawk) coll i"
    "pr_failed result = []"
proof -
  obtain db1 where post: "post_bsos_sync eng hawk coll bs [] db = (Inr result, db1)"
    and del: "batch_delete eng cd hawk coll (batch_id ba) db1 = (Inr (), db')"
    using assms(1,3) by (auto simp: batch_commit_def bind_r_Inr_iff seq_r_Inr_iff try_r_iff)
  note p = post_bsos_Inr [OF post assms(2,5)]
  note d = batch_delete_Inr [OF del p(1) assms(4)]
  show "db_ok view db'" by (rule d)
  show "same_session saved db db'"
    using p(2) d(2) by (simp add: same_session_def)
  show "pr_modified result = now" "pr_failed result = []"
    using p(3,4) by (simp_all add: now_def)
  show "stored (view (conn db')) = (stored (view (conn db)))
      (user_of hawk := abs_post hawk coll (as_i64 now) bs (stored (view (conn db)) (user_of hawk)))"
    using p(5) only_batches_eqs(3) [OF d(3)] by (simp add: now_def)
  show "last_changed (view (conn db')) (touched_user_of hawk) coll = Some (as_i64 now)"
    using p(6) only_batches_eqs(4) [OF d(3)] by (simp add: now_def)
  show "batch_absent (view (conn db')) (user_of hawk) coll i" by (rule d)
qed

end

end
