(* ===== verification/Mysql_Paging.thy ===== *)
theory Mysql_Paging
  imports Mysql_Refinement
begin

text \<open>
  Queries of many BSOs: the rows that match, their order, the page that is returned and the
  offset of the next one.
\<close>

section \<open>Order\<close>

text \<open>Descending sort index, rows without one last.\<close>

definition index_before :: "bso_row \<Rightarrow> bso_row \<Rightarrow> bool" where
  "index_before r s \<longleftrightarrow>
     (case (b_sortindex r, b_sortindex s) of
        (Some j, Some k) \<Rightarrow> j \<ge> k
      | (None, Some k) \<Rightarrow> False
      | _ \<Rightarrow> True)"

definition in_order :: "sorting \<Rightarrow> (string \<times> bso_row) list \<Rightarrow> bool" where
  "in_order s rows \<longleftrightarrow>
     sorted_wrt (\<lambda>p q. case s of
        Index \<Rightarrow> index_before (snd p) (snd q)
      | Newest \<Rightarrow> b_modified (snd p) \<ge> b_modified (snd q)
      | Oldest \<Rightarrow> b_modified (snd p) \<le> b_modified (snd q)
      | SortNone \<Rightarrow> True) rows"

lemma sorted_wrt_sort_key: "sorted_wrt (\<lambda>p q. f p \<le> f q) (sort_key f rows)"
  using sorted_sort_key [of f rows] by (simp add: sorted_map)

lemma order_rows_perm: "mset (order_rows s rows) = mset rows"
  by (cases s) (auto simp: order_rows_def case_prod_unfold multiset_partition [symmetric])

lemma order_rows_in_order: "in_order s (order_rows s rows)"
proof (cases s)
  case Index
  let ?f = "\<lambda>p :: string \<times> bso_row. - the (b_sortindex (snd p))"
  let ?l = "sort_key ?f (filter (\<lambda>p. b_sortindex (snd p) \<noteq> None) rows)"
  have "sorted_wrt (\<lambda>p q. index_before (snd p) (snd q)) ?l"
    by (rule sorted_wrt_mono_rel [OF _ sorted_wrt_sort_key]) (auto simp: index_before_def)
  then show ?thesis
    using Index
    by (auto simp: in_order_def order_rows_def sorted_wrt_append case_prod_unfold index_before_def
        intro: sorted_wrt01 sorted_wrt_mono_rel [where P = "\<lambda>_ _. True"] split: option.split)
next
  case Newest
  have "sorted_wrt (\<lambda>p q. - b_modified (snd p) \<le> - b_modified (snd q))
      (sort_key (\<lambda>p. - b_modified (snd p)) rows)"
    by (rule sorted_wrt_sort_key)
  then show ?thesis
    using Newest by (simp add: in_order_def order_rows_def case_prod_unfold)
next
  case Oldest
  then show ?thesis
    using sorted_wrt_sort_key [of "\<lambda>p. b_modified (snd p)" rows]
    by (simp add: in_order_def order_rows_def case_prod_unfold)
next
  case SortNone
  then show ?thesis
    by (simp add: in_order_def sorted_wrt_true)
qed

section \<open>Matching rows\<close>

definition matching_rows :: "int \<Rightarrow> int \<Rightarrow> int \<Rightarrow> bso_query_params \<Rightarrow> tables \<Rightarrow> (string \<times> bso_row) list"
where
  "matching_rows user_id c now params t =
     [(i, r). ((u, d, i), r) \<leftarrow> bsos t, u = user_id \<and> d = c \<and> bso_matches params now i r]"

lemma matching_rows_set:
  "set (matching_rows user_id c now params t) =
     {(i, r). ((user_id, c, i), r) \<in> set (bsos t) \<and> bso_matches params now i r}"
  by (force simp: matching_rows_def)

lemma matching_rows_distinct:
  assumes "keyed (bsos t)"
  shows "distinct (map fst (matching_rows user_id c now params t))"
proof -
  have "distinct (map fst (concat (map (\<lambda>((u, d, i), r).
      if u = user_id \<and> d = c \<and> bso_matches params now i r then [(i, r)] else []) xs)))"
    if "distinct (map fst xs)" for xs :: "((int \<times> int \<times> string) \<times> bso_row) list"
    using that
  proof (induction xs)
    case (Cons x xs)
    obtain u d i r where x: "x = ((u, d, i), r)" by (metis prod.collapse)
    have "i \<notin> fst ` set (concat (map (\<lambda>((u, d, i), r).
        if u = user_id \<and> d = c \<and> bso_matches params now i r then [(i, r)] else []) xs))"
      if "u = user_id" "d = c"
      using Cons.prems that by (force simp: x split: if_splits)
    then show ?case
      using Cons by (auto simp: x)
  qed simp
  then show ?thesis
    using assms by (simp add: matching_rows_def keyed_def)
qed


section \<open>Pages\<close>

lemma show_int_nat: "show_int (int n) = show_nat n"
  by (simp add: show_int_def)

lemma butlast_take_Suc: "n < length xs \<Longrightarrow> butlast (take (Suc n) xs) = take n xs"
  by (simp add: butlast_take)

lemma paginate_limited:
  assumes "limit params = Some n" "numeric_offset params = int start" "start + n < 2 ^ 63"
  shows "paginate params (map f (limit_rows (int n + 1) (int start) L)) =
    \<lparr>pg_items = map f (take n (drop start L)),
     pg_offset = (if start + n < length L then Some (show_nat (start + n)) else None)\<rparr>"
proof -
  have "int start + int n < 2 ^ 63"
    using assms(3) by (metis of_nat_add of_nat_less_iff of_nat_numeral of_nat_power)
  then have wrap: "wrap_i64 (int n + int start) = int (n + start)"
    by (simp add: wrap_i64_id)
  have rows: "limit_rows (int n + 1) (int start) L = take (Suc n) (drop start L)"
    by (simp add: limit_rows_def nat_add_distrib)
  show ?thesis
  proof (cases "start + n < length L")
    case True
    then have "n < length (drop start L)"
      by simp
    then show ?thesis
      using True unfolding rows
      by (simp add: paginate_def query_limit_def assms(1,2) wrap butlast_take_Suc add.commute
          map_butlast [symmetric] del: of_nat_add length_drop)
        (metis of_nat_add show_int_nat)
  next
    case False
    then show ?thesis
      unfolding rows by (simp add: paginate_def query_limit_def assms(1))
  qed
qed

lemma paginate_unlimited:
  assumes "limit params = None" "numeric_offset params = int start"
  shows "paginate params (map f (limit_rows (- 1) (int start) L)) =
    \<lparr>pg_items = map f (drop start L), pg_offset = None\<rparr>"
  by (simp add: paginate_def query_limit_def limit_rows_def assms)

lemma select_bsos_ordered:
  "SELECT_BSOS u c now params t =
     limit_rows (if query_limit params \<ge> 0 then query_limit params + 1 else query_limit params)
       (numeric_offset params) (order_rows (sort_by params) (matching_rows u c now params t))"
  by (simp add: SELECT_BSOS_def matching_rows_def Let_def)

context sql_connection
begin

lemma get_bsos_Inr:
  assumes "get_bsos_sync eng hawk coll params db = (Inr page, db')" "db_ok view db"
  shows "\<exists>L. distinct (map fst L) \<and> in_order (sort_by params) L \<and>
      set L = {(i, r). stored (view (conn db)) (user_of hawk) coll i = Some r \<and>
        bso_matches params (as_i64 (db_timestamp db)) i r} \<and>
      page = paginate params (map (\<lambda>(i, r). bso_view i r)
        (limit_rows (if query_limit params \<ge> 0 then query_limit params + 1 else query_limit params)
          (numeric_offset params) L))"
    "view (conn db') = view (conn db)" "same_session saved db db'" "db_ok view db'"
proof -
  let ?u = "user_of hawk" and ?now = "as_i64 (db_timestamp db)"
  obtain c db1 where id: "get_collection_id eng coll db = (Inr c, db1)"
    using assms(1) by (auto simp: get_bsos_sync_def bind_r_Inr_iff Let_def)
  note g = get_collection_id_Inr [OF id assms(2)]
  have now: "db_timestamp db1 = db_timestamp db"
    using g(3) by (simp add: db_timestamp_def)
  obtain rows db2 bs where load: "sql_load eng NoLock (SELECT_BSOS ?u c ?now params) db1 = (Inr rows, db2)"
    and bs: "collect_r (map get_bso_of_row rows) = Inr bs"
    and page: "page = paginate params bs" and db': "db' = db2"
    using assms(1) id
    by (auto simp: get_bsos_sync_def bind_r_Inr_iff Let_def user_of_def now map_sum_Inr_iff)
  obtain t where t: "rows = SELECT_BSOS ?u c ?now params t" "same_rows t (view (conn db1))"
    using sql_load_Inr [OF load] by blast
  let ?m = "matching_rows ?u c ?now params t"
  let ?L = "order_rows (sort_by params) ?m"
  have wf: "wf_tables (view (conn db1))" "wf_tables t"
    using db_ok_wf [OF g(5)] same_rows_wf [OF t(2)] by blast+
  have "set ?L = set ?m" "distinct (map fst ?L)"
    using order_rows_perm [of "sort_by params" ?m] matching_rows_distinct wf(2)
    by (auto dest: mset_eq_setD simp: wf_tables_def)
      (metis mset_map mset_eq_imp_distinct_iff)
  moreover have "set ?m = {(i, r). stored (view (conn db)) ?u coll i = Some r \<and>
      bso_matches params ?now i r}"
    using g(1,2) same_rows_set(3) [OF t(2)] wf(1)
    by (auto simp: matching_rows_set stored_def wf_tables_def keyed_in_set)
  moreover have "in_order (sort_by params) ?L"
    by (rule order_rows_in_order)
  ultimately show "\<exists>L. distinct (map fst L) \<and> in_order (sort_by params) L \<and>
      set L = {(i, r). stored (view (conn db)) ?u coll i = Some r \<and> bso_matches params ?now i r} \<and>
      page = paginate params (map (\<lambda>(i, r). bso_view i r)
        (limit_rows (if query_limit params \<ge> 0 then query_limit params + 1 else query_limit params)
          (numeric_offset params) L))"
    using page collect_bso_rows [OF bs] t(1) select_bsos_ordered
    by (intro exI [of _ ?L]) simp
  show "view (conn db') = view (conn db)" "same_session saved db db'" "db_ok view db'"
    using load_same_session [OF load g(5)] g by (simp_all add: db' same_session_def)
qed

end

end
