(* ===== verification/Db_Trait.thy ===== *)
theory Db_Trait
  imports Mysql_Batch_Facts Mysql_Paging
begin

text \<open>
  The storage interface the web layer calls (\<open>Db\<close> of \<open>src/db/mod.rs\<close>): a record of its
  operations on a state \<open>'s\<close>, the resource timestamp computed from them, and the MySQL
  implementation, whose methods turn a database error into an API error.
\<close>

section \<open>The interface\<close>

type_synonym ('s, 'a) api_op = "('s, api_error, 'a) comp"

record 's db_ops =
  lock_for_read :: "hawk_identifier \<Rightarrow> string \<Rightarrow> ('s, unit) api_op"
  lock_for_write :: "hawk_identifier \<Rightarrow> string \<Rightarrow> ('s, unit) api_op"
  begin_op :: "bool \<Rightarrow> ('s, unit) api_op"
  commit_op :: "('s, unit) api_op"
  rollback_op :: "('s, unit) api_op"
  get_collection_timestamps :: "hawk_identifier \<Rightarrow> ('s, (string, sync_timestamp) table) api_op"
  get_collection_timestamp :: "hawk_identifier \<Rightarrow> string \<Rightarrow> ('s, sync_timestamp) api_op"
  get_collection_counts :: "hawk_identifier \<Rightarrow> ('s, (string, int) table) api_op"
  get_collection_usage :: "hawk_identifier \<Rightarrow> ('s, (string, int) table) api_op"
  get_storage_timestamp :: "hawk_identifier \<Rightarrow> ('s, sync_timestamp) api_op"
  get_storage_usage :: "hawk_identifier \<Rightarrow> ('s, u64) api_op"
  delete_storage :: "hawk_identifier \<Rightarrow> ('s, unit) api_op"
  delete_collection :: "hawk_identifier \<Rightarrow> string \<Rightarrow> ('s, sync_timestamp) api_op"
  delete_bsos :: "hawk_identifier \<Rightarrow> string \<Rightarrow> string list \<Rightarrow> ('s, sync_timestamp) api_op"
  get_bsos :: "hawk_identifier \<Rightarrow> string \<Rightarrow> bso_query_params \<Rightarrow>
    ('s, get_bso_result paginated) api_op"
  get_bso_ids :: "hawk_identifier \<Rightarrow> string \<Rightarrow> bso_query_params \<Rightarrow> ('s, string paginated) api_op"
  post_bsos :: "hawk_identifier \<Rightarrow> string \<Rightarrow> post_collection_bso list \<Rightarrow> (string, string) table \<Rightarrow>
    ('s, post_bsos_result) api_op"
  delete_bso :: "hawk_identifier \<Rightarrow> string \<Rightarrow> string \<Rightarrow> ('s, sync_timestamp) api_op"
  get_bso :: "hawk_identifier \<Rightarrow> string \<Rightarrow> string \<Rightarrow> ('s, get_bso_result option) api_op"
  get_bso_timestamp :: "hawk_identifier \<Rightarrow> string \<Rightarrow> string \<Rightarrow> ('s, sync_timestamp) api_op"
  put_bso :: "put_bso_params \<Rightarrow> ('s, sync_timestamp) api_op"
  create_batch :: "hawk_identifier \<Rightarrow> string \<Rightarrow> post_collection_bso list \<Rightarrow> ('s, string) api_op"
  validate_batch :: "hawk_identifier \<Rightarrow> string \<Rightarrow> string \<Rightarrow> ('s, bool) api_op"
  append_to_batch :: "hawk_identifier \<Rightarrow> string \<Rightarrow> string \<Rightarrow> post_collection_bso list \<Rightarrow>
    ('s, unit) api_op"
  get_batch :: "hawk_identifier \<Rightarrow> string \<Rightarrow> string \<Rightarrow> ('s, batch option) api_op"
  commit_batch :: "hawk_identifier \<Rightarrow> string \<Rightarrow> batch \<Rightarrow> ('s, post_bsos_result) api_op"
  check_op :: "('s, bool) api_op"

text \<open>
  The timestamp of a storage, a collection or a BSO. A collection that does not exist has
  timestamp 0 (\<open>from_seconds(0f64)\<close>).
\<close>

definition or_zero :: "('s, sync_timestamp) api_op \<Rightarrow> ('s, sync_timestamp) api_op" where
  "or_zero m = catch_r m
     (\<lambda>e. if is_collection_not_found e then return_r (from_seconds (Fin 0)) else throw_r e)"

definition extract_resource ::
  "'s db_ops \<Rightarrow> hawk_identifier \<Rightarrow> string option \<Rightarrow> string option \<Rightarrow> ('s, sync_timestamp) api_op"
where
  "extract_resource ops hawk coll bso =
     (case coll of
        None \<Rightarrow> get_storage_timestamp ops hawk
      | Some c \<Rightarrow>
          (case bso of
             None \<Rightarrow> or_zero (get_collection_timestamp ops hawk c)
           | Some b \<Rightarrow> or_zero (get_bso_timestamp ops hawk c b)))"

section \<open>MySQL\<close>

definition api_of :: "('c, 'a) db_op \<Rightarrow> ('c mysql_db, 'a) api_op" where
  "api_of m = map_err_r api_error_of_db m"

definition mysql_ops :: "'c sql_conn \<Rightarrow> batch_codec \<Rightarrow> (tables \<Rightarrow> nat) \<Rightarrow> 'c mysql_db db_ops" where
  "mysql_ops eng cd status_rows =
     \<lparr>lock_for_read = (\<lambda>hawk coll. api_of (lock_for_read_sync eng hawk coll)),
      lock_for_write = (\<lambda>hawk coll. api_of (lock_for_write_sync eng hawk coll)),
      begin_op = (\<lambda>w. api_of (db_begin eng w)),
      commit_op = api_of (commit_sync eng),
      rollback_op = api_of (rollback_sync eng),
      get_collection_timestamps = (\<lambda>hawk. api_of (get_collection_timestamps_sync eng hawk)),
      get_collection_timestamp = (\<lambda>hawk coll. api_of (get_collection_timestamp_sync eng hawk coll)),
      get_collection_counts = (\<lambda>hawk. api_of (get_collection_counts_sync eng hawk)),
      get_collection_usage = (\<lambda>hawk. api_of (get_collection_usage_sync eng hawk)),
      get_storage_timestamp = (\<lambda>hawk. api_of (get_storage_timestamp_sync eng hawk)),
      get_storage_usage = (\<lambda>hawk. api_of (get_storage_usage_sync eng hawk)),
      delete_storage = (\<lambda>hawk. api_of (delete_storage_sync eng hawk)),
      delete_collection = (\<lambda>hawk coll. api_of (delete_collection_sync eng hawk coll)),
      delete_bsos = (\<lambda>hawk coll is. api_of (delete_bsos_sync eng hawk coll is)),
      get_bsos = (\<lambda>hawk coll params. api_of (get_bsos_sync eng hawk coll params)),
      get_bso_ids = (\<lambda>hawk coll params. api_of (get_bso_ids_sync eng hawk coll params)),
      post_bsos = (\<lambda>hawk coll bs failed. api_of (post_bsos_sync eng hawk coll bs failed)),
      delete_bso = (\<lambda>hawk coll i. api_of (delete_bso_sync eng hawk coll i)),
      get_bso = (\<lambda>hawk coll i. api_of (get_bso_sync eng hawk coll i)),
      get_bso_timestamp = (\<lambda>hawk coll i. api_of (get_bso_timestamp_sync eng hawk coll i)),
      put_bso = (\<lambda>bso. api_of (put_bso_sync eng bso)),
      create_batch = (\<lambda>hawk coll bs. api_of (batch_create eng cd hawk coll bs)),
      validate_batch = (\<lambda>hawk coll b. api_of (batch_validate eng cd hawk coll b)),
      append_to_batch = (\<lambda>hawk coll b bs. api_of (batch_append eng cd hawk coll b bs)),
      get_batch = (\<lambda>hawk coll b. api_of (batch_get eng cd hawk coll b)),
      commit_batch = (\<lambda>hawk coll b. api_of (batch_commit eng cd hawk coll b)),
      check_op = api_of (check_sync status_rows eng)\<rparr>"

section \<open>What a client of the interface may rely on\<close>

text \<open>
  \<open>own hawk s s'\<close>: whatever an operation on behalf of the user \<open>hawk\<close> does, failed or not, it
  takes a state to one related by \<open>own hawk\<close>. The relation composes along a request.
\<close>

locale db_frame =
  fixes ops :: "'s db_ops"
    and own :: "hawk_identifier \<Rightarrow> 's \<Rightarrow> 's \<Rightarrow> bool"
  assumes own_refl: "reflp (own hawk)" and own_trans: "transp (own hawk)"
    and frame_locks: "preserves (own hawk) (lock_for_read ops hawk coll)"
      "preserves (own hawk) (lock_for_write ops hawk coll)"
    and frame_begin: "preserves (own hawk) (begin_op ops w)"
    and frame_reads: "preserves (own hawk) (get_collection_timestamps ops hawk)"
      "preserves (own hawk) (get_collection_timestamp ops hawk coll)"
      "preserves (own hawk) (get_collection_counts ops hawk)"
      "preserves (own hawk) (get_collection_usage ops hawk)"
      "preserves (own hawk) (get_storage_timestamp ops hawk)"
      "preserves (own hawk) (get_storage_usage ops hawk)"
      "preserves (own hawk) (get_bsos ops hawk coll params)"
      "preserves (own hawk) (get_bso_ids ops hawk coll params)"
      "preserves (own hawk) (get_bso ops hawk coll i)"
      "preserves (own hawk) (get_bso_timestamp ops hawk coll i)"
      "preserves (own hawk) (check_op ops)"
    and frame_writes: "preserves (own hawk) (delete_storage ops hawk)"
      "preserves (own hawk) (delete_collection ops hawk coll)"
      "preserves (own hawk) (delete_bsos ops hawk coll is)"
      "preserves (own hawk) (delete_bso ops hawk coll i)"
      "preserves (own hawk) (post_bsos ops hawk coll bs failed)"
      "pp_user_id bso = hawk \<Longrightarrow> preserves (own hawk) (put_bso ops bso)"
    and frame_batches: "preserves (own hawk) (create_batch ops hawk coll bs)"
      "preserves (own hawk) (validate_batch ops hawk coll b)"
      "preserves (own hawk) (append_to_batch ops hawk coll b bs)"
      "preserves (own hawk) (get_batch ops hawk coll b)"
      "preserves (own hawk) (commit_batch ops hawk coll batch)"
begin

lemmas frame = frame_locks frame_begin frame_reads frame_writes frame_batches
  preserves_pure [OF own_refl] preserves_bind [OF own_trans] preserves_seq [OF own_trans]
  preserves_catch [OF own_trans] preserves_try preserves_if preserves_case_option
  preserves_case_sum preserves_map_err

lemma frame_extract_resource: "preserves (own hawk) (extract_resource ops hawk coll bso)"
  unfolding extract_resource_def or_zero_def by (intro frame)

end

text \<open>The end of a transaction keeps the relation too.\<close>

locale db_frame_tx = db_frame +
  assumes frame_end: "preserves (own hawk) (commit_op ops)" "preserves (own hawk) (rollback_op ops)"

text \<open>
  A relation kept by the MySQL operations of a user is one a client may rely on. Two are: every
  row of the other users stays, in what the connection sees and in whatever a rollback could
  restore; and no transaction that is open is ended but by a commit or a rollback.
\<close>

lemma mysql_db_frame:
  assumes "\<And>hawk. mysql_frame eng (R hawk) (U hawk)" "\<And>hawk. touched_users hawk \<subseteq> U hawk"
  shows "db_frame (mysql_ops eng cd status_rows) R"
  by unfold_locales
    (auto simp: mysql_ops_def api_of_def intro!: preserves_map_err
      mysql_frame.R_order [OF assms(1)] mysql_frame.stays_locks [OF assms(1)]
      mysql_frame.stays_db_begin [OF assms(1)] mysql_frame.stays_reads [OF assms(1)]
      mysql_frame.stays_deletes [OF assms] mysql_frame.stays_post [OF assms]
      mysql_frame.stays_put [OF assms] mysql_frame.stays_batch [OF assms]
      mysql_frame.stays_batch_commit [OF assms])

definition mysql_own ::
  "('c \<Rightarrow> tables) \<Rightarrow> ('c \<Rightarrow> tables list) \<Rightarrow> hawk_identifier \<Rightarrow> 'c mysql_db \<Rightarrow> 'c mysql_db \<Rightarrow> bool"
where
  "mysql_own view saved hawk = user_stays view saved (touched_users hawk)"

sublocale sql_connection \<subseteq> mysql: db_frame_tx "mysql_ops eng cd status_rows" "mysql_own view saved"
  for cd status_rows
proof (rule db_frame_tx.intro)
  show "db_frame (mysql_ops eng cd status_rows) (mysql_own view saved)"
    unfolding mysql_own_def [abs_def] by (rule mysql_db_frame) (rule users.mysql_frame_axioms, rule order_refl)
  show "db_frame_tx_axioms (mysql_ops eng cd status_rows) (mysql_own view saved)"
    by (rule db_frame_tx_axioms.intro)
      (simp_all add: mysql_ops_def mysql_own_def api_of_def preserves_map_err
        users.stays_commit_rollback)
qed

sublocale sql_connection \<subseteq> opened: db_frame "mysql_ops eng cd status_rows" "\<lambda>_. deeper saved"
  for cd status_rows
  by (rule mysql_db_frame) (rule depth.mysql_frame_axioms, rule subset_UNIV)

text \<open>A session from the pool: a connection, or the pool's error; the cache is shared.\<close>

definition mysql_pool_get :: "string option \<Rightarrow> int \<Rightarrow> ('c mysql_db, unit) api_op" where
  "mysql_pool_get pool_error now db =
     (case pool_error of
        Some msg \<Rightarrow> (Inl (api_error_of_db_kind (PoolError msg)), db)
      | None \<Rightarrow> (Inr (), new_mysql_db (conn db) (coll_cache db) now))"

lemma mysql_own_pool_get: "preserves (mysql_own view saved hawk) (mysql_pool_get pool_error now)"
  by (auto simp: preserves_def mysql_pool_get_def mysql_own_def new_mysql_db_def
      intro: user_stays_conn_eq split: option.split)

text \<open>Below \<open>2 ^ 31\<close> the casts of the code keep the user id.\<close>

lemma small_user_id:
  assumes "unat (legacy_id hawk) < 2 ^ 31"
  shows "user_of hawk = int (unat (legacy_id hawk))"
    "touched_user_of hawk = int (unat (legacy_id hawk))"
    "i64_as_i32 (user_of hawk) = int (unat (legacy_id hawk))"
    "touched_users hawk = {int (unat (legacy_id hawk))}"
proof -
  have "unat (legacy_id hawk) < 2 ^ 63"
    using assms by (rule less_le_trans) simp
  then show u: "user_of hawk = int (unat (legacy_id hawk))"
    by (simp only: user_of_def u64_as_i64_small)
  obtain n where n: "unat (legacy_id hawk) = n" by blast
  have lt: "n < 2 ^ 31"
    using assms n by simp
  have "uint (u64_as_u32 (legacy_id hawk)) = int n mod 2 ^ 32"
    unfolding n [symmetric] uint_nat [symmetric]
    by (simp add: u64_as_u32_def unsigned_ucast_eq take_bit_eq_mod)
  also have "\<dots> = int n"
    using lt by (intro mod_pos_pos_trivial) auto
  finally show t: "touched_user_of hawk = int (unat (legacy_id hawk))"
    by (simp only: touched_user_of_def n)
  have "int n < 2 ^ 31" "- (2 ^ 31) \<le> int n"
    using lt by auto
  then have "signed_take_bit 31 (int n) = int n"
    by (simp add: signed_take_bit_int_eq_self)
  then show i: "i64_as_i32 (user_of hawk) = int (unat (legacy_id hawk))"
    by (simp only: i64_as_i32_def u n)
  show "touched_users hawk = {int (unat (legacy_id hawk))}"
    using u t i by (simp only: touched_users_def user_of_def touched_user_of_def insert_absorb2)
qed

end
