(* ===== verification/Mysql_Claims.thy ===== *)
theory Mysql_Claims
  imports Db_Trait
begin

text \<open>
  The properties of the MySQL operations, for every connection with the contract
  \<open>sql_connection\<close>, and concrete runs on the in-memory connection.
\<close>

section \<open>A session to run\<close>

definition std_tables :: tables where
  "std_tables = \<lparr>collections = STD_COLLS, user_collections = [], bsos = [], batches = []\<rparr>"

definition sample_db :: "mem_conn mysql_db" where
  "sample_db = new_mysql_db \<lparr>mem_tables = std_tables, mem_saved = [], mem_faults = []\<rparr>
     default_collection_cache 1000000"

definition sample_user :: hawk_identifier where
  "sample_user = new_legacy 7"

definition sample_bso :: put_bso_params where
  "sample_bso = \<lparr>pp_user_id = sample_user, pp_collection = ''col'', pp_id = ''b0'',
     pp_sortindex = Some 3, pp_payload = Some ''x'', pp_ttl = Some 60\<rparr>"

lemma sample_db_ok: "db_ok mem_tables sample_db"
  by (simp add: db_ok_def sample_db_def new_mysql_db_def tables_ok_def std_tables_def wf_tables_def
      keyed_def std_colls_distinct refs_ok_def cache_ok_def cache_all_default)
    (simp add: STD_COLLS_def TOMBSTONE_def)

lemma sample_put: "fst (put_bso_sync mem_engine sample_bso sample_db) = Inr 1000000"
  by code_simp


lemma sample_now: "as_i64 1000000 = 1000000"
  by code_simp

section \<open>Writing and reading BSOs\<close>

text \<open>C1. A \<open>put_bso\<close> that succeeds is the put of the abstract store for its user: the row
  keeps what the request leaves out (and its modification time, when only the TTL is given),
  nothing else that any user stored changes, the collection is marked as changed at the
  session's timestamp, which is the result, and the session and its transactions are as before.\<close>

theorem put_bso_refines:
  assumes "sql_connection eng view saved" "db_ok view db"
    and "put_bso_sync eng bso db = (Inr ts, db')"
  shows "stored (view (conn db')) = (stored (view (conn db)))
      (user_of (pp_user_id bso) := abs_put bso (as_i64 ts)
        (stored (view (conn db)) (user_of (pp_user_id bso)))) \<and>
    last_changed (view (conn db')) = update_at (last_changed (view (conn db)))
      (touched_user_of (pp_user_id bso)) (pp_collection bso) (Some (as_i64 ts)) \<and>
    ts = db_timestamp db \<and> db_ok view db' \<and> same_session saved db db'"
  using sql_connection.put_bso_Inr [OF assms(1,3,2)] by simp

lemma put_bso_refines_witness:
  "last_changed (mem_tables (conn (snd (put_bso_sync mem_engine sample_bso sample_db)))) 7 ''col'' =
    Some 1000000"
proof -
  obtain db' where db': "put_bso_sync mem_engine sample_bso sample_db = (Inr 1000000, db')"
    using sample_put by (metis prod.collapse)
  have "touched_user_of (pp_user_id sample_bso) = 7" "pp_collection sample_bso = ''col''"
    by code_simp+
  then show ?thesis
    using put_bso_refines [OF mem.sql_connection_axioms sample_db_ok db']
    by (simp add: db' update_at_def sample_now)
qed


lemma sample_put_get:
  "fst (get_bso_sync mem_engine sample_user ''col'' ''b0''
      (snd (put_bso_sync mem_engine sample_bso sample_db))) =
    Inr (Some \<lparr>gb_id = ''b0'', gb_modified = 1000000, gb_payload = ''x'', gb_sortindex = Some 3,
               gb_expiry = 1060000\<rparr>)"
  by code_simp

lemma sample_merged:
  "merged_row sample_bso (as_i64 1000000) (stored (mem_tables (conn sample_db))
     (user_of (pp_user_id sample_bso)) (pp_collection sample_bso) (pp_id sample_bso)) =
   \<lparr>b_sortindex = Some 3, b_payload = ''x'', b_modified = 1000000, b_expiry = 1060000\<rparr>"
  by code_simp


section \<open>Locks and time\<close>


lemma sample_lock: "fst (lock_for_write_sync mem_engine sample_user ''col'' sample_db) = Inr ()"
  by code_simp



text \<open>The same storage later, with one BSO.\<close>

definition one_bso_tables :: tables where
  "one_bso_tables =
     \<lparr>collections = STD_COLLS @ [(101, ''col'')], user_collections = [((7, 101), 1000000)],
      bsos = [((7, 101, ''b0''),
        \<lparr>b_sortindex = Some 3, b_payload = ''x'', b_modified = 1000000, b_expiry = 5000000\<rparr>)],
      batches = []\<rparr>"

definition later_db :: "mem_conn mysql_db" where
  "later_db = new_mysql_db \<lparr>mem_tables = one_bso_tables, mem_saved = [], mem_faults = []\<rparr>
     default_collection_cache 2000000"

lemma later_db_ok: "db_ok mem_tables later_db"
proof -
  have "wf_tables one_bso_tables" "refs_ok one_bso_tables"
    by (auto simp: one_bso_tables_def wf_tables_def keyed_def refs_ok_def STD_COLLS_def
        TOMBSTONE_def split: if_splits)
  moreover have "cache_ok one_bso_tables default_collection_cache"
    unfolding cache_ok_def
    by (rule cache_all_mono [OF cache_all_default]) (simp add: one_bso_tables_def)
  ultimately show ?thesis
    by (simp add: db_ok_def later_db_def new_mysql_db_def tables_ok_def)
qed

lemma sample_bso_sel: "pp_user_id sample_bso = sample_user" "pp_collection sample_bso = ''col''"
  "pp_id sample_bso = ''b0''"
  by (simp_all add: sample_bso_def)

lemma sample_user_small: "unat (legacy_id sample_user) < 2 ^ 31"
  by (simp add: sample_user_def new_legacy_def)

lemma later_lock: "fst (lock_for_write_sync mem_engine sample_user ''col'' later_db) = Inr ()"
  by code_simp

lemma later_lock_put: "fst (put_bso_sync mem_engine sample_bso
    (snd (lock_for_write_sync mem_engine sample_user ''col'' later_db))) = Inr 2000000"
  by code_simp

lemma later_last: "last_changed (mem_tables (conn later_db)) (user_of sample_user) ''col'' =
    Some 1000000"
  by code_simp



end
