(* ===== verification/Mysql_Query_Claims.thy ===== *)
theory Mysql_Query_Claims
  imports Mysql_Claims
begin

text \<open>
  The properties of the deleting operations and of the paged queries of the MySQL session.
\<close>

section \<open>Deleting\<close>


lemma sample_delete: "fst (delete_bso_sync mem_engine sample_user ''col'' ''b0'' later_db) = Inr 2000000"
  by code_simp



lemma sample_delete_collection:
  "fst (delete_collection_sync mem_engine sample_user ''col'' later_db) = Inr 2000000"
  by code_simp


section \<open>Pages\<close>

text \<open>C7. A page of BSOs: of the user's live BSOs that match the query, in the order asked for and
  each once, the page holds the \<open>limit\<close> ones from the offset on, and it carries the offset of the
  next page exactly when there are more (with the overflow of the offset excluded).\<close>

theorem get_bsos_page:
  assumes "sql_connection eng view saved" "db_ok view db"
    and "get_bsos_sync eng hawk coll params db = (Inr page, db')"
    and "limit params = Some n" "numeric_offset params = int start" "start + n < 2 ^ 63"
  shows "\<exists>L. distinct (map fst L) \<and> in_order (sort_by params) L \<and>
      set L = {(i, r). stored (view (conn db)) (user_of hawk) coll i = Some r \<and>
        bso_matches params (as_i64 (db_timestamp db)) i r} \<and>
      pg_items page = map (\<lambda>(i, r). bso_view i r) (take n (drop start L)) \<and>
      pg_offset page = (if start + n < length L then Some (show_nat (start + n)) else None)"
proof -
  obtain L where L: "distinct (map fst L)" "in_order (sort_by params) L"
    "set L = {(i, r). stored (view (conn db)) (user_of hawk) coll i = Some r \<and>
      bso_matches params (as_i64 (db_timestamp db)) i r}"
    "page = paginate params (map (\<lambda>(i, r). bso_view i r)
      (limit_rows (if query_limit params \<ge> 0 then query_limit params + 1 else query_limit params)
        (numeric_offset params) L))"
    using sql_connection.get_bsos_Inr(1) [OF assms(1,3,2)] by blast
  have limit: "query_limit params = int n" "(if int n \<ge> 0 then int n + 1 else int n) = int n + 1"
    by (simp_all add: query_limit_def assms(4))
  have "page = \<lparr>pg_items = map (\<lambda>(i, r). bso_view i r) (take n (drop start L)),
      pg_offset = (if start + n < length L then Some (show_nat (start + n)) else None)\<rparr>"
    by (simp only: L(4) limit assms(5) paginate_limited [OF assms(4-6)])
  then show ?thesis
    using L(1-3) by auto
qed

definition one_query :: bso_query_params where
  "one_query = default_query\<lparr>limit := Some 1, sort_by := Newest\<rparr>"

lemma sample_page:
  "fst (get_bsos_sync mem_engine sample_user ''col'' one_query later_db) =
     Inr \<lparr>pg_items = [\<lparr>gb_id = ''b0'', gb_modified = 1000000, gb_payload = ''x'',
        gb_sortindex = Some 3, gb_expiry = 5000000\<rparr>], pg_offset = None\<rparr>"
  by code_simp

lemma get_bsos_page_witness:
  "\<exists>L. set L = {(i, r). stored (mem_tables (conn later_db)) (user_of sample_user) ''col'' i = Some r \<and>
      bso_matches one_query (as_i64 (db_timestamp later_db)) i r} \<and> length L \<le> 1"
proof -
  obtain page db' where run: "get_bsos_sync mem_engine sample_user ''col'' one_query later_db =
      (Inr page, db')" and none: "pg_offset page = None"
    using sample_page by (metis prod.collapse paginated.select_convs(2))
  have q: "limit one_query = Some 1" "numeric_offset one_query = int 0" "0 + 1 < (2 :: nat) ^ 63"
    by (simp_all add: one_query_def default_query_def numeric_offset_def)
  obtain L where "set L = {(i, r). stored (mem_tables (conn later_db)) (user_of sample_user) ''col'' i =
      Some r \<and> bso_matches one_query (as_i64 (db_timestamp later_db)) i r}"
    "pg_offset page = (if 0 + 1 < length L then Some (show_nat (0 + 1)) else None)"
    using get_bsos_page [OF mem.sql_connection_axioms later_db_ok run q] by blast
  then show ?thesis
    using none by (intro exI [of _ L]) (auto split: if_splits)
qed

end
