(* ===== verification/Mysql_Upload_Claims.thy ===== *)
theory Mysql_Upload_Claims
  imports Mysql_Query_Claims
begin

text \<open>
  Uploads of many BSOs: a post refines the abstract store, and a batch, spread over any number of
  requests, stores what one post of all its BSOs would.
\<close>

section \<open>Posts\<close>

text \<open>C10. A \<open>post_bsos\<close> that stores all its BSOs is the puts of the abstract store one after the
  other, at the session's timestamp, which is also the collection's new modification time and the
  answer's; the batches and the session are as before.\<close>

theorem post_bsos_refines:
  assumes "sql_connection eng view saved" "db_ok view db"
    and "post_bsos_sync eng hawk coll pbsos failed db = (Inr result, db')"
    and "pr_success result = map pb_id pbsos"
  shows "stored (view (conn db')) = (stored (view (conn db)))
      (user_of hawk := abs_post hawk coll (as_i64 (db_timestamp db)) pbsos
        (stored (view (conn db)) (user_of hawk))) \<and>
    last_changed (view (conn db')) (touched_user_of hawk) coll = Some (as_i64 (db_timestamp db)) \<and>
    pr_modified result = db_timestamp db \<and> pr_failed result = failed \<and>
    batches (view (conn db')) = batches (view (conn db)) \<and> db_ok view db' \<and>
    same_session saved db db'"
  using sql_connection.post_bsos_Inr [OF assms(1,3,2,4)] by simp

definition sample_posts :: "post_collection_bso list" where
  "sample_posts =
     [\<lparr>pb_id = ''b0'', pb_sortindex = None, pb_payload = Some ''new'', pb_ttl = Some 60\<rparr>,
      \<lparr>pb_id = ''b1'', pb_sortindex = Some 1, pb_payload = Some ''y'', pb_ttl = Some 60\<rparr>]"

lemma sample_post:
  "fst (post_bsos_sync mem_engine sample_user ''col'' sample_posts [] later_db) =
     Inr \<lparr>pr_modified = 2000000, pr_success = [''b0'', ''b1''], pr_failed = []\<rparr>"
  by code_simp

lemma sample_posts_ids: "map pb_id sample_posts = [''b0'', ''b1'']"
  by (simp add: sample_posts_def)

lemma sample_touched: "touched_user_of sample_user = 7" "user_of sample_user = 7"
  by code_simp+

lemma later_timestamp: "db_timestamp later_db = 2000000" "as_i64 2000000 = 2000000"
  by code_simp+

lemma post_bsos_refines_witness:
  "last_changed (mem_tables (conn (snd (post_bsos_sync mem_engine sample_user ''col'' sample_posts []
     later_db)))) 7 ''col'' = Some 2000000"
proof -
  obtain db' where db': "post_bsos_sync mem_engine sample_user ''col'' sample_posts [] later_db =
      (Inr \<lparr>pr_modified = 2000000, pr_success = [''b0'', ''b1''], pr_failed = []\<rparr>, db')"
    using sample_post by (metis prod.collapse)
  show ?thesis
    using post_bsos_refines [OF mem.sql_connection_axioms later_db_ok db'] sample_posts_ids
      sample_touched later_timestamp by (simp add: db')
qed

section \<open>Uploads in batches\<close>

text \<open>What may happen between two requests of an upload: anything that leaves the user's batches.\<close>

definition batches_kept :: "int \<Rightarrow> tables \<Rightarrow> tables \<Rightarrow> bool" where
  "batches_kept u t t' \<longleftrightarrow>
     set (collections t) \<subseteq> set (collections t') \<and>
     (\<forall>c i. map_of (batches t') (u, c, i) = map_of (batches t) (u, c, i))"

lemma batches_kept_holds:
  assumes "batches_kept u t t'" "batch_holds cd t u coll i bs e" "wf_tables t" "wf_tables t'"
  shows "batch_holds cd t' u coll i bs e"
  using assms by (auto simp: batch_holds_def batches_kept_def collection_ids_iff)

text \<open>
  \<open>uploading \<dots> b bs db\<close>: an upload has sent the BSOs \<open>bs\<close> into its batch \<open>b\<close>, the requests run
  in sessions and with timestamps of their own.
\<close>

inductive uploading ::
  "'c sql_conn \<Rightarrow> ('c \<Rightarrow> tables) \<Rightarrow> batch_codec \<Rightarrow> hawk_identifier \<Rightarrow> string \<Rightarrow> string \<Rightarrow>
     post_collection_bso list \<Rightarrow> 'c mysql_db \<Rightarrow> bool"
  for eng view cd hawk coll b where
  create: "\<lbrakk>batch_create eng cd hawk coll pbsos db = (Inr b, db'); db_ok view db;
    list_all wf_post_bso pbsos\<rbrakk> \<Longrightarrow> uploading eng view cd hawk coll b pbsos db'"
| append: "\<lbrakk>uploading eng view cd hawk coll b bs db;
    batch_append eng cd hawk coll b pbsos db = (Inr (), db'); list_all wf_post_bso pbsos\<rbrakk> \<Longrightarrow>
    uploading eng view cd hawk coll b (bs @ pbsos) db'"
| elsewhere: "\<lbrakk>uploading eng view cd hawk coll b bs db; db_ok view db';
    batches_kept (user_of hawk) (view (conn db)) (view (conn db'))\<rbrakk> \<Longrightarrow>
    uploading eng view cd hawk coll b bs db'"

lemma as_i64_range: "- (2 ^ 63) \<le> as_i64 ts" "as_i64 ts < 2 ^ 63"
  using sint_ge [of ts] sint_less [of ts] by (simp_all add: as_i64_def u64_as_i64_def)

context sql_connection
begin

lemma uploading_holds:
  assumes "uploading eng view cd hawk coll b bs db" "codec cd"
  shows "db_ok view db \<and> (\<exists>i. decode_id cd b = Inr i \<and> b = encode_id cd i \<and>
    batch_holds cd (view (conn db)) (user_of hawk) coll i bs (wrap_i64 (i + BATCH_LIFETIME)))"
  using assms(1)
proof induction
  case (create pbsos db db')
  then show ?case
    using batch_create_Inr [OF create.hyps(1,2) assms(2) create.hyps(3)]
      codec.decode_encode_id [OF assms(2) as_i64_range] by auto
next
  case (append bs db pbsos db')
  then obtain i where "decode_id cd b = Inr i" "b = encode_id cd i" "db_ok view db"
    "batch_holds cd (view (conn db)) (user_of hawk) coll i bs (wrap_i64 (i + BATCH_LIFETIME))"
    by blast
  then show ?case
    using batch_append_Inr [OF append.hyps(2) _ assms(2) append.hyps(3)] by blast
next
  case (elsewhere bs db db')
  then show ?case
    using batches_kept_holds [OF elsewhere.hyps(3)] db_ok_wf by blast
qed

end

text \<open>C8. However an upload is cut into requests, it stores what one post of all its BSOs would have
  stored: when the batch is fetched and committed, and every BSO of it is stored, then the users'
  BSOs, the collection's modification time and the answered timestamp are those of a single
  \<open>post_bsos\<close> of the BSOs sent, in the order they were sent, and the batch is gone.\<close>

theorem batch_is_one_post:
  assumes "sql_connection eng view saved" "codec cd" "uploading eng view cd hawk coll b bs db"
    and "batch_get eng cd hawk coll b db = (Inr (Some ba), db1)"
    and "batch_commit eng cd hawk coll ba db1 = (Inr result, db2)"
    and "pr_success result = map pb_id bs"
    and "post_bsos_sync eng hawk coll bs [] db = (Inr result', db')"
    and "pr_success result' = map pb_id bs"
  shows "stored (view (conn db2)) = stored (view (conn db')) \<and>
    last_changed (view (conn db2)) (touched_user_of hawk) coll =
      last_changed (view (conn db')) (touched_user_of hawk) coll \<and>
    result = result' \<and>
    (\<exists>i. b = encode_id cd i \<and> batch_absent (view (conn db2)) (user_of hawk) coll i)"
proof -
  obtain i e where i: "decode_id cd b = Inr i" "b = encode_id cd i"
      "batch_holds cd (view (conn db)) (user_of hawk) coll i bs e" and ok: "db_ok view db"
    using sql_connection.uploading_holds [OF assms(1,3,2)] by blast
  note g = sql_connection.batch_get_Inr [OF assms(1,4) ok assms(2) i(1,3)]
  have id: "decode_id cd (batch_id ba) = Inr i"
    using g(4) i(1,2) by simp
  have now: "db_timestamp db1 = db_timestamp db"
    using g(2) by (simp add: same_session_def db_timestamp_def)
  note c = sql_connection.batch_commit_Inr [OF assms(1,5) g(1,7) id assms(6)]
  note p = sql_connection.post_bsos_Inr [OF assms(1,7) ok assms(8)]
  have "result = result'"
    using c(3,7) p(3,4) assms(6,8) now by simp
  then show ?thesis
    using c(4-6) p(5,6) i(2) g(3) now by auto
qed

text \<open>C9. An upload is found exactly until its lifetime is over, two hours after its batch was created
  (the time its id carries), with all the BSOs sent, in order; from then on it is neither found nor
  appended to.\<close>

theorem batch_lifetime:
  assumes "sql_connection eng view saved" "codec cd" "uploading eng view cd hawk coll b bs db"
    and "batch_get eng cd hawk coll b db = (Inr found, db')" "list_all wf_post_bso pbsos"
  shows "\<exists>i. b = encode_id cd i \<and>
    (if as_i64 (db_timestamp db) < wrap_i64 (i + BATCH_LIFETIME)
     then \<exists>ba. found = Some ba \<and> batch_string_to_bsos cd (batch_bsos ba) = Inr bs
     else found = None \<and> fst (batch_append eng cd hawk coll b pbsos db) \<noteq> Inr ())"
proof -
  obtain i where i: "decode_id cd b = Inr i" "b = encode_id cd i"
      "batch_holds cd (view (conn db)) (user_of hawk) coll i bs (wrap_i64 (i + BATCH_LIFETIME))"
    and ok: "db_ok view db"
    using sql_connection.uploading_holds [OF assms(1,3,2)] by blast
  note g = sql_connection.batch_get_found [OF assms(1,4) ok assms(2) i(1,3)]
  have "as_i64 (db_timestamp db) < wrap_i64 (i + BATCH_LIFETIME)"
    if "batch_append eng cd hawk coll b pbsos db = (Inr (), db2)" for db2
    by (rule sql_connection.batch_append_Inr(3) [OF assms(1) that ok assms(2,5) i(1,3)])
  then show ?thesis
    using g(4) i(2) by (intro exI [of _ i]) (auto simp: prod_eq_iff)
qed

text \<open>A run: a batch created in one session, filled and committed in a later one.\<close>

definition sample_batch :: string where
  "sample_batch = encode_id text_codec 2000000"

definition created :: "(db_error + string) \<times> mem_conn mysql_db" where
  "created = batch_create mem_engine text_codec sample_user ''col'' [hd sample_posts] later_db"

definition next_session :: "mem_conn mysql_db \<Rightarrow> mem_conn mysql_db" where
  "next_session db = new_mysql_db (conn db) (coll_cache db) 3000000"

definition filled :: "(db_error + unit) \<times> mem_conn mysql_db" where
  "filled = batch_append mem_engine text_codec sample_user ''col'' sample_batch (tl sample_posts)
     (next_session (snd created))"

definition fetched :: "(db_error + batch option) \<times> mem_conn mysql_db" where
  "fetched = batch_get mem_engine text_codec sample_user ''col'' sample_batch (snd filled)"

definition committed :: "(db_error + post_bsos_result) \<times> mem_conn mysql_db" where
  "committed = (case fetched of (ba, db) \<Rightarrow>
     batch_commit mem_engine text_codec sample_user ''col'' (the (projr ba)) db)"

definition posted :: "(db_error + post_bsos_result) \<times> mem_conn mysql_db" where
  "posted = post_bsos_sync mem_engine sample_user ''col'' sample_posts [] (snd filled)"

text \<open>All five runs evaluated at once.\<close>

lemma sample_upload:
  "(case created of (r1, db1) \<Rightarrow>
    case batch_append mem_engine text_codec sample_user ''col'' sample_batch (tl sample_posts)
      (next_session db1) of (r2, db2) \<Rightarrow>
    case batch_get mem_engine text_codec sample_user ''col'' sample_batch db2 of (r3, db3) \<Rightarrow>
    case batch_commit mem_engine text_codec sample_user ''col'' (the (projr r3)) db3 of (r4, db4) \<Rightarrow>
    case post_bsos_sync mem_engine sample_user ''col'' sample_posts [] db2 of (r5, db5) \<Rightarrow>
      (r1, r2, map_sum id (\<lambda>ba. ba \<noteq> None) r3, map_sum id pr_success r4, map_sum id pr_success r5)) =
   (Inr sample_batch, Inr (), Inr True, Inr [''b0'', ''b1''], Inr [''b0'', ''b1''])"
  by code_simp

lemma sample_upload_runs:
  "fst created = Inr sample_batch" "fst filled = Inr ()"
  "map_sum id (\<lambda>ba. ba \<noteq> None) (fst fetched) = Inr True"
  "map_sum id pr_success (fst committed) = Inr [''b0'', ''b1'']"
  "map_sum id pr_success (fst posted) = Inr [''b0'', ''b1'']"
  using sample_upload
  by (simp_all add: filled_def fetched_def committed_def posted_def case_prod_beta)

lemma sample_posts_wf: "list_all wf_post_bso [hd sample_posts]" "list_all wf_post_bso (tl sample_posts)"
  by (simp_all add: sample_posts_def wf_post_bso_def byte_in_def)

lemma batch_is_one_post_witness:
  "stored (mem_tables (conn (snd committed))) = stored (mem_tables (conn (snd posted)))"
proof -
  obtain db1 where db1: "created = (Inr sample_batch, db1)"
    using sample_upload_runs(1) by (metis prod.collapse)
  obtain db2 where db2: "filled = (Inr (), db2)"
    using sample_upload_runs(2) by (metis prod.collapse)
  obtain ba db3 where db3: "fetched = (Inr (Some ba), db3)"
    using sample_upload_runs(3) by (auto simp: map_sum_Inr_iff prod_eq_iff)
  obtain r4 db4 where db4: "committed = (Inr r4, db4)" "pr_success r4 = [''b0'', ''b1'']"
    using sample_upload_runs(4) by (auto simp: map_sum_Inr_iff prod_eq_iff)
  obtain r5 db5 where db5: "posted = (Inr r5, db5)" "pr_success r5 = [''b0'', ''b1'']"
    using sample_upload_runs(5) by (auto simp: map_sum_Inr_iff prod_eq_iff)
  let ?up = "uploading mem_engine mem_tables text_codec sample_user ''col'' sample_batch"
  have up1: "?up [hd sample_posts] db1"
    using uploading.create [OF db1 [unfolded created_def] later_db_ok sample_posts_wf(1)] .
  have ok1: "db_ok mem_tables db1"
    using mem.uploading_holds [OF up1 hex.codec_axioms] by blast
  have "db_ok mem_tables (next_session db1)"
    using ok1 by (simp add: db_ok_def next_session_def new_mysql_db_def)
  then have "?up [hd sample_posts] (next_session db1)"
    by (rule uploading.elsewhere [OF up1])
      (simp add: batches_kept_def next_session_def new_mysql_db_def)
  then have "?up ([hd sample_posts] @ tl sample_posts) db2"
    using db2 sample_posts_wf(2) by (intro uploading.append) (simp_all add: filled_def db1)
  moreover have "[hd sample_posts] @ tl sample_posts = sample_posts"
    by (simp add: sample_posts_def)
  ultimately have up2: "?up sample_posts db2" by simp
  have runs: "batch_get mem_engine text_codec sample_user ''col'' sample_batch db2 = (Inr (Some ba), db3)"
    "batch_commit mem_engine text_codec sample_user ''col'' ba db3 = (Inr r4, db4)"
    "post_bsos_sync mem_engine sample_user ''col'' sample_posts [] db2 = (Inr r5, db5)"
    using db3 db4(1) db5(1) by (simp_all add: fetched_def committed_def posted_def db2 db3)
  have ids: "pr_success r4 = map pb_id sample_posts" "pr_success r5 = map pb_id sample_posts"
    by (simp_all only: db4(2) db5(2) sample_posts_ids)
  show ?thesis
    using batch_is_one_post [OF mem.sql_connection_axioms hex.codec_axioms up2 runs(1,2) ids(1)
        runs(3) ids(2)]
    by (simp add: db4 db5)
qed

lemma sample_uploading: "uploading mem_engine mem_tables text_codec sample_user ''col'' sample_batch
  [hd sample_posts] (snd created)"
proof -
  obtain db1 where db1: "created = (Inr sample_batch, db1)"
    using sample_upload_runs(1) by (metis prod.collapse)
  show ?thesis
    using uploading.create [OF db1 [unfolded created_def] later_db_ok sample_posts_wf(1)]
    by (simp add: db1)
qed

lemma sample_found:
  "map_sum id (\<lambda>ba. ba \<noteq> None) (fst (batch_get mem_engine text_codec sample_user ''col'' sample_batch
     (snd created))) = Inr True"
  by code_simp

lemma batch_lifetime_witness:
  "\<exists>i. sample_batch = encode_id text_codec i \<and>
    as_i64 (db_timestamp (snd created)) < wrap_i64 (i + BATCH_LIFETIME)"
proof -
  obtain ba db' where get: "batch_get mem_engine text_codec sample_user ''col'' sample_batch
      (snd created) = (Inr (Some ba), db')"
    using sample_found by (auto simp: map_sum_Inr_iff prod_eq_iff)
  show ?thesis
    using batch_lifetime [OF mem.sql_connection_axioms hex.codec_axioms sample_uploading get
        sample_posts_wf(2)]
    by (auto split: if_splits)
qed

end
