(* ===== verification/Web_Settings.thy ===== *)
theory Web_Settings
  imports Sync_Params
begin

text \<open>
  The settings of the server (\<open>src/settings.rs\<close>): the limits on requests, their defaults, what
  is adjusted once the settings are read, and the secrets derived from the master secret. Reading
  the file and the environment is the \<open>config\<close> library's, which is handed the table of defaults;
  HKDF is the parameter \<open>hkdf\<close>, the number of CPUs and the parser of URLs are parameters.
\<close>

section \<open>Limits\<close>

definition KILOBYTE :: u32 where "KILOBYTE = 1024"
definition MEGABYTE :: u32 where "MEGABYTE = KILOBYTE * KILOBYTE"
definition DEFAULT_PORT :: nat where "DEFAULT_PORT = 8000"
definition DEFAULT_MAX_POST_BYTES :: u32 where "DEFAULT_MAX_POST_BYTES = 2 * MEGABYTE"
definition DEFAULT_MAX_POST_RECORDS :: u32 where "DEFAULT_MAX_POST_RECORDS = 100"
definition DEFAULT_MAX_RECORD_PAYLOAD_BYTES :: u32 where
  "DEFAULT_MAX_RECORD_PAYLOAD_BYTES = 2 * MEGABYTE"
definition DEFAULT_MAX_REQUEST_BYTES :: u32 where
  "DEFAULT_MAX_REQUEST_BYTES = DEFAULT_MAX_POST_BYTES + 4 * KILOBYTE"
definition DEFAULT_MAX_TOTAL_BYTES :: u32 where
  "DEFAULT_MAX_TOTAL_BYTES = 100 * DEFAULT_MAX_POST_BYTES"
definition DEFAULT_MAX_TOTAL_RECORDS :: u32 where
  "DEFAULT_MAX_TOTAL_RECORDS = 100 * DEFAULT_MAX_POST_RECORDS"
definition PREFIX :: string where "PREFIX = ''sync''"
definition MAX_SPANNER_LOAD_SIZE :: nat where "MAX_SPANNER_LOAD_SIZE = 100000000"

record server_limits =
  max_post_bytes :: u32
  max_post_records :: u32
  max_record_payload_bytes :: u32
  max_request_bytes :: u32
  max_total_bytes :: u32
  max_total_records :: u32

definition default_limits :: server_limits where
  "default_limits =
     \<lparr>max_post_bytes = DEFAULT_MAX_POST_BYTES,
      max_post_records = DEFAULT_MAX_POST_RECORDS,
      max_record_payload_bytes = DEFAULT_MAX_RECORD_PAYLOAD_BYTES,
      max_request_bytes = DEFAULT_MAX_REQUEST_BYTES,
      max_total_bytes = DEFAULT_MAX_TOTAL_BYTES,
      max_total_records = DEFAULT_MAX_TOTAL_RECORDS\<rparr>"

section \<open>Secrets\<close>

text \<open>\<open>hkdf_lib info salt key\<close>: 32 derived bytes, or the text of the library's error.\<close>

type_synonym hkdf_lib = "string \<Rightarrow> string option \<Rightarrow> string \<Rightarrow> string + string"

definition hkdf_expand_32 ::
  "hkdf_lib \<Rightarrow> string \<Rightarrow> string option \<Rightarrow> string \<Rightarrow> api_error + string" where
  "hkdf_expand_32 hkdf info salt key =
     map_sum (\<lambda>e. api_error_of (ApiInternal (''HKDF Error: '' @ e))) id (hkdf info salt key)"

record secrets =
  master_secret :: string
  signing_secret :: string

definition new_secrets :: "hkdf_lib \<Rightarrow> string \<Rightarrow> api_error + secrets" where
  "new_secrets hkdf master =
     map_sum id (\<lambda>signing. \<lparr>master_secret = master, signing_secret = signing\<rparr>)
       (hkdf_expand_32 hkdf ''services.mozilla.com/tokenlib/v1/signing'' None master)"

definition default_secrets :: secrets where
  "default_secrets = \<lparr>master_secret = [], signing_secret = replicate 32 (CHR 0x00)\<rparr>"

section \<open>Settings\<close>

record settings =
  set_debug :: bool
  set_port :: nat
  set_host :: string
  database_url :: string
  database_pool_max_size :: "u32 option"
  database_pool_min_idle :: "u32 option"
  set_limits :: server_limits
  set_secrets :: secrets
  human_logs :: bool
  statsd_host :: "string option"
  statsd_port :: nat
  statsd_label :: string

definition default_settings :: settings where
  "default_settings =
     \<lparr>set_debug = False, set_port = DEFAULT_PORT, set_host = ''127.0.0.1'',
      database_url = ''mysql://root@127.0.0.1/syncstorage'',
      database_pool_max_size = None, database_pool_min_idle = None,
      set_limits = default_limits, set_secrets = default_secrets, human_logs = False,
      statsd_host = None, statsd_port = 8125, statsd_label = ''syncstorage''\<rparr>"

text \<open>The defaults handed to the library, as settings values.\<close>

definition config_defaults :: "(string \<times> json) list" where
  "config_defaults =
     [(''debug'', JBool False), (''port'', JInt (int DEFAULT_PORT)), (''host'', JStr ''127.0.0.1''),
      (''human_logs'', JBool False), (''master_secret'', JStr ''''),
      (''limits.max_post_bytes'', JInt (uint DEFAULT_MAX_POST_BYTES)),
      (''limits.max_post_records'', JInt (uint DEFAULT_MAX_POST_RECORDS)),
      (''limits.max_record_payload_bytes'', JInt (uint DEFAULT_MAX_RECORD_PAYLOAD_BYTES)),
      (''limits.max_request_bytes'', JInt (uint DEFAULT_MAX_REQUEST_BYTES)),
      (''limits.max_total_bytes'', JInt (uint DEFAULT_MAX_TOTAL_BYTES)),
      (''limits.max_total_records'', JInt (uint DEFAULT_MAX_TOTAL_RECORDS)),
      (''statsd_host'', JStr ''localhost''), (''statsd_port'', JInt 8125),
      (''statsd_label'', JStr ''syncstorage'')]"

definition uses_spanner :: "settings \<Rightarrow> bool" where
  "uses_spanner s \<longleftrightarrow> starts_with ''spanner'' (database_url s)"

text \<open>
  After reading: the settings, and the value given to \<open>ACTIX_THREADPOOL\<close> when it is set.
\<close>

definition adjust_settings :: "nat \<Rightarrow> settings \<Rightarrow> settings \<times> string option" where
  "adjust_settings num_cpus s =
     (if uses_spanner s then
        (s\<lparr>set_limits := (set_limits s)\<lparr>max_total_bytes :=
             min (max_total_bytes (set_limits s)) (of_nat MAX_SPANNER_LOAD_SIZE)\<rparr>\<rparr>, None)
      else
        (s, case database_pool_max_size s of
              None \<Rightarrow> None
            | Some n \<Rightarrow>
                if unat n > num_cpus * 5 then Some (show_nat (unat n)) else None))"

text \<open>What reading the settings ends in: an undefined value is reported as one not found.\<close>

datatype config_error = ConfigMessage string | ConfigNotFound string | OtherConfigError string

definition read_settings ::
  "nat \<Rightarrow> config_error + settings \<Rightarrow> config_error + settings \<times> string option" where
  "read_settings num_cpus parsed =
     (case parsed of
        Inr s \<Rightarrow> Inr (adjust_settings num_cpus s)
      | Inl (ConfigMessage v) \<Rightarrow> Inl (ConfigNotFound v)
      | Inl e \<Rightarrow> Inl e)"

definition banner :: "(string \<Rightarrow> string option) \<Rightarrow> settings \<Rightarrow> string" where
  "banner url_scheme s =
     ''http://'' @ set_host s @ '':'' @ show_nat (set_port s) @ '' ('' @
       (case url_scheme (database_url s) of None \<Rightarrow> ''<invalid db>'' | Some sch \<Rightarrow> sch) @ '')''"

text \<open>The default limits do not wrap around: they are the numbers they look like.\<close>

lemma default_limits_values:
  "unat (max_post_bytes default_limits) = 2097152"
  "unat (max_post_records default_limits) = 100"
  "unat (max_record_payload_bytes default_limits) = 2097152"
  "unat (max_request_bytes default_limits) = 2101248"
  "unat (max_total_bytes default_limits) = 209715200"
  "unat (max_total_records default_limits) = 10000"
  by (simp_all add: default_limits_def DEFAULT_MAX_POST_BYTES_def DEFAULT_MAX_POST_RECORDS_def
      DEFAULT_MAX_RECORD_PAYLOAD_BYTES_def DEFAULT_MAX_REQUEST_BYTES_def
      DEFAULT_MAX_TOTAL_BYTES_def DEFAULT_MAX_TOTAL_RECORDS_def MEGABYTE_def KILOBYTE_def)

end
