(* ===== verification/Rust_Regex.thy ===== *)
theory Rust_Regex
  imports Rust_Text
begin

text \<open>
  Regular expressions for the patterns the code hands to the \<open>regex\<close> library and to the router,
  matched by derivatives, with the words they stand for.
\<close>

datatype regex =
    RZero
  | ROne
  | RClass "char \<Rightarrow> bool"
  | RAlt regex regex
  | RCat regex regex
  | RStar regex

fun nullable :: "regex \<Rightarrow> bool" where
  "nullable RZero = False"
| "nullable ROne = True"
| "nullable (RClass p) = False"
| "nullable (RAlt r s) = (nullable r \<or> nullable s)"
| "nullable (RCat r s) = (nullable r \<and> nullable s)"
| "nullable (RStar r) = True"

text \<open>Constructors that drop what cannot match.\<close>

fun mk_alt :: "regex \<Rightarrow> regex \<Rightarrow> regex" where
  "mk_alt RZero s = s"
| "mk_alt r RZero = r"
| "mk_alt r s = RAlt r s"

fun mk_cat :: "regex \<Rightarrow> regex \<Rightarrow> regex" where
  "mk_cat RZero s = RZero"
| "mk_cat ROne s = s"
| "mk_cat r s = RCat r s"

fun deriv :: "char \<Rightarrow> regex \<Rightarrow> regex" where
  "deriv c RZero = RZero"
| "deriv c ROne = RZero"
| "deriv c (RClass p) = (if p c then ROne else RZero)"
| "deriv c (RAlt r s) = mk_alt (deriv c r) (deriv c s)"
| "deriv c (RCat r s) =
     (if nullable r then mk_alt (mk_cat (deriv c r) s) (deriv c s) else mk_cat (deriv c r) s)"
| "deriv c (RStar r) = mk_cat (deriv c r) (RStar r)"

fun matches :: "regex \<Rightarrow> string \<Rightarrow> bool" where
  "matches r [] = nullable r"
| "matches r (c # s) = matches (deriv c r) s"

section \<open>The words of an expression\<close>

inductive in_lang :: "regex \<Rightarrow> string \<Rightarrow> bool" where
  in_one: "in_lang ROne []"
| in_class: "p c \<Longrightarrow> in_lang (RClass p) [c]"
| in_alt1: "in_lang r u \<Longrightarrow> in_lang (RAlt r s) u"
| in_alt2: "in_lang s u \<Longrightarrow> in_lang (RAlt r s) u"
| in_cat: "in_lang r u \<Longrightarrow> in_lang s v \<Longrightarrow> in_lang (RCat r s) (u @ v)"
| in_star_nil: "in_lang (RStar r) []"
| in_star_app: "in_lang r u \<Longrightarrow> in_lang (RStar r) v \<Longrightarrow> in_lang (RStar r) (u @ v)"

inductive_simps in_lang_simps:
  "in_lang RZero u" "in_lang ROne u" "in_lang (RClass p) u" "in_lang (RAlt r s) u"
  "in_lang (RCat r s) u"

lemma in_lang_mk_alt: "in_lang (mk_alt r s) u \<longleftrightarrow> in_lang r u \<or> in_lang s u"
  by (induction r s rule: mk_alt.induct) (auto simp: in_lang_simps)

lemma in_lang_mk_cat: "in_lang (mk_cat r s) u \<longleftrightarrow> (\<exists>v w. u = v @ w \<and> in_lang r v \<and> in_lang s w)"
  by (induction r s rule: mk_cat.induct) (auto simp: in_lang_simps)

lemma nullable_lang: "nullable r \<longleftrightarrow> in_lang r []"
  by (induction r) (auto simp: in_lang_simps intro: in_star_nil)

lemma star_first:
  assumes "in_lang (RStar r) (c # u)"
  shows "\<exists>v w. u = v @ w \<and> in_lang r (c # v) \<and> in_lang (RStar r) w"
  using assms
  by (induction "RStar r" "c # u" arbitrary: u rule: in_lang.induct)
    (auto simp: append_eq_Cons_conv)

lemma deriv_lang: "in_lang (deriv c r) u \<longleftrightarrow> in_lang r (c # u)"
proof (induction r arbitrary: u)
  case (RCat r s)
  then show ?case
    by (auto simp: in_lang_simps in_lang_mk_alt in_lang_mk_cat nullable_lang Cons_eq_append_conv)
next
  case (RStar r)
  have "in_lang (deriv c (RStar r)) u \<longleftrightarrow> (\<exists>v w. u = v @ w \<and> in_lang r (c # v) \<and> in_lang (RStar r) w)"
    using RStar by (simp add: in_lang_mk_cat)
  also have "\<dots> \<longleftrightarrow> in_lang (RStar r) (c # u)"
    using star_first [of r c u] by (metis append_Cons in_star_app)
  finally show ?case .
qed (auto simp: in_lang_simps in_lang_mk_alt)

lemma matches_lang: "matches r u \<longleftrightarrow> in_lang r u"
  by (induction u arbitrary: r) (simp_all add: nullable_lang deriv_lang)

section \<open>Building blocks\<close>

definition rlit :: "string \<Rightarrow> regex" where
  "rlit s = foldr (\<lambda>c r. mk_cat (RClass ((=) c)) r) s ROne"

primrec at_most :: "(char \<Rightarrow> bool) \<Rightarrow> nat \<Rightarrow> regex" where
  "at_most p 0 = ROne"
| "at_most p (Suc n) = RAlt ROne (RCat (RClass p) (at_most p n))"

text \<open>\<open>[p]{1,n}\<close>\<close>

definition one_to :: "nat \<Rightarrow> (char \<Rightarrow> bool) \<Rightarrow> regex" where
  "one_to n p = RCat (RClass p) (at_most p (n - 1))"

definition rplus :: "(char \<Rightarrow> bool) \<Rightarrow> regex" where
  "rplus p = RCat (RClass p) (RStar (RClass p))"

definition rcats :: "regex list \<Rightarrow> regex" where
  "rcats rs = foldr mk_cat rs ROne"

lemma in_lang_lit: "in_lang (rlit s) u \<longleftrightarrow> u = s"
  by (induction s arbitrary: u) (auto simp: rlit_def in_lang_simps in_lang_mk_cat)

lemma in_lang_class_cat:
  "in_lang (RCat (RClass p) r) u \<longleftrightarrow> (\<exists>c v. u = c # v \<and> p c \<and> in_lang r v)"
proof
  assume "in_lang (RCat (RClass p) r) u"
  then show "\<exists>c v. u = c # v \<and> p c \<and> in_lang r v"
    by (auto simp: in_lang_simps)
next
  assume "\<exists>c v. u = c # v \<and> p c \<and> in_lang r v"
  then obtain c v where "u = [c] @ v" "p c" "in_lang r v"
    by auto
  then show "in_lang (RCat (RClass p) r) u"
    by (simp only: in_cat in_class)
qed

lemma in_lang_at_most: "in_lang (at_most p n) u \<longleftrightarrow> length u \<le> n \<and> list_all p u"
proof (induction n arbitrary: u)
  case (Suc n)
  then show ?case
    by (cases u) (simp_all only: at_most.simps in_lang_simps(2,4) in_lang_class_cat,
      auto)
qed (auto simp: in_lang_simps)

lemma in_lang_one_to:
  assumes "0 < n"
  shows "in_lang (one_to n p) u \<longleftrightarrow> 1 \<le> length u \<and> length u \<le> n \<and> list_all p u"
proof -
  obtain m where "n = Suc m"
    using assms by (cases n) auto
  then show ?thesis
    by (cases u) (auto simp add: one_to_def in_lang_class_cat in_lang_at_most)
qed

lemma in_lang_rcats_Nil: "in_lang (rcats []) u \<longleftrightarrow> u = []"
  by (simp add: rcats_def in_lang_simps)

lemma in_lang_rcats_Cons:
  "in_lang (rcats (r # rs)) u \<longleftrightarrow> (\<exists>v w. u = v @ w \<and> in_lang r v \<and> in_lang (rcats rs) w)"
  by (simp add: rcats_def in_lang_mk_cat)

lemmas in_lang_blocks = in_lang_lit in_lang_one_to in_lang_rcats_Nil in_lang_rcats_Cons

end
