(* ===== verification/Web_Request.thy ===== *)
theory Web_Request
  imports Web_Settings Rust_Regex
begin

text \<open>
  A request as the HTTP framework presents it to the extractors, the patterns ids and collection
  names must match (\<open>src/server/mod.rs\<close>, \<open>src/web/extractors.rs\<close>), and the tags taken from the
  user agent (\<open>src/web/tags.rs\<close>, \<open>src/server/user_agent.rs\<close>).
\<close>

section \<open>Requests\<close>

datatype http_method = GET | HEAD | POST | PUT | DELETE | OtherMethod string

fun method_name :: "http_method \<Rightarrow> string" where
  "method_name GET = ''GET''"
| "method_name HEAD = ''HEAD''"
| "method_name POST = ''POST''"
| "method_name PUT = ''PUT''"
| "method_name DELETE = ''DELETE''"
| "method_name (OtherMethod m) = m"

text \<open>
  \<open>rq_path\<close> is the path as it was sent, \<open>rq_route_path\<close> as the router decodes it. Header names are
  in lower case. The framework's own parsing is part of the request: the decoded
  pairs of the query string, the media type of the body, the accepted media types with their
  quality (in thousandths), the body as text and as a JSON document, each or the text of its
  error; and the host, scheme and target of the connection.
\<close>

record http_request =
  rq_method :: http_method
  rq_path :: string
  rq_route_path :: string
  rq_headers :: "(string, string) table"
  rq_query :: "string + (string \<times> string) list"
  rq_content_type :: "string + string"
  rq_accept :: "string + (string \<times> nat) list"
  rq_body :: "string + string"
  rq_json :: "string + json"
  rq_host :: string
  rq_scheme :: string
  rq_target :: "string option"

definition rq_header :: "http_request \<Rightarrow> string \<Rightarrow> string option" where
  "rq_header req name = map_of (rq_headers req) (to_lower name)"

text \<open>A header value is text when its bytes are visible ASCII or tabs.\<close>

definition header_to_str :: "string \<Rightarrow> string + string" where
  "header_to_str v =
     (if list_all (\<lambda>c. byte_in 32 126 c \<or> c = CHR 0x09) v then Inr v
      else Inl ''failed to convert header to a str'')"

text \<open>The state the server shares with its workers: absent when the application was not set up.\<close>

record server_state =
  st_limits :: server_limits
  st_secrets :: secrets
  st_port :: nat

section \<open>Patterns\<close>

text \<open>\<open>^[ -~]{1,64}$\<close>, \<open>^[a-zA-Z0-9._-]{1,32}$\<close>, \<open>^[0-9]{1,10}$\<close> and \<open>^(?i)true$\<close>.\<close>

definition valid_bso_id :: "string \<Rightarrow> bool" where
  "valid_bso_id s \<longleftrightarrow> 1 \<le> length s \<and> length s \<le> 64 \<and> list_all (byte_in 32 126) s"

definition collection_char :: "char \<Rightarrow> bool" where
  "collection_char c \<longleftrightarrow>
     byte_in 97 122 c \<or> byte_in 65 90 c \<or> is_digit c \<or> c \<in> {CHR ''.'', CHR ''_'', CHR ''-''}"

definition valid_collection_id :: "string \<Rightarrow> bool" where
  "valid_collection_id s \<longleftrightarrow> 1 \<le> length s \<and> length s \<le> 32 \<and> list_all collection_char s"

definition valid_uid :: "string \<Rightarrow> bool" where
  "valid_uid s \<longleftrightarrow> 1 \<le> length s \<and> length s \<le> 10 \<and> list_all is_digit s"

definition is_true :: "string \<Rightarrow> bool" where
  "is_true s \<longleftrightarrow> to_lower s = ''true''"

text \<open>The pattern of the payloads a faulty client wrote, searched anywhere in a payload:
  \<open>IV":\s*"AAAAAAAAAAAAAAAAAAAAAA==\<close>.\<close>

fun known_bad_payload :: "string \<Rightarrow> bool" where
  "known_bad_payload s =
     (starts_with (''IV'' @ [CHR 0x22] @ '':'') s \<and>
      starts_with (CHR 0x22 # ''AAAAAAAAAAAAAAAAAAAAAA=='') (trim_start (drop 4 s)) \<or>
      (case s of [] \<Rightarrow> False | _ # s' \<Rightarrow> known_bad_payload s'))"

declare known_bad_payload.simps [simp del]

definition DOCKER_FLOW_ENDPOINTS :: "string list" where
  "DOCKER_FLOW_ENDPOINTS = [''/__heartbeat__'', ''/__lbheartbeat__'', ''/__version__'', ''/__error__'']"

definition X_LAST_MODIFIED :: string where "X_LAST_MODIFIED = ''x-last-modified''"
definition X_WEAVE_TIMESTAMP :: string where "X_WEAVE_TIMESTAMP = ''x-weave-timestamp''"
definition X_WEAVE_NEXT_OFFSET :: string where "X_WEAVE_NEXT_OFFSET = ''x-weave-next-offset''"
definition X_WEAVE_RECORDS :: string where "X_WEAVE_RECORDS = ''x-weave-records''"

section \<open>Tags\<close>

text \<open>What the user agent parser reports: name, operating system and versions.\<close>

record woothee_result =
  wo_name :: string
  wo_os :: string
  wo_os_version :: string
  wo_version :: string

definition VALID_UA_BROWSER :: "string list" where
  "VALID_UA_BROWSER = [''Chrome'', ''Firefox'', ''Safari'', ''Opera'']"

definition VALID_UA_OS :: "string list" where
  "VALID_UA_OS = [''Firefox OS'', ''Linux'', ''Mac OSX'']"

definition parse_user_agent ::
  "(string \<Rightarrow> woothee_result option) \<Rightarrow> string \<Rightarrow> woothee_result \<times> string \<times> string" where
  "parse_user_agent woothee agent =
     (let wresult = (case woothee agent of
              Some w \<Rightarrow> w
            | None \<Rightarrow> \<lparr>wo_name = '''', wo_os = '''', wo_os_version = '''', wo_version = ''''\<rparr>);
          metrics_os =
            (if starts_with ''Windows'' (wo_os wresult) then ''Windows''
             else if wo_os wresult \<in> set VALID_UA_OS then wo_os wresult else ''Other'');
          metrics_browser =
            (if wo_name wresult \<in> set VALID_UA_BROWSER then wo_name wresult else ''Other'')
      in (wresult, metrics_os, metrics_browser))"

record tags =
  tag_map :: "(string, string) table"
  tag_extra :: "(string, string) table"

definition default_tags :: tags where
  "default_tags = \<lparr>tag_map = [], tag_extra = []\<rparr>"

definition insert_if_not_empty ::
  "string \<Rightarrow> string \<Rightarrow> (string, string) table \<Rightarrow> (string, string) table" where
  "insert_if_not_empty label val t = (if val \<noteq> [] then AList.update label val t else t)"

definition tags_from_request :: "(string \<Rightarrow> woothee_result option) \<Rightarrow> http_request \<Rightarrow> tags" where
  "tags_from_request woothee req =
     (let t = (case rq_header req ''user-agent'' of
              None \<Rightarrow> []
            | Some ua \<Rightarrow>
                (case header_to_str ua of
                   Inl _ \<Rightarrow> []
                 | Inr uas \<Rightarrow>
                     (case parse_user_agent woothee uas of
                        (ua_result, metrics_os, metrics_browser) \<Rightarrow>
                          insert_if_not_empty ''ua.browser.ver'' (wo_version ua_result)
                            (insert_if_not_empty ''ua.os.ver'' (wo_os_version ua_result)
                              (insert_if_not_empty ''ua.name'' (wo_name ua_result)
                                (insert_if_not_empty ''ua.browser.family'' metrics_browser
                                  (insert_if_not_empty ''ua.os.family'' metrics_os [])))))))
      in \<lparr>tag_map = AList.update ''uri.method'' (method_name (rq_method req)) t, tag_extra = []\<rparr>)"

definition tags_with :: "(string, string) table \<Rightarrow> tags" where
  "tags_with t = (if t = [] then default_tags else \<lparr>tag_map = t, tag_extra = []\<rparr>)"

definition tags_get :: "tags \<Rightarrow> string \<Rightarrow> string" where
  "tags_get t label = (case map_of (tag_map t) label of None \<Rightarrow> ''None'' | Some v \<Rightarrow> v)"

definition tags_extend :: "tags \<Rightarrow> (string, string) table \<Rightarrow> tags" where
  "tags_extend t new = t\<lparr>tag_map := fold (\<lambda>(k, v). AList.update k v) new (tag_map t)\<rparr>"

definition tags_json :: "tags \<Rightarrow> json" where
  "tags_json t = JObj (map (\<lambda>(k, v). (k, JStr v)) (filter (\<lambda>(k, v). v \<noteq> []) (tag_map t)))"

end
