(* ===== verification/Web_Auth.thy ===== *)
theory Web_Auth
  imports Web_Request
begin

text \<open>
  Hawk authentication (\<open>src/web/auth.rs\<close>) and the user of a request (\<open>HawkIdentifier\<close> of
  \<open>src/web/extractors.rs\<close>, \<open>get_hawk_id\<close> of \<open>src/web/middleware/mod.rs\<close>). Parsing and checking
  the header, base64, HMAC, HKDF and JSON are the libraries', given by a record; \<open>now\<close> is the
  clock, in seconds. The build without authentication is not modelled.
\<close>

section \<open>Libraries\<close>

record hawk_payload =
  hp_expires :: f64
  hp_node :: string
  hp_salt :: string
  hp_user_id :: u64
  hp_fxa_uid :: string
  hp_fxa_kid :: string
  hp_device_id :: string

text \<open>
  A parsed header is the id it carries and the rest; a request to check it against is method,
  host, port and target. \<open>hl_hmac key text\<close> is the code of a text, none for an unusable key;
  \<open>hl_valid\<close> checks a header against a request, a key and the clock skew allowed, in seconds.
\<close>

record hawk_lib =
  hl_parse :: "string \<Rightarrow> string + string option \<times> string"
  hl_base64_decode :: "string \<Rightarrow> string + string"
  hl_base64_encode :: "string \<Rightarrow> string"
  hl_hmac :: "string \<Rightarrow> string \<Rightarrow> string option"
  hl_hkdf :: hkdf_lib
  hl_payload :: "string \<Rightarrow> string + hawk_payload"
  hl_key :: "string \<Rightarrow> string + string"
  hl_valid :: "string \<times> string \<times> nat \<times> string \<Rightarrow> string option \<times> string \<Rightarrow> string \<Rightarrow> int \<Rightarrow> bool"

section \<open>The payload\<close>

definition hawk_error :: "hawk_error_kind \<Rightarrow> api_error + 'a" where
  "hawk_error k = Inl (api_error_of_hawk k)"

definition verify_hmac :: "hawk_lib \<Rightarrow> string \<Rightarrow> string \<Rightarrow> string \<Rightarrow> api_error + unit" where
  "verify_hmac lib info key expected =
     (case hl_hmac lib key info of
        None \<Rightarrow> hawk_error HawkInvalidKeyLength
      | Some mac \<Rightarrow> if mac = expected then Inr () else hawk_error (HawkHmac ''failed MAC verification''))"

text \<open>\<open>f64::round\<close>: to the nearest integer, halves away from zero.\<close>

fun f64_round :: "f64 \<Rightarrow> f64" where
  "f64_round (Fin a) = Fin (of_int (if a < 0 then - \<lfloor>- a + 1 / 2\<rfloor> else \<lfloor>a + 1 / 2\<rfloor>))"
| "f64_round x = x"

definition extract_and_validate ::
  "hawk_lib \<Rightarrow> string \<Rightarrow> secrets \<Rightarrow> nat \<Rightarrow> api_error + hawk_payload" where
  "extract_and_validate lib i secrets expiry =
     (case hl_base64_decode lib i of
        Inl e \<Rightarrow> hawk_error (HawkBase64 e)
      | Inr decoded_id \<Rightarrow>
          if length decoded_id \<le> 32 then hawk_error HawkTruncatedId
          else
            (let payload_length = length decoded_id - 32;
                 payload = take payload_length decoded_id;
                 signature = drop payload_length decoded_id
             in case verify_hmac lib payload (signing_secret secrets) signature of
                  Inl e \<Rightarrow> Inl e
                | Inr _ \<Rightarrow>
                    (case hl_payload lib payload of
                       Inl e \<Rightarrow> hawk_error (HawkJson e)
                     | Inr p \<Rightarrow>
                         if expiry = 0 \<or> f64_as_u64 (f64_round (hp_expires p)) > expiry then Inr p
                         else hawk_error HawkExpired)))"

text \<open>52 weeks, in seconds.\<close>

definition HEADER_SKEW :: int where "HEADER_SKEW = 52 * 7 * 24 * 60 * 60"

definition new_hawk_payload ::
  "hawk_lib \<Rightarrow> string \<Rightarrow> string \<Rightarrow> string \<Rightarrow> string \<Rightarrow> nat \<Rightarrow> secrets \<Rightarrow> nat \<Rightarrow>
     api_error + hawk_payload" where
  "new_hawk_payload lib hdr meth path host port secrets expiry =
     (if length hdr < 5 \<or> take 5 hdr \<noteq> ''Hawk '' then hawk_error HawkMissingPrefix
      else case hl_parse lib (drop 5 hdr) of
        Inl e \<Rightarrow> hawk_error (HawkParse e)
      | Inr parsed \<Rightarrow>
          (case fst parsed of
             None \<Rightarrow> hawk_error HawkMissingId
           | Some i \<Rightarrow>
               (case extract_and_validate lib i secrets expiry of
                  Inl e \<Rightarrow> Inl e
                | Inr payload \<Rightarrow>
                    (case hkdf_expand_32 (hl_hkdf lib) (''services.mozilla.com/tokenlib/v1/derive/'' @ i)
                            (Some (hp_salt payload)) (master_secret secrets) of
                       Inl e \<Rightarrow> Inl e
                     | Inr token_secret \<Rightarrow>
                         (case hl_key lib (hl_base64_encode lib token_secret) of
                            Inl e \<Rightarrow> hawk_error (HawkParse e)
                          | Inr key \<Rightarrow>
                              if hl_valid lib (meth, host, port, path) parsed key HEADER_SKEW
                              then Inr payload else hawk_error HawkInvalidHeader)))))"

definition parse_u16 :: "string \<Rightarrow> nat option" where
  "parse_u16 s = parse_unsigned (2 ^ 16) s"

text \<open>Host and port of the connection: the text before and after the first colon.\<close>

definition host_of :: "string \<Rightarrow> string" where
  "host_of s = takeWhile (\<lambda>c. c \<noteq> CHR '':'') s"

definition port_of :: "string \<Rightarrow> string \<Rightarrow> api_error + nat" where
  "port_of scheme s =
     (if CHR '':'' \<in> set s then
        (case parse_u16 (tl (dropWhile (\<lambda>c. c \<noteq> CHR '':'') s)) of
           None \<Rightarrow> Inl (api_error_of_validation
             (FromDetails ''Invalid port (hostname:port) specified'' LocHeader None))
         | Some p \<Rightarrow> Inr p)
      else if scheme = ''https'' then Inr 443 else Inr 80)"

text \<open>\<open>/info/collections\<close> is answered even with an expired token.\<close>

definition hawk_payload_extrude ::
  "hawk_lib \<Rightarrow> nat \<Rightarrow> string \<Rightarrow> secrets \<Rightarrow> http_request \<Rightarrow> api_error + hawk_payload" where
  "hawk_payload_extrude lib now hdr secrets req =
     (case port_of (rq_scheme req) (rq_host req) of
        Inl e \<Rightarrow> Inl e
      | Inr port \<Rightarrow>
          (case rq_target req of
             None \<Rightarrow> hawk_error HawkMissingPath
           | Some target \<Rightarrow>
               new_hawk_payload lib hdr (method_name (rq_method req)) target (host_of (rq_host req))
                 port secrets (if ends_with ''/info/collections'' (rq_path req) then 0 else now)))"

section \<open>The user\<close>

definition invalid_path :: "string \<Rightarrow> string \<Rightarrow> api_error + 'a" where
  "invalid_path msg name = Inl (api_error_of_validation (FromDetails msg LocPath (Some name)))"

definition uid_from_path :: "http_request \<Rightarrow> api_error + u64" where
  "uid_from_path req =
     (let elements = split_at (CHR ''/'') (rq_path req) in
      if length elements > 2 then
        (case parse_u64 (elements ! 2) of
           None \<Rightarrow> invalid_path ''Invalid UID'' ''uid''
         | Some uid \<Rightarrow> Inr uid)
      else invalid_path ''Missing UID'' ''uid'')"

definition hawk_generate ::
  "hawk_lib \<Rightarrow> nat \<Rightarrow> secrets \<Rightarrow> string \<Rightarrow> http_request \<Rightarrow> api_error + hawk_identifier" where
  "hawk_generate lib now secrets hdr req =
     (case hawk_payload_extrude lib now hdr secrets req of
        Inl e \<Rightarrow> Inl e
      | Inr payload \<Rightarrow>
          (case uid_from_path req of
             Inl e \<Rightarrow> Inl e
           | Inr puid \<Rightarrow>
               if hp_user_id payload \<noteq> puid then invalid_path ''conflicts with payload'' ''uid''
               else Inr \<lparr>legacy_id = hp_user_id payload, fxa_uid = hp_fxa_uid payload,
                         fxa_kid = hp_fxa_kid payload\<rparr>))"

definition hawk_extrude ::
  "hawk_lib \<Rightarrow> nat \<Rightarrow> server_state \<Rightarrow> http_request \<Rightarrow> api_error + hawk_identifier" where
  "hawk_extrude lib now state req =
     (case rq_header req ''authorization'' of
        None \<Rightarrow> hawk_error HawkMissingHeader
      | Some v \<Rightarrow>
          (case header_to_str v of
             Inl e \<Rightarrow> hawk_error (HawkHeader e)
           | Inr hdr \<Rightarrow> hawk_generate lib now (st_secrets state) hdr req))"

definition internal_error :: "string \<Rightarrow> api_error + 'a" where
  "internal_error name =
     Inl (api_error_of_validation (FromDetails ''Internal error'' LocUnknown (Some name)))"

lemma auth_errors [simp]: "hawk_error k \<noteq> Inr a" "invalid_path msg name \<noteq> Inr b" "internal_error n \<noteq> Inr c"
  by (simp_all add: hawk_error_def invalid_path_def internal_error_def)

definition hawk_from_request ::
  "hawk_lib \<Rightarrow> nat \<Rightarrow> server_state option \<Rightarrow> http_request \<Rightarrow> api_error + hawk_identifier" where
  "hawk_from_request lib now app req =
     (case app of
        None \<Rightarrow> internal_error ''state''
      | Some state \<Rightarrow> hawk_extrude lib now state req)"

text \<open>The user for the transaction of a request: a dummy for the operational endpoints.\<close>

definition get_hawk_id ::
  "hawk_lib \<Rightarrow> nat \<Rightarrow> server_state option \<Rightarrow> http_request \<Rightarrow> api_error + hawk_identifier" where
  "get_hawk_id lib now app req =
     (if to_lower (rq_path req) \<in> set DOCKER_FLOW_ENDPOINTS then Inr cmd_dummy
      else case app of
        None \<Rightarrow> Inl (api_error_of (ApiInternal ''No app_data ServerState''))
      | Some state \<Rightarrow> hawk_extrude lib now state req)"

end
