(* ===== verification/Web_Extractors.thy ===== *)
theory Web_Extractors
  imports Web_Auth
begin

text \<open>
  The validators and the extractors of the parts of a request (\<open>src/web/extractors.rs\<close>): names in
  the path, query parameters, precondition headers, bodies of BSOs. Values an extractor caches in
  the request's extensions are the same on every extraction, so the cache is left out. The texts
  the libraries print for their own errors are a parameter, \<open>lt\<close>, of what went wrong.
\<close>

section \<open>Limits on BSOs\<close>

definition BATCH_MAX_IDS :: nat where "BATCH_MAX_IDS = 100"
definition BSO_MAX_TTL :: nat where "BSO_MAX_TTL = 999999999"
definition BSO_MAX_SORTINDEX_VALUE :: int where "BSO_MAX_SORTINDEX_VALUE = 999999999"
definition BSO_MIN_SORTINDEX_VALUE :: int where "BSO_MIN_SORTINDEX_VALUE = -999999999"

definition ACCEPTED_CONTENT_TYPES :: "string list" where
  "ACCEPTED_CONTENT_TYPES = [''application/json'', ''text/plain'', ''application/newlines'']"

text \<open>A validator answers the code of its error, if any.\<close>

definition validate_qs_ids :: "string list \<Rightarrow> string option" where
  "validate_qs_ids is =
     (if length is > BATCH_MAX_IDS then Some ''Too many ids provided''
      else if \<exists>i\<in>set is. \<not> valid_bso_id i then Some ''Invalid id in ids''
      else None)"

definition validate_qs_commit :: "string \<Rightarrow> string option" where
  "validate_qs_commit commit =
     (if is_true commit then None
      else Some (''commit parameter must be '' @ [CHR 0x22] @ ''true'' @ [CHR 0x22] @ '' to apply batches''))"

definition validate_body_bso_sortindex :: "int \<Rightarrow> string option" where
  "validate_body_bso_sortindex k =
     (if BSO_MIN_SORTINDEX_VALUE \<le> k \<and> k \<le> BSO_MAX_SORTINDEX_VALUE then None
      else Some ''invalid value'')"

definition validate_body_bso_id :: "string \<Rightarrow> string option" where
  "validate_body_bso_id i = (if valid_bso_id i then None else Some ''Invalid id'')"

definition validate_body_bso_ttl :: "nat \<Rightarrow> string option" where
  "validate_body_bso_ttl ttl = (if ttl > BSO_MAX_TTL then Some ''Invalid TTL'' else None)"

text \<open>The errors of a struct: the field and the code of each failed validator.\<close>

definition field_errors :: "(string \<times> string option) list \<Rightarrow> (string \<times> string) list" where
  "field_errors fs = [(field, code). (field, Some code) \<leftarrow> fs]"

definition invalid_struct ::
  "(string \<times> string option) list \<Rightarrow> request_error_location \<Rightarrow> 'a \<Rightarrow> api_error + 'a" where
  "invalid_struct fs loc a =
     (if field_errors fs = [] then Inr a
      else Inl (api_error_of_validation (FromValidationErrors (field_errors fs) loc)))"

definition invalid_details ::
  "string \<Rightarrow> request_error_location \<Rightarrow> string option \<Rightarrow> api_error + 'a" where
  "invalid_details msg loc name = Inl (api_error_of_validation (FromDetails msg loc name))"

lemma extract_errors [simp]: "invalid_details msg loc name \<noteq> Inr a"
  by (simp add: invalid_details_def)

lemma invalid_struct_Inr [simp]: "invalid_struct fs loc a = Inr b \<longleftrightarrow> field_errors fs = [] \<and> b = a"
  by (auto simp: invalid_struct_def)

section \<open>Names in the path\<close>

definition bsoparam_from_path :: "http_request \<Rightarrow> api_error + string" where
  "bsoparam_from_path req =
     (let elements = split_at (CHR ''/'') (rq_path req) in
      if length elements = 6 \<and> elements ! 3 = ''storage'' then Inr (elements ! 5)
      else invalid_details ''Invalid BSO'' LocPath (Some ''bso''))"

definition bso_param :: "http_request \<Rightarrow> api_error + string" where
  "bso_param req =
     (case bsoparam_from_path req of
        Inl e \<Rightarrow> Inl e
      | Inr b \<Rightarrow>
          invalid_struct [(''bso'', if valid_bso_id b then None else Some ''regex'')] LocPath b)"

definition col_from_path :: "http_request \<Rightarrow> string option" where
  "col_from_path req =
     (let elements = split_at (CHR ''/'') (rq_path req) in
      if 5 \<le> length elements \<and> length elements \<le> 6 \<and> elements ! 3 = ''storage''
      then Some (elements ! 4) else None)"

definition collection_extrude :: "http_request \<Rightarrow> api_error + string option" where
  "collection_extrude req =
     (case col_from_path req of
        None \<Rightarrow> Inr None
      | Some c \<Rightarrow>
          invalid_struct [(''collection'', if valid_collection_id c then None else Some ''regex'')]
            LocPath (Some c))"

definition collection_param :: "http_request \<Rightarrow> api_error + string" where
  "collection_param req =
     (case collection_extrude req of
        Inl e \<Rightarrow> Inl e
      | Inr (Some c) \<Rightarrow> Inr c
      | Inr None \<Rightarrow> invalid_details ''Missing Collection'' LocPath (Some ''collection''))"

section \<open>Query parameters\<close>

text \<open>A field given twice is an error; one that is not known is ignored.\<close>

definition comma_separated :: "string \<Rightarrow> string list" where
  "comma_separated s = filter (\<lambda>x. x \<noteq> []) (map str_trim (split_at (CHR '','') s))"

definition sorting_of :: "string \<Rightarrow> sorting option" where
  "sorting_of s =
     map_of [(''none'', SortNone), (''newest'', Newest), (''oldest'', Oldest), (''index'', Index)] s"

definition set_query_field ::
  "(string \<Rightarrow> string) \<Rightarrow> string \<Rightarrow> string \<Rightarrow> bso_query_params \<Rightarrow> string + bso_query_params" where
  "set_query_field lt key v q =
     (if key = ''newer'' then map_sum lt (\<lambda>ts. q\<lparr>newer := Some ts\<rparr>) (from_header v)
      else if key = ''older'' then map_sum lt (\<lambda>ts. q\<lparr>older := Some ts\<rparr>) (from_header v)
      else if key = ''sort'' then
        (case sorting_of v of None \<Rightarrow> Inl (lt ''unknown variant'') | Some s \<Rightarrow> Inr (q\<lparr>sort_by := s\<rparr>))
      else if key = ''limit'' then
        (case parse_u32 v of None \<Rightarrow> Inl (lt ''invalid digit'') | Some n \<Rightarrow> Inr (q\<lparr>limit := Some n\<rparr>))
      else if key = ''offset'' then
        (case offset_from_str v of
           None \<Rightarrow> Inl (lt ''invalid digit'') | Some off \<Rightarrow> Inr (q\<lparr>offset_opt := Some off\<rparr>))
      else if key = ''ids'' then Inr (q\<lparr>ids := comma_separated v\<rparr>)
      else if key = ''full'' then Inr (q\<lparr>full := True\<rparr>)
      else Inr q)"

definition query_fields :: "string list" where
  "query_fields = [''newer'', ''older'', ''sort'', ''limit'', ''offset'', ''ids'', ''full'']"

fun read_query ::
  "(string \<Rightarrow> string) \<Rightarrow> string list \<Rightarrow> (string \<times> string) list \<Rightarrow> bso_query_params \<Rightarrow>
     string + bso_query_params" where
  "read_query lt seen [] q = Inr q"
| "read_query lt seen ((key, v) # rest) q =
     (if key \<in> set query_fields \<and> key \<in> set seen then Inl (lt ''duplicate field'')
      else case set_query_field lt key v q of
        Inl e \<Rightarrow> Inl e
      | Inr q' \<Rightarrow> read_query lt (key # seen) rest q')"

definition bso_query_params_extract ::
  "(string \<Rightarrow> string) \<Rightarrow> http_request \<Rightarrow> api_error + bso_query_params" where
  "bso_query_params_extract lt req =
     (case rq_query req of
        Inl e \<Rightarrow> invalid_details e LocQueryString None
      | Inr pairs \<Rightarrow>
          (case read_query lt [] pairs default_query of
             Inl e \<Rightarrow> invalid_details e LocQueryString None
           | Inr q \<Rightarrow> invalid_struct [(''ids'', validate_qs_ids (ids q))] LocQueryString q))"

section \<open>Batch parameters\<close>

record batch_request =
  br_id :: "string option"
  br_commit :: bool

record batch_params =
  bq_batch :: "string option"
  bq_commit :: "string option"

fun read_batch_params ::
  "(string \<Rightarrow> string) \<Rightarrow> (string \<times> string) list \<Rightarrow> batch_params \<Rightarrow> string + batch_params" where
  "read_batch_params lt [] q = Inr q"
| "read_batch_params lt ((key, v) # rest) q =
     (if key = ''batch'' then
        (if bq_batch q \<noteq> None then Inl (lt ''duplicate field'')
         else read_batch_params lt rest (q\<lparr>bq_batch := Some v\<rparr>))
      else if key = ''commit'' then
        (if bq_commit q \<noteq> None then Inl (lt ''duplicate field'')
         else read_batch_params lt rest (q\<lparr>bq_commit := Some v\<rparr>))
      else read_batch_params lt rest q)"

text \<open>The sizes a client announces in headers, each against its limit.\<close>

fun check_announced :: "http_request \<Rightarrow> (string \<times> u32) list \<Rightarrow> api_error + unit" where
  "check_announced req [] = Inr ()"
| "check_announced req ((header, bound) # checks) =
     (case rq_header req header of
        None \<Rightarrow> check_announced req checks
      | Some v \<Rightarrow>
          (case header_to_str v of
             Inl e \<Rightarrow> invalid_details e LocHeader (Some header)
           | Inr text \<Rightarrow>
               (case parse_u32 text of
                  None \<Rightarrow> invalid_details (''Invalid integer value: '' @ text) LocHeader (Some header)
                | Some announced \<Rightarrow>
                    if announced > unat bound
                    then invalid_details ''size-limit-exceeded'' LocHeader None
                    else check_announced req checks)))"

definition announced_checks :: "server_limits \<Rightarrow> (string \<times> u32) list" where
  "announced_checks limits =
     [(X_WEAVE_RECORDS, max_post_records limits), (''X-Weave-Bytes'', max_post_bytes limits),
      (''X-Weave-Total-Records'', max_total_records limits),
      (''X-Weave-Total-Bytes'', max_total_bytes limits)]"

text \<open>
  \<open>batch\<close> asks for a new batch when it is empty or \<open>true\<close>; otherwise it names one, which the pool
  of the request's transaction must find well formed.
\<close>

definition batch_request_extract ::
  "(string \<Rightarrow> string) \<Rightarrow> server_state option \<Rightarrow> api_error + (string \<Rightarrow> bool) \<Rightarrow> http_request \<Rightarrow>
     api_error + batch_request option" where
  "batch_request_extract lt app pool req =
     (case (case rq_query req of
              Inl e \<Rightarrow> Inl e
            | Inr pairs \<Rightarrow> read_batch_params lt pairs \<lparr>bq_batch = None, bq_commit = None\<rparr>) of
        Inl e \<Rightarrow> invalid_details e LocQueryString None
      | Inr params \<Rightarrow>
          (case app of
             None \<Rightarrow> internal_error ''state''
           | Some state \<Rightarrow>
               (case check_announced req (announced_checks (st_limits state)) of
                  Inl e \<Rightarrow> Inl e
                | Inr _ \<Rightarrow>
                    (case bq_batch params of
                       None \<Rightarrow>
                         if bq_commit params = None then Inr None
                         else invalid_details ''Commit with no batch specified'' LocPath None
                     | Some b \<Rightarrow>
                         (case invalid_struct
                             [(''commit'', Option.bind (bq_commit params) validate_qs_commit)]
                             LocQueryString () of
                            Inl e \<Rightarrow> Inl e
                          | Inr _ \<Rightarrow>
                              if b = [] \<or> is_true b
                              then Inr (Some \<lparr>br_id = None, br_commit = bq_commit params \<noteq> None\<rparr>)
                              else
                                (case pool of
                                   Inl e \<Rightarrow> Inl e
                                 | Inr valid_id \<Rightarrow>
                                     if valid_id b
                                     then Inr (Some \<lparr>br_id = Some b, br_commit = bq_commit params \<noteq> None\<rparr>)
                                     else invalid_details
                                       (''Invalid batch ID: '' @ [CHR 0x22] @ b @ [CHR 0x22])
                                       LocQueryString (Some ''batch'')))))))"

section \<open>Preconditions\<close>

datatype precondition_header =
    IfModifiedSince sync_timestamp
  | IfUnmodifiedSince sync_timestamp
  | NoHeader

definition negative_header :: "string \<Rightarrow> bool" where
  "negative_header v =
     f64_less
       (case parse_f64 (case header_to_str v of Inl _ \<Rightarrow> ''0.0'' | Inr s \<Rightarrow> s) of
          None \<Rightarrow> Fin 0 | Some x \<Rightarrow> x)
       (Fin 0)"

definition precondition_of ::
  "(sync_timestamp \<Rightarrow> precondition_header) \<Rightarrow> string \<Rightarrow> string \<Rightarrow>
     api_error + precondition_header option" where
  "precondition_of pre field_name v =
     (if negative_header v
      then invalid_details ''value is negative'' LocHeader (Some ''X-If-Modified-Since'')
      else case header_to_str v of
        Inl e \<Rightarrow> invalid_details e LocHeader (Some field_name)
      | Inr s \<Rightarrow>
          (case from_header s of
             Inl e \<Rightarrow> invalid_details e LocHeader (Some field_name)
           | Inr ts \<Rightarrow> Inr (Some (pre ts))))"

definition precondition_extrude :: "http_request \<Rightarrow> api_error + precondition_header option" where
  "precondition_extrude req =
     (case (rq_header req ''X-If-Modified-Since'', rq_header req ''X-If-Unmodified-Since'') of
        (Some _, Some _) \<Rightarrow>
          invalid_details ''conflicts with X-If-Modified-Since'' LocHeader (Some ''X-If-Unmodified-Since'')
      | (Some v, None) \<Rightarrow> precondition_of IfModifiedSince ''X-If-Modified-Since'' v
      | (None, Some v) \<Rightarrow> precondition_of IfUnmodifiedSince ''X-If-Unmodified-Since'' v
      | (None, None) \<Rightarrow> Inr None)"

section \<open>The reply format\<close>

text \<open>The accepted type of the best quality, the first of equals; \<open>*/*\<close> takes the default.\<close>

fun first_accepted :: "string list \<Rightarrow> string \<Rightarrow> (string \<times> nat) list \<Rightarrow> string" where
  "first_accepted accepted dflt [] = ''invalid''"
| "first_accepted accepted dflt ((item, _) # rest) =
     (if item = ''*/*'' then dflt
      else if to_lower item \<in> set accepted then to_lower item
      else first_accepted accepted dflt rest)"

definition get_accepted :: "http_request \<Rightarrow> string list \<Rightarrow> string \<Rightarrow> string" where
  "get_accepted req accepted dflt =
     (let candidates = (case rq_accept req of Inl _ \<Rightarrow> [(dflt, 1000)] | Inr cs \<Rightarrow> cs) in
      if candidates = [] then dflt
      else first_accepted accepted dflt (sort_key (\<lambda>(_, q). - int q) candidates))"

datatype reply_format = JsonReply | NewlinesReply

definition reply_of :: "http_request \<Rightarrow> api_error + reply_format" where
  "reply_of req =
     (let accept = get_accepted req ACCEPTED_CONTENT_TYPES ''application/json'' in
      if accept = ''application/newlines'' then Inr NewlinesReply
      else if accept \<in> {''application/json'', ''''} then Inr JsonReply
      else invalid_details ''Invalid accept'' LocHeader (Some ''accept''))"

end
