(* ===== verification/Web_Bodies.thy ===== *)
theory Web_Bodies
  imports Web_Extractors
begin

text \<open>
  The bodies of uploads (\<open>src/web/extractors.rs\<close>): the BSOs of a POST, each accepted or refused on
  its own, and the BSO of a PUT. A JSON number is kept as its text. \<open>vt\<close> is the text the validator
  library prints for the errors of a struct.
\<close>

section \<open>JSON values\<close>

fun json_str :: "json \<Rightarrow> string option" where
  "json_str (JStr s) = Some s"
| "json_str _ = None"

fun number_text :: "json \<Rightarrow> string option" where
  "number_text (JRaw s) = Some s"
| "number_text (JInt k) = Some (show_int k)"
| "number_text _ = None"

definition json_i32 :: "json \<Rightarrow> int option" where
  "json_i32 j = Option.bind (number_text j) parse_i32"

definition json_u32 :: "json \<Rightarrow> nat option" where
  "json_u32 j = Option.bind (number_text j) parse_u32"

text \<open>An optional field: absent or \<open>null\<close>, or a value of its type.\<close>

definition optional :: "(json \<Rightarrow> 'a option) \<Rightarrow> json option \<Rightarrow> 'a option option" where
  "optional rd j =
     (case j of
        None \<Rightarrow> Some None
      | Some v \<Rightarrow> if v = JNull then Some None else map_option Some (rd v))"

section \<open>The BSOs of a POST\<close>

record batch_bso_body =
  bb_id :: string
  bb_sortindex :: "int option"
  bb_payload :: "string option"
  bb_ttl :: "nat option"

record bso_bodies =
  valid :: "batch_bso_body list"
  invalid :: "(string, string) table"

definition bso_keys :: "string list" where
  "bso_keys = [''id'', ''sortindex'', ''payload'', ''ttl'', ''modified'', ''collection'']"

definition raw_bso_fields :: "(string \<times> json) list \<Rightarrow> batch_bso_body option" where
  "raw_bso_fields fs =
     (case (Option.bind (map_of fs ''id'') json_str, optional json_i32 (map_of fs ''sortindex''),
            optional json_str (map_of fs ''payload''), optional json_u32 (map_of fs ''ttl'')) of
        (Some i, Some si, Some payload, Some ttl) \<Rightarrow>
          Some \<lparr>bb_id = i, bb_sortindex = si, bb_payload = payload, bb_ttl = ttl\<rparr>
      | _ \<Rightarrow> None)"

definition batch_bso_errors :: "batch_bso_body \<Rightarrow> (string \<times> string) list" where
  "batch_bso_errors b =
     field_errors [(''id'', validate_body_bso_id (bb_id b)),
       (''sortindex'', Option.bind (bb_sortindex b) validate_body_bso_sortindex),
       (''ttl'', Option.bind (bb_ttl b) validate_body_bso_ttl)]"

definition from_raw_bso ::
  "((string \<times> string) list \<Rightarrow> string) \<Rightarrow> json \<Rightarrow> string + batch_bso_body" where
  "from_raw_bso vt j =
     (case j of
        JObj fs \<Rightarrow>
          (case find (\<lambda>k. k \<notin> set bso_keys) (map fst fs) of
             Some k \<Rightarrow> Inl (''unknown field '' @ k)
           | None \<Rightarrow>
               (case raw_bso_fields fs of
                  None \<Rightarrow> Inl ''invalid json''
                | Some b \<Rightarrow>
                    if batch_bso_errors b = [] then Inr b
                    else Inl (''invalid bso: '' @ vt (batch_bso_errors b))))
      | _ \<Rightarrow> Inl ''invalid json'')"

definition payload_size :: "string option \<Rightarrow> nat" where
  "payload_size p = (case p of None \<Rightarrow> 0 | Some s \<Rightarrow> length s)"

definition bad_bsos :: "string \<Rightarrow> api_error + 'a" where
  "bad_bsos msg = invalid_details msg LocBody (Some ''bsos'')"

lemma bad_bsos_error [simp]: "bad_bsos msg \<noteq> Inr a"
  by (simp add: bad_bsos_def)

text \<open>
  One BSO after the other: \<open>seen\<close> are the ids so far, \<open>bytes\<close> the size of the payloads so far, of
  those that were refused for their size included.
\<close>

fun sort_bsos ::
  "((string \<times> string) list \<Rightarrow> string) \<Rightarrow> nat \<Rightarrow> nat \<Rightarrow> json list \<Rightarrow> string list \<Rightarrow> nat \<Rightarrow> bso_bodies \<Rightarrow>
     api_error + bso_bodies" where
  "sort_bsos vt max_payload max_post [] seen bytes acc = Inr acc"
| "sort_bsos vt max_payload max_post (j # js) seen bytes acc =
     (case j of
        JObj fs \<Rightarrow>
          (case Option.bind (map_of fs ''id'') json_str of
             None \<Rightarrow> bad_bsos ''Input BSO has no ID''
           | Some i \<Rightarrow>
               if i \<in> set seen then bad_bsos ''Input BSO has duplicate ID''
               else (case from_raw_bso vt j of
                 Inl e \<Rightarrow>
                   sort_bsos vt max_payload max_post js (seen @ [i]) bytes
                     (acc\<lparr>invalid := AList.update i e (invalid acc)\<rparr>)
               | Inr b \<Rightarrow>
                   (let size = payload_size (bb_payload b); bytes' = bytes + size in
                    sort_bsos vt max_payload max_post js (seen @ [i]) bytes'
                      (if size \<le> max_payload \<and> bytes' \<le> max_post
                       then acc\<lparr>valid := valid acc @ [b]\<rparr>
                       else acc\<lparr>invalid := AList.update (bb_id b) ''retry bytes'' (invalid acc)\<rparr>))))
      | _ \<Rightarrow> bad_bsos ''Invalid JSON in request body'')"

fun parse_lines :: "(string \<Rightarrow> json option) \<Rightarrow> string list \<Rightarrow> json list option" where
  "parse_lines js [] = Some []"
| "parse_lines js (l # ls) =
     (case js l of None \<Rightarrow> None | Some v \<Rightarrow> map_option (Cons v) (parse_lines js ls))"

definition raw_bsos :: "(string \<Rightarrow> json option) \<Rightarrow> bool \<Rightarrow> string \<Rightarrow> json list option" where
  "raw_bsos js newlines body =
     (if newlines then parse_lines js (str_lines body)
      else case js body of Some (JArr vs) \<Rightarrow> Some vs | _ \<Rightarrow> None)"

definition bso_bodies_extract ::
  "(string \<Rightarrow> json option) \<Rightarrow> ((string \<times> string) list \<Rightarrow> string) \<Rightarrow> server_state option \<Rightarrow> http_request \<Rightarrow>
     api_error + bso_bodies" where
  "bso_bodies_extract js vt app req =
     (case rq_content_type req of
        Inl e \<Rightarrow> invalid_details (''Unreadable Content-Type: '' @ e) LocHeader (Some ''Content-Type'')
      | Inr ctype \<Rightarrow>
          if ctype \<notin> set ACCEPTED_CONTENT_TYPES then
            invalid_details (''Invalid Content-Type '' @ [CHR 0x22] @ ctype @ [CHR 0x22])
              LocHeader (Some ''Content-Type'')
          else case app of
            None \<Rightarrow> internal_error ''app_data''
          | Some state \<Rightarrow>
              (case rq_body req of
                 Inl _ \<Rightarrow> invalid_details ''Mimetype/encoding/content-length error'' LocHeader None
               | Inr body \<Rightarrow>
                   (case raw_bsos js (ctype = ''application/newlines'') body of
                      None \<Rightarrow> bad_bsos ''Invalid JSON in request body''
                    | Some bsos \<Rightarrow>
                        sort_bsos vt (unat (max_record_payload_bytes (st_limits state)))
                          (unat (max_post_bytes (st_limits state))) bsos [] 0
                          \<lparr>valid = [], invalid = []\<rparr>)))"

section \<open>The BSO of a PUT\<close>

record bso_body =
  body_id :: "string option"
  body_sortindex :: "int option"
  body_payload :: "string option"
  body_ttl :: "nat option"

definition empty_body :: bso_body where
  "empty_body = \<lparr>body_id = None, body_sortindex = None, body_payload = None, body_ttl = None\<rparr>"

text \<open>Read directly from the text, \<open>-0\<close> is an unsigned zero.\<close>

definition direct_u32 :: "json \<Rightarrow> nat option" where
  "direct_u32 j = (if number_text j = Some ''-0'' then Some 0 else json_u32 j)"

definition set_body_field :: "string \<Rightarrow> json \<Rightarrow> bso_body \<Rightarrow> bso_body option" where
  "set_body_field key v b =
     (if key = ''id'' then map_option (\<lambda>x. b\<lparr>body_id := x\<rparr>) (optional json_str (Some v))
      else if key = ''sortindex'' then
        map_option (\<lambda>x. b\<lparr>body_sortindex := x\<rparr>) (optional json_i32 (Some v))
      else if key = ''payload'' then
        map_option (\<lambda>x. b\<lparr>body_payload := x\<rparr>) (optional json_str (Some v))
      else if key = ''ttl'' then map_option (\<lambda>x. b\<lparr>body_ttl := x\<rparr>) (optional direct_u32 (Some v))
      else Some b)"

fun read_body ::
  "(string \<Rightarrow> string) \<Rightarrow> string list \<Rightarrow> (string \<times> json) list \<Rightarrow> bso_body \<Rightarrow> string + bso_body" where
  "read_body lt seen [] b = Inr b"
| "read_body lt seen ((key, v) # rest) b =
     (if key \<notin> set bso_keys then Inl (lt ''unknown field'')
      else if key \<in> set seen then Inl (lt ''duplicate field'')
      else case set_body_field key v b of
        None \<Rightarrow> Inl (lt ''invalid type'')
      | Some b' \<Rightarrow> read_body lt (key # seen) rest b')"

text \<open>A struct is read from an object, or from an array with a value per field.\<close>

definition body_of_json :: "(string \<Rightarrow> string) \<Rightarrow> json \<Rightarrow> string + bso_body" where
  "body_of_json lt j =
     (case j of
        JObj fs \<Rightarrow> read_body lt [] fs empty_body
      | JArr vs \<Rightarrow>
          if length vs = length bso_keys then read_body lt [] (zip bso_keys vs) empty_body
          else Inl (lt ''invalid length'')
      | _ \<Rightarrow> Inl (lt ''invalid type''))"

definition bso_body_extract ::
  "(string \<Rightarrow> string) \<Rightarrow> server_state option \<Rightarrow> http_request \<Rightarrow> api_error + bso_body" where
  "bso_body_extract lt app req =
     (case rq_content_type req of
        Inl e \<Rightarrow> invalid_details (''Unreadable Content-Type: '' @ e) LocHeader (Some ''Content-Type'')
      | Inr ctype \<Rightarrow>
          if ctype \<notin> set ACCEPTED_CONTENT_TYPES then
            invalid_details ''Invalid Content-Type'' LocHeader (Some ''Content-Type'')
          else case app of
            None \<Rightarrow> internal_error ''app_data''
          | Some state \<Rightarrow>
              (case (case rq_json req of Inl e \<Rightarrow> Inl e | Inr j \<Rightarrow> body_of_json lt j) of
                 Inl e \<Rightarrow> invalid_details e LocBody (Some ''bso'')
               | Inr b \<Rightarrow>
                   if payload_size (body_payload b) > unat (max_record_payload_bytes (st_limits state))
                   then invalid_details ''payload too large'' LocBody (Some ''bso'')
                   else invalid_struct
                     [(''id'', Option.bind (body_id b) validate_body_bso_id),
                      (''sortindex'', Option.bind (body_sortindex b) validate_body_bso_sortindex),
                      (''ttl'', Option.bind (body_ttl b) validate_body_bso_ttl)] LocBody b))"

end
