(* ===== verification/Web_Requests.thy ===== *)
theory Web_Requests
  imports Web_Bodies
begin

text \<open>
  Whole requests (\<open>src/web/extractors.rs\<close>, \<open>FromRequest\<close> of \<open>src/db/transaction.rs\<close>): the parts
  put together in the order the code extracts them, the first error ending the extraction.
\<close>

section \<open>The environment of a worker\<close>

text \<open>
  The libraries, the clock and the shared state. \<open>env_batch_id\<close> is the check of batch ids of the
  connection pool.
\<close>

record web_env =
  env_hawk :: hawk_lib
  env_now :: nat
  env_app :: "server_state option"
  env_text :: "string \<Rightarrow> string"
  env_errors :: "(string \<times> string) list \<Rightarrow> string"
  env_json :: "string \<Rightarrow> json option"
  env_batch_id :: "string \<Rightarrow> bool"

definition then_r :: "'e + 'a \<Rightarrow> ('a \<Rightarrow> 'e + 'b) \<Rightarrow> 'e + 'b" where
  "then_r r f = (case r of Inl e \<Rightarrow> Inl e | Inr a \<Rightarrow> f a)"

lemma then_r_Inr_iff [simp]: "then_r r f = Inr b \<longleftrightarrow> (\<exists>a. r = Inr a \<and> f a = Inr b)"
  by (simp add: then_r_def split: sum.split)

lemma then_r_simps [simp]: "then_r (Inl e) f = Inl e" "then_r (Inr a) f = f a"
  by (simp_all add: then_r_def)

definition user_extract :: "web_env \<Rightarrow> http_request \<Rightarrow> api_error + hawk_identifier" where
  "user_extract env req = hawk_from_request (env_hawk env) (env_now env) (env_app env) req"

section \<open>The transaction of a request\<close>

record db_transaction_pool =
  lock_collection :: "(hawk_identifier \<times> string) option"
  is_read :: bool
  tp_user_id :: hawk_identifier
  tp_collection :: "string option"
  bso_opt :: "string option"
  precondition :: "precondition_header option"

text \<open>An unreadable BSO id counts as none.\<close>

definition pool_of_request :: "web_env \<Rightarrow> http_request \<Rightarrow> api_error + db_transaction_pool" where
  "pool_of_request env req =
     (if env_app env = None then Inl (api_error_of NoServerState)
      else
        then_r (collection_extrude req) (\<lambda>coll.
        then_r (get_hawk_id (env_hawk env) (env_now env) (env_app env) req) (\<lambda>hawk.
        then_r (precondition_extrude req) (\<lambda>pre.
          Inr \<lparr>lock_collection = map_option (Pair hawk) coll,
               is_read = (coll = None \<or> rq_method req = GET \<or> rq_method req = HEAD),
               tp_user_id = hawk, tp_collection = coll,
               bso_opt = (case bso_param req of Inl _ \<Rightarrow> None | Inr b \<Rightarrow> Some b),
               precondition = pre\<rparr>))))"

section \<open>Requests\<close>

record meta_request = mr_user_id :: hawk_identifier

definition meta_request_extract :: "web_env \<Rightarrow> http_request \<Rightarrow> api_error + meta_request" where
  "meta_request_extract env req =
     then_r (user_extract env req) (\<lambda>user. Inr \<lparr>mr_user_id = user\<rparr>)"

record collection_request =
  cr_collection :: string
  cr_user_id :: hawk_identifier
  cr_query :: bso_query_params
  cr_reply :: reply_format

definition collection_request_extract ::
  "web_env \<Rightarrow> http_request \<Rightarrow> api_error + collection_request" where
  "collection_request_extract env req =
     then_r (user_extract env req) (\<lambda>user.
     then_r (bso_query_params_extract (env_text env) req) (\<lambda>query.
     then_r (collection_param req) (\<lambda>coll.
     then_r (reply_of req) (\<lambda>reply.
       Inr \<lparr>cr_collection = coll, cr_user_id = user, cr_query = query, cr_reply = reply\<rparr>))))"

record collection_post_request =
  cp_collection :: string
  cp_user_id :: hawk_identifier
  cp_query :: bso_query_params
  cp_bsos :: bso_bodies
  cp_batch :: "batch_request option"

definition bad_payload :: "string option \<Rightarrow> bool" where
  "bad_payload p = (case p of None \<Rightarrow> False | Some s \<Rightarrow> known_bad_payload s)"

text \<open>The excess of BSOs, the last ones first, goes to the refused ones.\<close>

fun trim_excess :: "nat \<Rightarrow> bso_bodies \<Rightarrow> bso_bodies" where
  "trim_excess 0 b = b"
| "trim_excess (Suc n) b =
     trim_excess n
       (if valid b = [] then b
        else b\<lparr>valid := butlast (valid b),
               invalid := AList.update (bb_id (last (valid b))) ''retry bso'' (invalid b)\<rparr>)"

definition collection_post_extract ::
  "web_env \<Rightarrow> http_request \<Rightarrow> api_error + collection_post_request" where
  "collection_post_extract env req =
     (case env_app env of
        None \<Rightarrow> internal_error ''app_data''
      | Some state \<Rightarrow>
          then_r (user_extract env req) (\<lambda>user.
          then_r (collection_param req) (\<lambda>coll.
          then_r (bso_query_params_extract (env_text env) req) (\<lambda>query.
          then_r (bso_bodies_extract (env_json env) (env_errors env) (env_app env) req) (\<lambda>bsos.
          if coll = ''crypto'' \<and> (\<exists>b\<in>set (valid bsos). bad_payload (bb_payload b))
          then bad_bsos ''Known-bad BSO payload''
          else
            then_r
              (batch_request_extract (env_text env) (env_app env)
                (then_r (pool_of_request env req) (\<lambda>_. Inr (env_batch_id env))) req) (\<lambda>batch.
              Inr \<lparr>cp_collection = coll, cp_user_id = user, cp_query = query,
                   cp_bsos = trim_excess
                     (length (valid bsos) - unat (max_post_records (st_limits state))) bsos,
                   cp_batch = batch\<rparr>))))))"

record bso_request =
  bs_collection :: string
  bs_user_id :: hawk_identifier
  bs_query :: bso_query_params
  bs_bso :: string

definition bso_request_extract :: "web_env \<Rightarrow> http_request \<Rightarrow> api_error + bso_request" where
  "bso_request_extract env req =
     then_r (user_extract env req) (\<lambda>user.
     then_r (bso_query_params_extract (env_text env) req) (\<lambda>query.
     then_r (collection_param req) (\<lambda>coll.
     then_r (bso_param req) (\<lambda>bso.
       Inr \<lparr>bs_collection = coll, bs_user_id = user, bs_query = query, bs_bso = bso\<rparr>))))"

record bso_put_request =
  bp_collection :: string
  bp_user_id :: hawk_identifier
  bp_query :: bso_query_params
  bp_bso :: string
  bp_body :: bso_body

definition bso_put_request_extract :: "web_env \<Rightarrow> http_request \<Rightarrow> api_error + bso_put_request" where
  "bso_put_request_extract env req =
     then_r (user_extract env req) (\<lambda>user.
     then_r (collection_param req) (\<lambda>coll.
     then_r (bso_query_params_extract (env_text env) req) (\<lambda>query.
     then_r (bso_param req) (\<lambda>bso.
     then_r (bso_body_extract (env_text env) (env_app env) req) (\<lambda>body.
       if coll = ''crypto'' \<and> bad_payload (body_payload body)
       then bad_bsos ''Known-bad BSO payload''
       else Inr \<lparr>bp_collection = coll, bp_user_id = user, bp_query = query, bp_bso = bso,
                 bp_body = body\<rparr>)))))"

text \<open>The limits that \<open>/info/configuration\<close> answers, and the state the heartbeat needs.\<close>

definition config_request_extract :: "web_env \<Rightarrow> api_error + server_limits" where
  "config_request_extract env =
     (case env_app env of None \<Rightarrow> internal_error ''state'' | Some state \<Rightarrow> Inr (st_limits state))"

definition heartbeat_request_extract :: "web_env \<Rightarrow> api_error + unit" where
  "heartbeat_request_extract env =
     (case env_app env of None \<Rightarrow> internal_error ''state'' | Some _ \<Rightarrow> Inr ())"

end
