(* ===== verification/Db_Transaction.thy ===== *)
theory Db_Transaction
  imports Db_Trait Web_Requests
begin

text \<open>
  Requests as transactions (\<open>src/db/transaction.rs\<close>): the locks taken for a request, the
  preconditions on the resource's timestamp, and the commit or rollback at the end. What is known
  of the request, the record \<open>db_transaction_pool\<close>, is extracted in \<open>Web_Requests\<close>. The
  connection pool is the operation \<open>pool_get\<close>, which readies the state for a new session.
\<close>

section \<open>Transactions\<close>

definition take_lock :: "'s db_ops \<Rightarrow> db_transaction_pool \<Rightarrow> ('s, unit) api_op" where
  "take_lock ops tp =
     (case lock_collection tp of
        Some (hawk, coll) \<Rightarrow>
          if is_read tp then lock_for_read ops hawk coll else lock_for_write ops hawk coll
      | None \<Rightarrow> return_r ())"

definition transaction_internal ::
  "('s, unit) api_op \<Rightarrow> 's db_ops \<Rightarrow> db_transaction_pool \<Rightarrow> ('s, 'a) api_op \<Rightarrow> ('s, 'a) api_op"
where
  "transaction_internal pool_get ops tp action =
     seq_r pool_get
       (bind_r (try_r (take_lock ops tp))
         (\<lambda>locked. case locked of
            Inl e \<Rightarrow> seq_r (rollback_op ops) (throw_r e)
          | Inr _ \<Rightarrow>
              catch_r action (\<lambda>e. seq_r (rollback_op ops) (throw_r e))))"

definition transaction ::
  "('s, unit) api_op \<Rightarrow> 's db_ops \<Rightarrow> db_transaction_pool \<Rightarrow> ('s, 'a) api_op \<Rightarrow> ('s, 'a) api_op"
where
  "transaction pool_get ops tp action =
     bind_r (transaction_internal pool_get ops tp action)
       (\<lambda>resp. seq_r (commit_op ops) (return_r resp))"

text \<open>The status a failed precondition is answered with.\<close>

definition precondition_status :: "precondition_header option \<Rightarrow> sync_timestamp \<Rightarrow> nat" where
  "precondition_status pre resource_ts =
     (case pre of
        Some (IfModifiedSince header_ts) \<Rightarrow> if resource_ts \<le> header_ts then 304 else 200
      | Some (IfUnmodifiedSince header_ts) \<Rightarrow> if resource_ts > header_ts then 412 else 200
      | _ \<Rightarrow> 200)"

definition check_precondition ::
  "'s db_ops \<Rightarrow> db_transaction_pool \<Rightarrow> ('s, http_response) api_op \<Rightarrow> ('s, http_response) api_op"
where
  "check_precondition ops tp action =
     bind_r (extract_resource ops (tp_user_id tp) (tp_collection tp) (bso_opt tp))
       (\<lambda>resource_ts.
          let status = precondition_status (precondition tp) resource_ts in
          if status \<noteq> 200 then
            return_r \<lparr>resp_status = status,
              resp_headers = [(''content-type'', ''application/json''),
                              (X_LAST_MODIFIED, as_header resource_ts)],
              resp_body = TextBody '''', resp_error = None\<rparr>
          else
            bind_r action
              (\<lambda>resp. return_r
                 (if X_LAST_MODIFIED \<in> fst ` set (resp_headers resp) then resp
                  else resp\<lparr>resp_headers :=
                    resp_headers resp @ [(X_LAST_MODIFIED, as_header resource_ts)]\<rparr>)))"

definition transaction_http ::
  "('s, unit) api_op \<Rightarrow> 's db_ops \<Rightarrow> db_transaction_pool \<Rightarrow> ('s, http_response) api_op \<Rightarrow>
     ('s, http_response) api_op" where
  "transaction_http pool_get ops tp action =
     bind_r (transaction_internal pool_get ops tp (check_precondition ops tp action))
       (\<lambda>resp. seq_r
          (case resp_error resp of None \<Rightarrow> commit_op ops | Some _ \<Rightarrow> rollback_op ops)
          (return_r resp))"

context db_frame
begin

lemma frame_take_lock:
  assumes "\<And>h c. lock_collection tp = Some (h, c) \<Longrightarrow> h = hawk"
  shows "preserves (own hawk) (take_lock ops tp)"
  using assms by (auto simp: take_lock_def split: option.split intro!: frame)

end

context db_frame_tx
begin

lemma frame_transaction_internal:
  assumes "\<And>h c. lock_collection tp = Some (h, c) \<Longrightarrow> h = hawk"
    and "preserves (own hawk) pool_get" "preserves (own hawk) action"
  shows "preserves (own hawk) (transaction_internal pool_get ops tp action)"
  unfolding transaction_internal_def using assms by (intro frame frame_end frame_take_lock)

lemma frame_transaction_http:
  assumes "\<And>h c. lock_collection tp = Some (h, c) \<Longrightarrow> h = hawk" "tp_user_id tp = hawk"
    and "preserves (own hawk) pool_get" "preserves (own hawk) action"
  shows "preserves (own hawk) (transaction_http pool_get ops tp action)"
  unfolding transaction_http_def check_precondition_def Let_def
  using assms by (intro frame frame_end frame_transaction_internal frame_extract_resource; simp)+

end

text \<open>The pool a request is given locks for the user the request is for.\<close>

lemma pool_of_request_user:
  assumes "pool_of_request env req = Inr tp"
  shows "get_hawk_id (env_hawk env) (env_now env) (env_app env) req = Inr (tp_user_id tp)"
    "lock_collection tp = Some (h, c) \<Longrightarrow> h = tp_user_id tp \<and> tp_collection tp = Some c"
  using assms by (auto simp: pool_of_request_def split: if_splits)

end
