(* ===== verification/Web_Handlers.thy ===== *)
theory Web_Handlers
  imports Db_Transaction
begin

text \<open>
  The request handlers (\<open>src/web/handlers.rs\<close>), on the extracted request and the storage
  interface. Metrics and logs are left out, and of the headers those the handlers set.
  \<open>serde_json::to_string\<close> is the parameter \<open>to_text\<close>.
\<close>

section \<open>Bodies\<close>

definition ts_json :: "sync_timestamp \<Rightarrow> json" where
  "ts_json ts = serialize_ts ts"

definition strings_json :: "string list \<Rightarrow> json" where
  "strings_json xs = JArr (map JStr xs)"

definition bso_json :: "get_bso_result \<Rightarrow> json" where
  "bso_json b =
     JObj ([(''id'', JStr (gb_id b)), (''modified'', ts_json (gb_modified b)),
            (''payload'', JStr (gb_payload b))] @
           (case gb_sortindex b of None \<Rightarrow> [] | Some k \<Rightarrow> [(''sortindex'', JInt k)]))"

definition failed_json :: "(string, string) table \<Rightarrow> json" where
  "failed_json failed = JObj (map (\<lambda>(i, msg). (i, JStr msg)) failed)"

definition post_result_json :: "post_bsos_result \<Rightarrow> json" where
  "post_result_json r =
     JObj [(''modified'', ts_json (pr_modified r)), (''success'', strings_json (pr_success r)),
           (''failed'', failed_json (pr_failed r))]"

definition response :: "nat \<Rightarrow> (string \<times> string) list \<Rightarrow> response_body \<Rightarrow> http_response" where
  "response status headers body =
     \<lparr>resp_status = status, resp_headers = headers, resp_body = body, resp_error = None\<rparr>"

definition ONE_KB :: rat where "ONE_KB = 1024"

section \<open>Information about the storage\<close>

definition counted :: "('a \<Rightarrow> json) \<Rightarrow> (string, 'a) table \<Rightarrow> http_response" where
  "counted js result =
     response 200 [(X_WEAVE_RECORDS, show_nat (length result))]
       (JsonBody (JObj (map (\<lambda>(name, v). (name, js v)) result)))"

definition get_collections :: "'s db_ops \<Rightarrow> meta_request \<Rightarrow> ('s, http_response) api_op" where
  "get_collections ops meta =
     bind_r (get_collection_timestamps ops (mr_user_id meta))
       (\<lambda>result. return_r (counted ts_json result))"

definition collection_counts :: "'s db_ops \<Rightarrow> meta_request \<Rightarrow> ('s, http_response) api_op" where
  "collection_counts ops meta =
     bind_r (get_collection_counts ops (mr_user_id meta))
       (\<lambda>result. return_r (counted JInt result))"

definition collection_usage :: "'s db_ops \<Rightarrow> meta_request \<Rightarrow> ('s, http_response) api_op" where
  "collection_usage ops meta =
     bind_r (get_collection_usage ops (mr_user_id meta))
       (\<lambda>usage. return_r (counted (\<lambda>size. JFloat (f64_div_rat (f64_of_int size) ONE_KB)) usage))"

definition get_quota :: "'s db_ops \<Rightarrow> meta_request \<Rightarrow> ('s, http_response) api_op" where
  "get_quota ops meta =
     bind_r (get_storage_usage ops (mr_user_id meta))
       (\<lambda>usage. return_r (response 200 []
          (JsonBody (JArr [JFloat (f64_div_rat (f64_of_nat (unat usage)) ONE_KB), JNull]))))"

definition delete_all :: "'s db_ops \<Rightarrow> meta_request \<Rightarrow> ('s, http_response) api_op" where
  "delete_all ops meta =
     seq_r (begin_op ops True)
       (seq_r (delete_storage ops (mr_user_id meta))
         (return_r (response 200 [] (JsonBody JNull))))"

section \<open>Collections\<close>

definition delete_collection_handler ::
  "'s db_ops \<Rightarrow> collection_request \<Rightarrow> ('s, http_response) api_op" where
  "delete_collection_handler ops coll =
     (let del_bsos = (ids (cr_query coll) \<noteq> []) in
      bind_r
        (catch_r
          (if del_bsos
           then delete_bsos ops (cr_user_id coll) (cr_collection coll) (ids (cr_query coll))
           else delete_collection ops (cr_user_id coll) (cr_collection coll))
          (\<lambda>e. if is_collection_not_found e \<or> is_bso_not_found e
               then get_storage_timestamp ops (cr_user_id coll) else throw_r e))
        (\<lambda>timestamp. return_r
           (response 200 (if del_bsos then [(X_LAST_MODIFIED, as_header timestamp)] else [])
              (JsonBody (ts_json timestamp)))))"

definition escape_newlines :: "string \<Rightarrow> string" where
  "escape_newlines s =
     concat (map (\<lambda>c. if c = newline then CHR 0x5C # ''u000a'' else [c]) s)"

definition newline_items :: "(json \<Rightarrow> string option) \<Rightarrow> json list \<Rightarrow> string" where
  "newline_items to_text items =
     concat (map (\<lambda>v. escape_newlines v @ [newline])
       (filter (\<lambda>v. v \<noteq> [])
         (map (\<lambda>j. case to_text j of None \<Rightarrow> [] | Some v \<Rightarrow> v) items)))"

definition finish_get_collection ::
  "(json \<Rightarrow> string option) \<Rightarrow> 's db_ops \<Rightarrow> ('a \<Rightarrow> json) \<Rightarrow> collection_request \<Rightarrow>
     ('s, 'a paginated) api_op \<Rightarrow> ('s, http_response) api_op" where
  "finish_get_collection to_text ops js coll query =
     bind_r
       (catch_r query
         (\<lambda>e. if is_collection_not_found e then return_r default_paginated else throw_r e))
       (\<lambda>result. bind_r (extract_resource ops (cr_user_id coll) (Some (cr_collection coll)) None)
          (\<lambda>ts.
             let headers =
                   [(X_LAST_MODIFIED, as_header ts),
                    (X_WEAVE_RECORDS, show_nat (length (pg_items result)))] @
                   (case pg_offset result of
                      None \<Rightarrow> [] | Some off \<Rightarrow> [(X_WEAVE_NEXT_OFFSET, off)]);
                 items = map js (pg_items result)
             in return_r
                  (case cr_reply coll of
                     JsonReply \<Rightarrow> response 200 headers (JsonBody (JArr items))
                   | NewlinesReply \<Rightarrow>
                       (let text = newline_items to_text items in
                        response 200
                          (headers @ [(''Content-Type'', ''application/newlines''),
                             (''Content-Length'', show_nat (length text))])
                          (TextBody text)))))"

definition get_collection ::
  "(json \<Rightarrow> string option) \<Rightarrow> 's db_ops \<Rightarrow> collection_request \<Rightarrow> ('s, http_response) api_op"
where
  "get_collection to_text ops coll =
     (if full (cr_query coll)
      then finish_get_collection to_text ops bso_json coll
             (get_bsos ops (cr_user_id coll) (cr_collection coll) (cr_query coll))
      else finish_get_collection to_text ops JStr coll
             (get_bso_ids ops (cr_user_id coll) (cr_collection coll) (cr_query coll)))"

definition post_of_body :: "batch_bso_body \<Rightarrow> post_collection_bso" where
  "post_of_body b =
     \<lparr>pb_id = bb_id b, pb_sortindex = bb_sortindex b, pb_payload = bb_payload b,
      pb_ttl = bb_ttl b\<rparr>"

section \<open>Uploads\<close>

text \<open>Failing ids are put into the map of failures, a later message over an earlier one.\<close>

definition extend_failed :: "(string, string) table \<Rightarrow> string list \<Rightarrow> string \<Rightarrow> (string, string) table"
where
  "extend_failed failed is msg = fold (\<lambda>i m. AList.update i msg m) is failed"

definition post_collection_batch ::
  "'s db_ops \<Rightarrow> collection_post_request \<Rightarrow> ('s, http_response) api_op" where
  "post_collection_batch ops coll =
     (let hawk = cp_user_id coll;
          collection = cp_collection coll;
          pbsos = map post_of_body (valid (cp_bsos coll));
          bso_ids = map bb_id (valid (cp_bsos coll))
      in case cp_batch coll of
           None \<Rightarrow> throw_r (api_error_of_db_kind BatchNotFound)
         | Some breq \<Rightarrow>
             bind_r
               (case br_id breq of
                  Some b \<Rightarrow>
                    bind_r (validate_batch ops hawk collection b)
                      (\<lambda>is_valid. if is_valid then return_r b
                                  else throw_r (api_error_of_db_kind BatchNotFound))
                | None \<Rightarrow> create_batch ops hawk collection [])
               (\<lambda>b. bind_r
                  (try_r
                    (if br_commit breq \<and> pbsos \<noteq> []
                     then bind_r (post_bsos ops hawk collection pbsos []) (\<lambda>_. return_r ())
                     else append_to_batch ops hawk collection b pbsos))
                  (\<lambda>result.
                     bind_r
                       (case result of
                          Inr _ \<Rightarrow> return_r (bso_ids, invalid (cp_bsos coll))
                        | Inl e \<Rightarrow>
                            if is_conflict e then throw_r e
                            else return_r ([],
                              extend_failed (invalid (cp_bsos coll)) bso_ids ''db error''))
                       (\<lambda>(success, failed).
                          let resp = [(''success'', strings_json success),
                                      (''failed'', failed_json failed)]
                          in if \<not> br_commit breq
                             then return_r (response 202 [] (JsonBody (JObj (resp @ [(''batch'', JStr b)]))))
                             else
                               bind_r (get_batch ops hawk collection b)
                                 (\<lambda>found. case found of
                                    None \<Rightarrow> throw_r (api_error_of_db_kind BatchNotFound)
                                  | Some ba \<Rightarrow>
                                      bind_r (commit_batch ops hawk collection ba)
                                        (\<lambda>r. return_r
                                           (response 200 [(X_LAST_MODIFIED, as_header (pr_modified r))]
                                             (JsonBody (JObj (resp @
                                               [(''modified'', ts_json (pr_modified r))]))))))))))"

definition post_collection :: "'s db_ops \<Rightarrow> collection_post_request \<Rightarrow> ('s, http_response) api_op"
where
  "post_collection ops coll =
     (if cp_batch coll \<noteq> None then post_collection_batch ops coll
      else
        bind_r (post_bsos ops (cp_user_id coll) (cp_collection coll)
                 (map post_of_body (valid (cp_bsos coll))) (invalid (cp_bsos coll)))
          (\<lambda>result. return_r
             (response 200 [(X_LAST_MODIFIED, as_header (pr_modified result))]
               (JsonBody (post_result_json result)))))"

section \<open>Single BSOs\<close>

definition delete_bso_handler :: "'s db_ops \<Rightarrow> bso_request \<Rightarrow> ('s, http_response) api_op" where
  "delete_bso_handler ops req =
     bind_r (delete_bso ops (bs_user_id req) (bs_collection req) (bs_bso req))
       (\<lambda>ts. return_r (response 200 [] (JsonBody (JObj [(''modified'', ts_json ts)]))))"

definition get_bso_handler :: "'s db_ops \<Rightarrow> bso_request \<Rightarrow> ('s, http_response) api_op" where
  "get_bso_handler ops req =
     bind_r (get_bso ops (bs_user_id req) (bs_collection req) (bs_bso req))
       (\<lambda>result. return_r
          (case result of
             None \<Rightarrow> response 404 [] EmptyBody
           | Some b \<Rightarrow> response 200 [] (JsonBody (bso_json b))))"

definition put_bso_handler :: "'s db_ops \<Rightarrow> bso_put_request \<Rightarrow> ('s, http_response) api_op" where
  "put_bso_handler ops req =
     bind_r
       (put_bso ops
          \<lparr>pp_user_id = bp_user_id req, pp_collection = bp_collection req, pp_id = bp_bso req,
           pp_sortindex = body_sortindex (bp_body req), pp_payload = body_payload (bp_body req),
           pp_ttl = body_ttl (bp_body req)\<rparr>)
       (\<lambda>ts. return_r (response 200 [(X_LAST_MODIFIED, as_header ts)] (JsonBody (ts_json ts))))"

section \<open>Operations\<close>

definition heartbeat :: "string \<Rightarrow> ('s, unit) api_op \<Rightarrow> 's db_ops \<Rightarrow> ('s, http_response) api_op"
where
  "heartbeat version pool_get ops =
     seq_r pool_get
       (bind_r (try_r (check_op ops))
         (\<lambda>result. return_r
            (case result of
               Inr True \<Rightarrow>
                 response 200 [] (JsonBody (JObj [(''version'', JStr version),
                   (''database'', JStr ''Ok''), (''status'', JStr ''Ok'')]))
             | Inr False \<Rightarrow>
                 response 200 [] (JsonBody (JObj [(''version'', JStr version),
                   (''database'', JStr ''Err''),
                   (''database_msg'', JStr ''check failed without error''),
                   (''status'', JStr ''Err'')]))
             | Inl _ \<Rightarrow>
                 response 503 [] (JsonBody (JObj [(''version'', JStr version),
                   (''status'', JStr ''Err''), (''database'', JStr ''Unknown'')])))))"

definition test_error :: "api_error + http_response" where
  "test_error = Inl (api_error_of (ApiInternal ''Oh Noes!''))"

section \<open>Any of the storage requests\<close>

datatype storage_request =
    GetCollections meta_request
  | GetCollectionCounts meta_request
  | GetCollectionUsage meta_request
  | GetQuota meta_request
  | DeleteAll meta_request
  | DeleteCollection collection_request
  | GetCollection collection_request
  | PostCollection collection_post_request
  | DeleteBso bso_request
  | GetBso bso_request
  | PutBso bso_put_request

fun request_user :: "storage_request \<Rightarrow> hawk_identifier" where
  "request_user (GetCollections m) = mr_user_id m"
| "request_user (GetCollectionCounts m) = mr_user_id m"
| "request_user (GetCollectionUsage m) = mr_user_id m"
| "request_user (GetQuota m) = mr_user_id m"
| "request_user (DeleteAll m) = mr_user_id m"
| "request_user (DeleteCollection c) = cr_user_id c"
| "request_user (GetCollection c) = cr_user_id c"
| "request_user (PostCollection c) = cp_user_id c"
| "request_user (DeleteBso b) = bs_user_id b"
| "request_user (GetBso b) = bs_user_id b"
| "request_user (PutBso b) = bp_user_id b"

fun run_handler ::
  "(json \<Rightarrow> string option) \<Rightarrow> 's db_ops \<Rightarrow> storage_request \<Rightarrow> ('s, http_response) api_op" where
  "run_handler to_text ops (GetCollections m) = get_collections ops m"
| "run_handler to_text ops (GetCollectionCounts m) = collection_counts ops m"
| "run_handler to_text ops (GetCollectionUsage m) = collection_usage ops m"
| "run_handler to_text ops (GetQuota m) = get_quota ops m"
| "run_handler to_text ops (DeleteAll m) = delete_all ops m"
| "run_handler to_text ops (DeleteCollection c) = delete_collection_handler ops c"
| "run_handler to_text ops (GetCollection c) = get_collection to_text ops c"
| "run_handler to_text ops (PostCollection c) = post_collection ops c"
| "run_handler to_text ops (DeleteBso b) = delete_bso_handler ops b"
| "run_handler to_text ops (GetBso b) = get_bso_handler ops b"
| "run_handler to_text ops (PutBso b) = put_bso_handler ops b"

definition serve ::
  "(json \<Rightarrow> string option) \<Rightarrow> ('s, unit) api_op \<Rightarrow> 's db_ops \<Rightarrow> db_transaction_pool \<Rightarrow>
     storage_request \<Rightarrow> ('s, http_response) api_op" where
  "serve to_text pool_get ops tp req = transaction_http pool_get ops tp (run_handler to_text ops req)"

context db_frame
begin

lemma frame_case_prod: "(\<And>a b. preserves (own hawk) (f a b)) \<Longrightarrow> preserves (own hawk) (case x of (a, b) \<Rightarrow> f a b)"
  by (cases x) simp

lemma frame_meta:
  "preserves (own (mr_user_id m)) (get_collections ops m)"
  "preserves (own (mr_user_id m)) (collection_counts ops m)"
  "preserves (own (mr_user_id m)) (collection_usage ops m)"
  "preserves (own (mr_user_id m)) (get_quota ops m)"
  "preserves (own (mr_user_id m)) (delete_all ops m)"
  unfolding get_collections_def collection_counts_def collection_usage_def get_quota_def
    delete_all_def
  by (intro frame)+

lemma frame_bso:
  "preserves (own (bs_user_id b)) (delete_bso_handler ops b)"
  "preserves (own (bs_user_id b)) (get_bso_handler ops b)"
  "preserves (own (bp_user_id p)) (put_bso_handler ops p)"
  unfolding delete_bso_handler_def get_bso_handler_def put_bso_handler_def
  by (intro frame; simp)+

lemma frame_finish_get_collection:
  "preserves (own (cr_user_id c)) q \<Longrightarrow>
     preserves (own (cr_user_id c)) (finish_get_collection to_text ops js c q)"
  unfolding finish_get_collection_def Let_def by (intro frame frame_extract_resource)

lemma frame_collection:
  "preserves (own (cr_user_id c)) (delete_collection_handler ops c)"
  "preserves (own (cr_user_id c)) (get_collection to_text ops c)"
  unfolding delete_collection_handler_def get_collection_def Let_def
  by (intro frame frame_finish_get_collection)+

lemma frame_post:
  "preserves (own (cp_user_id c)) (post_collection_batch ops c)"
  "preserves (own (cp_user_id c)) (post_collection ops c)"
proof -
  show b: "preserves (own (cp_user_id c)) (post_collection_batch ops c)" for c
    unfolding post_collection_batch_def Let_def by (intro frame frame_case_prod)
  show "preserves (own (cp_user_id c)) (post_collection ops c)"
    unfolding post_collection_def by (intro frame b)
qed

lemma frame_run_handler: "preserves (own (request_user req)) (run_handler to_text ops req)"
  by (cases req) (simp_all add: frame_meta frame_bso frame_collection frame_post)

end

context db_frame_tx
begin

lemma frame_serve:
  assumes "\<And>h c. lock_collection tp = Some (h, c) \<Longrightarrow> h = request_user req"
    and "tp_user_id tp = request_user req" "preserves (own (request_user req)) pool_get"
  shows "preserves (own (request_user req)) (serve to_text pool_get ops tp req)"
  unfolding serve_def by (rule frame_transaction_http [OF assms frame_run_handler])

end

end
