(* ===== verification/Web_App.thy ===== *)
theory Web_App
  imports Web_Handlers
begin

text \<open>
  The application (\<open>src/server/mod.rs\<close>): the resources and their routes, the handlers of the
  operational endpoints, and the middleware around them (\<open>src/web/middleware\<close>). CORS and the
  reports to Sentry are left out; the text of the version file is a parameter.
\<close>

section \<open>Routes\<close>

definition SYNC_VERSION_PATH :: string where "SYNC_VERSION_PATH = ''1.5''"

text \<open>\<open>[ -~]{1,64}\<close>, \<open>[a-zA-Z0-9._-]{1,32}\<close> and \<open>[0-9]{1,10}\<close>.\<close>

definition BSO_ID_REGEX :: regex where "BSO_ID_REGEX = one_to 64 (byte_in 32 126)"
definition COLLECTION_ID_REGEX :: regex where "COLLECTION_ID_REGEX = one_to 32 collection_char"
definition MYSQL_UID_REGEX :: regex where "MYSQL_UID_REGEX = one_to 10 is_digit"

datatype path_part = Text string | CollectionPart | BsoPart

fun part_regex :: "path_part \<Rightarrow> regex" where
  "part_regex (Text s) = rlit s"
| "part_regex CollectionPart = COLLECTION_ID_REGEX"
| "part_regex BsoPart = BSO_ID_REGEX"

definition cfg_path :: "path_part list \<Rightarrow> regex" where
  "cfg_path ps =
     rcats (rlit (''/'' @ SYNC_VERSION_PATH @ ''/'') # MYSQL_UID_REGEX # map part_regex ps)"

datatype endpoint =
    InfoCollections | InfoCounts | InfoUsage | InfoConfiguration | InfoQuota
  | Root | Storage | StorageCollection | StorageBso
  | TokenServer | Heartbeat | LbHeartbeat | Version | TestError

definition services :: "(endpoint \<times> regex) list" where
  "services =
     [(InfoCollections, cfg_path [Text ''/info/collections'']),
      (InfoCounts, cfg_path [Text ''/info/collection_counts'']),
      (InfoUsage, cfg_path [Text ''/info/collection_usage'']),
      (InfoConfiguration, cfg_path [Text ''/info/configuration'']),
      (InfoQuota, cfg_path [Text ''/info/quota'']),
      (Root, cfg_path []),
      (Storage, cfg_path [Text ''/storage'']),
      (StorageCollection, cfg_path [Text ''/storage/'', CollectionPart]),
      (StorageBso, cfg_path [Text ''/storage/'', CollectionPart, Text ''/'', BsoPart]),
      (TokenServer, cfg_path [Text ''/1.0/sync/1.5'']),
      (Heartbeat, rlit ''/__heartbeat__''),
      (LbHeartbeat, rlit ''/__lbheartbeat__''),
      (Version, rlit ''/__version__''),
      (TestError, rlit ''/__error__'')]"

definition endpoint_of :: "string \<Rightarrow> endpoint option" where
  "endpoint_of path = map_option fst (find (\<lambda>(_, r). matches r path) services)"

text \<open>The storage requests: extraction of the request a route's handler takes.\<close>

fun request_for ::
  "web_env \<Rightarrow> http_request \<Rightarrow> endpoint \<Rightarrow> http_method \<Rightarrow> (api_error + storage_request) option" where
  "request_for env req InfoCollections GET = Some (map_sum id GetCollections (meta_request_extract env req))"
| "request_for env req InfoCounts GET = Some (map_sum id GetCollectionCounts (meta_request_extract env req))"
| "request_for env req InfoUsage GET = Some (map_sum id GetCollectionUsage (meta_request_extract env req))"
| "request_for env req InfoQuota GET = Some (map_sum id GetQuota (meta_request_extract env req))"
| "request_for env req Root DELETE = Some (map_sum id DeleteAll (meta_request_extract env req))"
| "request_for env req Storage DELETE = Some (map_sum id DeleteAll (meta_request_extract env req))"
| "request_for env req StorageCollection DELETE =
     Some (map_sum id DeleteCollection (collection_request_extract env req))"
| "request_for env req StorageCollection GET =
     Some (map_sum id GetCollection (collection_request_extract env req))"
| "request_for env req StorageCollection POST =
     Some (map_sum id PostCollection (collection_post_extract env req))"
| "request_for env req StorageBso DELETE = Some (map_sum id DeleteBso (bso_request_extract env req))"
| "request_for env req StorageBso GET = Some (map_sum id GetBso (bso_request_extract env req))"
| "request_for env req StorageBso PUT = Some (map_sum id PutBso (bso_put_request_extract env req))"
| "request_for env req _ _ = None"

section \<open>The other endpoints\<close>

definition limits_json :: "server_limits \<Rightarrow> json" where
  "limits_json l =
     JObj [(''max_post_bytes'', JInt (uint (max_post_bytes l))),
           (''max_post_records'', JInt (uint (max_post_records l))),
           (''max_record_payload_bytes'', JInt (uint (max_record_payload_bytes l))),
           (''max_request_bytes'', JInt (uint (max_request_bytes l))),
           (''max_total_bytes'', JInt (uint (max_total_bytes l))),
           (''max_total_records'', JInt (uint (max_total_records l)))]"

definition get_configuration :: "server_limits \<Rightarrow> http_response" where
  "get_configuration limits = response 200 [] (JsonBody (limits_json limits))"

text \<open>The token server's endpoint is a stub.\<close>

definition tokenserver_get :: http_response where
  "tokenserver_get = response 200 [(''content-type'', ''application/json'')] (TextBody ''{}'')"

definition other_endpoint ::
  "web_env \<Rightarrow> string \<Rightarrow> string \<Rightarrow> ('s, unit) api_op \<Rightarrow> 's db_ops \<Rightarrow> endpoint \<Rightarrow> ('s, http_response) api_op"
where
  "other_endpoint env version version_file pool_get ops ep =
     (case ep of
        InfoConfiguration \<Rightarrow> lift_r (map_sum id get_configuration (config_request_extract env))
      | TokenServer \<Rightarrow> return_r tokenserver_get
      | Heartbeat \<Rightarrow> bind_r (lift_r (heartbeat_request_extract env)) (\<lambda>_. heartbeat version pool_get ops)
      | LbHeartbeat \<Rightarrow>
          return_r (response 200 [(''content-type'', ''application/json'')] (TextBody ''{}''))
      | Version \<Rightarrow>
          return_r (response 200 [(''content-type'', ''application/json'')] (TextBody version_file))
      | TestError \<Rightarrow> lift_r test_error
      | _ \<Rightarrow> return_r (response 405 [] EmptyBody))"

section \<open>Routing a request\<close>

text \<open>What the framework hands over besides the environment: the printer of JSON, the version and
  the version file.\<close>

record app_texts =
  json_text :: "json \<Rightarrow> string option"
  pkg_version :: string
  version_file :: string

definition storage_response ::
  "web_env \<Rightarrow> app_texts \<Rightarrow> ('s, unit) api_op \<Rightarrow> 's db_ops \<Rightarrow> http_request \<Rightarrow>
     api_error + storage_request \<Rightarrow> ('s, http_response) api_op" where
  "storage_response env tx pool_get ops req r =
     bind_r (lift_r (then_r r (\<lambda>sreq. then_r (pool_of_request env req) (\<lambda>tp. Inr (sreq, tp)))))
       (\<lambda>(sreq, tp). serve (json_text tx) pool_get ops tp sreq)"

definition route ::
  "web_env \<Rightarrow> app_texts \<Rightarrow> ('s, unit) api_op \<Rightarrow> 's db_ops \<Rightarrow> http_request \<Rightarrow> ('s, http_response) api_op"
where
  "route env tx pool_get ops req =
     (case endpoint_of (rq_route_path req) of
        None \<Rightarrow> return_r (response 404 [] EmptyBody)
      | Some ep \<Rightarrow>
          (case request_for env req ep (rq_method req) of
             Some r \<Rightarrow> storage_response env tx pool_get ops req r
           | None \<Rightarrow>
               if rq_method req = GET
               then other_endpoint env (pkg_version tx) (version_file tx) pool_get ops ep
               else return_r (response 405 [] EmptyBody)))"

text \<open>An error becomes its response.\<close>

definition answer :: "('s, http_response) api_op \<Rightarrow> 's \<Rightarrow> http_response \<times> 's" where
  "answer m s = (case m s of (Inl e, s') \<Rightarrow> (error_response e, s') | (Inr r, s') \<Rightarrow> (r, s'))"

section \<open>Middleware\<close>

definition render_errors :: "http_response \<Rightarrow> http_response" where
  "render_errors resp = (if resp_status resp = 404 then render_404 else resp)"

definition invalid_xlm :: "string \<Rightarrow> api_error" where
  "invalid_xlm e = api_error_of (ApiInternal (''Invalid X-Last-Modified response header: '' @ e))"

definition set_header :: "string \<Rightarrow> string \<Rightarrow> (string \<times> string) list \<Rightarrow> (string \<times> string) list" where
  "set_header name v hs = filter (\<lambda>h. fst h \<noteq> name) hs @ [(name, v)]"

definition weave_ts :: "(string \<times> string) list \<Rightarrow> f64 \<Rightarrow> api_error + f64" where
  "weave_ts headers ts =
     (case map_of headers X_LAST_MODIFIED of
        None \<Rightarrow> Inr ts
      | Some v \<Rightarrow>
          (case header_to_str v of
             Inl e \<Rightarrow> Inl (invalid_xlm e)
           | Inr s \<Rightarrow>
               (case parse_f64 s of
                  None \<Rightarrow> Inl (invalid_xlm ''invalid float literal'')
                | Some resp_ts \<Rightarrow> Inr (if f64_less ts resp_ts then resp_ts else ts))))"

definition set_weave_timestamp ::
  "(string \<times> string) list \<Rightarrow> f64 \<Rightarrow> api_error + (string \<times> string) list" where
  "set_weave_timestamp headers ts =
     map_sum id (\<lambda>t. set_header X_WEAVE_TIMESTAMP (format_2 t) headers) (weave_ts headers ts)"

definition weave_timestamp :: "http_request \<Rightarrow> sync_timestamp \<Rightarrow> http_response \<Rightarrow> http_response" where
  "weave_timestamp req now resp =
     (if to_lower (rq_path req) \<in> set DOCKER_FLOW_ENDPOINTS then resp
      else case set_weave_timestamp (resp_headers resp) (as_seconds now) of
        Inl e \<Rightarrow> error_response e
      | Inr hs \<Rightarrow> resp\<lparr>resp_headers := hs\<rparr>)"

text \<open>
  The user agents of old iOS clients:
  \<open>^Firefox-iOS-Sync/([0-9]+)\.[.0-9]+b.*\s\(.+;\siPhone\sOS\s.+\)\s\(.*\)$\<close>. A header that is
  text has no other white space than the blank and the tab, and no line breaks.
\<close>

definition blank :: "char \<Rightarrow> bool" where
  "blank c \<longleftrightarrow> c = CHR '' '' \<or> c = CHR 0x09"

definition IOS_UA_REGEX :: regex where
  "IOS_UA_REGEX =
     rcats [rlit ''Firefox-iOS-Sync/'', rplus is_digit, rlit ''.'',
       rplus (\<lambda>c. c = CHR ''.'' \<or> is_digit c), rlit ''b'', RStar (RClass (\<lambda>_. True)), RClass blank,
       rlit ''('', rplus (\<lambda>_. True), rlit '';'', RClass blank, rlit ''iPhone'', RClass blank,
       rlit ''OS'', RClass blank, rplus (\<lambda>_. True), rlit '')'', RClass blank, rlit ''('',
       RStar (RClass (\<lambda>_. True)), rlit '')'']"

definition ua_major :: "string \<Rightarrow> string" where
  "ua_major ua = takeWhile is_digit (drop (length ''Firefox-iOS-Sync/'') ua)"

definition should_reject :: "string \<Rightarrow> bool" where
  "should_reject ua =
     (let major = (if matches IOS_UA_REGEX ua
                   then (case parse_u32 (ua_major ua) of None \<Rightarrow> 20 | Some n \<Rightarrow> n) else 20)
      in 0 < major \<and> major < 20)"

definition reject_ua :: "server_state option \<Rightarrow> http_request \<Rightarrow> http_response option" where
  "reject_ua app req =
     (case rq_header req ''user-agent'' of
        None \<Rightarrow> None
      | Some v \<Rightarrow>
          (case header_to_str v of
             Inl _ \<Rightarrow> None
           | Inr ua \<Rightarrow>
               if should_reject ua then
                 Some (case app of
                    None \<Rightarrow> response 500 [] (TextBody ''Err: No State'')
                  | Some _ \<Rightarrow> response 503 [] (TextBody ''0''))
               else None))"

text \<open>The application: the filter of user agents first, the timestamp of the answer last.\<close>

definition app_call ::
  "web_env \<Rightarrow> app_texts \<Rightarrow> sync_timestamp \<Rightarrow> ('s, unit) api_op \<Rightarrow> 's db_ops \<Rightarrow> http_request \<Rightarrow>
     's \<Rightarrow> http_response \<times> 's" where
  "app_call env tx now pool_get ops req s =
     (case reject_ua (env_app env) req of
        Some resp \<Rightarrow> (resp, s)
      | None \<Rightarrow>
          (case answer (route env tx pool_get ops req) s of
             (resp, s') \<Rightarrow> (weave_timestamp req now (render_errors resp), s')))"

end
