(* ===== verification/Web_Claims.thy ===== *)
theory Web_Claims
  imports Web_App Mysql_Query_Claims
begin

text \<open>
  The properties of requests as a whole, on the MySQL implementation of the storage interface:
  what a request may change, when it is undone, and when it is not carried out at all.
\<close>

section \<open>Preconditions\<close>

lemma check_precondition_refused:
  assumes "extract_resource ops (tp_user_id tp) (tp_collection tp) (bso_opt tp) s = (Inr ts, s')"
    and "precondition_status (precondition tp) ts \<noteq> 200"
  shows "check_precondition ops tp action s =
    (Inr \<lparr>resp_status = precondition_status (precondition tp) ts,
       resp_headers = [(''content-type'', ''application/json''), (X_LAST_MODIFIED, as_header ts)],
       resp_body = TextBody '''', resp_error = None\<rparr>, s')"
  using assms by (simp add: check_precondition_def)

lemma transaction_internal_Inr:
  assumes "pool_get s0 = (Inr (), s)" "take_lock ops tp s = (Inr (), s1)"
    and "action s1 = (Inr r, s2)"
  shows "transaction_internal pool_get ops tp action s0 = (Inr r, s2)"
  using assms by (simp add: transaction_internal_def seq_r_def bind_r_def try_r_def catch_r_def)

text \<open>C21. A request whose precondition does not hold is not carried out: it is answered 304 when the
  resource is not newer than \<open>X-If-Modified-Since\<close>, 412 when it is newer than
  \<open>X-If-Unmodified-Since\<close>, with the resource's timestamp, and the answer and the final state are
  those of taking the lock, reading the timestamp and committing, whatever the request asked for.\<close>

theorem precondition_skips_action:
  assumes "pool_get s0 = (Inr (), s)" "take_lock ops tp s = (Inr (), s1)"
    and "extract_resource ops (tp_user_id tp) (tp_collection tp) (bso_opt tp) s1 = (Inr ts, s2)"
    and "precondition tp = Some (IfModifiedSince h) \<and> ts \<le> h \<and> status = 304 \<or>
         precondition tp = Some (IfUnmodifiedSince h) \<and> h < ts \<and> status = 412"
    and "commit_op ops s2 = (Inr (), s3)"
  shows "serve to_text pool_get ops tp req s0 =
    (Inr \<lparr>resp_status = status,
       resp_headers = [(''content-type'', ''application/json''), (X_LAST_MODIFIED, as_header ts)],
       resp_body = TextBody '''', resp_error = None\<rparr>, s3)"
proof -
  have "precondition_status (precondition tp) ts = status" "status \<noteq> 200"
    using assms(4) by (auto simp: precondition_status_def)
  then have "transaction_internal pool_get ops tp (check_precondition ops tp (run_handler to_text ops req)) s0 =
    (Inr \<lparr>resp_status = status,
       resp_headers = [(''content-type'', ''application/json''), (X_LAST_MODIFIED, as_header ts)],
       resp_body = TextBody '''', resp_error = None\<rparr>, s2)"
    using check_precondition_refused [OF assms(3)] by (auto intro!: transaction_internal_Inr assms(1,2))
  then show ?thesis
    using assms(5) by (simp add: serve_def transaction_http_def bind_r_def seq_r_def)
qed

section \<open>Rollback\<close>

context sql_connection
begin

lemma undone_by_rollback:
  assumes "lock_for_write_sync eng hawk coll db = (Inr (), db1)" "db_ok view db"
    and "deeper saved db1 db2" "rollback_sync eng db2 = (r, db3)"
    and "saved (conn db3) = saved (conn db)"
  shows "view (conn db3) = view (conn db1)" "r = Inr ()"
proof -
  obtain ts where ts: "saved (conn db2) = ts @ view (conn db1) # saved (conn db)"
    using lock_for_write_Inr(4) [OF assms(1,2)] assms(3) by (auto simp: deeper_def)
  have "in_transaction (session db2)"
    using assms(4,5) ts by (auto simp: rollback_sync_def bind_r_def split: if_splits)
  then obtain r' c where run: "rollback_transaction eng (conn db2) = (r', c)"
      "r = map_sum db_error_of_diesel id r'" "conn db3 = c"
    using assms(4)
    by (auto simp: rollback_sync_def bind_r_def map_err_r_def on_conn_def
        split: prod.splits sum.splits)
  show "r = Inr ()"
    using run rollback_Inl [of "conn db2" _ c] assms(5) ts by (cases r') auto
  then show "view (conn db3) = view (conn db1)"
    using run rollback_Inr [of "conn db2" "()" c] assms(5) ts
    by (cases r'; cases ts) (auto dest: arg_cong [where f = length])
qed

lemma commit_fails_open:
  assumes "commit_sync eng db2 = (Inl e, db3)"
  shows "saved (conn db3) = saved (conn db2)"
  using assms commit_Inl
  by (auto simp: commit_sync_def bind_r_def map_err_r_def on_conn_def
      split: if_splits prod.splits sum.splits)

lemma action_deeper:
  "preserves (deeper saved)
     (check_precondition (mysql_ops eng cd st) tp (run_handler to_text (mysql_ops eng cd st) req))"
  unfolding check_precondition_def Let_def
  by (intro opened.frame opened.frame_extract_resource opened.frame_run_handler)

end

lemma take_lock_write:
  assumes "lock_collection tp = Some (hawk, coll)" "\<not> is_read tp"
  shows "take_lock (mysql_ops eng cd st) tp db = api_of (lock_for_write_sync eng hawk coll) db"
  using assms by (simp add: take_lock_def mysql_ops_def)

lemma deeper_refl: "deeper saved db db"
  by (simp add: deeper_def)


text \<open>A run: the deletion of a BSO that is not there.\<close>

definition no_text :: "json \<Rightarrow> string option" where
  "no_text j = None"

definition sample_write :: db_transaction_pool where
  "sample_write =
     \<lparr>lock_collection = Some (sample_user, ''col''), is_read = False, tp_user_id = sample_user,
      tp_collection = Some ''col'', bso_opt = Some ''b0'', precondition = None\<rparr>"

definition sample_delete :: storage_request where
  "sample_delete = DeleteBso \<lparr>bs_collection = ''col'', bs_user_id = sample_user,
     bs_query = default_query, bs_bso = ''b0''\<rparr>"

abbreviation sample_ops :: "mem_conn mysql_db db_ops" where
  "sample_ops \<equiv> mysql_ops mem_engine text_codec (\<lambda>_. 1)"

definition locked_db :: "mem_conn mysql_db" where
  "locked_db = snd (lock_for_write_sync mem_engine sample_user ''col'' sample_db)"

definition read_db :: "mem_conn mysql_db" where
  "read_db = snd (get_bso_timestamp_sync mem_engine sample_user ''col'' ''b0'' locked_db)"

definition failed_db :: "mem_conn mysql_db" where
  "failed_db = snd (delete_bso_sync mem_engine sample_user ''col'' ''b0'' read_db)"

definition undone_db :: "mem_conn mysql_db" where
  "undone_db = snd (rollback_sync mem_engine failed_db)"

lemma sample_delete_steps:
  "fst (lock_for_write_sync mem_engine sample_user ''col'' sample_db) = Inr ()"
  "fst (get_bso_timestamp_sync mem_engine sample_user ''col'' ''b0'' locked_db) = Inr 0"
  "fst (delete_bso_sync mem_engine sample_user ''col'' ''b0'' read_db) = Inl (db_error_of BsoNotFound)"
  "fst (rollback_sync mem_engine failed_db) = Inr ()"
  "mem_saved (conn undone_db) = []" "mem_saved (conn sample_db) = []"
  by code_simp+

lemma sample_session: "mysql_pool_get None 1000000 sample_db = (Inr (), sample_db)"
  by (simp add: mysql_pool_get_def sample_db_def new_mysql_db_def)

lemma mysql_ops_apply:
  "lock_for_write (mysql_ops eng cd st) hawk coll = api_of (lock_for_write_sync eng hawk coll)"
  "get_bso_timestamp (mysql_ops eng cd st) hawk coll i = api_of (get_bso_timestamp_sync eng hawk coll i)"
  "delete_bso (mysql_ops eng cd st) hawk coll i = api_of (delete_bso_sync eng hawk coll i)"
  "rollback_op (mysql_ops eng cd st) = api_of (rollback_sync eng)"
  "commit_op (mysql_ops eng cd st) = api_of (commit_sync eng)"
  by (simp_all add: mysql_ops_def)

lemma api_run:
  "m s = (Inr a, s') \<Longrightarrow> api_of m s = (Inr a, s')"
  "m s = (Inl e, s') \<Longrightarrow> api_of m s = (Inl (api_error_of_db e), s')"
  by (simp_all add: api_of_def map_err_r_def)

lemma sample_delete_run:
  "serve no_text (mysql_pool_get None 1000000) sample_ops sample_write sample_delete sample_db =
    (Inl (api_error_of_db_kind BsoNotFound), undone_db)"
proof -
  have steps: "api_of (lock_for_write_sync mem_engine sample_user ''col'') sample_db = (Inr (), locked_db)"
    "api_of (get_bso_timestamp_sync mem_engine sample_user ''col'' ''b0'') locked_db = (Inr 0, read_db)"
    "api_of (delete_bso_sync mem_engine sample_user ''col'' ''b0'') read_db =
       (Inl (api_error_of_db (db_error_of BsoNotFound)), failed_db)"
    "api_of (rollback_sync mem_engine) failed_db = (Inr (), undone_db)"
    using sample_delete_steps
    by (auto intro!: api_run prod_eqI simp: locked_db_def read_db_def failed_db_def undone_db_def)
  have "delete_bso_handler sample_ops \<lparr>bs_collection = ''col'', bs_user_id = sample_user,
      bs_query = default_query, bs_bso = ''b0''\<rparr> read_db =
      (Inl (api_error_of_db (db_error_of BsoNotFound)), failed_db)"
    by (simp add: delete_bso_handler_def mysql_ops_apply bind_r_def steps)
  then show ?thesis
    by (simp add: serve_def transaction_http_def transaction_internal_def take_lock_def
        check_precondition_def extract_resource_def or_zero_def sample_write_def sample_delete_def
        mysql_ops_apply bind_r_def seq_r_def catch_r_def try_r_def steps sample_session
        precondition_status_def api_error_of_db_kind_def)
qed


text \<open>A run: the storage's timestamp read by a client that has seen it.\<close>

definition sample_read :: db_transaction_pool where
  "sample_read =
     \<lparr>lock_collection = None, is_read = True, tp_user_id = sample_user, tp_collection = None,
      bso_opt = None, precondition = Some (IfModifiedSince 2000000)\<rparr>"

definition seen_db :: "mem_conn mysql_db" where
  "seen_db = snd (get_storage_timestamp_sync mem_engine sample_user later_db)"

lemma sample_seen:
  "fst (get_storage_timestamp_sync mem_engine sample_user later_db) = Inr 1000000"
  "\<not> in_transaction (session seen_db)"
  by code_simp+

lemma later_session: "mysql_pool_get None 2000000 later_db = (Inr (), later_db)"
  by (simp add: mysql_pool_get_def later_db_def new_mysql_db_def)

lemma precondition_skips_action_witness:
  "resp_status (projr (fst (serve no_text (mysql_pool_get None 2000000) sample_ops sample_read
     (DeleteAll \<lparr>mr_user_id = sample_user\<rparr>) later_db))) = 304"
proof -
  have lock: "take_lock sample_ops sample_read later_db = (Inr (), later_db)"
    by (simp add: take_lock_def sample_read_def)
  have ts: "extract_resource sample_ops (tp_user_id sample_read) (tp_collection sample_read)
      (bso_opt sample_read) later_db = (Inr 1000000, seen_db)"
    using sample_seen(1)
    by (auto simp: extract_resource_def sample_read_def mysql_ops_def seen_db_def intro!: api_run prod_eqI)
  have commit: "commit_op sample_ops seen_db = (Inr (), seen_db)"
    using sample_seen(2) by (simp add: mysql_ops_apply api_run commit_sync_def bind_r_def)
  have pre: "precondition sample_read = Some (IfModifiedSince 2000000) \<and> (1000000 :: u64) \<le> 2000000 \<and>
      (304 :: nat) = 304 \<or>
      precondition sample_read = Some (IfUnmodifiedSince 2000000) \<and> (2000000 :: u64) < 1000000 \<and>
      (304 :: nat) = 412"
    by (simp add: sample_read_def)
  then show ?thesis
    using precondition_skips_action [of "mysql_pool_get None 2000000" later_db later_db sample_ops
        sample_read later_db 1000000 seen_db 2000000 304 seen_db, OF later_session lock ts pre commit]
    by simp
qed

section \<open>Users\<close>

lemma length_split_map:
  assumes "\<And>x. f x = c \<longleftrightarrow> x = c"
  shows "length (split_at c (map f s)) = length (split_at c s)"
  by (induction s) (auto simp: assms split: list.splits)

lemma lower_slash: "ascii_lower x = CHR ''/'' \<longleftrightarrow> x = CHR ''/''"
proof -
  let ?n = "of_char x :: nat"
  have "char_of (?n + 32) \<noteq> CHR ''/''" if "65 \<le> ?n" "?n \<le> 90"
  proof
    assume "char_of (?n + 32) = CHR ''/''"
    then have "of_char (char_of (?n + 32) :: char) = (47 :: nat)"
      by simp
    then show False
      using that by simp
  qed
  then show ?thesis
    by (auto simp: ascii_lower_def Let_def)
qed

text \<open>A path that names a user is none of the operational ones.\<close>

lemma user_not_docker:
  assumes "user_extract env req = Inr hawk"
  shows "get_hawk_id (env_hawk env) (env_now env) (env_app env) req = Inr hawk"
proof -
  obtain uid where "uid_from_path req = Inr uid"
    using assms by (auto simp: user_extract_def hawk_from_request_def hawk_extrude_def
        hawk_generate_def split: option.splits sum.splits)
  then have "2 < length (split_at (CHR ''/'') (rq_path req))"
    by (auto simp: uid_from_path_def Let_def split: if_splits)
  then have "2 < length (split_at (CHR ''/'') (to_lower (rq_path req)))"
    by (simp add: to_lower_def length_split_map lower_slash)
  then have "to_lower (rq_path req) \<notin> set DOCKER_FLOW_ENDPOINTS"
    by (auto simp: DOCKER_FLOW_ENDPOINTS_def)
  then show ?thesis
    using assms by (auto simp: user_extract_def hawk_from_request_def get_hawk_id_def
        split: option.splits)
qed

lemma request_for_user:
  assumes "request_for env req ep m = Some (Inr sreq)"
  shows "user_extract env req = Inr (request_user sreq)"
  using assms
  by (cases "(env, req, ep, m)" rule: request_for.cases)
    (auto simp: meta_request_extract_def collection_request_extract_def collection_post_extract_def
      bso_request_extract_def bso_put_request_extract_def map_sum_Inr_iff Let_def split: option.splits if_splits)

text \<open>The request's own relation is kept all the way from the route to the answer.\<close>

context db_frame_tx
begin

lemma frame_other_endpoint:
  assumes "preserves (own hawk) pool_get"
  shows "preserves (own hawk) (other_endpoint env version file pool_get ops ep)"
  using assms unfolding other_endpoint_def heartbeat_def
  by (cases ep) (auto intro!: frame)

lemma frame_storage_response:
  assumes "preserves (own hawk) pool_get" "user_extract env req = Inr hawk"
    and "\<And>sreq. r = Inr sreq \<Longrightarrow> request_user sreq = hawk"
  shows "preserves (own hawk) (storage_response env tx pool_get ops req r)"
proof -
  have "preserves (own hawk) (serve (json_text tx) pool_get ops tp sreq)"
    if "r = Inr sreq" "pool_of_request env req = Inr tp" for sreq tp
  proof -
    have "request_user sreq = hawk" "tp_user_id tp = hawk"
      using assms(3) that pool_of_request_user(1) [OF that(2)] user_not_docker [OF assms(2)] by auto
    then show ?thesis
      using frame_serve [of tp sreq pool_get "json_text tx"] pool_of_request_user(2) [OF that(2)]
        assms(1) by auto
  qed
  then show ?thesis
    using own_refl [of hawk]
    by (cases r; cases "pool_of_request env req")
      (auto simp: storage_response_def bind_r_def preserves_def reflp_def)
qed

lemma frame_route:
  assumes "preserves (own hawk) pool_get" "user_extract env req = Inr hawk"
  shows "preserves (own hawk) (route env tx pool_get ops req)"
proof -
  have "preserves (own hawk) (storage_response env tx pool_get ops req r)"
    if "request_for env req ep (rq_method req) = Some r" for ep r
    using that assms request_for_user [of env req ep "rq_method req"]
    by (intro frame_storage_response) auto
  then show ?thesis
    unfolding route_def
    by (auto intro!: frame frame_other_endpoint assms(1) split: option.split)
qed

lemma frame_app_call:
  assumes "preserves (own hawk) pool_get" "user_extract env req = Inr hawk"
  shows "own hawk s (snd (app_call env tx now pool_get ops req s))"
proof -
  obtain r s' where run: "route env tx pool_get ops req s = (r, s')"
    by (metis prod.collapse)
  then have "own hawk s s'"
    by (rule preservesD [OF frame_route [OF assms]])
  then show ?thesis
    using own_refl [of hawk]
    by (simp add: app_call_def answer_def run reflp_def split: option.split sum.split)
qed

end

context sql_connection
begin

lemma app_call_own:
  assumes "user_extract env req = Inr hawk"
  shows "mysql_own view saved hawk db
    (snd (app_call env tx now (mysql_pool_get pool_error t) (mysql_ops eng cd st) req db))"
  by (rule mysql.frame_app_call [OF mysql_own_pool_get assms])

end


text \<open>An environment whose Hawk library takes the id of a header for its signed payload.\<close>

definition sample_hawk :: hawk_lib where
  "sample_hawk =
     \<lparr>hl_parse = (\<lambda>s. Inr (Some s, [])), hl_base64_decode = Inr, hl_base64_encode = id,
      hl_hmac = (\<lambda>key txt. Some (replicate 32 (CHR ''x''))),
      hl_hkdf = (\<lambda>info salt key. Inr (replicate 32 (CHR 0x01))),
      hl_payload = (\<lambda>s. Inr \<lparr>hp_expires = Fin 9000, hp_node = [], hp_salt = ''salt'', hp_user_id = 7,
        hp_fxa_uid = [], hp_fxa_kid = [], hp_device_id = []\<rparr>),
      hl_key = Inr, hl_valid = (\<lambda>req hdr key skew. True)\<rparr>"

definition sample_state :: server_state where
  "sample_state = \<lparr>st_limits = default_limits, st_secrets = default_secrets, st_port = 8000\<rparr>"

definition sample_env :: web_env where
  "sample_env =
     \<lparr>env_hawk = sample_hawk, env_now = 1000, env_app = Some sample_state, env_text = id,
      env_errors = (\<lambda>es. []), env_json = (\<lambda>s. None), env_batch_id = (\<lambda>b. True)\<rparr>"

definition sample_http :: http_request where
  "sample_http =
     \<lparr>rq_method = DELETE, rq_path = ''/1.5/7/storage/col'', rq_route_path = ''/1.5/7/storage/col'',
      rq_headers = [(''authorization'', ''Hawk p'' @ replicate 32 (CHR ''x''))], rq_query = Inr [],
      rq_content_type = Inr ''application/json'', rq_accept = Inr [], rq_body = Inr [],
      rq_json = Inr JNull, rq_host = ''localhost'', rq_scheme = ''http'',
      rq_target = Some ''/1.5/7/storage/col''\<rparr>"

definition sample_texts :: app_texts where
  "sample_texts = \<lparr>json_text = no_text, pkg_version = [], version_file = []\<rparr>"

lemma parse_seven: "parse_u64 ''7'' = Some 7"
  by (simp add: parse_u64_def parse_unsigned_def parse_digits_def is_digit_def digits_val_def digit_val_def)

lemma sample_expires: "f64_as_u64 (f64_round (Fin 9000)) = 9000"
proof -
  have "\<lfloor>18001 / 2 :: rat\<rfloor> = 9000"
    by (simp add: floor_eq_iff)
  then show ?thesis
    by simp
qed

lemma sample_hawk_steps:
  "verify_hmac sample_hawk i k (replicate 32 (CHR ''x'')) = Inr ()"
  "hkdf_expand_32 (hl_hkdf sample_hawk) i' s k = Inr (replicate 32 (CHR 0x01))"
  "hl_base64_decode sample_hawk = Inr" "hl_key sample_hawk = Inr" "hl_valid sample_hawk r h key' n"
  "hl_parse sample_hawk t = Inr (Some t, [])"
  "hl_payload sample_hawk t = Inr \<lparr>hp_expires = Fin 9000, hp_node = [], hp_salt = ''salt'',
     hp_user_id = 7, hp_fxa_uid = [], hp_fxa_kid = [], hp_device_id = []\<rparr>"
  by (simp_all add: verify_hmac_def hkdf_expand_32_def sample_hawk_def)

abbreviation sample_header :: string where
  "sample_header \<equiv> ''Hawk p'' @ replicate 32 (CHR ''x'')"

definition sample_payload :: hawk_payload where
  "sample_payload = \<lparr>hp_expires = Fin 9000, hp_node = [], hp_salt = ''salt'', hp_user_id = 7,
     hp_fxa_uid = [], hp_fxa_kid = [], hp_device_id = []\<rparr>"

text \<open>Any request of the sample user with that header.\<close>

lemma sample_user_extract:
  assumes "env_hawk env = sample_hawk" "env_now env = 1000" "env_app env = Some sample_state"
    and "rq_headers req = rq_headers sample_http" "rq_path req = ''/1.5/7/storage/col''"
    and "rq_host req = ''localhost''" "rq_scheme req = ''http''" "rq_target req = Some t"
  shows "user_extract env req = Inr sample_user"
proof -
  have "uid_from_path req = Inr 7"
    using assms(5) by (simp add: uid_from_path_def parse_seven)
  moreover have "hawk_payload_extrude sample_hawk 1000 sample_header default_secrets req =
      Inr sample_payload"
    using sample_expires assms
    by (simp add: hawk_payload_extrude_def port_of_def new_hawk_payload_def sample_payload_def
        sample_hawk_steps extract_and_validate_def Let_def del: f64_round.simps)
  moreover have "header_to_str sample_header = Inr sample_header"
    by (simp add: header_to_str_def byte_in_def list_all_iff)
  moreover have "rq_header req ''authorization'' = Some sample_header"
    using assms(4)
    by (simp add: rq_header_def sample_http_def to_lower_def ascii_lower_def Let_def)
  ultimately show ?thesis
    using assms(1-3)
    by (simp add: user_extract_def hawk_from_request_def hawk_extrude_def sample_state_def
        hawk_generate_def sample_user_def new_legacy_def sample_payload_def)
qed

lemma sample_http_user: "user_extract sample_env sample_http = Inr sample_user"
  by (rule sample_user_extract) (simp_all add: sample_env_def sample_http_def)


text \<open>C23. Nothing happens without a user: a storage request that carries no valid credentials is
  answered with the error of its authentication, and the database is not even asked for a
  connection.\<close>

theorem unauthenticated_no_effect:
  assumes "user_extract env req = Inl e" "env_app env = Some state"
    and "endpoint_of (rq_route_path req) = Some ep" "request_for env req ep (rq_method req) \<noteq> None"
    and "reject_ua (env_app env) req = None"
  shows "app_call env tx now pool_get ops req s =
    (weave_timestamp req now (render_errors (error_response e)), s)"
proof -
  obtain r where r: "request_for env req ep (rq_method req) = Some r"
    using assms(4) by blast
  have "r = Inl e"
    using r assms(1,2)
    by (cases "(env, req, ep, rq_method req)" rule: request_for.cases)
      (auto simp: meta_request_extract_def collection_request_extract_def
        collection_post_extract_def bso_request_extract_def bso_put_request_extract_def)
  then show ?thesis
    using r assms(3,5)
    by (simp add: app_call_def route_def storage_response_def answer_def bind_r_def)
qed

definition anonymous_http :: http_request where
  "anonymous_http = sample_http\<lparr>rq_headers := []\<rparr>"

lemma anonymous:
  "user_extract sample_env anonymous_http = Inl (api_error_of_hawk HawkMissingHeader)"
  "endpoint_of (rq_route_path anonymous_http) = Some StorageCollection"
  "reject_ua (env_app sample_env) anonymous_http = None"
  by code_simp+

lemma unauthenticated_no_effect_witness:
  "app_call sample_env sample_texts 1000 (mysql_pool_get None 3000000) sample_ops anonymous_http later_db =
    (weave_timestamp anonymous_http 1000
       (render_errors (error_response (api_error_of_hawk HawkMissingHeader))), later_db)"
proof -
  have state: "env_app sample_env = Some sample_state"
    by (simp add: sample_env_def)
  have served: "request_for sample_env anonymous_http StorageCollection (rq_method anonymous_http) \<noteq> None"
    by (simp add: anonymous_http_def sample_http_def)
  show ?thesis
    by (rule unauthenticated_no_effect [OF anonymous(1) state anonymous(2) served anonymous(3)])
qed

end
