(* ===== verification/Web_Upload_Claims.thy ===== *)
theory Web_Upload_Claims
  imports Web_Claims Mysql_Upload_Claims
begin

text \<open>
  Uploads as requests: what an accepted body is made of, that no BSO sent in it is lost sight of, and
  the order in which a request that commits a batch writes.
\<close>

section \<open>The body of a POST\<close>

definition raw_id :: "json \<Rightarrow> string option" where
  "raw_id j = (case j of JObj fs \<Rightarrow> Option.bind (map_of fs ''id'') json_str | _ \<Rightarrow> None)"

abbreviation payload_bytes :: "batch_bso_body list \<Rightarrow> nat" where
  "payload_bytes bs \<equiv> sum_list (map (\<lambda>b. payload_size (bb_payload b)) bs)"

text \<open>The ids \<open>is\<close> are told apart into accepted and refused ones, once each.\<close>

definition accounted :: "string list \<Rightarrow> bso_bodies \<Rightarrow> bool" where
  "accounted is b \<longleftrightarrow>
     distinct (map bb_id (valid b)) \<and> distinct (map fst (invalid b)) \<and>
     set (map bb_id (valid b)) \<inter> fst ` set (invalid b) = {} \<and>
     set (map bb_id (valid b)) \<union> fst ` set (invalid b) = set is"

definition within_sizes :: "nat \<Rightarrow> nat \<Rightarrow> bso_bodies \<Rightarrow> bool" where
  "within_sizes max_payload max_post b \<longleftrightarrow>
     (\<forall>x\<in>set (valid b). batch_bso_errors x = [] \<and> payload_size (bb_payload x) \<le> max_payload) \<and>
     payload_bytes (valid b) \<le> max_post"

lemma accounted_refuse:
  "accounted is b \<Longrightarrow> i \<notin> set is \<Longrightarrow>
     accounted (is @ [i]) (b\<lparr>invalid := AList.update i e (invalid b)\<rparr>)"
  by (auto simp: accounted_def update_keys dom_update distinct_update)

lemma accounted_accept:
  "accounted is b \<Longrightarrow> bb_id x \<notin> set is \<Longrightarrow>
     accounted (is @ [bb_id x]) (b\<lparr>valid := valid b @ [x]\<rparr>)"
  by (auto simp: accounted_def)

lemma from_raw_bso_Inr:
  assumes "from_raw_bso vt j = Inr b"
  shows "raw_id j = Some (bb_id b)" "batch_bso_errors b = []"
  using assms
  by (auto simp: from_raw_bso_def raw_id_def raw_bso_fields_def
      split: json.splits option.splits if_splits prod.splits)

lemma sort_bsos_Inr:
  assumes "sort_bsos vt max_payload max_post js seen bytes acc = Inr b"
    and "accounted seen acc" "within_sizes max_payload max_post acc" "payload_bytes (valid acc) \<le> bytes"
    and "distinct seen"
  shows "\<exists>is. map raw_id js = map Some is \<and> distinct (seen @ is) \<and> accounted (seen @ is) b \<and>
    within_sizes max_payload max_post b"
  using assms
proof (induction vt max_payload max_post js seen bytes acc rule: sort_bsos.induct)
  case (2 vt max_payload max_post j js seen bytes acc)
  then obtain fs i where j: "j = JObj fs" "raw_id j = Some i" "i \<notin> set seen"
    by (auto simp: raw_id_def split: json.splits option.splits if_splits)
  have run: "sort_bsos vt max_payload max_post (j # js) seen bytes acc = Inr b"
    and inv: "accounted seen acc" "within_sizes max_payload max_post acc"
      "payload_bytes (valid acc) \<le> bytes" "distinct seen"
    using "2.prems" by blast+
  have i: "Option.bind (map_of fs ''id'') json_str = Some i"
    using j by (simp add: raw_id_def)
  have next_ids: "\<exists>is. map raw_id (j # js) = map Some is \<and> distinct (seen @ is) \<and> P (seen @ is)"
    if "\<exists>is. map raw_id js = map Some is \<and> distinct ((seen @ [i]) @ is) \<and> P ((seen @ [i]) @ is)" for P
    using that j(2) by (metis append.assoc append_Cons append_Nil list.simps(9))
  show ?case
  proof (cases "from_raw_bso vt j")
    case (Inl e)
    have "\<exists>is. map raw_id js = map Some is \<and> distinct ((seen @ [i]) @ is) \<and>
        accounted ((seen @ [i]) @ is) b \<and> within_sizes max_payload max_post b"
      using run inv j(3)
      by (intro "2.IH"(1) [OF j(1) i j(3) Inl])
        (simp_all add: j(1) i Inl [unfolded j(1)] accounted_refuse within_sizes_def)
    then show ?thesis
      using next_ids [of "\<lambda>is. accounted is b \<and> within_sizes max_payload max_post b"] by blast
  next
    case (Inr x)
    note x = from_raw_bso_Inr [OF Inr]
    let ?size = "payload_size (bb_payload x)"
    have xi: "bb_id x = i"
      using x(1) j(2) by simp
    have "\<exists>is. map raw_id js = map Some is \<and> distinct ((seen @ [i]) @ is) \<and>
        accounted ((seen @ [i]) @ is) b \<and> within_sizes max_payload max_post b"
      using run inv j(3) x(2) accounted_accept [OF inv(1), of x] accounted_refuse [OF inv(1) j(3)]
      by (intro "2.IH"(2) [OF j(1) i j(3) Inr refl refl])
        (auto simp: j(1) i Inr [unfolded j(1)] xi within_sizes_def Let_def)
    then show ?thesis
      using next_ids [of "\<lambda>is. accounted is b \<and> within_sizes max_payload max_post b"] by blast
  qed
qed simp

lemma bso_bodies_extract_Inr:
  assumes "bso_bodies_extract js vt (Some state) req = Inr b"
  obtains newlines body raws "is" where "rq_body req = Inr body" "raw_bsos js newlines body = Some raws"
    "map raw_id raws = map Some is" "distinct is" "accounted is b"
    "within_sizes (unat (max_record_payload_bytes (st_limits state)))
       (unat (max_post_bytes (st_limits state))) b"
proof -
  obtain ctype body raws where "rq_body req = Inr body"
    "raw_bsos js (ctype = ''application/newlines'') body = Some raws"
    and sort: "sort_bsos vt (unat (max_record_payload_bytes (st_limits state)))
      (unat (max_post_bytes (st_limits state))) raws [] 0 \<lparr>valid = [], invalid = []\<rparr> = Inr b"
    using assms by (auto simp: bso_bodies_extract_def split: sum.splits if_splits option.splits)
  then show thesis
    using sort_bsos_Inr [OF sort] that by (auto simp: accounted_def within_sizes_def)
qed

lemma trim_excess_keeps:
  assumes "accounted is b" "within_sizes max_payload max_post b"
  shows "accounted is (trim_excess n b) \<and> within_sizes max_payload max_post (trim_excess n b) \<and>
    length (valid (trim_excess n b)) = length (valid b) - n"
  using assms
proof (induction n b rule: trim_excess.induct)
  case (2 n b)
  let ?b = "if valid b = [] then b
    else b\<lparr>valid := butlast (valid b),
      invalid := AList.update (bb_id (last (valid b))) ''retry bso'' (invalid b)\<rparr>"
  have "accounted is ?b \<and> within_sizes max_payload max_post ?b \<and> length (valid ?b) = length (valid b) - 1"
  proof (cases "valid b" rule: rev_cases)
    case (snoc bs x)
    then show ?thesis
      using "2.prems" by (auto simp: accounted_def within_sizes_def update_keys dom_update distinct_update)
  qed (use "2.prems" in simp)
  then show ?case
    using "2.IH" by auto
qed simp_all

text \<open>C11. What a POST is accepted with: the ids of the body's BSOs are pairwise distinct and each is
  either accepted or refused with a message, never both and never neither; the accepted ones satisfy
  the validators, and their number, their payloads and the sum of their payloads are within the
  server's limits.\<close>

theorem posted_bodies:
  assumes "collection_post_extract env req = Inr coll" "env_app env = Some state"
  shows "\<exists>newlines body raws is. rq_body req = Inr body \<and>
    raw_bsos (env_json env) newlines body = Some raws \<and> map raw_id raws = map Some is \<and> distinct is \<and>
    accounted is (cp_bsos coll) \<and>
    within_sizes (unat (max_record_payload_bytes (st_limits state)))
      (unat (max_post_bytes (st_limits state))) (cp_bsos coll) \<and>
    length (valid (cp_bsos coll)) \<le> unat (max_post_records (st_limits state))"
proof -
  obtain bsos where b: "bso_bodies_extract (env_json env) (env_errors env) (Some state) req = Inr bsos"
    and coll: "cp_bsos coll = trim_excess
      (length (valid bsos) - unat (max_post_records (st_limits state))) bsos"
    using assms by (auto simp: collection_post_extract_def split: if_splits)
  show ?thesis
    by (rule bso_bodies_extract_Inr [OF b])
      (use coll trim_excess_keeps in \<open>fastforce simp: le_diff_conv\<close>)
qed

text \<open>A POST of two BSOs, the second one with a sort index out of bounds.\<close>

definition sample_raw :: "string \<Rightarrow> json option" where
  "sample_raw s = Some (JArr
     [JObj [(''id'', JStr ''b0''), (''payload'', JStr ''z''), (''ttl'', JInt 60)],
      JObj [(''id'', JStr ''b1''), (''sortindex'', JInt 9999999999)]])"

definition post_env :: web_env where
  "post_env = sample_env\<lparr>env_json := sample_raw\<rparr>"

definition post_http :: http_request where
  "post_http = sample_http\<lparr>rq_method := POST, rq_body := Inr ''[]''\<rparr>"

definition sample_collection_post :: collection_post_request where
  "sample_collection_post =
     \<lparr>cp_collection = ''col'', cp_user_id = sample_user, cp_query = default_query,
      cp_bsos = \<lparr>valid = [\<lparr>bb_id = ''b0'', bb_sortindex = None, bb_payload = Some ''z'',
                          bb_ttl = Some 60\<rparr>],
                 invalid = [(''b1'', ''invalid json'')]\<rparr>,
      cp_batch = None\<rparr>"

lemma post_user: "user_extract post_env post_http = Inr sample_user"
  by (rule sample_user_extract) (simp_all add: post_env_def post_http_def sample_env_def sample_http_def)

lemma post_parts:
  "collection_param post_http = Inr ''col''"
  "bso_query_params_extract (env_text post_env) post_http = Inr default_query"
  "bso_bodies_extract (env_json post_env) (env_errors post_env) (env_app post_env) post_http =
     Inr (cp_bsos sample_collection_post)"
  by code_simp+

lemma post_announced: "check_announced post_http (announced_checks (st_limits sample_state)) = Inr ()"
  by code_simp

lemma post_batch: "batch_request_extract lt (env_app post_env) pool post_http = Inr None"
  using post_announced
  by (simp add: batch_request_extract_def post_env_def sample_env_def post_http_def sample_http_def)

lemma post_extracted: "collection_post_extract post_env post_http = Inr sample_collection_post"
proof -
  have "env_app post_env = Some sample_state"
    by (simp add: post_env_def sample_env_def)
  moreover have "trim_excess (1 - unat (max_post_records (st_limits sample_state)))
      (cp_bsos sample_collection_post) = cp_bsos sample_collection_post"
    by (simp add: sample_state_def default_limits_def DEFAULT_MAX_POST_RECORDS_def)
  ultimately show ?thesis
    using post_parts post_user post_batch
    by (simp add: collection_post_extract_def sample_collection_post_def)
qed

lemma posted_bodies_witness:
  "accounted [''b0'', ''b1''] (cp_bsos sample_collection_post)"
proof -
  have app: "env_app post_env = Some sample_state"
    by (simp add: post_env_def sample_env_def)
  obtain newlines body raws "is" where raws: "rq_body post_http = Inr body"
      "raw_bsos (env_json post_env) newlines body = Some raws" "map raw_id raws = map Some is"
    and a: "accounted is (cp_bsos sample_collection_post)"
    using posted_bodies [OF post_extracted app] by blast
  show ?thesis
    using a by (auto simp: accounted_def sample_collection_post_def)
qed

section \<open>The ids of the answer\<close>

text \<open>The answer's ids, stored and failed, each once.\<close>

definition answered :: "string list \<Rightarrow> post_bsos_result \<Rightarrow> bool" where
  "answered is r \<longleftrightarrow>
     distinct (pr_success r) \<and> distinct (map fst (pr_failed r)) \<and>
     set (pr_success r) \<inter> fst ` set (pr_failed r) = {} \<and>
     set (pr_success r) \<union> fst ` set (pr_failed r) = set is"

lemma note_put_answered:
  "answered is r \<Longrightarrow> i \<notin> set is \<Longrightarrow> answered (is @ [i]) (note_put i res r)"
  by (auto simp: answered_def note_put_def dom_update update_keys distinct_update split: sum.split)

lemma put_each_answered:
  assumes "put_each eng hawk coll pbsos r db = (Inr r', db')" "answered is r"
    and "distinct (map pb_id pbsos)" "set (map pb_id pbsos) \<inter> set is = {}"
  shows "answered (is @ map pb_id pbsos) r'"
  using assms
proof (induction pbsos arbitrary: r "is" db)
  case (Cons b pbsos)
  obtain res db1 where
    "put_each eng hawk coll pbsos (note_put (pb_id b) res r) db1 = (Inr r', db')"
    using Cons.prems(1) by (auto simp: bind_r_Inr_iff)
  then have "answered ((is @ [pb_id b]) @ map pb_id pbsos) r'"
    by (rule Cons.IH) (use Cons.prems note_put_answered in auto)
  then show ?case by simp
qed simp

lemma pb_id_post: "pb_id (post_of_body b) = bb_id b"
  by (simp add: post_of_body_def)

text \<open>C12. No BSO of a POST is lost sight of: when the handler of a POST without a batch answers, the
  answer is 200, names each id of the body exactly once, among those that were stored or among those
  that failed, whether they were refused by the extractor or by the database.\<close>

theorem posted_ids_answered:
  assumes "cp_batch coll = None" "accounted is (cp_bsos coll)"
    and "post_collection (mysql_ops eng cd st) coll db = (Inr resp, db')"
  shows "\<exists>r. answered is r \<and>
    resp = response 200 [(X_LAST_MODIFIED, as_header (pr_modified r))] (JsonBody (post_result_json r))"
proof -
  let ?pbsos = "map post_of_body (valid (cp_bsos coll))"
  obtain r where r: "post_bsos_sync eng (cp_user_id coll) (cp_collection coll) ?pbsos
      (invalid (cp_bsos coll)) db = (Inr r, db')"
    and resp: "resp = response 200 [(X_LAST_MODIFIED, as_header (pr_modified r))]
      (JsonBody (post_result_json r))"
    using assms(1,3)
    by (auto simp: post_collection_def mysql_ops_def api_of_def bind_r_Inr_iff)
  obtain now db1 db2 where each: "put_each eng (cp_user_id coll) (cp_collection coll) ?pbsos
      \<lparr>pr_modified = now, pr_success = [], pr_failed = invalid (cp_bsos coll)\<rparr> db1 = (Inr r, db2)"
    using r by (auto simp: post_bsos_sync_def bind_r_Inr_iff seq_r_Inr_iff)
  have ids: "map pb_id ?pbsos = map bb_id (valid (cp_bsos coll))"
    by (simp add: pb_id_post comp_def)
  have "answered (map fst (invalid (cp_bsos coll)) @ map pb_id ?pbsos) r"
    using assms(2) unfolding ids
    by (intro put_each_answered [OF each, unfolded ids]) (auto simp: answered_def accounted_def)
  then have "answered is r"
    using assms(2) by (auto simp: answered_def accounted_def pb_id_post)
  with resp show ?thesis by blast
qed

lemma sample_post_answer:
  "map_sum (\<lambda>e. ()) resp_status (fst (post_collection sample_ops sample_collection_post later_db)) = Inr 200"
proof -
  have "map_sum (\<lambda>e. ()) (\<lambda>r. ()) (fst (post_bsos_sync mem_engine sample_user ''col''
      (map post_of_body (valid (cp_bsos sample_collection_post)))
      (invalid (cp_bsos sample_collection_post)) later_db)) = Inr ()"
    by code_simp
  then show ?thesis
    by (auto simp: post_collection_def sample_collection_post_def mysql_ops_def api_of_def bind_r_def
        map_err_r_def response_def map_sum_Inr_iff split: prod.split sum.split)
qed

lemma posted_ids_answered_witness:
  "\<exists>r. answered [''b0'', ''b1''] r \<and> fst (post_collection sample_ops sample_collection_post later_db) =
     Inr (response 200 [(X_LAST_MODIFIED, as_header (pr_modified r))] (JsonBody (post_result_json r)))"
proof -
  obtain resp db' where run: "post_collection sample_ops sample_collection_post later_db = (Inr resp, db')"
    using sample_post_answer by (auto simp: map_sum_Inr_iff prod_eq_iff)
  have "cp_batch sample_collection_post = None"
    "accounted [''b0'', ''b1''] (cp_bsos sample_collection_post)"
    by (auto simp: sample_collection_post_def accounted_def)
  from posted_ids_answered [OF this run] show ?thesis
    by (simp only: run fst_conv sum.inject)
qed

section \<open>Committing a batch\<close>

lemma abs_post_append:
  "abs_post hawk coll now (xs @ ys) st = abs_post hawk coll now ys (abs_post hawk coll now xs st)"
  by (simp add: abs_post_def)

context sql_connection
begin

lemma batch_validate_Inr:
  assumes "batch_validate eng cd hawk coll b db = (Inr v, db')" "db_ok view db" "decode_id cd b = Inr i"
  shows "db_ok view db'" "same_session saved db db'" "view (conn db') = view (conn db)"
proof -
  obtain c db1 rows where id: "get_collection_id eng coll db = (Inr c, db1)"
    and load: "sql_load eng NoLock (SELECT_BATCH (u64_as_i64 (legacy_id hawk), c, i)
      (as_i64 (db_timestamp db1))) db1 = (Inr rows, db')"
    using assms(1,3) by (auto simp: batch_validate_def bind_r_Inr_iff Let_def)
  note g = get_collection_id_Inr [OF id assms(2)]
  note l = load_same_session [OF load g(5)]
  show "db_ok view db'" "same_session saved db db'" "view (conn db') = view (conn db)"
    using g l by (simp_all add: same_session_def)
qed

end

lemma commit_request_steps:
  assumes "cp_user_id coll = hawk" "cp_collection coll = c" "cp_batch coll = Some breq"
    and "br_id breq = Some b" "br_commit breq" "xs = map post_of_body (valid (cp_bsos coll))" "xs \<noteq> []"
    and "batch_validate eng cd hawk c b db = (Inr True, db1)"
    and "post_bsos_sync eng hawk c xs [] db1 = (Inr r1, db2)"
    and "batch_get eng cd hawk c b db2 = (Inr (Some ba), db3)"
    and "batch_commit eng cd hawk c ba db3 = (Inr r2, db4)"
  shows "post_collection (mysql_ops eng cd st) coll db =
    (Inr (response 200 [(X_LAST_MODIFIED, as_header (pr_modified r2))]
       (JsonBody (JObj [(''success'', strings_json (map bb_id (valid (cp_bsos coll)))),
          (''failed'', failed_json (invalid (cp_bsos coll))),
          (''modified'', ts_json (pr_modified r2))]))), db4)"
  using assms
  by (simp add: post_collection_def post_collection_batch_def mysql_ops_def api_of_def map_err_r_def
      Let_def bind_r_def try_r_def catch_r_def)

text \<open>C13. A request that commits a batch writes its own BSOs first and those of the batch after
  them: when all of them are stored, the storage is as after one post of the request's BSOs followed
  by the batch's, so that for an id in both, what was sent earlier (in the batch) overwrites what was
  sent last (with the commit).\<close>

theorem commit_request_order:
  assumes "sql_connection eng view saved" "codec cd"
    and "cp_user_id coll = hawk" "cp_collection coll = c" "cp_batch coll = Some breq"
    and "br_id breq = Some b" "br_commit breq" "xs = map post_of_body (valid (cp_bsos coll))" "xs \<noteq> []"
    and "uploading eng view cd hawk c b bs db"
    and "batch_validate eng cd hawk c b db = (Inr True, db1)"
    and "post_bsos_sync eng hawk c xs [] db1 = (Inr r1, db2)" "pr_success r1 = map pb_id xs"
    and "batch_get eng cd hawk c b db2 = (Inr (Some ba), db3)"
    and "batch_commit eng cd hawk c ba db3 = (Inr r2, db4)" "pr_success r2 = map pb_id bs"
  shows "\<exists>body. post_collection (mysql_ops eng cd st) coll db =
      (Inr (response 200 [(X_LAST_MODIFIED, as_header (db_timestamp db))] body), db4) \<and>
    stored (view (conn db4)) (user_of hawk) =
      abs_post hawk c (as_i64 (db_timestamp db)) (xs @ bs) (stored (view (conn db)) (user_of hawk))"
proof -
  obtain i where i: "decode_id cd b = Inr i" "b = encode_id cd i" and ok: "db_ok view db"
    using sql_connection.uploading_holds [OF assms(1,10,2)] by blast
  note v = sql_connection.batch_validate_Inr [OF assms(1,11) ok i(1)]
  note p = sql_connection.post_bsos_Inr [OF assms(1,12) v(1) assms(13)]
  have "uploading eng view cd hawk c b bs db2"
    using p(7,8) v(3) by (intro uploading.elsewhere [OF assms(10) p(1)]) (simp add: batches_kept_def)
  then obtain i' where i': "decode_id cd b = Inr i'" "b = encode_id cd i'"
      "batch_holds cd (view (conn db2)) (user_of hawk) c i' bs (wrap_i64 (i' + BATCH_LIFETIME))"
    using sql_connection.uploading_holds [OF assms(1) _ assms(2)] by blast
  note g = sql_connection.batch_get_Inr [OF assms(1,14) p(1) assms(2) i'(1,3)]
  have ba: "decode_id cd (batch_id ba) = Inr i'"
    using g(4) i'(1,2) by simp
  note m = sql_connection.batch_commit_Inr [OF assms(1,15) g(1,7) ba assms(16)]
  have now: "db_timestamp db1 = db_timestamp db" "db_timestamp db3 = db_timestamp db"
    using v(2) p(2) g(2) by (simp_all add: same_session_def db_timestamp_def)
  have "stored (view (conn db4)) (user_of hawk) =
      abs_post hawk c (as_i64 (db_timestamp db)) (xs @ bs) (stored (view (conn db)) (user_of hawk))"
    using m(4) p(5) g(3) v(3) by (simp add: now abs_post_append)
  moreover note commit_request_steps [OF assms(3-9,11,12,14,15)]
  ultimately show ?thesis
    using m(3) now by simp blast
qed

text \<open>A commit of the sample upload with a newer value of the BSO the batch holds.\<close>

definition sample_commit :: collection_post_request where
  "sample_commit = sample_collection_post\<lparr>cp_batch := Some \<lparr>br_id = Some sample_batch, br_commit = True\<rparr>\<rparr>"

definition commit_posts :: "post_collection_bso list" where
  "commit_posts = map post_of_body (valid (cp_bsos sample_commit))"

type_synonym 'a run = "(db_error + 'a) \<times> mem_conn mysql_db"

definition commit_run ::
  "mem_conn mysql_db \<Rightarrow> bool run \<times> post_bsos_result run \<times> batch option run \<times> post_bsos_result run" where
  "commit_run db =
     (case batch_validate mem_engine text_codec sample_user ''col'' sample_batch db of (r1, db1) \<Rightarrow>
      case post_bsos_sync mem_engine sample_user ''col'' commit_posts [] db1 of (r2, db2) \<Rightarrow>
      case batch_get mem_engine text_codec sample_user ''col'' sample_batch db2 of (r3, db3) \<Rightarrow>
      case batch_commit mem_engine text_codec sample_user ''col'' (the (projr r3)) db3 of (r4, db4) \<Rightarrow>
        ((r1, db1), (r2, db2), (r3, db3), (r4, db4)))"

definition commit_outcome ::
  "bool run \<times> post_bsos_result run \<times> batch option run \<times> post_bsos_result run \<Rightarrow>
     (db_error + bool) \<times> (db_error + string list) \<times> (db_error + bool) \<times> (db_error + string list)" where
  "commit_outcome = (\<lambda>((r1, _), (r2, _), (r3, _), (r4, _)).
     (r1, map_sum id pr_success r2, map_sum id (\<lambda>ba. ba \<noteq> None) r3, map_sum id pr_success r4))"

definition committing_db :: "diesel_error option list \<Rightarrow> mem_conn mysql_db" where
  "committing_db faults =
     (let db = next_session (snd created) in db\<lparr>conn := conn db\<lparr>mem_faults := faults\<rparr>\<rparr>)"

lemma commit_runs:
  "commit_outcome (commit_run (committing_db [])) = (Inr True, Inr [''b0''], Inr True, Inr [''b0''])"
  "commit_outcome (commit_run (committing_db (replicate 4 None @ [Some (OtherDieselError ''gone'')]))) =
     (Inr True, Inr [], Inr True, Inr [''b0''])"
  by code_simp+

lemma commit_run_steps:
  assumes "commit_run db = (v, p, g, m)"
  shows "batch_validate mem_engine text_codec sample_user ''col'' sample_batch db = v"
    "post_bsos_sync mem_engine sample_user ''col'' commit_posts [] (snd v) = p"
    "batch_get mem_engine text_codec sample_user ''col'' sample_batch (snd p) = g"
    "batch_commit mem_engine text_codec sample_user ''col'' (the (projr (fst g))) (snd g) = m"
  using assms by (auto simp: commit_run_def case_prod_beta)

text \<open>The runs of a commit, in steps.\<close>

lemma commit_outcome_steps:
  assumes "commit_outcome (commit_run db) = (Inr True, Inr xs, Inr True, Inr ys)"
  obtains db1 r1 db2 ba db3 r2 db4 where
    "batch_validate mem_engine text_codec sample_user ''col'' sample_batch db = (Inr True, db1)"
    "post_bsos_sync mem_engine sample_user ''col'' commit_posts [] db1 = (Inr r1, db2)"
    "pr_success r1 = xs"
    "batch_get mem_engine text_codec sample_user ''col'' sample_batch db2 = (Inr (Some ba), db3)"
    "batch_commit mem_engine text_codec sample_user ''col'' ba db3 = (Inr r2, db4)"
    "pr_success r2 = ys"
proof -
  obtain v p g m where run: "commit_run db = (v, p, g, m)"
    by (metis prod_cases4)
  have "fst v = Inr True" "map_sum id pr_success (fst p) = Inr xs"
    "map_sum id (\<lambda>ba. ba \<noteq> None) (fst g) = Inr True" "map_sum id pr_success (fst m) = Inr ys"
    using assms unfolding run by (auto simp: commit_outcome_def split: prod.splits)
  then show thesis
    using commit_run_steps [OF run] that
    by (cases v; cases p; cases g; cases m) (auto simp: map_sum_Inr_iff)
qed

lemma sample_commit_sel:
  "cp_user_id sample_commit = sample_user" "cp_collection sample_commit = ''col''"
  "cp_batch sample_commit = Some \<lparr>br_id = Some sample_batch, br_commit = True\<rparr>"
  "commit_posts \<noteq> []" "map pb_id commit_posts = [''b0'']"
  "valid (cp_bsos sample_commit) = valid (cp_bsos sample_collection_post)"
  by (simp_all add: sample_commit_def sample_collection_post_def commit_posts_def post_of_body_def)

lemma uploading_commit:
  "uploading mem_engine mem_tables text_codec sample_user ''col'' sample_batch [hd sample_posts]
     (committing_db faults)"
proof (rule uploading.elsewhere [OF sample_uploading])
  show "db_ok mem_tables (committing_db faults)"
    using mem.uploading_holds [OF sample_uploading hex.codec_axioms]
    by (simp add: db_ok_def committing_db_def next_session_def new_mysql_db_def Let_def)
qed (simp add: batches_kept_def committing_db_def next_session_def new_mysql_db_def Let_def)

lemma commit_request_order_witness:
  "stored (mem_tables (conn (snd (post_collection sample_ops sample_commit (committing_db []))))) 7 =
    abs_post sample_user ''col'' (as_i64 (db_timestamp (committing_db []))) (commit_posts @ [hd sample_posts])
      (stored (mem_tables (conn (committing_db []))) 7)"
proof -
  obtain db1 r1 db2 ba db3 r2 db4 where run:
    "batch_validate mem_engine text_codec sample_user ''col'' sample_batch (committing_db []) = (Inr True, db1)"
    "post_bsos_sync mem_engine sample_user ''col'' commit_posts [] db1 = (Inr r1, db2)"
    "pr_success r1 = [''b0'']"
    "batch_get mem_engine text_codec sample_user ''col'' sample_batch db2 = (Inr (Some ba), db3)"
    "batch_commit mem_engine text_codec sample_user ''col'' ba db3 = (Inr r2, db4)"
    "pr_success r2 = [''b0'']"
    by (rule commit_outcome_steps [OF commit_runs(1)])
  have ids: "pr_success r1 = map pb_id commit_posts" "pr_success r2 = map pb_id [hd sample_posts]"
    using run(3,6) by (simp_all add: sample_commit_sel(5) sample_posts_def)
  obtain body where "post_collection sample_ops sample_commit (committing_db []) =
      (Inr (response 200 [(X_LAST_MODIFIED, as_header (db_timestamp (committing_db [])))] body), db4)"
    "stored (mem_tables (conn db4)) 7 =
      abs_post sample_user ''col'' (as_i64 (db_timestamp (committing_db []))) (commit_posts @ [hd sample_posts])
        (stored (mem_tables (conn (committing_db []))) 7)"
    using commit_request_order [OF mem.sql_connection_axioms hex.codec_axioms sample_commit_sel(1-3) _ _
        commit_posts_def sample_commit_sel(4) uploading_commit run(1,2) ids(1) run(4,5) ids(2)]
      sample_touched(2) by auto
  then show ?thesis by (simp only: snd_conv)
qed

text \<open>C14. A request that commits a batch answers that all the BSOs of its own it could read were
  stored, with the refused ones as the only failures, whatever storing them came to: the failures
  the database reported are not in the answer.\<close>

theorem commit_request_hides_failures:
  assumes "cp_user_id coll = hawk" "cp_collection coll = c" "cp_batch coll = Some breq"
    and "br_id breq = Some b" "br_commit breq" "xs = map post_of_body (valid (cp_bsos coll))" "xs \<noteq> []"
    and "batch_validate eng cd hawk c b db = (Inr True, db1)"
    and "post_bsos_sync eng hawk c xs [] db1 = (Inr r1, db2)"
    and "batch_get eng cd hawk c b db2 = (Inr (Some ba), db3)"
    and "batch_commit eng cd hawk c ba db3 = (Inr r2, db4)"
  shows "fst (post_collection (mysql_ops eng cd st) coll db) =
    Inr (response 200 [(X_LAST_MODIFIED, as_header (pr_modified r2))]
       (JsonBody (JObj [(''success'', strings_json (map bb_id (valid (cp_bsos coll)))),
          (''failed'', failed_json (invalid (cp_bsos coll))),
          (''modified'', ts_json (pr_modified r2))])))"
  by (simp add: commit_request_steps [OF assms])

lemma commit_request_hides_failures_witness:
  "\<exists>faults db1 r1 db2 ts.
     post_bsos_sync mem_engine sample_user ''col'' commit_posts [] db1 = (Inr r1, db2) \<and>
     pr_success r1 = [] \<and>
     fst (post_collection sample_ops sample_commit (committing_db faults)) =
       Inr (response 200 [(X_LAST_MODIFIED, as_header ts)]
         (JsonBody (JObj [(''success'', strings_json [''b0'']),
            (''failed'', failed_json [(''b1'', ''invalid json'')]), (''modified'', ts_json ts)])))"
proof -
  let ?faults = "replicate 4 None @ [Some (OtherDieselError ''gone'')]"
  obtain db1 r1 db2 ba db3 r2 db4 where run:
    "batch_validate mem_engine text_codec sample_user ''col'' sample_batch (committing_db ?faults) = (Inr True, db1)"
    "post_bsos_sync mem_engine sample_user ''col'' commit_posts [] db1 = (Inr r1, db2)"
    "pr_success r1 = []"
    "batch_get mem_engine text_codec sample_user ''col'' sample_batch db2 = (Inr (Some ba), db3)"
    "batch_commit mem_engine text_codec sample_user ''col'' ba db3 = (Inr r2, db4)"
    by (rule commit_outcome_steps [OF commit_runs(2)])
  have parts: "map bb_id (valid (cp_bsos sample_commit)) = [''b0'']"
    "invalid (cp_bsos sample_commit) = [(''b1'', ''invalid json'')]"
    by (simp_all add: sample_commit_def sample_collection_post_def)
  show ?thesis
    using commit_request_hides_failures [OF sample_commit_sel(1-3) _ _ commit_posts_def
        sample_commit_sel(4) run(1,2,4,5), of "\<lambda>_. 1"] run(2,3)
    unfolding parts by (intro exI [of _ ?faults] exI) auto
qed

end
