(* ===== verification/Mysql_Reads.thy ===== *)
theory Mysql_Reads
  imports Db_Trait
begin

text \<open>
  Reading operations of the MySQL session that come back with a value, or with the error for a
  collection that is not there, which callers recover from: they leave what the connection sees,
  its open transactions, the session and the soundness of the state as they were. The requests
  of the web layer wrap every action in such reads.
\<close>

section \<open>Operations that only read\<close>

definition recoverable :: "db_error + 'a \<Rightarrow> bool" where
  "recoverable r = (case r of Inl e \<Rightarrow> db_kind e = CollectionNotFound | Inr _ \<Rightarrow> True)"

lemma recoverable_simps [simp]:
  "recoverable (Inr a)" "recoverable (Inl e) \<longleftrightarrow> db_kind e = CollectionNotFound"
  by (simp_all add: recoverable_def)

definition untouched ::
  "('c \<Rightarrow> tables) \<Rightarrow> ('c \<Rightarrow> tables list) \<Rightarrow> 'c mysql_db \<Rightarrow> 'c mysql_db \<Rightarrow> bool" where
  "untouched view saved db db' \<longleftrightarrow>
     view (conn db') = view (conn db) \<and> same_session saved db db' \<and> db_ok view db'"

lemma untouched_refl: "db_ok view db \<Longrightarrow> untouched view saved db db"
  by (simp add: untouched_def same_session_def)

lemma untouched_trans:
  "untouched view saved db db' \<Longrightarrow> untouched view saved db' db'' \<Longrightarrow> untouched view saved db db''"
  by (simp add: untouched_def same_session_def)

definition reads_only ::
  "('c \<Rightarrow> tables) \<Rightarrow> ('c \<Rightarrow> tables list) \<Rightarrow> ('c, 'a) db_op \<Rightarrow> bool" where
  "reads_only view saved m \<longleftrightarrow>
     (\<forall>db r db'. m db = (r, db') \<longrightarrow> db_ok view db \<longrightarrow> recoverable r \<longrightarrow> untouched view saved db db')"

lemma reads_onlyD:
  "reads_only view saved m \<Longrightarrow> m db = (r, db') \<Longrightarrow> db_ok view db \<Longrightarrow> recoverable r \<Longrightarrow>
     untouched view saved db db'"
  by (simp add: reads_only_def)

lemma reads_only_pure:
  "reads_only view saved (return_r a)" "reads_only view saved (throw_r e)"
  "reads_only view saved (get_r f)" "reads_only view saved (lift_r r)"
  by (simp_all add: reads_only_def untouched_refl)

lemma reads_only_bind:
  assumes "reads_only view saved m" "\<And>a. reads_only view saved (f a)"
  shows "reads_only view saved (bind_r m f)"
  unfolding reads_only_def
proof (intro allI impI)
  fix db r db'
  assume run: "bind_r m f db = (r, db')" "db_ok view db" "recoverable r"
  obtain r1 db1 where m: "m db = (r1, db1)"
    by (metis prod.collapse)
  show "untouched view saved db db'"
  proof (cases r1)
    case (Inl e)
    then show ?thesis
      using run m reads_onlyD [OF assms(1) m run(2)] by auto
  next
    case (Inr a)
    then have u: "untouched view saved db db1"
      using reads_onlyD [OF assms(1) m run(2)] by simp
    then have "untouched view saved db1 db'"
      using run m Inr reads_onlyD [OF assms(2)] by (simp add: untouched_def)
    then show ?thesis
      by (rule untouched_trans [OF u])
  qed
qed

lemma reads_only_case_option:
  assumes "reads_only view saved n" "\<And>a. reads_only view saved (f a)"
  shows "reads_only view saved (case x of None \<Rightarrow> n | Some a \<Rightarrow> f a)"
  using assms by (cases x) simp_all

lemma db_internal_kind [simp]: "db_kind (db_internal msg) \<noteq> CollectionNotFound"
  by (simp add: db_internal_def db_error_of_def)

lemma db_error_of_diesel_kind [simp]: "db_kind (db_error_of_diesel e) \<noteq> CollectionNotFound"
  by (simp add: db_error_of_diesel_def db_error_of_def)

lemma not_found_case:
  "(case k of CollectionNotFound \<Rightarrow> a | _ \<Rightarrow> b) = (if k = CollectionNotFound then a else b)"
  by (cases k) simp_all

context sql_connection
begin

lemma reads_only_load: "reads_only view saved (sql_load eng m q)"
  unfolding reads_only_def
proof (intro allI impI)
  fix db r db'
  assume run: "sql_load eng m q db = (r, db')" "db_ok view db" "recoverable r"
  obtain a where "r = Inr a"
    using run(1,3) by (cases r) (auto simp: sql_load_def map_err_r_Inl_iff)
  then show "untouched view saved db db'"
    using load_same_session [of m q db a db'] run(1,2) by (simp add: untouched_def)
qed

lemma reads_only_collection_id: "reads_only view saved (get_collection_id eng name)"
  unfolding reads_only_def
proof (intro allI impI)
  fix db r db'
  assume run: "get_collection_id eng name db = (r, db')" "db_ok view db" "recoverable r"
  show "untouched view saved db db'"
  proof (cases r)
    case (Inr c)
    then show ?thesis
      using get_collection_id_Inr [of name db c db'] run(1,2)
      by (simp add: untouched_def same_session_def)
  next
    case (Inl e)
    then have missing: "db_kind e = CollectionNotFound"
      using run(3) by simp
    consider "db' = db"
      | rows where "sql_load eng NoLock (SELECT_COLLECTION_ID name) db = (Inr rows, db')"
      using run(1) Inl missing
      by (auto simp: get_collection_id_def bind_r_Inl_iff seq_r_def cache_get_id_def on_cache_def
          sql_load_def map_err_r_Inl_iff cache_put_def Let_def
          split: option.splits if_splits prod.splits)
    then show ?thesis
      by cases (auto simp: untouched_refl run(2) dest!: reads_onlyD [OF reads_only_load _ run(2)])
  qed
qed

lemmas reads_only_intros = reads_only_pure reads_only_bind reads_only_case_option reads_only_load
  reads_only_collection_id

lemma reads_only_timestamps:
  "reads_only view saved (get_storage_timestamp_sync eng hawk)"
  "reads_only view saved (get_collection_timestamp_sync eng hawk coll)"
  "reads_only view saved (get_bso_timestamp_sync eng hawk coll i)"
  unfolding get_storage_timestamp_sync_def get_collection_timestamp_sync_def
    get_bso_timestamp_sync_def Let_def
  by (intro reads_only_intros)+

lemma or_zero_untouched:
  assumes "reads_only view saved m" "or_zero (api_of m) db = (Inr ts, db')" "db_ok view db"
  shows "untouched view saved db db'"
  using assms reads_onlyD [OF assms(1)]
  by (auto simp: or_zero_def catch_r_Inr_iff api_of_def map_err_r_Inl_iff
      split: if_splits)

lemma extract_resource_untouched:
  assumes "extract_resource (mysql_ops eng cd st) hawk coll bso db = (Inr ts, db')" "db_ok view db"
  shows "untouched view saved db db'"
proof -
  have "get_storage_timestamp_sync eng hawk db = (Inr ts, db') \<Longrightarrow> untouched view saved db db'"
    by (rule reads_onlyD [OF reads_only_timestamps(1) _ assms(2)]) auto
  then show ?thesis
    using assms or_zero_untouched [OF reads_only_timestamps(2)] or_zero_untouched [OF reads_only_timestamps(3)]
    by (auto simp: extract_resource_def mysql_ops_def api_of_def [of "get_storage_timestamp_sync _ _"]
        split: option.splits)
qed

section \<open>Sessions for reading and their end\<close>

text \<open>A read lock opens a transaction; a lock already held is not taken again.\<close>

lemma lock_for_read_Inr:
  assumes "lock_for_read_sync eng hawk coll db = (Inr u, db')" "db_ok view db"
    and "coll_locks (session db) = Map.empty"
  shows "view (conn db') = view (conn db)" "saved (conn db') = view (conn db) # saved (conn db)"
    "db_ok view db'" "in_transaction (session db')" "db_timestamp db' = db_timestamp db"
proof -
  let ?key = "\<lambda>c. (i64_as_u32 (u64_as_i64 (legacy_id hawk)), c)"
  obtain c db1 where id: "untouched view saved db db1"
    and rest: "(seq_r (db_begin eng False)
      (bind_r (sql_load eng LockInShareMode (SELECT_COLLECTION_MODIFIED (u64_as_i64 (legacy_id hawk)) c))
        (\<lambda>rows. seq_r
          (case first_row rows of
             None \<Rightarrow> return_r ()
           | Some m \<Rightarrow> bind_r (lift_r (ts_from_i64 m))
               (\<lambda>modified. on_session (\<lambda>s. s\<lparr>coll_modified_cache :=
                  (coll_modified_cache s)(?key c \<mapsto> modified)\<rparr>)))
          (on_session (\<lambda>s. s\<lparr>coll_locks := (coll_locks s)(?key c \<mapsto> ReadLock)\<rparr>))))) db1 = (Inr u, db')"
  proof -
    obtain c db1 where ids: "catch_r (get_collection_id eng coll)
        (\<lambda>e. case db_kind e of CollectionNotFound \<Rightarrow> return_r 0 | _ \<Rightarrow> throw_r e) db = (Inr c, db1)"
      and rest: "bind_r (get_r (\<lambda>db. coll_locks (session db) (?key c)))
        (\<lambda>lock. case lock of Some _ \<Rightarrow> return_r () | None \<Rightarrow>
          seq_r (db_begin eng False)
          (bind_r (sql_load eng LockInShareMode (SELECT_COLLECTION_MODIFIED (u64_as_i64 (legacy_id hawk)) c))
            (\<lambda>rows. seq_r
              (case first_row rows of
                 None \<Rightarrow> return_r ()
               | Some m \<Rightarrow> bind_r (lift_r (ts_from_i64 m))
                   (\<lambda>modified. on_session (\<lambda>s. s\<lparr>coll_modified_cache :=
                      (coll_modified_cache s)(?key c \<mapsto> modified)\<rparr>)))
              (on_session (\<lambda>s. s\<lparr>coll_locks := (coll_locks s)(?key c \<mapsto> ReadLock)\<rparr>))))) db1 = (Inr u, db')"
      using assms(1) by (auto simp: lock_for_read_sync_def Let_def bind_r_Inr_iff
          simp del: i64_as_u32_u64_as_i64)
    have "untouched view saved db db1"
      using ids
      by (auto simp: catch_r_Inr_iff not_found_case split: if_splits
          dest!: reads_onlyD [OF reads_only_collection_id _ assms(2)])
    moreover from this have "coll_locks (session db1) (?key c) = None"
      using assms(3) by (simp add: untouched_def same_session_def)
    ultimately show ?thesis
      using that rest by (simp add: bind_r_def)
  qed
  obtain db2 rows db3 where b: "db_begin eng False db1 = (Inr (), db2)"
    and l: "sql_load eng LockInShareMode (SELECT_COLLECTION_MODIFIED (u64_as_i64 (legacy_id hawk)) c) db2 = (Inr rows, db3)"
    and e: "conn db' = conn db3" "coll_cache db' = coll_cache db3"
      "in_transaction (session db') = in_transaction (session db3)"
      "db_timestamp db' = db_timestamp db3"
    using rest by (auto simp: seq_r_Inr_iff bind_r_Inr_iff on_session_Inr db_timestamp_def
        split: option.splits)
  have id': "view (conn db1) = view (conn db)" "session db1 = session db"
    "saved (conn db1) = saved (conn db)" "db_ok view db1"
    using id by (simp_all add: untouched_def same_session_def)
  note b' = db_begin_Inr [OF b id'(4)]
  note l' = load_same_session [OF l b'(3)]
  show "view (conn db') = view (conn db)" "saved (conn db') = view (conn db) # saved (conn db)"
    using e(1) l'(1,2) b'(1,2) id' by (simp_all add: same_session_def)
  show "db_ok view db'"
    using l'(3) e(1,2) by (simp add: db_ok_def)
  show "in_transaction (session db')"
    using e(3) l'(2) b'(4) by (simp add: same_session_def)
  have "db_timestamp db3 = db_timestamp db2" "db_timestamp db1 = db_timestamp db"
    using l'(2) id'(2) by (simp_all add: same_session_def db_timestamp_def)
  then show "db_timestamp db' = db_timestamp db"
    using e(4) b'(8) by simp
qed

lemma commit_sync_Inr:
  assumes "commit_sync eng db = (Inr u, db')" "in_transaction (session db)"
  shows "view (conn db') = view (conn db)" "saved (conn db') = tl (saved (conn db))"
    "coll_cache db' = coll_cache db" "session db' = session db"
  using assms commit_Inr
  by (auto simp: commit_sync_def bind_r_def map_err_r_def on_conn_def split: prod.splits sum.splits)

end

text \<open>A session from the pool starts with no lock, on what the connection sees.\<close>

lemma pool_session:
  assumes "mysql_pool_get None now db0 = (Inr (), db)" "db_ok view db0"
  shows "conn db = conn db0" "db_ok view db" "coll_locks (session db) = Map.empty"
    "db_timestamp db = db_timestamp (new_mysql_db (conn db0) (coll_cache db0) now)"
  using assms by (auto simp: mysql_pool_get_def new_mysql_db_def db_ok_def default_session_def)

end
