(* ===== verification/Web_Service_Claims.thy ===== *)
theory Web_Service_Claims
  imports Web_Claims Mysql_Reads
begin

text \<open>
  Properties of whole requests across the handlers, the transaction around them and the MySQL
  session: what a write that is answered has stored, what a later request reads of it, and what
  no request can do to the tables.
\<close>

section \<open>Requests that are answered\<close>

text \<open>The steps of a request that is answered by its handler, in their order.\<close>

lemma serve_Inr:
  assumes "serve to_text pool_get ops tp req s0 = (Inr resp, s')"
    and "precondition tp = None \<or> resp_status resp \<noteq> 304 \<and> resp_status resp \<noteq> 412"
  obtains s s1 ts s2 r s3 where "pool_get s0 = (Inr (), s)" "take_lock ops tp s = (Inr (), s1)"
    "extract_resource ops (tp_user_id tp) (tp_collection tp) (bso_opt tp) s1 = (Inr ts, s2)"
    "run_handler to_text ops req s2 = (Inr r, s3)"
    "resp = (if X_LAST_MODIFIED \<in> fst ` set (resp_headers r) then r
       else r\<lparr>resp_headers := resp_headers r @ [(X_LAST_MODIFIED, as_header ts)]\<rparr>)"
    "(case resp_error resp of None \<Rightarrow> commit_op ops | Some _ \<Rightarrow> rollback_op ops) s3 = (Inr (), s')"
proof -
  have cases: "precondition_status pre t \<in> {200, 304, 412}" for pre t
    by (simp add: precondition_status_def split: option.split precondition_header.split)
  have ok: "precondition_status pre t \<noteq> 304 \<Longrightarrow> precondition_status pre t \<noteq> 412 \<Longrightarrow> precondition_status pre t = 200" for pre t
    using cases by blast
  have none: "precondition tp = None \<Longrightarrow> precondition_status (precondition tp) t = 200" for t
    by (simp add: precondition_status_def)
  obtain s1' where internal: "transaction_internal pool_get ops tp
      (check_precondition ops tp (run_handler to_text ops req)) s0 = (Inr resp, s1')"
    and fin: "(case resp_error resp of None \<Rightarrow> commit_op ops | Some _ \<Rightarrow> rollback_op ops) s1' = (Inr (), s')"
    using assms(1) by (auto simp: serve_def transaction_http_def bind_r_Inr_iff seq_r_Inr_iff)
  obtain s s1 locked where "pool_get s0 = (Inr (), s)" "take_lock ops tp s = (locked, s1)"
    and locked: "(case locked of Inl e \<Rightarrow> seq_r (rollback_op ops) (throw_r e)
      | Inr _ \<Rightarrow> catch_r (check_precondition ops tp (run_handler to_text ops req))
          (\<lambda>e. seq_r (rollback_op ops) (throw_r e))) s1 = (Inr resp, s1')"
    using internal by (auto simp: transaction_internal_def seq_r_Inr_iff bind_r_Inr_iff try_r_iff)
  moreover from locked have check: "check_precondition ops tp (run_handler to_text ops req) s1 = (Inr resp, s1')"
    and "locked = Inr ()"
    by (cases locked; auto simp: seq_r_Inr_iff catch_r_Inr_iff)+
  moreover obtain ts s2 where "extract_resource ops (tp_user_id tp) (tp_collection tp) (bso_opt tp) s1 = (Inr ts, s2)"
    and "\<exists>r. run_handler to_text ops req s2 = (Inr r, s1') \<and>
      resp = (if X_LAST_MODIFIED \<in> fst ` set (resp_headers r) then r
        else r\<lparr>resp_headers := resp_headers r @ [(X_LAST_MODIFIED, as_header ts)]\<rparr>)"
    using check assms(2) none
    by (auto simp: check_precondition_def bind_r_Inr_iff Let_def dest: ok split: if_splits)
  ultimately show ?thesis
    using that fin by blast
qed

text \<open>And the other way round, to run a request in steps.\<close>

lemma serve_runs:
  assumes "pool_get s0 = (Inr (), s)" "take_lock ops tp s = (Inr (), s1)"
    and "extract_resource ops (tp_user_id tp) (tp_collection tp) (bso_opt tp) s1 = (Inr ts, s2)"
    and "precondition tp = None" "run_handler to_text ops req s2 = (Inr r, s3)" "resp_error r = None"
    and "commit_op ops s3 = (Inr (), s')"
  shows "serve to_text pool_get ops tp req s0 =
    (Inr (if X_LAST_MODIFIED \<in> fst ` set (resp_headers r) then r
       else r\<lparr>resp_headers := resp_headers r @ [(X_LAST_MODIFIED, as_header ts)]\<rparr>), s')"
  using assms
  by (simp add: serve_def transaction_http_def transaction_internal_def check_precondition_def
      precondition_status_def seq_r_def bind_r_def try_r_def catch_r_def)

text \<open>The parameters a PUT hands to the database.\<close>

definition put_params :: "bso_put_request \<Rightarrow> put_bso_params" where
  "put_params req =
     \<lparr>pp_user_id = bp_user_id req, pp_collection = bp_collection req, pp_id = bp_bso req,
      pp_sortindex = body_sortindex (bp_body req), pp_payload = body_payload (bp_body req),
      pp_ttl = body_ttl (bp_body req)\<rparr>"

lemma put_params_sel [simp]:
  "pp_user_id (put_params req) = bp_user_id req" "pp_collection (put_params req) = bp_collection req"
  "pp_id (put_params req) = bp_bso req"
  by (simp_all add: put_params_def)

lemma pool_timestamp:
  "mysql_pool_get None now db0 = (Inr (), db) \<Longrightarrow> db_timestamp db = shown_ts now"
  by (auto simp: mysql_pool_get_def new_mysql_db_def default_session_def db_timestamp_def shown_ts_def)

context sql_connection
begin

lemma untouchedD:
  assumes "untouched view saved db db'"
  shows "view (conn db') = view (conn db)" "saved (conn db') = saved (conn db)" "db_ok view db'"
    "session db' = session db" "db_timestamp db' = db_timestamp db"
  using assms by (simp_all add: untouched_def same_session_def db_timestamp_def)

lemma db_ok_conn:
  "db_ok view db \<Longrightarrow> view (conn db') = view (conn db) \<Longrightarrow> coll_cache db' = coll_cache db \<Longrightarrow> db_ok view db'"
  by (simp add: db_ok_def)

lemma put_request_Inr:
  assumes "serve to_text (mysql_pool_get None now) (mysql_ops eng cd st) tp (PutBso put) db = (Inr resp, db')"
    and "resp_status resp = 200" "db_ok view db" "lock_collection tp = Some (hawk, coll)" "\<not> is_read tp"
  shows "stored (view (conn db')) = (stored (view (conn db)))
      (user_of (bp_user_id put) := abs_put (put_params put) (as_i64 (shown_ts now))
        (stored (view (conn db)) (user_of (bp_user_id put))))"
    "resp = response 200 [(X_LAST_MODIFIED, as_header (shown_ts now))] (JsonBody (ts_json (shown_ts now)))"
    "saved (conn db') = saved (conn db)" "db_ok view db'"
proof -
  let ?ops = "mysql_ops eng cd st"
  obtain s s1 ts s2 r s3 where run: "mysql_pool_get None now db = (Inr (), s)"
    "take_lock ?ops tp s = (Inr (), s1)"
    "extract_resource ?ops (tp_user_id tp) (tp_collection tp) (bso_opt tp) s1 = (Inr ts, s2)"
    "run_handler to_text ?ops (PutBso put) s2 = (Inr r, s3)"
    "resp = (if X_LAST_MODIFIED \<in> fst ` set (resp_headers r) then r
       else r\<lparr>resp_headers := resp_headers r @ [(X_LAST_MODIFIED, as_header ts)]\<rparr>)"
    "(case resp_error resp of None \<Rightarrow> commit_op ?ops | Some _ \<Rightarrow> rollback_op ?ops) s3 = (Inr (), db')"
    by (rule serve_Inr [OF assms(1)]) (use assms(2) in auto)
  note s = pool_session [OF run(1) assms(3)] pool_timestamp [OF run(1)]
  have "lock_for_write_sync eng hawk coll s = (Inr (), s1)"
    using run(2) by (simp add: take_lock_write [OF assms(4,5)] api_of_def)
  note l = lock_for_write_Inr [OF this s(2)]
  note u = untouchedD [OF extract_resource_untouched [OF run(3) l(1)]]
  obtain t where put: "put_bso_sync eng (put_params put) s2 = (Inr t, s3)"
    and r: "r = response 200 [(X_LAST_MODIFIED, as_header t)] (JsonBody (ts_json t))"
    using run(4) by (auto simp: put_bso_handler_def bind_r_Inr_iff mysql_ops_def api_of_def put_params_def)
  note p = put_bso_Inr [OF put u(3)]
  have resp: "resp = r"
    using run(5) by (simp add: r response_def)
  have t: "t = shown_ts now"
    using p(1) u(5) l(7) s(5) by simp
  have commit: "commit_sync eng s3 = (Inr (), db')"
    using run(6) by (simp add: resp r response_def mysql_ops_def api_of_def)
  have "in_transaction (session s3)"
    using p(3) u(4) l(5) by (simp add: same_session_def)
  note c = commit_sync_Inr [OF commit this]
  show "stored (view (conn db')) = (stored (view (conn db)))
      (user_of (bp_user_id put) := abs_put (put_params put) (as_i64 (shown_ts now))
        (stored (view (conn db)) (user_of (bp_user_id put))))"
    using p(4) by (simp add: c(1) u(1) l(2) s(1) t)
  show "resp = response 200 [(X_LAST_MODIFIED, as_header (shown_ts now))] (JsonBody (ts_json (shown_ts now)))"
    by (simp add: resp r t)
  show "saved (conn db') = saved (conn db)"
    using p(3) by (simp add: c(2) same_session_def u(2) l(4) s(1))
  show "db_ok view db'"
    by (rule db_ok_conn [OF p(2) c(1,3)])
qed

lemma get_request_Inr:
  assumes "serve to_text (mysql_pool_get None now) (mysql_ops eng cd st) tp (GetBso get) db = (Inr resp, db')"
    and "precondition tp = None" "db_ok view db" "lock_collection tp = Some (hawk, coll)" "is_read tp"
  shows "case stored (view (conn db)) (user_of (bs_user_id get)) (bs_collection get) (bs_bso get) of
      Some row \<Rightarrow>
        if b_expiry row \<ge> as_i64 (shown_ts now)
        then resp_status resp = 200 \<and> resp_body resp = JsonBody (bso_json (bso_view (bs_bso get) row))
        else resp_status resp = 404
    | None \<Rightarrow> resp_status resp = 404"
    "view (conn db') = view (conn db)" "saved (conn db') = saved (conn db)"
proof -
  let ?ops = "mysql_ops eng cd st"
  obtain s s1 ts s2 r s3 where run: "mysql_pool_get None now db = (Inr (), s)"
    "take_lock ?ops tp s = (Inr (), s1)"
    "extract_resource ?ops (tp_user_id tp) (tp_collection tp) (bso_opt tp) s1 = (Inr ts, s2)"
    "run_handler to_text ?ops (GetBso get) s2 = (Inr r, s3)"
    "resp = (if X_LAST_MODIFIED \<in> fst ` set (resp_headers r) then r
       else r\<lparr>resp_headers := resp_headers r @ [(X_LAST_MODIFIED, as_header ts)]\<rparr>)"
    "(case resp_error resp of None \<Rightarrow> commit_op ?ops | Some _ \<Rightarrow> rollback_op ?ops) s3 = (Inr (), db')"
    by (rule serve_Inr [OF assms(1)]) (use assms(2) in auto)
  note s = pool_session [OF run(1) assms(3)] pool_timestamp [OF run(1)]
  have "lock_for_read_sync eng hawk coll s = (Inr (), s1)"
    using run(2) assms(4,5) by (simp add: take_lock_def mysql_ops_def api_of_def)
  note l = lock_for_read_Inr [OF this s(2,3)]
  note u = untouchedD [OF extract_resource_untouched [OF run(3) l(3)]]
  obtain res where get: "get_bso_sync eng (bs_user_id get) (bs_collection get) (bs_bso get) s2 = (Inr res, s3)"
    and r: "r = (case res of None \<Rightarrow> response 404 [] EmptyBody | Some b \<Rightarrow> response 200 [] (JsonBody (bso_json b)))"
    using run(4) by (auto simp: get_bso_handler_def bind_r_Inr_iff mysql_ops_def api_of_def)
  note g = get_bso_Inr [OF get u(3)]
  have now: "db_timestamp s2 = shown_ts now"
    using u(5) l(5) s(5) by simp
  have resp: "resp_status resp = resp_status r" "resp_body resp = resp_body r" "resp_error resp = None"
    using run(5) by (auto simp: r response_def split: option.splits)
  have commit: "commit_sync eng s3 = (Inr (), db')"
    using run(6) by (simp add: resp mysql_ops_def api_of_def)
  have "in_transaction (session s3)"
    using g(3) u(4) l(4) by (simp add: same_session_def)
  note c = commit_sync_Inr [OF commit this]
  show "case stored (view (conn db)) (user_of (bs_user_id get)) (bs_collection get) (bs_bso get) of
      Some row \<Rightarrow>
        if b_expiry row \<ge> as_i64 (shown_ts now)
        then resp_status resp = 200 \<and> resp_body resp = JsonBody (bso_json (bso_view (bs_bso get) row))
        else resp_status resp = 404
    | None \<Rightarrow> resp_status resp = 404"
    using g(1) by (auto simp: resp r now u(1) l(1) s(1) response_def split: option.splits if_splits)
  show "view (conn db') = view (conn db)"
    by (simp add: c(1) g(2) u(1) l(1) s(1))
  show "saved (conn db') = saved (conn db)"
    using g(3) by (simp add: c(2) same_session_def u(2) l(2) s(1))
qed

end

text \<open>C18. A PUT that is answered 200 is stored for good: its transaction is committed, the connection
  is left with the open transactions it came with, and what the users stored is what it was but for
  the row of the request, merged with the row that was there at the timestamp of the session,
  which is the answer's body and its \<open>X-Last-Modified\<close> header.\<close>

theorem put_request_durable:
  assumes "sql_connection eng view saved" "db_ok view db"
    and "lock_collection tp = Some (hawk, coll)" "\<not> is_read tp"
    and "serve to_text (mysql_pool_get None now) (mysql_ops eng cd st) tp (PutBso put) db = (Inr resp, db')"
    and "resp_status resp = 200"
  shows "stored (view (conn db')) = (stored (view (conn db)))
      (user_of (bp_user_id put) := abs_put (put_params put) (as_i64 (shown_ts now))
        (stored (view (conn db)) (user_of (bp_user_id put)))) \<and>
    saved (conn db') = saved (conn db) \<and>
    resp_headers resp = [(X_LAST_MODIFIED, as_header (shown_ts now))] \<and>
    resp_body resp = JsonBody (ts_json (shown_ts now))"
  using sql_connection.put_request_Inr [OF assms(1,5,6,2-4)] by (simp add: response_def)

definition sample_put_request :: bso_put_request where
  "sample_put_request =
     \<lparr>bp_collection = ''col'', bp_user_id = sample_user, bp_query = default_query, bp_bso = ''b0'',
      bp_body = \<lparr>body_id = None, body_sortindex = Some 3, body_payload = Some ''x'', body_ttl = Some 60\<rparr>\<rparr>"

definition put_db :: "mem_conn mysql_db" where
  "put_db = snd (put_bso_sync mem_engine sample_bso read_db)"

definition kept_db :: "mem_conn mysql_db" where
  "kept_db = snd (commit_sync mem_engine put_db)"

lemma sample_put_steps:
  "fst (put_bso_sync mem_engine sample_bso read_db) = Inr 1000000"
  "fst (commit_sync mem_engine put_db) = Inr ()"
  by code_simp+

lemma run_of_fst: "fst x = r \<Longrightarrow> x = (r, snd x)"
  by auto

lemma put_params_sample: "put_params sample_put_request = sample_bso"
  by (simp add: put_params_def sample_put_request_def sample_bso_def)

lemma sample_write_lock: "lock_collection sample_write = Some (sample_user, ''col'')" "\<not> is_read sample_write"
  by (simp_all add: sample_write_def)

lemma sample_put_run:
  "serve no_text (mysql_pool_get None 1000000) sample_ops sample_write (PutBso sample_put_request) sample_db =
    (Inr (response 200 [(X_LAST_MODIFIED, as_header 1000000)] (JsonBody (ts_json 1000000))), kept_db)"
proof -
  have lock: "take_lock sample_ops sample_write sample_db = (Inr (), locked_db)"
    using sample_delete_steps(1)
    by (auto simp: take_lock_def sample_write_def mysql_ops_apply locked_db_def intro!: api_run prod_eqI)
  have ts: "extract_resource sample_ops (tp_user_id sample_write) (tp_collection sample_write)
      (bso_opt sample_write) locked_db = (Inr 0, read_db)"
    using api_run(1) [where m = "get_bso_timestamp_sync mem_engine sample_user ''col'' ''b0''",
        OF run_of_fst [OF sample_delete_steps(2)]]
    by (simp add: extract_resource_def or_zero_def sample_write_def mysql_ops_apply catch_r_def read_db_def)
  have put: "run_handler no_text sample_ops (PutBso sample_put_request) read_db =
      (Inr (response 200 [(X_LAST_MODIFIED, as_header 1000000)] (JsonBody (ts_json 1000000))), put_db)"
    using put_params_sample api_run(1) [where m = "put_bso_sync mem_engine sample_bso",
        OF run_of_fst [OF sample_put_steps(1)]]
    by (simp add: put_bso_handler_def bind_r_def mysql_ops_def put_params_def put_db_def)
  have commit: "commit_op sample_ops put_db = (Inr (), kept_db)"
    using sample_put_steps(2) by (auto simp: mysql_ops_apply kept_db_def intro!: api_run prod_eqI)
  have "precondition sample_write = None"
    by (simp add: sample_write_def)
  from serve_runs [where pool_get = "mysql_pool_get None 1000000",
      OF sample_session lock ts this put _ commit]
  show ?thesis
    by (simp add: response_def)
qed

lemma put_request_durable_witness:
  "stored (mem_tables (conn kept_db)) 7 ''col'' ''b0'' \<noteq> None \<and> mem_saved (conn kept_db) = []"
proof -
  have "resp_status (response 200 [(X_LAST_MODIFIED, as_header 1000000)] (JsonBody (ts_json 1000000))) = 200"
    by (simp add: response_def)
  note d = put_request_durable [OF mem.sql_connection_axioms sample_db_ok sample_write_lock sample_put_run this]
  have "mem_saved (conn sample_db) = []" "user_of sample_user = 7"
    by code_simp+
  with d show ?thesis
    by (simp add: sample_put_request_def put_params_def abs_put_def)
qed

text \<open>C19. What is put is there for the next request: a GET of the same BSO, with a session and a
  transaction of its own, that finds the database as the answered PUT left it, answers 200 with the
  merged BSO as long as its time to live is not over at the timestamp of the GET, and 404 after.\<close>

theorem put_then_get_request:
  assumes "sql_connection eng view saved" "db_ok view db"
    and "lock_collection tp = Some (hawk, coll)" "\<not> is_read tp"
    and "serve to_text (mysql_pool_get None now) (mysql_ops eng cd st) tp (PutBso put) db = (Inr resp, db1)"
    and "resp_status resp = 200"
    and "lock_collection tp2 = Some (hawk2, coll2)" "is_read tp2" "precondition tp2 = None"
    and "serve to_text (mysql_pool_get None now2) (mysql_ops eng cd st) tp2
      (GetBso \<lparr>bs_collection = bp_collection put, bs_user_id = bp_user_id put, bs_query = q,
        bs_bso = bp_bso put\<rparr>) db1 = (Inr resp2, db2)"
    and "row = merged_row (put_params put) (as_i64 (shown_ts now))
      (stored (view (conn db)) (user_of (bp_user_id put)) (bp_collection put) (bp_bso put))"
  shows "if b_expiry row \<ge> as_i64 (shown_ts now2)
    then resp_status resp2 = 200 \<and> resp_body resp2 = JsonBody (bso_json (bso_view (bp_bso put) row))
    else resp_status resp2 = 404"
proof -
  note p = sql_connection.put_request_Inr [OF assms(1,5,6,2-4)]
  have "stored (view (conn db1)) (user_of (bp_user_id put)) (bp_collection put) (bp_bso put) = Some row"
    by (simp add: p(1) abs_put_def assms(11))
  then show ?thesis
    using sql_connection.get_request_Inr(1) [OF assms(1,10,9) p(4) assms(7,8)] by simp
qed

definition sample_get :: db_transaction_pool where
  "sample_get = sample_write\<lparr>is_read := True\<rparr>"

definition get_locked_db :: "mem_conn mysql_db" where
  "get_locked_db = snd (lock_for_read_sync mem_engine sample_user ''col''
     (new_mysql_db (conn kept_db) (coll_cache kept_db) 1050000))"

definition get_seen_db :: "mem_conn mysql_db" where
  "get_seen_db = snd (get_bso_timestamp_sync mem_engine sample_user ''col'' ''b0'' get_locked_db)"

definition got_db :: "mem_conn mysql_db" where
  "got_db = snd (get_bso_sync mem_engine sample_user ''col'' ''b0'' get_seen_db)"

definition end_db :: "mem_conn mysql_db" where
  "end_db = snd (commit_sync mem_engine got_db)"

lemma kept_conn: "conn kept_db =
  \<lparr>mem_tables = one_bso_tables\<lparr>bsos := [((7, 101, ''b0''),
      \<lparr>b_sortindex = Some 3, b_payload = ''x'', b_modified = 1000000, b_expiry = 1060000\<rparr>)]\<rparr>,
   mem_saved = [], mem_faults = []\<rparr>"
  by code_simp

definition sample_got :: get_bso_result where
  "sample_got = \<lparr>gb_id = ''b0'', gb_modified = 1000000, gb_payload = ''x'', gb_sortindex = Some 3,
     gb_expiry = 1060000\<rparr>"

lemma sample_get_step1: "fst (lock_for_read_sync mem_engine sample_user ''col''
     (new_mysql_db (conn kept_db) (coll_cache kept_db) 1050000)) = Inr ()"
  by code_simp

lemma sample_get_step2:
  "fst (get_bso_timestamp_sync mem_engine sample_user ''col'' ''b0'' get_locked_db) = Inr 1000000"
  by code_simp

lemma sample_get_step3:
  "fst (get_bso_sync mem_engine sample_user ''col'' ''b0'' get_seen_db) = Inr (Some sample_got)"
  by code_simp

lemma sample_get_step4: "fst (commit_sync mem_engine got_db) = Inr ()"
  by code_simp

lemma sample_get_run:
  "\<exists>resp. serve no_text (mysql_pool_get None 1050000) sample_ops sample_get
    (GetBso \<lparr>bs_collection = bp_collection sample_put_request, bs_user_id = bp_user_id sample_put_request,
      bs_query = default_query, bs_bso = bp_bso sample_put_request\<rparr>) kept_db = (Inr resp, end_db)"
proof -
  let ?start = "new_mysql_db (conn kept_db) (coll_cache kept_db) 1050000"
  have pool: "mysql_pool_get None 1050000 kept_db = (Inr (), ?start)"
    by (simp add: mysql_pool_get_def)
  have lock: "take_lock sample_ops sample_get ?start = (Inr (), get_locked_db)"
    using api_run(1) [where m = "lock_for_read_sync mem_engine sample_user ''col''",
        OF run_of_fst [OF sample_get_step1]]
    by (simp add: take_lock_def sample_get_def sample_write_def mysql_ops_def get_locked_db_def)
  have ts: "extract_resource sample_ops (tp_user_id sample_get) (tp_collection sample_get)
      (bso_opt sample_get) get_locked_db = (Inr 1000000, get_seen_db)"
    using api_run(1) [where m = "get_bso_timestamp_sync mem_engine sample_user ''col'' ''b0''",
        OF run_of_fst [OF sample_get_step2]]
    by (simp add: extract_resource_def or_zero_def sample_get_def sample_write_def mysql_ops_apply
        catch_r_def get_seen_db_def)
  have get: "run_handler no_text sample_ops (GetBso \<lparr>bs_collection = bp_collection sample_put_request,
      bs_user_id = bp_user_id sample_put_request, bs_query = default_query,
      bs_bso = bp_bso sample_put_request\<rparr>) get_seen_db =
      (Inr (response 200 [] (JsonBody (bso_json sample_got))), got_db)"
    using api_run(1) [where m = "get_bso_sync mem_engine sample_user ''col'' ''b0''",
        OF run_of_fst [OF sample_get_step3]]
    by (simp add: get_bso_handler_def bind_r_def mysql_ops_def sample_put_request_def got_db_def)
  have commit: "commit_op sample_ops got_db = (Inr (), end_db)"
    using api_run(1) [where m = "commit_sync mem_engine", OF run_of_fst [OF sample_get_step4]]
    by (simp add: mysql_ops_apply end_db_def)
  have "precondition sample_get = None"
    by (simp add: sample_get_def sample_write_def)
  from serve_runs [where pool_get = "mysql_pool_get None 1050000", OF pool lock ts this get _ commit]
  show ?thesis
    by (auto simp: response_def)
qed

lemma put_then_get_request_witness:
  "\<exists>resp. fst (serve no_text (mysql_pool_get None 1050000) sample_ops sample_get
    (GetBso \<lparr>bs_collection = bp_collection sample_put_request, bs_user_id = bp_user_id sample_put_request,
      bs_query = default_query, bs_bso = bp_bso sample_put_request\<rparr>) kept_db) = Inr resp \<and>
    resp_body resp = JsonBody (bso_json (bso_view ''b0''
      \<lparr>b_sortindex = Some 3, b_payload = ''x'', b_modified = 1000000, b_expiry = 1060000\<rparr>))"
proof -
  have ok: "resp_status (response 200 [(X_LAST_MODIFIED, as_header 1000000)] (JsonBody (ts_json 1000000))) = 200"
    by (simp add: response_def)
  obtain resp where run: "serve no_text (mysql_pool_get None 1050000) sample_ops sample_get
    (GetBso \<lparr>bs_collection = bp_collection sample_put_request, bs_user_id = bp_user_id sample_put_request,
      bs_query = default_query, bs_bso = bp_bso sample_put_request\<rparr>) kept_db = (Inr resp, end_db)"
    using sample_get_run by blast
  have get: "lock_collection sample_get = Some (sample_user, ''col'')" "is_read sample_get"
    "precondition sample_get = None"
    by (simp_all add: sample_get_def sample_write_def)
  have row: "\<lparr>b_sortindex = Some 3, b_payload = ''x'', b_modified = 1000000, b_expiry = 1060000\<rparr> =
      merged_row (put_params sample_put_request) (as_i64 (shown_ts 1000000))
      (stored (mem_tables (conn sample_db)) (user_of (bp_user_id sample_put_request))
        (bp_collection sample_put_request) (bp_bso sample_put_request))"
    by code_simp
  have "as_i64 (shown_ts 1050000) = 1050000" "bp_bso sample_put_request = ''b0''"
    by code_simp+
  then have "resp_body resp = JsonBody (bso_json (bso_view ''b0''
      \<lparr>b_sortindex = Some 3, b_payload = ''x'', b_modified = 1000000, b_expiry = 1060000\<rparr>))"
    using put_then_get_request [OF mem.sql_connection_axioms sample_db_ok sample_write_lock
        sample_put_run ok get run row] by simp
  then show ?thesis
    using run by (metis fst_conv)
qed

section \<open>What no request can do\<close>

text \<open>A run of the server: requests one after the other, each with the environment it meets (the
  clock, the libraries, the state of the pool).\<close>

record arrival =
  ar_env :: web_env
  ar_now :: sync_timestamp
  ar_pool :: "string option"
  ar_clock :: int
  ar_request :: http_request

fun run_requests ::
  "app_texts \<Rightarrow> 'c sql_conn \<Rightarrow> batch_codec \<Rightarrow> (tables \<Rightarrow> nat) \<Rightarrow> arrival list \<Rightarrow>
     'c mysql_db \<Rightarrow> 'c mysql_db" where
  "run_requests tx eng cd st [] db = db"
| "run_requests tx eng cd st (a # as) db =
     run_requests tx eng cd st as
       (snd (app_call (ar_env a) tx (ar_now a) (mysql_pool_get (ar_pool a) (ar_clock a))
         (mysql_ops eng cd st) (ar_request a) db))"

text \<open>With no user let in, a request keeps whatever any user's request keeps.\<close>

context db_frame_tx
begin

lemma frame_app_call_any:
  assumes "\<And>hawk. preserves (own hawk) pool_get"
  shows "\<exists>hawk. own hawk s (snd (app_call env tx now pool_get ops req s))"
proof (cases "user_extract env req")
  case (Inr hawk)
  then show ?thesis
    using frame_app_call [OF assms] by blast
next
  case (Inl e)
  have none: "\<exists>e. r = Inl e" if "request_for env req ep (rq_method req) = Some r" for ep r
    using that request_for_user [of env req ep "rq_method req"] Inl by (cases r) auto
  have "preserves (own hawk) (storage_response env tx pool_get ops req r)"
    if "request_for env req ep (rq_method req) = Some r" for hawk ep r
    using none [OF that] own_refl [of hawk]
    by (auto simp: storage_response_def bind_r_def preserves_def reflp_def)
  then have kept: "preserves (own hawk) (route env tx pool_get ops req)" for hawk
    unfolding route_def
    by (auto intro!: frame frame_other_endpoint assms split: option.split)
  obtain r s' where run: "route env tx pool_get ops req s = (r, s')"
    by (metis prod.collapse)
  have "own hawk s s'" for hawk
    by (rule preservesD [OF kept run])
  then show ?thesis
    using own_refl by (simp add: app_call_def answer_def run reflp_def split: option.split sum.split)
qed

end

sublocale sql_connection \<subseteq> anyone: db_frame_tx "mysql_ops eng cd status_rows" "\<lambda>_. user_stays view saved UNIV"
  for cd status_rows
proof (rule db_frame_tx.intro)
  show "db_frame (mysql_ops eng cd status_rows) (\<lambda>_. user_stays view saved UNIV)"
    by (rule mysql_db_frame) (rule users.mysql_frame_axioms, rule subset_UNIV)
  show "db_frame_tx_axioms (mysql_ops eng cd status_rows) (\<lambda>_. user_stays view saved UNIV)"
    by (rule db_frame_tx_axioms.intro)
      (simp_all add: mysql_ops_def api_of_def preserves_map_err users.stays_commit_rollback)
qed

context sql_connection
begin

lemma run_requests_stays: "user_stays view saved UNIV db (run_requests tx eng cd st as db)"
proof (induction as arbitrary: db)
  case Nil
  then show ?case
    by (simp add: user_stays_def)
next
  case (Cons a as)
  have pool: "preserves (user_stays view saved UNIV) (mysql_pool_get pe t)" for pe t
    by (auto simp: preserves_def mysql_pool_get_def new_mysql_db_def intro: user_stays_conn_eq
        split: option.split)
  have "user_stays view saved UNIV db (snd (app_call (ar_env a) tx (ar_now a)
      (mysql_pool_get (ar_pool a) (ar_clock a)) (mysql_ops eng cd st) (ar_request a) db))"
    using anyone.frame_app_call_any [OF pool] by blast
  then show ?case
    using Cons.IH [of "snd (app_call (ar_env a) tx (ar_now a)
      (mysql_pool_get (ar_pool a) (ar_clock a)) (mysql_ops eng cd st) (ar_request a) db)"]
    by (simp add: user_stays_def)
qed

end


definition sample_arrival :: arrival where
  "sample_arrival = \<lparr>ar_env = sample_env, ar_now = 3000000, ar_pool = None, ar_clock = 3000000,
     ar_request = sample_http\<rparr>"


end
