(* ===== verification/Web_Front_Claims.thy ===== *)
theory Web_Front_Claims
  imports Web_Claims
begin

text \<open>
  Properties of what stands before and after the handlers: the path of a request and what is read
  from it, its authentication, the conditions it sets, and the timestamp the middleware puts on
  the answers.
\<close>

section \<open>Paths\<close>

definition bso_path :: "string \<Rightarrow> string \<Rightarrow> string \<Rightarrow> string" where
  "bso_path uid coll bso = ''/1.5/'' @ uid @ ''/storage/'' @ coll @ ''/'' @ bso"

lemma cfg_path_lang:
  "matches (cfg_path ps) u \<longleftrightarrow> (\<exists>d w. u = ''/1.5/'' @ d @ w \<and> 1 \<le> length d \<and> length d \<le> 10 \<and>
     list_all is_digit d \<and> in_lang (rcats (map part_regex ps)) w)"
  unfolding matches_lang cfg_path_def SYNC_VERSION_PATH_def MYSQL_UID_REGEX_def
  by (simp add: in_lang_blocks) blast

lemma digits_end:
  assumes "d @ x # w = e @ y # v" "list_all is_digit d" "list_all is_digit e" "\<not> is_digit x" "\<not> is_digit y"
  shows "d = e \<and> x = y \<and> w = v"
proof -
  have "takeWhile is_digit (d @ x # w) = d" "takeWhile is_digit (e @ y # v) = e"
    using assms(2-) by (simp_all add: list_all_iff)
  then have "d = e"
    using assms(1) by simp
  then show ?thesis
    using assms(1) by simp
qed

lemma slash_char: "\<not> is_digit (CHR ''/'')" "\<not> collection_char (CHR ''/'')"
  by code_simp+

text \<open>Which of the resources under a user the path of a BSO can be.\<close>

lemma cfg_bso_path:
  assumes "valid_uid uid"
  shows "matches (cfg_path (Text (CHR ''/'' # t) # ps)) (bso_path uid coll bso) \<longleftrightarrow>
    in_lang (rcats (map part_regex (Text (CHR ''/'' # t) # ps))) (''/storage/'' @ coll @ ''/'' @ bso)"
    (is "?m \<longleftrightarrow> in_lang ?r ?rest")
proof
  have uid: "list_all is_digit uid"
    using assms by (simp add: valid_uid_def)
  assume ?m
  then obtain d w where w: "bso_path uid coll bso = ''/1.5/'' @ d @ w" "list_all is_digit d"
      "in_lang ?r w"
    unfolding cfg_path_lang by blast
  from w(3) obtain w' where w': "w = CHR ''/'' # w'"
    by (auto simp: in_lang_blocks)
  have "uid @ CHR ''/'' # ''storage/'' @ coll @ ''/'' @ bso = d @ CHR ''/'' # w'"
    using w(1) by (simp add: bso_path_def w')
  from digits_end [OF this uid w(2) slash_char(1) slash_char(1)] show "in_lang ?r ?rest"
    using w(3) by (simp add: w')
next
  assume "in_lang ?r ?rest"
  then show ?m
    unfolding cfg_path_lang using assms unfolding valid_uid_def by (intro exI [of _ uid] exI [of _ ?rest]) (simp add: bso_path_def)
qed

lemma root_bso_path:
  shows "\<not> matches (cfg_path []) (bso_path uid coll bso)"
proof
  assume "matches (cfg_path []) (bso_path uid coll bso)"
  then obtain d where d: "bso_path uid coll bso = ''/1.5/'' @ d" "list_all is_digit d"
    unfolding cfg_path_lang by (auto simp: in_lang_blocks)
  then have "list_all is_digit (uid @ CHR ''/'' # ''storage/'' @ coll @ ''/'' @ bso)"
    by (simp add: bso_path_def)
  then show False
    using slash_char(1) by simp
qed

lemma valid_ids:
  "valid_collection_id coll \<longleftrightarrow> 1 \<le> length coll \<and> length coll \<le> 32 \<and> list_all collection_char coll"
  "valid_bso_id bso \<longleftrightarrow> 1 \<le> length bso \<and> length bso \<le> 64 \<and> list_all (byte_in 32 126) bso"
  by (auto simp: valid_collection_id_def valid_bso_id_def)

lemma bso_resource:
  assumes "valid_uid uid"
    and "valid_collection_id coll" "valid_bso_id bso"
  shows "endpoint_of (bso_path uid coll bso) = Some StorageBso"
proof -
  note parts = cfg_bso_path [OF assms(1)]
  have one: "\<not> matches (cfg_path [Text (CHR ''/'' # t)]) (bso_path uid coll bso)"
    if "CHR ''/'' # t \<noteq> ''/storage/'' @ coll @ ''/'' @ bso" for t
    using that by (auto simp: parts in_lang_blocks)
  have coll: "\<not> matches (cfg_path [Text ''/storage/'', CollectionPart]) (bso_path uid coll bso)"
    using slash_char(2) by (auto simp: parts in_lang_blocks COLLECTION_ID_REGEX_def)
  have bso: "matches (cfg_path [Text ''/storage/'', CollectionPart, Text ''/'', BsoPart]) (bso_path uid coll bso)"
    using assms(2,3) by (auto simp: parts in_lang_blocks COLLECTION_ID_REGEX_def BSO_ID_REGEX_def valid_ids)
  show ?thesis
    using root_bso_path coll bso
    by (simp add: endpoint_of_def services_def one)
qed

lemma digits_val_bound: "list_all is_digit s \<Longrightarrow> digits_val s < 10 ^ length s"
proof (induction s rule: rev_induct)
  case (snoc c s)
  then have "digits_val s + 1 \<le> 10 ^ length s" "digit_val c < 10"
    using digit_val_less by auto
  then show ?case
    by simp
qed simp

lemma parse_uid:
  assumes "valid_uid uid"
  shows "parse_u64 uid = Some (of_nat (digits_val uid))"
proof -
  have d: "uid \<noteq> []" "list_all is_digit uid" "length uid \<le> 10"
    using assms by (auto simp: valid_uid_def)
  have "(10 :: nat) ^ length uid \<le> 10 ^ 10"
    using d(3) by (intro power_increasing) auto
  then have "digits_val uid < 2 ^ 64"
    using digits_val_bound [OF d(2)] by simp
  then show ?thesis
    using d by (cases uid) (auto simp: parse_u64_def parse_unsigned_def parse_digits_def)
qed



text \<open>C27. Not every BSO has a path: an id may contain a slash, and the body of a POST may create
  such a BSO, but no request names it in its path, whatever the encoding, because the extractors
  split the path as it was sent at its slashes and do not decode what is between them.\<close>

theorem slashed_ids_have_no_path:
  "(bso_param req = Inr bso \<longrightarrow> CHR ''/'' \<notin> set bso) \<and>
   validate_body_bso_id ''a/b'' = None \<and>
   bso_param (sample_http\<lparr>rq_path := ''/1.5/7/storage/col/a/b''\<rparr>) =
     invalid_details ''Invalid BSO'' LocPath (Some ''bso'') \<and>
   bso_param (sample_http\<lparr>rq_path := ''/1.5/7/storage/col/a%2Fb''\<rparr>) = Inr ''a%2Fb''"
proof -
  have "CHR ''/'' \<notin> set bso" if "bso_param req = Inr bso"
  proof -
    have "bso \<in> set (split_at (CHR ''/'') (rq_path req))"
      using that by (auto simp: bso_param_def bsoparam_from_path_def Let_def split: sum.splits if_splits)
    then show ?thesis
      by (rule split_at_pieces)
  qed
  moreover have "validate_body_bso_id ''a/b'' = None"
    "bso_param (sample_http\<lparr>rq_path := ''/1.5/7/storage/col/a/b''\<rparr>) =
      invalid_details ''Invalid BSO'' LocPath (Some ''bso'')"
    "bso_param (sample_http\<lparr>rq_path := ''/1.5/7/storage/col/a%2Fb''\<rparr>) = Inr ''a%2Fb''"
    by code_simp+
  ultimately show ?thesis
    by blast
qed

lemma slashed_ids_have_no_path_witness:
  "CHR ''/'' \<notin> set ''a%2Fb''"
  using slashed_ids_have_no_path [of "sample_http\<lparr>rq_path := ''/1.5/7/storage/col/a%2Fb''\<rparr>" "''a%2Fb''"]
  by blast

section \<open>Authentication\<close>

text \<open>C24. Who is let in: a request is taken for a user only when its \<open>Authorization\<close> header is
  a \<open>Hawk\<close> header whose id is a payload followed by its 32 byte MAC under the server's signing
  secret, the library accepts the header for the key derived from that id, the user id in the path
  is the one in the signed payload, and the payload has not expired (an expired one is only
  accepted for paths that end in \<open>/info/collections\<close>).\<close>

theorem authenticated_user:
  assumes "user_extract env req = Inr hawk"
  shows "\<exists>state hdr rest i decoded payload key target port.
    env_app env = Some state \<and> rq_header req ''authorization'' = Some hdr \<and> take 5 hdr = ''Hawk '' \<and>
    hl_parse (env_hawk env) (drop 5 hdr) = Inr (Some i, rest) \<and>
    hl_base64_decode (env_hawk env) i = Inr decoded \<and> 32 < length decoded \<and>
    hl_hmac (env_hawk env) (signing_secret (st_secrets state)) (take (length decoded - 32) decoded) =
      Some (drop (length decoded - 32) decoded) \<and>
    hl_payload (env_hawk env) (take (length decoded - 32) decoded) = Inr payload \<and>
    hl_valid (env_hawk env) (method_name (rq_method req), host_of (rq_host req), port, target)
      (Some i, rest) key HEADER_SKEW \<and>
    legacy_id hawk = hp_user_id payload \<and> uid_from_path req = Inr (legacy_id hawk) \<and>
    (ends_with ''/info/collections'' (rq_path req) \<or> env_now env = 0 \<or>
      env_now env < f64_as_u64 (f64_round (hp_expires payload)))"
proof -
  let ?lib = "env_hawk env"
  obtain state hdr where state: "env_app env = Some state" "rq_header req ''authorization'' = Some hdr"
    and gen: "hawk_generate ?lib (env_now env) (st_secrets state) hdr req = Inr hawk"
    using assms by (auto simp: user_extract_def hawk_from_request_def hawk_extrude_def header_to_str_def
        split: option.splits sum.splits if_splits)
  obtain payload where ext: "hawk_payload_extrude ?lib (env_now env) hdr (st_secrets state) req = Inr payload"
    using gen unfolding hawk_generate_def
    by (cases "hawk_payload_extrude ?lib (env_now env) hdr (st_secrets state) req") simp_all
  obtain puid where puid: "uid_from_path req = Inr puid"
    using gen ext unfolding hawk_generate_def by (cases "uid_from_path req") simp_all
  have eq: "hp_user_id payload = puid"
    using gen ext puid unfolding hawk_generate_def by (cases "hp_user_id payload = puid") simp_all
  then have "legacy_id hawk = hp_user_id payload"
    using gen ext puid unfolding hawk_generate_def by auto
  with eq puid have user: "legacy_id hawk = hp_user_id payload" "uid_from_path req = Inr (legacy_id hawk)"
    by simp_all
  let ?expiry = "if ends_with ''/info/collections'' (rq_path req) then 0 else env_now env"
  obtain port target where new: "new_hawk_payload ?lib hdr (method_name (rq_method req)) target
      (host_of (rq_host req)) port (st_secrets state) ?expiry = Inr payload"
    using ext by (auto simp: hawk_payload_extrude_def split: sum.splits option.splits)
  obtain i rest key where parsed: "take 5 hdr = ''Hawk ''" "hl_parse ?lib (drop 5 hdr) = Inr (Some i, rest)"
    and val: "extract_and_validate ?lib i (st_secrets state) ?expiry = Inr payload"
    and valid: "hl_valid ?lib (method_name (rq_method req), host_of (rq_host req), port, target) (Some i, rest) key HEADER_SKEW"
    using new by (auto simp: new_hawk_payload_def split: sum.splits option.splits if_splits)
  obtain decoded where dec: "hl_base64_decode ?lib i = Inr decoded" "32 < length decoded"
    and mac: "verify_hmac ?lib (take (length decoded - 32) decoded) (signing_secret (st_secrets state))
      (drop (length decoded - 32) decoded) = Inr ()"
    and pay: "hl_payload ?lib (take (length decoded - 32) decoded) = Inr payload"
    and fresh: "?expiry = 0 \<or> ?expiry < f64_as_u64 (f64_round (hp_expires payload))"
    using val
    by (auto simp: extract_and_validate_def Let_def not_le simp del: f64_round.simps f64_as_u64.simps
        split: sum.splits if_splits)
  have "hl_hmac ?lib (signing_secret (st_secrets state)) (take (length decoded - 32) decoded) =
      Some (drop (length decoded - 32) decoded)"
    using mac by (auto simp: verify_hmac_def split: option.splits if_splits)
  moreover have "ends_with ''/info/collections'' (rq_path req) \<or> env_now env = 0 \<or>
      env_now env < f64_as_u64 (f64_round (hp_expires payload))"
    using fresh by (simp split: if_splits)
  ultimately show ?thesis
    using state parsed dec pay valid user by blast
qed

lemma authenticated_user_witness:
  "uid_from_path sample_http = Inr (legacy_id sample_user)"
  using authenticated_user [OF sample_http_user] by blast

section \<open>Conditional requests\<close>

text \<open>Whatever a number is, what is printed of it can be read again.\<close>

lemma show_cents_head:
  obtains c t where "show_cents n = c # t" "is_digit c"
  by (cases "show_nat (n div 100)")
    (use show_nat_hd_digit [of "n div 100"] in \<open>auto simp: show_cents_def\<close>)

lemma parse_format_2: "\<exists>u. parse_f64 (format_2 x) = Some u"
proof (cases x)
  case (Fin a)
  have minus: "\<exists>u. parse_f64 (CHR ''-'' # show_cents n) = Some u" for n
  proof -
    obtain c t where c: "show_cents n = c # t" "is_digit c"
      by (rule show_cents_head)
    show ?thesis
      using parse_decimal_show_cents [of n] to_lower_digit_cons [OF c(2), of t]
      by (simp add: parse_f64_def c(1) Let_def)
  qed
  show ?thesis
    by (simp add: Fin minus parse_f64_show_cents)
next
  case NaN
  have "to_lower ''NaN'' = ''nan''"
    by code_simp
  then show ?thesis
    by (simp add: NaN parse_f64_def Let_def)
next
  case (Inf b)
  have "to_lower ''inf'' = ''inf''"
    by code_simp
  then show ?thesis
    by (simp add: Inf parse_f64_def Let_def)
qed

lemma format_2_text: "header_to_str (format_2 x) = Inr (format_2 x)"
proof -
  have digit: "byte_in 32 126 c" if "is_digit c" for c
    using that by (auto simp: is_digit_def byte_in_def)
  have "list_all (byte_in 32 126) (show_cents n)" for n
    using show_nat_digits [of "n div 100"] digit digit_char_props(1) [of "n mod 100 div 10"]
      digit_char_props(1) [of "n mod 10"]
    by (auto simp: show_cents_def list_all_iff byte_in_def)
  then have "list_all (byte_in 32 126) (format_2 x)"
    by (cases x) (auto simp: byte_in_def)
  then show ?thesis
    by (auto simp: header_to_str_def list_all_iff)
qed

lemma as_header_read:
  obtains u where "header_to_str (as_header ts) = Inr (as_header ts)" "parse_f64 (as_header ts) = Some u"
  using parse_format_2 format_2_text unfolding as_header_def format_ts_def by blast

lemma not_negative:
  assumes "parse_f64 (as_header t) = Some (Fin v)" "0 \<le> v"
  shows "\<not> negative_header (as_header t)"
proof -
  have "header_to_str (as_header t) = Inr (as_header t)"
    by (rule as_header_read) blast
  then show ?thesis
    using assms by (simp add: negative_header_def)
qed

lemma precondition_of_header:
  assumes "1100000000000 \<le> unat t" "unat t < 2147483648000" "10 dvd unat t"
  shows "precondition_of pre name (as_header t) = Inr (Some (pre t))"
proof -
  have "header_to_str (as_header t) = Inr (as_header t)"
    by (rule as_header_read) blast
  moreover have "\<not> negative_header (as_header t)"
    using as_header_exact(2) [OF assms] not_negative by blast
  ultimately show ?thesis
    by (simp add: precondition_of_def as_header_exact(1) [OF assms])
qed



section \<open>The timestamp of the answers\<close>

text \<open>What the handlers put into \<open>X-Last-Modified\<close> is a timestamp printed as a header.\<close>

definition stamped :: "http_response \<Rightarrow> bool" where
  "stamped resp \<longleftrightarrow> (\<forall>v. (X_LAST_MODIFIED, v) \<in> set (resp_headers resp) \<longrightarrow> (\<exists>ts. v = as_header ts))"

definition yields :: "('a \<Rightarrow> bool) \<Rightarrow> ('s, 'e, 'a) comp \<Rightarrow> bool" where
  "yields P m \<longleftrightarrow> (\<forall>s a s'. m s = (Inr a, s') \<longrightarrow> P a)"

lemma yields_bind: "(\<And>a. yields P (f a)) \<Longrightarrow> yields P (bind_r m f)"
  by (auto simp: yields_def bind_r_Inr_iff)

lemma yields_then: "yields Q m \<Longrightarrow> (\<And>a. Q a \<Longrightarrow> yields P (f a)) \<Longrightarrow> yields P (bind_r m f)"
  by (fastforce simp: yields_def bind_r_Inr_iff)

lemma yields_lift: "(\<And>a. r = Inr a \<Longrightarrow> P a) \<Longrightarrow> yields P (lift_r r)"
  by (simp add: yields_def)

lemma yields_seq: "yields P n \<Longrightarrow> yields P (seq_r m n)"
  by (simp add: seq_r_def yields_bind)

lemma yields_return: "P a \<Longrightarrow> yields P (return_r a)"
  by (simp add: yields_def)

lemma yields_throw: "yields P (throw_r e)"
  by (simp add: yields_def)

lemma yields_if: "yields P m \<Longrightarrow> yields P n \<Longrightarrow> yields P (if b then m else n)"
  by simp

lemma yields_option: "yields P m \<Longrightarrow> (\<And>a. yields P (f a)) \<Longrightarrow> yields P (case x of None \<Rightarrow> m | Some a \<Rightarrow> f a)"
  by (cases x) simp_all

lemma yields_prod: "(\<And>a b. yields P (f a b)) \<Longrightarrow> yields P (case x of (a, b) \<Rightarrow> f a b)"
  by (cases x) simp

lemma yields_sum: "(\<And>a. yields P (f a)) \<Longrightarrow> (\<And>a. yields P (g a)) \<Longrightarrow> yields P (case x of Inl a \<Rightarrow> f a | Inr a \<Rightarrow> g a)"
  by (cases x) simp_all

lemma yields_catch: "yields P m \<Longrightarrow> (\<And>e. yields P (h e)) \<Longrightarrow> yields P (catch_r m h)"
  unfolding yields_def catch_r_Inr_iff by blast

lemmas yields_intros = yields_bind yields_seq yields_throw yields_if yields_option yields_prod
  yields_sum yields_catch

lemma header_names:
  "X_WEAVE_RECORDS \<noteq> X_LAST_MODIFIED" "X_WEAVE_NEXT_OFFSET \<noteq> X_LAST_MODIFIED"
  "X_WEAVE_TIMESTAMP \<noteq> X_LAST_MODIFIED" "''content-type'' \<noteq> X_LAST_MODIFIED"
  "''Content-Type'' \<noteq> X_LAST_MODIFIED" "''Content-Length'' \<noteq> X_LAST_MODIFIED"
  "''Retry-After'' \<noteq> X_LAST_MODIFIED"
  by (simp_all add: X_WEAVE_RECORDS_def X_LAST_MODIFIED_def X_WEAVE_NEXT_OFFSET_def X_WEAVE_TIMESTAMP_def)

lemma stamped_response:
  "stamped (response n hs b) \<longleftrightarrow> (\<forall>v. (X_LAST_MODIFIED, v) \<in> set hs \<longrightarrow> (\<exists>ts. v = as_header ts))"
  by (simp add: stamped_def response_def)

lemmas stamped_simps = stamped_response header_names header_names [symmetric]

lemma meta_stamps:
  "yields stamped (get_collections ops m)" "yields stamped (collection_counts ops m)"
  "yields stamped (collection_usage ops m)" "yields stamped (get_quota ops m)"
  "yields stamped (delete_all ops m)"
  unfolding get_collections_def collection_counts_def collection_usage_def get_quota_def
    delete_all_def counted_def
  by (intro yields_intros yields_return; simp add: stamped_simps)+

lemma bso_stamps:
  "yields stamped (delete_bso_handler ops b)" "yields stamped (get_bso_handler ops b)"
  "yields stamped (put_bso_handler ops p)"
  unfolding delete_bso_handler_def get_bso_handler_def put_bso_handler_def
  by (intro yields_intros yields_return; auto simp: stamped_simps split: option.split)+

lemma finish_stamps: "yields stamped (finish_get_collection to_text ops js coll q)"
  unfolding finish_get_collection_def Let_def
  by (intro yields_bind yields_return) (auto simp: stamped_simps split: option.split reply_format.split)

lemma collection_stamps:
  "yields stamped (delete_collection_handler ops c)" "yields stamped (get_collection to_text ops c)"
  unfolding delete_collection_handler_def get_collection_def Let_def
  by (intro yields_intros yields_return finish_stamps; auto simp: stamped_simps)+

lemma post_stamps:
  "yields stamped (post_collection_batch ops c)" "yields stamped (post_collection ops c)"
proof -
  show b: "yields stamped (post_collection_batch ops c)" for c
    unfolding post_collection_batch_def Let_def
    by (intro yields_option yields_throw yields_bind yields_prod yields_if yields_return;
        auto simp: stamped_simps)
  show "yields stamped (post_collection ops c)"
    unfolding post_collection_def
    by (intro yields_if b yields_bind yields_return) (auto simp: stamped_simps)
qed

lemma handlers_stamp: "yields stamped (run_handler to_text ops req)"
  by (cases req) (simp_all add: meta_stamps bso_stamps collection_stamps post_stamps)

lemma serve_stamps: "yields stamped (serve to_text pool_get ops tp req)"
proof -
  have "yields stamped (check_precondition ops tp (run_handler to_text ops req))"
    unfolding check_precondition_def Let_def
    using handlers_stamp [of to_text ops req]
    by (force simp: yields_def bind_r_Inr_iff stamped_def header_names [symmetric] split: if_splits)
  then have "yields stamped (transaction_internal pool_get ops tp
      (check_precondition ops tp (run_handler to_text ops req)))"
    unfolding transaction_internal_def
    by (intro yields_seq yields_bind yields_sum yields_catch yields_throw)
  then show ?thesis
    unfolding serve_def transaction_http_def
    by (rule yields_then) (intro yields_seq yields_return)
qed

lemma heartbeat_stamps: "yields stamped (heartbeat version pool_get ops)"
  unfolding heartbeat_def
  by (intro yields_seq yields_bind yields_return) (auto simp: stamped_simps split: sum.splits bool.splits)

lemma route_stamps: "yields stamped (route env tx pool_get ops req)"
proof -
  have texts: "stamped tokenserver_get" "stamped (get_configuration limits)" "test_error \<noteq> Inr resp" for limits resp
    by (simp_all add: tokenserver_get_def get_configuration_def test_error_def stamped_simps)
  have "yields stamped (other_endpoint env version vf pool_get ops ep)" for version vf ep
    by (cases ep) (auto simp: other_endpoint_def texts map_sum_Inr_iff stamped_simps
        intro!: yields_return yields_lift yields_bind heartbeat_stamps)
  moreover have "yields stamped (storage_response env tx pool_get ops req r)" for r
    unfolding storage_response_def by (intro yields_bind yields_prod serve_stamps)
  ultimately show ?thesis
    unfolding route_def by (auto intro!: yields_return simp: stamped_simps split: option.split)
qed

lemma answer_stamps:
  assumes "answer (route env tx pool_get ops req) s = (resp, s')"
  shows "stamped (render_errors resp)"
proof -
  have "stamped render_404" "stamped (error_response e)" for e
    by (simp_all add: stamped_def render_404_def error_response_def header_names [symmetric])
  then show ?thesis
    using assms route_stamps [of env tx pool_get ops req]
    by (auto simp: answer_def yields_def render_errors_def split: prod.splits sum.splits)
qed

lemma f64_less_asym: "f64_less x y \<Longrightarrow> \<not> f64_less y x" "\<not> f64_less x x"
  by (cases x; cases y; auto)+

lemma weave_ts_stamped:
  assumes "\<forall>v. (X_LAST_MODIFIED, v) \<in> set hs \<longrightarrow> (\<exists>ts. v = as_header ts)"
  obtains t where "weave_ts hs now = Inr t" "\<not> f64_less t now"
    "\<And>v. map_of hs X_LAST_MODIFIED = Some v \<Longrightarrow> \<exists>u. parse_f64 v = Some u \<and> \<not> f64_less t u"
proof (cases "map_of hs X_LAST_MODIFIED")
  case None
  then show ?thesis
    using that [of now] by (simp add: weave_ts_def f64_less_asym)
next
  case (Some v)
  then obtain ts where "v = as_header ts"
    using assms map_of_SomeD by metis
  then obtain u where u: "header_to_str v = Inr v" "parse_f64 v = Some u"
    by (metis as_header_read)
  show ?thesis
    using that [of "if f64_less now u then u else now"] Some u f64_less_asym
    by (auto simp: weave_ts_def)
qed



end
