(* ===== verification/Web_Reports.thy ===== *)
theory Web_Reports
  imports Web_App
begin

text \<open>
  What the server tells others about a request: the copies of its tags (\<open>src/web/tags.rs\<close>) and the
  errors it reports to Sentry (\<open>src/web/middleware/sentry.rs\<close>). The conversion of an error into an
  event is a parameter; the reports are returned as a list, in the order they are sent.
\<close>

section \<open>Copies of the tags\<close>

text \<open>A \<open>BTreeMap\<close> is the map it stands for.\<close>

definition tag_tree :: "tags \<Rightarrow> string \<Rightarrow> string option" where
  "tag_tree t = map_of (tag_map t)"

definition extra_tree :: "tags \<Rightarrow> string \<Rightarrow> json option" where
  "extra_tree t = map_option JStr \<circ> map_of (tag_extra t)"

text \<open>The tags of a request, once extracted, and the pairs that go to the log.\<close>

definition tags_extract ::
  "(string \<Rightarrow> woothee_result option) \<Rightarrow> tags option \<Rightarrow> http_request \<Rightarrow> tags" where
  "tags_extract woothee ext req =
     (case ext of Some t \<Rightarrow> t | None \<Rightarrow> tags_from_request woothee req)"

definition log_pairs :: "tags \<Rightarrow> (string \<times> string) list" where
  "log_pairs t = tag_map t"

section \<open>Reports to Sentry\<close>

record 'ev sentry_report =
  rp_event :: 'ev
  rp_tags :: "string \<Rightarrow> string option"
  rp_extra :: "string \<Rightarrow> json option"

definition report :: "tags \<Rightarrow> 'ev \<Rightarrow> 'ev sentry_report" where
  "report t event = \<lparr>rp_event = event, rp_tags = tag_tree t, rp_extra = extra_tree t\<rparr>"

text \<open>The events queued in the extensions of a request or response, none or a list; only an error
  of the API is queued, and only one that is to be reported.\<close>

definition queue_report ::
  "(api_error \<Rightarrow> 'ev) \<Rightarrow> api_error option \<Rightarrow> 'ev list option \<Rightarrow> 'ev list option" where
  "queue_report event_of err ext =
     (case err of
        None \<Rightarrow> ext
      | Some apie \<Rightarrow>
          if \<not> is_reportable apie then ext
          else (case ext of
                  Some events \<Rightarrow> Some (events @ [event_of apie])
                | None \<Rightarrow> Some [event_of apie]))"

text \<open>What a response carries: no error, an error of another kind, or an error of the API.\<close>

datatype response_error = NoError | ForeignError | ApiErr api_error

definition event_list :: "'ev list option \<Rightarrow> 'ev list" where
  "event_list ext = (case ext of None \<Rightarrow> [] | Some events \<Rightarrow> events)"

definition sentry_tags :: "tags \<Rightarrow> string \<Rightarrow> tags option \<Rightarrow> tags option \<Rightarrow> tags" where
  "sentry_tags t uri req_tags resp_tags =
     (let t = (case req_tags of None \<Rightarrow> t | Some r \<Rightarrow> tags_extend t (tag_map r));
          t = (case resp_tags of None \<Rightarrow> t | Some r \<Rightarrow> tags_extend t (tag_map r))
      in t\<lparr>tag_extra := AList.update ''uri.path'' uri (tag_extra t)\<rparr>)"

definition sentry_call ::
  "(api_error \<Rightarrow> 'ev) \<Rightarrow> tags \<Rightarrow> string \<Rightarrow> tags option \<Rightarrow> tags option \<Rightarrow> 'ev list option \<Rightarrow>
     'ev list option \<Rightarrow> response_error \<Rightarrow> 'ev sentry_report list" where
  "sentry_call event_of t uri req_tags resp_tags req_events resp_events err =
     (let t = sentry_tags t uri req_tags resp_tags in
      case err of
        NoError \<Rightarrow> map (report t) (event_list req_events @ event_list resp_events)
      | ForeignError \<Rightarrow> []
      | ApiErr apie \<Rightarrow> if \<not> is_reportable apie then [] else [report t (event_of apie)])"

section \<open>What is reported\<close>

lemma queued_events:
  "event_list (fold (queue_report event_of) errs ext) =
     event_list ext @ [event_of e. Some e \<leftarrow> errs, is_reportable e]"
  by (induction errs arbitrary: ext)
    (auto simp: queue_report_def event_list_def split: option.splits)

lemma tag_tree_update: "tag_tree (t\<lparr>tag_extra := x\<rparr>) = tag_tree t"
  by (simp add: tag_tree_def)

lemma extended_tags:
  "map_of (tag_map (tags_extend t new)) k = (case map_of (rev new) k of None \<Rightarrow> map_of (tag_map t) k | Some v \<Rightarrow> Some v)"
proof -
  have "map_of (fold (\<lambda>(k, v). AList.update k v) new al) = map_of al ++ map_of (rev new)" for al
    by (induction new arbitrary: al) (auto simp: update_conv' map_add_upd_left map_add_assoc)
  then show ?thesis
    by (simp add: tags_extend_def map_add_def)
qed



end
