(* ===== verification/Spanner_Stream.thy ===== *)
theory Spanner_Stream
  imports Mysql_Pool
begin

text \<open>
  Values of Spanner and its streamed result sets (\<open>src/db/spanner/support.rs\<close>,
  \<open>src/db/spanner/macros.rs\<close>): the values and types of the protocol the program uses, the
  assembly of rows from partial result sets, whose values may be cut anywhere, and the reading of a
  row.

  A stream is the list of what the server sends until it ends. Values of the protocol's other kinds
  (numbers, booleans, structs, none set) are \<open>OtherValue\<close>: the program reads them all the same way.
\<close>

section \<open>Values and types\<close>

datatype spanner_value = NullValue | StringValue string | ListValue "spanner_value list" | OtherValue

datatype type_code =
    TypeUnspecified | TypeBool | TypeInt64 | TypeFloat64 | TypeTimestamp | TypeDate | TypeString
  | TypeBytes | TypeArray | TypeStruct

text \<open>A type: its code, and the element type of an array or the fields of a struct.\<close>

datatype spanner_type =
    SimpleType type_code
  | ArrayType spanner_type
  | StructType "(string \<times> spanner_type) list"

fun code_of_type :: "spanner_type \<Rightarrow> type_code" where
  "code_of_type (SimpleType c) = c"
| "code_of_type (ArrayType _) = TypeArray"
| "code_of_type (StructType _) = TypeStruct"

text \<open>The getters of the protocol: of another kind they answer the default.\<close>

fun string_value :: "spanner_value \<Rightarrow> string" where
  "string_value (StringValue s) = s"
| "string_value _ = []"

fun has_string_value :: "spanner_value \<Rightarrow> bool" where
  "has_string_value (StringValue _) = True"
| "has_string_value _ = False"

definition as_value :: "string \<Rightarrow> spanner_value" where
  "as_value s = StringValue s"

definition as_type :: "type_code \<Rightarrow> spanner_type" where
  "as_type c = SimpleType c"

definition struct_type_field :: "string \<Rightarrow> type_code \<Rightarrow> string \<times> spanner_type" where
  "struct_type_field name field_type = (name, as_type field_type)"

definition as_list_value :: "string list \<Rightarrow> spanner_value" where
  "as_list_value ss = ListValue (map as_value ss)"

definition null_value :: spanner_value where
  "null_value = NullValue"

text \<open>The macros \<open>params!\<close> and \<open>param_types!\<close>: a map, the last value of a key kept.\<close>

definition params_of :: "(string \<times> string) list \<Rightarrow> (string, spanner_value) table" where
  "params_of kvs = fold (\<lambda>(k, v). AList.update k (as_value v)) kvs []"

definition param_types_of :: "(string \<times> type_code) list \<Rightarrow> (string, spanner_type) table" where
  "param_types_of kvs = fold (\<lambda>(k, c). AList.update k (as_type c)) kvs []"

section \<open>Result sets\<close>

record partial_result_set =
  rs_metadata :: "(string \<times> spanner_type) list option"
  rs_stats :: "int option"
  rs_values :: "spanner_value list"
  rs_chunked :: bool

record streamed_result_set =
  sr_stream :: "(grpc_error + partial_result_set) list"
  sr_metadata :: "(string \<times> spanner_type) list option"
  sr_stats :: "int option"
  sr_rows :: "spanner_value list list"
  sr_current :: "spanner_value list"
  sr_pending :: "spanner_value option"

type_synonym 'a stream_op = "(streamed_result_set, db_error, 'a) comp"

definition new_streamed :: "(grpc_error + partial_result_set) list \<Rightarrow> streamed_result_set" where
  "new_streamed stream =
     \<lparr>sr_stream = stream, sr_metadata = None, sr_stats = None, sr_rows = [], sr_current = [],
      sr_pending = None\<rparr>"

definition sr_fields :: "streamed_result_set \<Rightarrow> (string \<times> spanner_type) list" where
  "sr_fields sr = (case sr_metadata sr of Some metadata \<Rightarrow> metadata | None \<Rightarrow> [])"

lemma sr_fields_update [simp]:
  "sr_fields (sr\<lparr>sr_pending := p\<rparr>) = sr_fields sr" "sr_fields (sr\<lparr>sr_stats := q\<rparr>) = sr_fields sr"
  "sr_fields (sr\<lparr>sr_stream := l\<rparr>) = sr_fields sr" "sr_fields (sr\<lparr>sr_current := c\<rparr>) = sr_fields sr"
  "sr_fields (sr\<lparr>sr_rows := r\<rparr>) = sr_fields sr"
  by (simp_all add: sr_fields_def)

definition merge_string :: "spanner_value \<Rightarrow> spanner_value \<Rightarrow> db_error + spanner_value" where
  "merge_string lhs rhs =
     (if \<not> has_string_value lhs \<or> \<not> has_string_value rhs
      then Inl (db_internal ''merge_string has no string value'')
      else Inr (as_value (string_value lhs @ string_value rhs)))"

text \<open>\<open>type_text\<close> prints a type (\<open>{:?}\<close>).\<close>

definition unsupported_merge :: "(spanner_type \<Rightarrow> string) \<Rightarrow> spanner_type \<Rightarrow> db_error + spanner_value" where
  "unsupported_merge type_text t = Inl (db_internal (''merge not supported, type: '' @ type_text t))"

definition merge_by_type ::
  "(spanner_type \<Rightarrow> string) \<Rightarrow> spanner_value \<Rightarrow> spanner_value \<Rightarrow> spanner_type \<Rightarrow> db_error + spanner_value"
where
  "merge_by_type type_text lhs rhs field_type =
     (if code_of_type field_type \<in> {TypeBytes, TypeDate, TypeInt64, TypeString, TypeTimestamp}
      then merge_string lhs rhs else unsupported_merge type_text field_type)"

text \<open>Values fill the current row; a full row is queued.\<close>

fun consume_values :: "spanner_value list \<Rightarrow> streamed_result_set \<Rightarrow> streamed_result_set" where
  "consume_values [] sr = sr"
| "consume_values (v # vs) sr =
     (let row = sr_current sr @ [v]
      in consume_values vs
        (if length row = length (sr_fields sr)
         then sr\<lparr>sr_current := [], sr_rows := sr_rows sr @ [row]\<rparr>
         else sr\<lparr>sr_current := row\<rparr>))"

text \<open>The value cut at the end of the previous set is merged with the first value of this one.\<close>

definition merge_pending ::
  "(spanner_type \<Rightarrow> string) \<Rightarrow> spanner_value list \<Rightarrow> spanner_value list stream_op" where
  "merge_pending type_text values sr =
     (case sr_pending sr of
        None \<Rightarrow> (Inr values, sr)
      | Some chunk \<Rightarrow>
          (let sr = sr\<lparr>sr_pending := None\<rparr>;
               fields = sr_fields sr;
               i = length (sr_current sr)
           in if length fields \<le> i
              then (Inl (db_error_of (Integrity ''Invalid PartialResultSet fields'')), sr)
              else (map_sum id (\<lambda>v. v # tl values)
                     (merge_by_type type_text chunk (hd values) (snd (fields ! i))), sr)))"

definition consume_next :: "(spanner_type \<Rightarrow> string) \<Rightarrow> bool stream_op" where
  "consume_next type_text sr =
     (case sr_stream sr of
        [] \<Rightarrow> (Inr False, sr)
      | Inl e # stream \<Rightarrow> (Inl (db_error_of_grpc e), sr\<lparr>sr_stream := stream\<rparr>)
      | Inr rs # stream \<Rightarrow>
          (let sr = sr\<lparr>sr_stream := stream\<rparr>;
               sr = (if sr_metadata sr = None \<and> rs_metadata rs \<noteq> None
                     then sr\<lparr>sr_metadata := rs_metadata rs\<rparr> else sr);
               sr = (if rs_stats rs \<noteq> None then sr\<lparr>sr_stats := rs_stats rs\<rparr> else sr)
           in if rs_values rs = [] then (Inr True, sr)
              else bind_r (merge_pending type_text (rs_values rs))
                (\<lambda>values. seq_r
                   (if rs_chunked rs
                    then modify_r (\<lambda>sr. consume_values (butlast values)
                           (sr\<lparr>sr_pending := Some (last values)\<rparr>))
                    else modify_r (consume_values values))
                   (return_r True)) sr))"

lemma consume_values_stream [simp]:
  "sr_stream (consume_values vs sr) = sr_stream sr" "sr_metadata (consume_values vs sr) = sr_metadata sr"
  "sr_fields (consume_values vs sr) = sr_fields sr" "sr_pending (consume_values vs sr) = sr_pending sr"
  "sr_stats (consume_values vs sr) = sr_stats sr"
  by (induction vs arbitrary: sr) (simp_all add: Let_def sr_fields_def)

lemma consume_next_shorter:
  assumes "consume_next type_text sr = (Inr True, sr')"
  shows "length (sr_stream sr') < length (sr_stream sr)"
  using assms
  by (auto simp: consume_next_def merge_pending_def bind_r_def seq_r_def Let_def
      split: list.splits sum.splits option.splits if_splits prod.splits)

text \<open>The next row, an error, or the end.\<close>

function next_async ::
  "(spanner_type \<Rightarrow> string) \<Rightarrow> streamed_result_set \<Rightarrow>
     (db_error + spanner_value list) option \<times> streamed_result_set" where
  "next_async type_text sr =
     (case sr_rows sr of
        row # rows \<Rightarrow> (Some (Inr row), sr\<lparr>sr_rows := rows\<rparr>)
      | [] \<Rightarrow>
          (case consume_next type_text sr of
             (Inr True, sr') \<Rightarrow> next_async type_text sr'
           | (Inr False, sr') \<Rightarrow> (None, sr')
           | (Inl e, sr') \<Rightarrow> (Some (Inl e), sr')))"
  by pat_completeness auto
termination
  by (relation "measure (\<lambda>(type_text, sr). length (sr_stream sr))") (auto dest: consume_next_shorter [OF sym])

declare next_async.simps [simp del]

definition one_or_none ::
  "(spanner_type \<Rightarrow> string) \<Rightarrow> streamed_result_set \<Rightarrow> db_error + spanner_value list option" where
  "one_or_none type_text sr =
     (case next_async type_text sr of
        (None, _) \<Rightarrow> Inr None
      | (Some r, sr') \<Rightarrow>
          (if fst (next_async type_text sr') \<noteq> None
           then Inl (db_internal ''Expected one result; got more.'')
           else map_sum id Some r))"

definition one_row ::
  "(spanner_type \<Rightarrow> string) \<Rightarrow> streamed_result_set \<Rightarrow> db_error + spanner_value list" where
  "one_row type_text sr =
     (case one_or_none type_text sr of
        Inl e \<Rightarrow> Inl e
      | Inr (Some row) \<Rightarrow> Inr row
      | Inr None \<Rightarrow> Inl (db_internal ''No rows matched the given query.''))"

text \<open>
  A stream read to its end, as the loops of the program do: the rows before the end or the first
  error, and the error.
\<close>

lemma next_async_shorter:
  assumes "next_async type_text sr = (Some (Inr row), sr')"
  shows "length (sr_stream sr') < length (sr_stream sr) \<or>
    sr_stream sr' = sr_stream sr \<and> length (sr_rows sr') < length (sr_rows sr)"
  using assms
proof (induction type_text sr rule: next_async.induct)
  case (1 type_text sr)
  show ?case
  proof (cases "sr_rows sr")
    case (Cons r rows)
    then show ?thesis
      using "1.prems" by (auto simp: next_async.simps [of type_text sr])
  next
    case Nil
    obtain r sr1 where c: "consume_next type_text sr = (r, sr1)"
      by (metis prod.collapse)
    have "next_async type_text sr =
        (case r of Inr True \<Rightarrow> next_async type_text sr1 | Inr False \<Rightarrow> (None, sr1) | Inl e \<Rightarrow> (Some (Inl e), sr1))"
      by (simp add: next_async.simps [of type_text sr] Nil c split: sum.split bool.split)
    then have r: "r = Inr True" and n: "next_async type_text sr1 = (Some (Inr row), sr')"
      using "1.prems" by (cases r; auto split: bool.splits)+
    have "length (sr_stream sr') < length (sr_stream sr1) \<or>
        sr_stream sr' = sr_stream sr1 \<and> length (sr_rows sr') < length (sr_rows sr1)"
      by (rule "1.IH" [OF Nil c [symmetric] r]) (use n in auto)
    then show ?thesis
      using consume_next_shorter [OF c [unfolded r]] by auto
  qed
qed

function read_rows ::
  "(spanner_type \<Rightarrow> string) \<Rightarrow> streamed_result_set \<Rightarrow> spanner_value list list \<times> db_error option" where
  "read_rows type_text sr =
     (case next_async type_text sr of
        (None, _) \<Rightarrow> ([], None)
      | (Some (Inl e), _) \<Rightarrow> ([], Some e)
      | (Some (Inr row), sr') \<Rightarrow> (case read_rows type_text sr' of (rows, e) \<Rightarrow> (row # rows, e)))"
  by pat_completeness auto
termination
proof (relation "measures [\<lambda>(type_text, sr). length (sr_stream sr), \<lambda>(type_text, sr). length (sr_rows sr)]",
    goal_cases)
  case (2 type_text sr x sr' y row)
  then have "next_async type_text sr = (Some (Inr row), sr')"
    by simp
  from next_async_shorter [OF this] show ?case
    by auto
qed simp

declare read_rows.simps [simp del]

section \<open>Streams of whole rows\<close>

text \<open>
  \<open>carries vs sets\<close>: the partial result sets carry the values \<open>vs\<close>, as the protocol documents
  it: a set ends anywhere, also in the middle of a string, and is then marked as chunked; a set may
  be empty.
\<close>

inductive carries :: "spanner_value list \<Rightarrow> partial_result_set list \<Rightarrow> bool" where
  ended: "carries [] []"
| gap: "carries vs sets \<Longrightarrow> rs_values rs = [] \<Longrightarrow> carries vs (rs # sets)"
| whole: "carries ws sets \<Longrightarrow> rs_values rs = vs \<Longrightarrow> \<not> rs_chunked rs \<Longrightarrow> carries (vs @ ws) (rs # sets)"
| cut: "carries (StringValue t # ws) sets \<Longrightarrow> rs_values rs = vs @ [StringValue s] \<Longrightarrow> rs_chunked rs \<Longrightarrow>
    carries (vs @ StringValue (s @ t) # ws) (rs # sets)"

inductive_cases carries_NilE: "carries vs []"

text \<open>What is still to come when the chunk \<open>p\<close> has been kept back.\<close>

definition pending_carries ::
  "spanner_value option \<Rightarrow> spanner_value list \<Rightarrow> partial_result_set list \<Rightarrow> bool" where
  "pending_carries p vs sets \<longleftrightarrow>
     (case p of
        None \<Rightarrow> carries vs sets
      | Some chunk \<Rightarrow> \<exists>s t ws. chunk = StringValue s \<and> vs = StringValue (s @ t) # ws \<and>
          carries (StringValue t # ws) sets)"

definition merged_values :: "spanner_value option \<Rightarrow> spanner_value list \<Rightarrow> spanner_value list" where
  "merged_values p values =
     (case p of
        None \<Rightarrow> values
      | Some chunk \<Rightarrow> as_value (string_value chunk @ string_value (hd values)) # tl values)"

lemma pending_carries_merged:
  assumes "pending_carries p vs (rs # sets)" "rs_values rs \<noteq> []"
  defines "values \<equiv> merged_values p (rs_values rs)"
  shows "if rs_chunked rs
    then values \<noteq> [] \<and> (\<exists>ws. vs = butlast values @ ws \<and> pending_carries (Some (last values)) ws sets)
    else \<exists>ws. vs = values @ ws \<and> carries ws sets"
    and "p = Some chunk \<Longrightarrow> has_string_value chunk \<and> has_string_value (hd (rs_values rs))"
proof -
  have "(if rs_chunked rs
    then values \<noteq> [] \<and> (\<exists>ws. vs = butlast values @ ws \<and> pending_carries (Some (last values)) ws sets)
    else \<exists>ws. vs = values @ ws \<and> carries ws sets) \<and>
    (\<forall>chunk. p = Some chunk \<longrightarrow> has_string_value chunk \<and> has_string_value (hd (rs_values rs)))"
  proof (cases p)
    case None
    then have "carries vs (rs # sets)"
      using assms(1) by (simp add: pending_carries_def)
    then show ?thesis
      using assms(2)
      by (cases rule: carries.cases) (auto simp: None values_def merged_values_def pending_carries_def)
  next
    case (Some chunk)
    then obtain s t ws where c: "chunk = StringValue s" "vs = StringValue (s @ t) # ws"
      and rest: "carries (StringValue t # ws) (rs # sets)"
      using assms(1) by (auto simp: pending_carries_def)
    from rest show ?thesis
    proof (cases rule: carries.cases)
      case gap
      then show ?thesis using assms(2) by simp
    next
      case (whole ws' vs')
      then show ?thesis
        using assms(2) c by (cases vs') (auto simp: Some values_def merged_values_def as_value_def)
    next
      case (cut t' ws' vs' s')
      then show ?thesis
        using c
        by (cases vs') (auto simp: Some values_def merged_values_def as_value_def pending_carries_def)
    qed
  qed
  then show "if rs_chunked rs
    then values \<noteq> [] \<and> (\<exists>ws. vs = butlast values @ ws \<and> pending_carries (Some (last values)) ws sets)
    else \<exists>ws. vs = values @ ws \<and> carries ws sets"
    "p = Some chunk \<Longrightarrow> has_string_value chunk \<and> has_string_value (hd (rs_values rs))"
    by blast+
qed

lemma pending_carries_gap:
  "pending_carries p vs (rs # sets) \<Longrightarrow> rs_values rs = [] \<Longrightarrow> pending_carries p vs sets"
  by (cases p) (auto simp: pending_carries_def elim: carries.cases)

lemma pending_carries_end: "pending_carries p vs [] \<Longrightarrow> p = None \<and> vs = []"
  by (cases p) (auto simp: pending_carries_def elim: carries_NilE)

text \<open>The state of a stream that still has the rows \<open>rows\<close> to deliver.\<close>

definition mergeable :: "(string \<times> spanner_type) list \<Rightarrow> bool" where
  "mergeable fs \<longleftrightarrow> fs \<noteq> [] \<and> (\<forall>f \<in> set fs.
     code_of_type (snd f) \<in> {TypeBytes, TypeDate, TypeInt64, TypeString, TypeTimestamp})"

definition delivers :: "spanner_value list list \<Rightarrow> streamed_result_set \<Rightarrow> bool" where
  "delivers rows sr \<longleftrightarrow>
     (\<exists>fs sets vs. sr_stream sr = map Inr sets \<and> sr_metadata sr = Some fs \<and> mergeable fs \<and>
        (\<forall>row \<in> set (sr_rows sr) \<union> set rows. length row = length fs) \<and>
        length (sr_current sr) < length fs \<and>
        concat rows = concat (sr_rows sr) @ sr_current sr @ vs \<and> pending_carries (sr_pending sr) vs sets)"

lemma consume_values_rows:
  assumes "sr_current sr = cur" "length cur < n" "length (sr_fields sr) = n"
    and "\<forall>row \<in> set (sr_rows sr). length row = n"
  shows "concat (sr_rows (consume_values vs sr)) @ sr_current (consume_values vs sr) =
      concat (sr_rows sr) @ cur @ vs \<and>
    length (sr_current (consume_values vs sr)) < n \<and>
    (\<forall>row \<in> set (sr_rows (consume_values vs sr)). length row = n)"
  using assms
proof (induction vs arbitrary: sr cur)
  case (Cons v vs)
  let ?sr = "if length (cur @ [v]) = n then sr\<lparr>sr_current := [], sr_rows := sr_rows sr @ [cur @ [v]]\<rparr>
    else sr\<lparr>sr_current := cur @ [v]\<rparr>"
  have "consume_values (v # vs) sr = consume_values vs ?sr"
    using Cons.prems by (simp add: Let_def)
  moreover have "length (sr_current ?sr) < n" "length (sr_fields ?sr) = n"
    "\<forall>row \<in> set (sr_rows ?sr). length row = n"
    using Cons.prems by (auto simp: sr_fields_def)
  moreover have "concat (sr_rows ?sr) @ sr_current ?sr @ vs = concat (sr_rows sr) @ cur @ v # vs"
    by simp
  ultimately show ?case
    using Cons.IH [OF refl] by metis
qed simp

lemma merge_pending_merged:
  assumes "pending_carries (sr_pending sr) vs (rs # sets)" "rs_values rs \<noteq> []"
    and "mergeable (sr_fields sr)" "length (sr_current sr) < length (sr_fields sr)"
  shows "merge_pending type_text (rs_values rs) sr =
    (Inr (merged_values (sr_pending sr) (rs_values rs)), sr\<lparr>sr_pending := None\<rparr>)"
proof (cases "sr_pending sr")
  case (Some chunk)
  have "code_of_type (snd (sr_fields sr ! length (sr_current sr))) \<in>
      {TypeBytes, TypeDate, TypeInt64, TypeString, TypeTimestamp}"
    using assms(3,4) unfolding mergeable_def by (meson nth_mem)
  then show ?thesis
    using pending_carries_merged(2) [OF assms(1,2) Some] assms(4)
    by (simp add: merge_pending_def Some merged_values_def merge_by_type_def merge_string_def Let_def
        sr_fields_def)
qed (simp add: merge_pending_def merged_values_def)

lemma consume_next_delivers:
  assumes "delivers rows sr" "sr_rows sr = []"
  shows "rows = [] \<and> consume_next type_text sr = (Inr False, sr) \<or>
    (\<exists>sr'. consume_next type_text sr = (Inr True, sr') \<and> delivers rows sr')"
proof -
  obtain fs sets vs where d: "sr_stream sr = map Inr sets" "sr_metadata sr = Some fs" "mergeable fs"
      "\<forall>row \<in> set rows. length row = length fs" "length (sr_current sr) < length fs"
      "concat rows = sr_current sr @ vs" "pending_carries (sr_pending sr) vs sets"
    using assms by (auto simp: delivers_def)
  have fs: "sr_fields sr = fs" "0 < length fs"
    using d(2,3) by (auto simp: sr_fields_def mergeable_def)
  show ?thesis
  proof (cases sets)
    case Nil
    then have "concat rows = sr_current sr"
      using d(6,7) pending_carries_end by fastforce
    then have "rows = []"
      using d(4,5) fs(2) by (cases rows) (auto dest: arg_cong [where f = length])
    then show ?thesis
      by (simp add: consume_next_def d(1) Nil)
  next
    case (Cons rs sets')
    obtain sr2 where sr2: "sr_stream sr2 = map Inr sets'" "sr_metadata sr2 = Some fs" "sr_rows sr2 = []"
      "sr_current sr2 = sr_current sr" "sr_pending sr2 = sr_pending sr" "sr_fields sr2 = fs"
      and run2: "consume_next type_text sr =
        (if rs_values rs = [] then (Inr True, sr2)
         else bind_r (merge_pending type_text (rs_values rs))
           (\<lambda>values. seq_r
              (if rs_chunked rs
               then modify_r (\<lambda>sr. consume_values (butlast values)
                      (sr\<lparr>sr_pending := Some (last values)\<rparr>))
               else modify_r (consume_values values))
              (return_r True)) sr2)"
    proof
      let ?sr1 = "sr\<lparr>sr_stream := map Inr sets'\<rparr>"
      let ?sr2 = "if rs_stats rs \<noteq> None then ?sr1\<lparr>sr_stats := rs_stats rs\<rparr> else ?sr1"
      show "sr_stream ?sr2 = map Inr sets'" "sr_metadata ?sr2 = Some fs" "sr_rows ?sr2 = []"
        "sr_current ?sr2 = sr_current sr" "sr_pending ?sr2 = sr_pending sr" "sr_fields ?sr2 = fs"
        using d(2) assms(2) by (simp_all add: sr_fields_def)
      show "consume_next type_text sr =
        (if rs_values rs = [] then (Inr True, ?sr2)
         else bind_r (merge_pending type_text (rs_values rs))
           (\<lambda>values. seq_r
              (if rs_chunked rs
               then modify_r (\<lambda>sr. consume_values (butlast values)
                      (sr\<lparr>sr_pending := Some (last values)\<rparr>))
               else modify_r (consume_values values))
              (return_r True)) ?sr2)"
        using d(2) by (simp add: consume_next_def d(1) Cons Let_def)
    qed
    show ?thesis
    proof (cases "rs_values rs = []")
      case True
      have "consume_next type_text sr = (Inr True, sr2)"
        using True run2 by simp
      moreover have "delivers rows sr2"
        unfolding delivers_def
        using sr2 d pending_carries_gap [OF d(7) [unfolded Cons] True]
        by (intro exI [of _ fs] exI [of _ sets'] exI [of _ vs]) simp
      ultimately show ?thesis by blast
    next
      case False
      let ?vs = "merged_values (sr_pending sr) (rs_values rs)"
      let ?sr3 = "if rs_chunked rs
        then consume_values (butlast ?vs) (sr2\<lparr>sr_pending := Some (last ?vs)\<rparr>)
        else consume_values ?vs (sr2\<lparr>sr_pending := None\<rparr>)"
      have run: "consume_next type_text sr = (Inr True, ?sr3)"
        using False run2 merge_pending_merged [of sr2 vs rs sets' type_text] sr2 d(3,5,7) Cons
        by simp
      have vs: "if rs_chunked rs
        then ?vs \<noteq> [] \<and> (\<exists>ws. vs = butlast ?vs @ ws \<and> pending_carries (Some (last ?vs)) ws sets')
        else \<exists>ws. vs = ?vs @ ws \<and> carries ws sets'"
        using pending_carries_merged(1) [OF d(7) [unfolded Cons] False] .
      have "delivers rows ?sr3"
      proof (cases "rs_chunked rs")
        case True
        then obtain ws where ws: "vs = butlast ?vs @ ws" "pending_carries (Some (last ?vs)) ws sets'"
          using vs by auto
        have "concat (sr_rows ?sr3) @ sr_current ?sr3 = sr_current sr @ butlast ?vs \<and>
            length (sr_current ?sr3) < length fs \<and> (\<forall>row \<in> set (sr_rows ?sr3). length row = length fs)"
          using consume_values_rows [of "sr2\<lparr>sr_pending := Some (last ?vs)\<rparr>" "sr_current sr" "length fs"
              "butlast ?vs"] sr2 d(5) True by simp
        then show ?thesis
          unfolding delivers_def
          using sr2 d(3,4,6) ws True
          by (intro exI [of _ fs] exI [of _ sets'] exI [of _ ws]) auto
      next
        case not_chunked: False
        then obtain ws where ws: "vs = ?vs @ ws" "carries ws sets'"
          using vs by auto
        have "concat (sr_rows ?sr3) @ sr_current ?sr3 = sr_current sr @ ?vs \<and>
            length (sr_current ?sr3) < length fs \<and> (\<forall>row \<in> set (sr_rows ?sr3). length row = length fs)"
          using consume_values_rows [of "sr2\<lparr>sr_pending := None\<rparr>" "sr_current sr" "length fs" ?vs]
            sr2 d(5) not_chunked by simp
        then show ?thesis
          unfolding delivers_def
          using sr2 d(3,4,6) ws not_chunked
          by (intro exI [of _ fs] exI [of _ sets'] exI [of _ ws]) (auto simp: pending_carries_def)
      qed
      with run show ?thesis by blast
    qed
  qed
qed

lemma next_async_delivers:
  assumes "delivers rows sr"
  shows "case rows of
      [] \<Rightarrow> fst (next_async type_text sr) = None
    | row # rows' \<Rightarrow> \<exists>sr'. next_async type_text sr = (Some (Inr row), sr') \<and> delivers rows' sr'"
  using assms
proof (induction type_text sr rule: next_async.induct)
  case (1 type_text sr)
  show ?case
  proof (cases "sr_rows sr")
    case (Cons r rs)
    obtain fs sets vs where d: "sr_stream sr = map Inr sets" "sr_metadata sr = Some fs" "mergeable fs"
        "\<forall>row \<in> set (sr_rows sr) \<union> set rows. length row = length fs" "length (sr_current sr) < length fs"
        "concat rows = concat (sr_rows sr) @ sr_current sr @ vs" "pending_carries (sr_pending sr) vs sets"
      using "1.prems" by (auto simp: delivers_def)
    have "0 < length fs"
      using d(3) by (auto simp: mergeable_def)
    then obtain row rows' where rows: "rows = row # rows'"
      using d(4,6) Cons by (cases rows) auto
    have "row = r" "concat rows' = concat rs @ sr_current sr @ vs"
      using d(4,6) by (auto simp: rows Cons)
    moreover have "delivers rows' (sr\<lparr>sr_rows := rs\<rparr>)"
      unfolding delivers_def using d calculation
      by (intro exI [of _ fs] exI [of _ sets] exI [of _ vs]) (auto simp: rows Cons)
    ultimately show ?thesis
      by (simp add: rows next_async.simps [of type_text sr] Cons)
  next
    case Nil
    from consume_next_delivers [OF "1.prems" Nil, of type_text] show ?thesis
    proof (elim disjE exE conjE)
      fix sr' assume c: "consume_next type_text sr = (Inr True, sr')" and d: "delivers rows sr'"
      have "next_async type_text sr = next_async type_text sr'"
        by (simp add: next_async.simps [of type_text sr] Nil c)
      moreover have "case rows of
          [] \<Rightarrow> fst (next_async type_text sr') = None
        | row # rows' \<Rightarrow> \<exists>sr''. next_async type_text sr' = (Some (Inr row), sr'') \<and> delivers rows' sr''"
        by (rule "1.IH" [OF Nil c [symmetric] refl]) (use d in auto)
      ultimately show ?thesis by (simp only:)
    qed (simp add: next_async.simps [of type_text sr] Nil)
  qed
qed

lemma read_rows_delivers: "delivers rows sr \<Longrightarrow> read_rows type_text sr = (rows, None)"
proof (induction rows arbitrary: sr)
  case Nil
  then show ?case
    using next_async_delivers [OF Nil, of type_text]
    by (simp add: read_rows.simps [of type_text sr] case_prod_beta)
next
  case (Cons row rows)
  then obtain sr' where "next_async type_text sr = (Some (Inr row), sr')" "delivers rows sr'"
    using next_async_delivers [OF Cons.prems, of type_text] by auto
  then show ?case
    using Cons.IH by (simp add: read_rows.simps [of type_text sr])
qed

lemma one_or_none_delivers:
  assumes "delivers rows sr"
  shows "one_or_none type_text sr =
    (case rows of [] \<Rightarrow> Inr None | [row] \<Rightarrow> Inr (Some row)
     | _ \<Rightarrow> Inl (db_internal ''Expected one result; got more.''))"
proof (cases rows)
  case Nil
  then show ?thesis
    using next_async_delivers [OF assms, of type_text] by (simp add: one_or_none_def case_prod_beta)
next
  case (Cons row rows')
  then obtain sr' where "next_async type_text sr = (Some (Inr row), sr')" "delivers rows' sr'"
    using next_async_delivers [OF assms, of type_text] by auto
  then show ?thesis
    using next_async_delivers [of rows' sr' type_text] Cons
    by (auto simp: one_or_none_def split: list.splits)
qed

text \<open>The metadata comes with the first set.\<close>

lemma next_async_first:
  assumes "rs_metadata rs = Some fs"
  shows "next_async type_text (new_streamed (Inr rs # stream)) =
    next_async type_text ((new_streamed (Inr rs # stream))\<lparr>sr_metadata := Some fs\<rparr>)"
proof -
  have "consume_next type_text (new_streamed (Inr rs # stream)) =
      consume_next type_text ((new_streamed (Inr rs # stream))\<lparr>sr_metadata := Some fs\<rparr>)"
    using assms by (simp add: consume_next_def new_streamed_def)
  then show ?thesis
    using next_async.simps [of type_text "new_streamed (Inr rs # stream)"]
      next_async.simps [of type_text "(new_streamed (Inr rs # stream))\<lparr>sr_metadata := Some fs\<rparr>"]
    by (simp add: new_streamed_def)
qed

lemma new_streamed_delivers:
  assumes "carries (concat rows) (rs # sets)" "mergeable fs" "\<forall>row \<in> set rows. length row = length fs"
  shows "delivers rows ((new_streamed (map Inr (rs # sets)))\<lparr>sr_metadata := Some fs\<rparr>)"
  unfolding delivers_def
  by (intro exI [of _ fs] exI [of _ "rs # sets"] exI [of _ "concat rows"])
    (use assms in \<open>auto simp: new_streamed_def pending_carries_def mergeable_def\<close>)

text \<open>C33. The cuts of a stream do not show: however the server distributes the values of the rows over
  partial result sets, in the middle of rows and of strings too, the reader delivers exactly those
  rows, in order and whole, and \<open>one_or_none\<close> tells none, one and several of them apart.\<close>

theorem stream_cuts_do_not_show:
  assumes "carries (concat rows) (rs # sets)" "rs_metadata rs = Some fs" "mergeable fs"
    and "\<forall>row \<in> set rows. length row = length fs"
  shows "read_rows type_text (new_streamed (map Inr (rs # sets))) = (rows, None) \<and>
    one_or_none type_text (new_streamed (map Inr (rs # sets))) =
      (case rows of [] \<Rightarrow> Inr None | [row] \<Rightarrow> Inr (Some row)
       | _ \<Rightarrow> Inl (db_internal ''Expected one result; got more.''))"
proof -
  let ?sr = "new_streamed (map Inr (rs # sets))"
  let ?sr' = "?sr\<lparr>sr_metadata := Some fs\<rparr>"
  have n: "next_async type_text ?sr = next_async type_text ?sr'"
    using next_async_first [OF assms(2)] by simp
  have "read_rows type_text ?sr = read_rows type_text ?sr'" "one_or_none type_text ?sr = one_or_none type_text ?sr'"
    using read_rows.simps [of type_text ?sr] read_rows.simps [of type_text ?sr'] n
    by (simp_all add: one_or_none_def)
  then show ?thesis
    using read_rows_delivers one_or_none_delivers new_streamed_delivers [OF assms(1,3,4)] by simp
qed

text \<open>A run: two rows of two columns, cut inside the second and the third value.\<close>

definition sample_sets :: "partial_result_set list" where
  "sample_sets =
     [\<lparr>rs_metadata = Some [(''a'', SimpleType TypeString), (''b'', SimpleType TypeInt64)], rs_stats = None,
       rs_values = [StringValue ''x'', StringValue ''1''], rs_chunked = True\<rparr>,
      \<lparr>rs_metadata = None, rs_stats = None, rs_values = [StringValue ''2'', StringValue ''ab''],
       rs_chunked = True\<rparr>,
      \<lparr>rs_metadata = None, rs_stats = None, rs_values = [], rs_chunked = False\<rparr>,
      \<lparr>rs_metadata = None, rs_stats = Some 0, rs_values = [StringValue ''cd'', NullValue],
       rs_chunked = False\<rparr>]"

definition sample_rows :: "spanner_value list list" where
  "sample_rows = [[StringValue ''x'', StringValue ''12''], [StringValue ''abcd'', NullValue]]"

lemma sample_carries: "carries (concat sample_rows) sample_sets"
proof -
  let ?s = "sample_sets"
  have "carries ([StringValue ''cd'', NullValue] @ []) [?s ! 3]"
    by (rule carries.whole [OF carries.ended]) (simp_all add: sample_sets_def)
  then have "carries [StringValue ''cd'', NullValue] [?s ! 3]"
    by simp
  then have "carries [StringValue ''cd'', NullValue] [?s ! 2, ?s ! 3]"
    by (rule carries.gap) (simp add: sample_sets_def)
  then have "carries ([StringValue ''2''] @ StringValue (''ab'' @ ''cd'') # [NullValue]) [?s ! 1, ?s ! 2, ?s ! 3]"
    by (intro carries.cut) (simp_all add: sample_sets_def)
  then have "carries ([StringValue ''x''] @ StringValue (''1'' @ ''2'') # [StringValue ''abcd'', NullValue])
      [?s ! 0, ?s ! 1, ?s ! 2, ?s ! 3]"
    by (intro carries.cut) (simp_all add: sample_sets_def)
  then show ?thesis
    by (simp add: sample_sets_def sample_rows_def)
qed

lemma stream_cuts_do_not_show_witness:
  "read_rows (\<lambda>t. []) (new_streamed (map Inr sample_sets)) = (sample_rows, None)"
proof -
  have sets: "sample_sets = hd sample_sets # tl sample_sets"
    by (simp add: sample_sets_def)
  have "mergeable [(''a'', SimpleType TypeString), (''b'', SimpleType TypeInt64)]"
    by (simp add: mergeable_def)
  moreover have "rs_metadata (hd sample_sets) = Some [(''a'', SimpleType TypeString), (''b'', SimpleType TypeInt64)]"
    by (simp add: sample_sets_def)
  moreover have "carries (concat sample_rows) (hd sample_sets # tl sample_sets)"
    using sample_carries sets by simp
  ultimately show ?thesis
    using stream_cuts_do_not_show [of sample_rows "hd sample_sets" "tl sample_sets" _ "\<lambda>t. []"] sets
    by (simp add: sample_rows_def)
qed

end
