(* ===== verification/Spanner_Conn.thy ===== *)
theory Spanner_Conn
  imports Spanner_Stream
begin

text \<open>
  The Spanner session (\<open>src/db/spanner/models.rs\<close>, first part): its state, its transaction, the
  statements it sends and the mutations it buffers, and the rows of BSOs
  (\<open>src/db/spanner/support.rs\<close>). The server is a parameter, as are the timestamp text of the chrono
  library, the random ids of the uuid library, the size of a message and the texts errors are printed
  with. White space and comments between the tokens of an SQL text are one blank. The
  session name that every request repeats is left out, as are metrics, logs and the variants for the
  tests.
\<close>

section \<open>Requests\<close>

record execute_sql_request =
  rq_sql :: string
  rq_transaction :: "string option"
  rq_seqno :: int
  rq_params :: "(string, spanner_value) table"
  rq_param_types :: "(string, spanner_type) table"

text \<open>A mutation writes whole rows of a table: its name, the columns, the rows.\<close>

datatype spanner_mutation =
    InsertRows string "string list" "spanner_value list list"
  | UpdateRows string "string list" "spanner_value list list"
  | UpsertRows string "string list" "spanner_value list list"

text \<open>
  The calls of the service, the pool's hand-out of a session first. A DML statement answers the exact
  count of the rows it changed.
\<close>

record 's spanner_conn =
  call_session :: "'s \<Rightarrow> (string + unit) \<times> 's"
  call_begin :: "bool \<Rightarrow> 's \<Rightarrow> (grpc_error + string) \<times> 's"
  call_stream :: "execute_sql_request \<Rightarrow> 's \<Rightarrow> (grpc_error + (grpc_error + partial_result_set) list) \<times> 's"
  call_dml :: "execute_sql_request \<Rightarrow> 's \<Rightarrow> (grpc_error + int) \<times> 's"
  call_commit :: "string \<Rightarrow> spanner_mutation list \<Rightarrow> 's \<Rightarrow> (grpc_error + unit) \<times> 's"
  call_rollback :: "string \<Rightarrow> 's \<Rightarrow> (grpc_error + unit) \<times> 's"
  new_uuid :: "'s \<Rightarrow> string \<times> 's"
  print_time :: "int \<Rightarrow> nat \<Rightarrow> string"
  parse_time :: "string \<Rightarrow> string + int"
  int_error_text :: "string \<Rightarrow> string"
  type_text :: "spanner_type \<Rightarrow> string"
  row_size :: "spanner_value list \<Rightarrow> nat"

section \<open>State\<close>

datatype spanner_lock = LockRead | LockWrite

record spanner_session =
  sp_timestamp :: "sync_timestamp option"
  sp_modified_cache :: "hawk_identifier \<times> int \<rightharpoonup> sync_timestamp"
  sp_locks :: "hawk_identifier \<times> int \<rightharpoonup> spanner_lock"
  sp_transaction :: "string option"
  sp_mutations :: "spanner_mutation list option"
  sp_in_write :: bool
  sp_sql_count :: nat
  sp_touched :: bool

definition default_spanner_session :: spanner_session where
  "default_spanner_session =
     \<lparr>sp_timestamp = None, sp_modified_cache = Map.empty, sp_locks = Map.empty, sp_transaction = None,
      sp_mutations = None, sp_in_write = False, sp_sql_count = 0, sp_touched = False\<rparr>"

record 's spanner_db =
  sp_conn :: 's
  sp_session :: spanner_session
  sp_cache :: collection_cache

definition new_spanner_db :: "'s \<Rightarrow> collection_cache \<Rightarrow> 's spanner_db" where
  "new_spanner_db c cache = \<lparr>sp_conn = c, sp_session = default_spanner_session, sp_cache = cache\<rparr>"

type_synonym ('s, 'a) sp_op = "('s spanner_db, db_error, 'a) comp"

definition PRETOUCH_TS :: string where
  "PRETOUCH_TS = ''0001-01-01T00:00:00.00Z''"

definition call :: "('s \<Rightarrow> (grpc_error + 'a) \<times> 's) \<Rightarrow> ('s, 'a) sp_op" where
  "call f db = (case f (sp_conn db) of (r, c) \<Rightarrow> (map_sum db_error_of_grpc id r, db\<lparr>sp_conn := c\<rparr>))"

definition sp_get :: "(spanner_session \<Rightarrow> 'a) \<Rightarrow> ('s, 'a) sp_op" where
  "sp_get f = get_r (\<lambda>db. f (sp_session db))"

definition sp_set :: "(spanner_session \<Rightarrow> spanner_session) \<Rightarrow> ('s, unit) sp_op" where
  "sp_set f = modify_r (\<lambda>db. db\<lparr>sp_session := f (sp_session db)\<rparr>)"

definition sp_on_cache :: "(collection_cache, db_error, 'a) comp \<Rightarrow> ('s, 'a) sp_op" where
  "sp_on_cache m db = (case m (sp_cache db) of (r, k) \<Rightarrow> (r, db\<lparr>sp_cache := k\<rparr>))"

section \<open>Transactions\<close>

definition set_timestamp :: "sync_timestamp \<Rightarrow> ('s, unit) sp_op" where
  "set_timestamp ts = sp_set (\<lambda>ss. ss\<lparr>sp_timestamp := Some ts\<rparr>)"

definition sp_timestamp_of :: "('s, sync_timestamp) sp_op" where
  "sp_timestamp_of = bind_r (sp_get sp_timestamp)
     (\<lambda>ts. case ts of None \<Rightarrow> throw_r (db_internal ''CURRENT_TIMESTAMP() not read yet'')
                    | Some t \<Rightarrow> return_r t)"

definition begin_async :: "'s spanner_conn \<Rightarrow> bool \<Rightarrow> ('s, unit) sp_op" where
  "begin_async eng for_write =
     seq_r (if for_write then sp_set (\<lambda>ss. ss\<lparr>sp_in_write := True\<rparr>) else return_r ())
       (bind_r (call (call_begin eng for_write))
         (\<lambda>i. sp_set (\<lambda>ss. ss\<lparr>sp_transaction := Some i\<rparr>)))"

text \<open>The blocking variants make the same calls as the asynchronous ones.\<close>

definition begin_blocking :: "'s spanner_conn \<Rightarrow> bool \<Rightarrow> ('s, unit) sp_op" where
  "begin_blocking eng for_write =
     seq_r (if for_write then sp_set (\<lambda>ss. ss\<lparr>sp_in_write := True\<rparr>) else return_r ())
       (bind_r (call (call_begin eng for_write))
         (\<lambda>i. sp_set (\<lambda>ss. ss\<lparr>sp_transaction := Some i\<rparr>)))"

definition get_transaction :: "'s spanner_conn \<Rightarrow> ('s, string option) sp_op" where
  "get_transaction eng = bind_r (sp_get sp_transaction)
     (\<lambda>t. if t \<noteq> None then return_r t
          else seq_r (begin_blocking eng True) (sp_get sp_transaction))"

definition get_transaction_async :: "'s spanner_conn \<Rightarrow> ('s, string option) sp_op" where
  "get_transaction_async eng = bind_r (sp_get sp_transaction)
     (\<lambda>t. if t \<noteq> None then return_r t
          else seq_r (begin_async eng True) (sp_get sp_transaction))"

definition commit_async :: "'s spanner_conn \<Rightarrow> ('s, unit) sp_op" where
  "commit_async eng = bind_r (sp_get sp_in_write)
     (\<lambda>w. if \<not> w then return_r ()
          else bind_r (get_transaction_async eng)
            (\<lambda>t. case t of
               None \<Rightarrow> throw_r (db_internal ''No transaction to commit'')
             | Some i \<Rightarrow> bind_r (sp_get sp_mutations)
                 (\<lambda>ms. seq_r (sp_set (\<lambda>ss. ss\<lparr>sp_mutations := None\<rparr>))
                   (call (call_commit eng i (case ms of None \<Rightarrow> [] | Some ms \<Rightarrow> ms))))))"

definition rollback_async :: "'s spanner_conn \<Rightarrow> ('s, unit) sp_op" where
  "rollback_async eng = bind_r (sp_get sp_in_write)
     (\<lambda>w. if \<not> w then return_r ()
          else bind_r (get_transaction_async eng)
            (\<lambda>t. case t of
               None \<Rightarrow> throw_r (db_internal ''No transaction to rollback'')
             | Some i \<Rightarrow> call (call_rollback eng i)))"

text \<open>The blocking variants, which nothing calls.\<close>

definition commit_blocking :: "'s spanner_conn \<Rightarrow> ('s, unit) sp_op" where
  "commit_blocking eng = bind_r (sp_get sp_in_write)
     (\<lambda>w. if \<not> w then return_r ()
          else bind_r (get_transaction eng)
            (\<lambda>t. case t of
               None \<Rightarrow> throw_r (db_internal ''No transaction to commit'')
             | Some i \<Rightarrow> bind_r (sp_get sp_mutations)
                 (\<lambda>ms. seq_r (sp_set (\<lambda>ss. ss\<lparr>sp_mutations := None\<rparr>))
                   (call (call_commit eng i (case ms of None \<Rightarrow> [] | Some ms \<Rightarrow> ms))))))"

definition rollback_blocking :: "'s spanner_conn \<Rightarrow> ('s, unit) sp_op" where
  "rollback_blocking eng = bind_r (sp_get sp_in_write)
     (\<lambda>w. if \<not> w then return_r ()
          else bind_r (get_transaction eng)
            (\<lambda>t. case t of
               None \<Rightarrow> throw_r (db_internal ''No transaction to rollback'')
             | Some i \<Rightarrow> call (call_rollback eng i)))"

section \<open>Statements\<close>

text \<open>A statement takes its number in the transaction when it is built, before it is sent.\<close>

definition sql_request :: "'s spanner_conn \<Rightarrow> string \<Rightarrow> ('s, execute_sql_request) sp_op" where
  "sql_request eng sql = bind_r (get_transaction eng)
     (\<lambda>t. let rq = \<lparr>rq_sql = sql, rq_transaction = t, rq_seqno = 0, rq_params = [], rq_param_types = []\<rparr>
          in if t = None then return_r rq
             else bind_r (sp_get sp_sql_count)
               (\<lambda>n. if n \<ge> 2 ^ 63 then throw_r (db_internal ''seqno overflow'')
                    else seq_r (sp_set (\<lambda>ss. ss\<lparr>sp_sql_count := n + 1\<rparr>))
                      (return_r (rq\<lparr>rq_seqno := int n\<rparr>))))"

definition prepare_request ::
  "(string, spanner_value) table \<Rightarrow> (string, spanner_type) table \<Rightarrow> execute_sql_request \<Rightarrow> execute_sql_request" where
  "prepare_request params types rq = rq\<lparr>rq_params := params, rq_param_types := types\<rparr>"

definition execute_async :: "'s spanner_conn \<Rightarrow> execute_sql_request \<Rightarrow> ('s, streamed_result_set) sp_op" where
  "execute_async eng rq = bind_r (call (call_stream eng rq)) (\<lambda>stream. return_r (new_streamed stream))"

definition execute_dml_async :: "'s spanner_conn \<Rightarrow> execute_sql_request \<Rightarrow> ('s, int) sp_op" where
  "execute_dml_async eng rq = call (call_dml eng rq)"

text \<open>\<open>sql(..)?.params(..).param_types(..)\<close>, executed.\<close>

definition sp_query ::
  "'s spanner_conn \<Rightarrow> string \<Rightarrow> (string, spanner_value) table \<Rightarrow> (string, spanner_type) table \<Rightarrow>
     ('s, streamed_result_set) sp_op" where
  "sp_query eng sql params types =
     bind_r (sql_request eng sql) (\<lambda>rq. execute_async eng (prepare_request params types rq))"

definition sp_dml ::
  "'s spanner_conn \<Rightarrow> string \<Rightarrow> (string, spanner_value) table \<Rightarrow> (string, spanner_type) table \<Rightarrow>
     ('s, int) sp_op" where
  "sp_dml eng sql params types =
     bind_r (sql_request eng sql) (\<lambda>rq. execute_dml_async eng (prepare_request params types rq))"

definition sp_one ::
  "'s spanner_conn \<Rightarrow> string \<Rightarrow> (string, spanner_value) table \<Rightarrow> (string, spanner_type) table \<Rightarrow>
     ('s, spanner_value list) sp_op" where
  "sp_one eng sql params types =
     bind_r (sp_query eng sql params types) (\<lambda>sr. lift_r (one_row (type_text eng) sr))"

definition sp_one_or_none ::
  "'s spanner_conn \<Rightarrow> string \<Rightarrow> (string, spanner_value) table \<Rightarrow> (string, spanner_type) table \<Rightarrow>
     ('s, spanner_value list option) sp_op" where
  "sp_one_or_none eng sql params types =
     bind_r (sp_query eng sql params types) (\<lambda>sr. lift_r (one_or_none (type_text eng) sr))"

text \<open>\<open>while let Some(row) = streaming.next_async().await\<close>: the first error, of a row or of the stream.\<close>

fun fold_rows :: "('r \<Rightarrow> 'a \<Rightarrow> ('s, 'a) sp_op) \<Rightarrow> 'r list \<Rightarrow> 'a \<Rightarrow> ('s, 'a) sp_op" where
  "fold_rows f [] acc = return_r acc"
| "fold_rows f (row # rows) acc = bind_r (f row acc) (fold_rows f rows)"

definition sp_rows ::
  "'s spanner_conn \<Rightarrow> string \<Rightarrow> (string, spanner_value) table \<Rightarrow> (string, spanner_type) table \<Rightarrow>
     (spanner_value list \<Rightarrow> 'a \<Rightarrow> ('s, 'a) sp_op) \<Rightarrow> 'a \<Rightarrow> ('s, 'a) sp_op" where
  "sp_rows eng sql params types f acc =
     bind_r (sp_query eng sql params types)
       (\<lambda>sr. case read_rows (type_text eng) sr of
          (rows, e) \<Rightarrow> bind_r (fold_rows f rows acc)
            (\<lambda>acc. case e of None \<Rightarrow> return_r acc | Some e \<Rightarrow> throw_r e))"

section \<open>Mutations\<close>

definition buffer_mutation :: "spanner_mutation \<Rightarrow> ('s, unit) sp_op" where
  "buffer_mutation m = sp_set (\<lambda>ss. ss\<lparr>sp_mutations :=
     Some ((case sp_mutations ss of None \<Rightarrow> [] | Some ms \<Rightarrow> ms) @ [m])\<rparr>)"

definition insert_rows :: "string \<Rightarrow> string list \<Rightarrow> spanner_value list list \<Rightarrow> ('s, unit) sp_op" where
  "insert_rows table_name columns values = buffer_mutation (InsertRows table_name columns values)"

definition update_rows :: "string \<Rightarrow> string list \<Rightarrow> spanner_value list list \<Rightarrow> ('s, unit) sp_op" where
  "update_rows table_name columns values = buffer_mutation (UpdateRows table_name columns values)"

definition insert_or_update_rows ::
  "string \<Rightarrow> string list \<Rightarrow> spanner_value list list \<Rightarrow> ('s, unit) sp_op" where
  "insert_or_update_rows table_name columns values =
     buffer_mutation (UpsertRows table_name columns values)"

section \<open>Rows\<close>

text \<open>
  A column of a row. The rows have the columns the statement names; the program would panic on a
  shorter one.
\<close>

definition column :: "spanner_value list \<Rightarrow> nat \<Rightarrow> spanner_value" where
  "column row i = (if i < length row then row ! i else NullValue)"

definition int_column ::
  "'s spanner_conn \<Rightarrow> (string \<Rightarrow> int option) \<Rightarrow> spanner_value \<Rightarrow> db_error + int" where
  "int_column eng parse v =
     (case parse (string_value v) of
        None \<Rightarrow> Inl (db_error_of (Integrity (int_error_text eng (string_value v))))
      | Some k \<Rightarrow> Inr k)"

definition time_column :: "'s spanner_conn \<Rightarrow> spanner_value \<Rightarrow> db_error + sync_timestamp" where
  "time_column eng v = from_rfc3339 (parse_time eng) (string_value v)"

definition and_then :: "'e + 'a \<Rightarrow> ('a \<Rightarrow> 'e + 'b) \<Rightarrow> 'e + 'b" where
  "and_then r f = (case r of Inl e \<Rightarrow> Inl e | Inr a \<Rightarrow> f a)"

lemma and_then_Inr_iff [simp]: "and_then r f = Inr b \<longleftrightarrow> (\<exists>a. r = Inr a \<and> f a = Inr b)"
  by (simp add: and_then_def split: sum.split)

lemma and_then_simps [simp]: "and_then (Inl e) f = Inl e" "and_then (Inr a) f = f a"
  by (simp_all add: and_then_def)

definition bso_from_row :: "'s spanner_conn \<Rightarrow> spanner_value list \<Rightarrow> db_error + get_bso_result" where
  "bso_from_row eng row =
     and_then (time_column eng (column row 3)) (\<lambda>modified.
     and_then (if column row 1 = NullValue then Inr None
               else map_sum id Some (int_column eng parse_i32 (column row 1))) (\<lambda>sortindex.
     and_then (time_column eng (column row 4)) (\<lambda>expiry.
       Inr \<lparr>gb_id = string_value (column row 0), gb_modified = modified,
            gb_payload = string_value (column row 2), gb_sortindex = sortindex,
            gb_expiry = as_i64 expiry\<rparr>)))"

text \<open>The time a BSO expires: \<open>i64\<close> arithmetic.\<close>

definition expiry_text :: "'s spanner_conn \<Rightarrow> sync_timestamp \<Rightarrow> nat \<Rightarrow> db_error + string" where
  "expiry_text eng now ttl = to_rfc3339 (print_time eng) (wrap_i64 (as_i64 now + int ttl * 1000))"

definition row_key :: "hawk_identifier \<Rightarrow> int \<Rightarrow> string \<Rightarrow> spanner_value list" where
  "row_key user_id collection_id bso =
     [as_value (fxa_uid user_id), as_value (fxa_kid user_id), as_value (show_int collection_id), as_value bso]"

definition bso_to_insert_row ::
  "'s spanner_conn \<Rightarrow> hawk_identifier \<Rightarrow> int \<Rightarrow> post_collection_bso \<Rightarrow> sync_timestamp \<Rightarrow>
     db_error + spanner_value list" where
  "bso_to_insert_row eng user_id collection_id bso now =
     (let sortindex = (case pb_sortindex bso of None \<Rightarrow> null_value | Some k \<Rightarrow> as_value (show_int k));
          ttl = (case pb_ttl bso of None \<Rightarrow> DEFAULT_BSO_TTL | Some n \<Rightarrow> n)
      in and_then (expiry_text eng now ttl) (\<lambda>expiry.
         and_then (as_rfc3339 (print_time eng) now) (\<lambda>modified.
           Inr (row_key user_id collection_id (pb_id bso) @
             [sortindex, as_value (case pb_payload bso of None \<Rightarrow> [] | Some p \<Rightarrow> p),
              as_value modified, as_value expiry]))))"

definition bso_to_update_row ::
  "'s spanner_conn \<Rightarrow> hawk_identifier \<Rightarrow> int \<Rightarrow> post_collection_bso \<Rightarrow> sync_timestamp \<Rightarrow>
     db_error + string list \<times> spanner_value list" where
  "bso_to_update_row eng user_id collection_id bso now =
     (let sortindex = (case pb_sortindex bso of None \<Rightarrow> [] | Some k \<Rightarrow> [(''sortindex'', as_value (show_int k))]);
          payload = (case pb_payload bso of None \<Rightarrow> [] | Some p \<Rightarrow> [(''payload'', as_value p)]);
          with_columns = (\<lambda>cells. Inr ([''fxa_uid'', ''fxa_kid'', ''collection_id'', ''bso_id''] @ map fst cells,
             row_key user_id collection_id (pb_id bso) @ map snd cells))
      in and_then (if pb_payload bso \<noteq> None \<or> pb_sortindex bso \<noteq> None
                   then map_sum id (\<lambda>s. [(''modified'', as_value s)]) (as_rfc3339 (print_time eng) now)
                   else Inr []) (\<lambda>modified.
         and_then (case pb_ttl bso of
                     None \<Rightarrow> Inr []
                   | Some ttl \<Rightarrow> map_sum id (\<lambda>s. [(''expiry'', as_value s)]) (expiry_text eng now ttl)) (\<lambda>expiry.
           with_columns (sortindex @ payload @ modified @ expiry))))"

end
