(* ===== verification/Spanner_Models.thy ===== *)
theory Spanner_Models
  imports Spanner_Conn Web_Settings
begin

text \<open>
  The operations of the Spanner session (\<open>src/db/spanner/models.rs\<close>): the statements each sends, with
  their parameters, in the order of the code, and what it makes of the answers.
\<close>

section \<open>Collections\<close>

definition get_collection_id_async :: "'s spanner_conn \<Rightarrow> string \<Rightarrow> ('s, int) sp_op" where
  "get_collection_id_async eng name =
     bind_r (bind_r (get_r sp_cache) (\<lambda>k. lift_r (cache_get_id k name)))
       (\<lambda>found. case found of
          Some i \<Rightarrow> return_r i
        | None \<Rightarrow>
            bind_r (sp_one_or_none eng ''SELECT collection_id FROM collections WHERE name = @name''
                     (params_of [(''name'', name)]) [])
              (\<lambda>row. case row of
                 None \<Rightarrow> throw_r (db_error_of CollectionNotFound)
               | Some row \<Rightarrow>
                   bind_r (lift_r (int_column eng parse_i32 (column row 0)))
                     (\<lambda>i. bind_r (sp_get sp_in_write)
                       (\<lambda>w. seq_r (if w then return_r () else sp_on_cache (cache_put i name))
                         (return_r i)))))"

text \<open>\<open>max + 1\<close> wraps at the end of the 32-bit range.\<close>

definition create_collection_async :: "'s spanner_conn \<Rightarrow> string \<Rightarrow> ('s, int) sp_op" where
  "create_collection_async eng name =
     bind_r (sp_get sp_in_write)
       (\<lambda>w. if \<not> w then throw_r (db_internal ''Can't escalate read-lock to write-lock'')
            else
              bind_r (sp_one eng ''SELECT COALESCE(MAX(collection_id), 1) FROM collections'' [] [])
                (\<lambda>row. bind_r (lift_r (int_column eng parse_i32 (column row 0)))
                  (\<lambda>max_id. let i = max FIRST_CUSTOM_COLLECTION_ID (signed_take_bit 31 (max_id + 1)) in
                     seq_r (sp_dml eng
                              ''INSERT INTO collections (collection_id, name) VALUES (@collection_id, @name)''
                              (params_of [(''name'', name), (''collection_id'', show_int i)]) [])
                       (return_r i))))"

definition get_or_create_collection_id_async :: "'s spanner_conn \<Rightarrow> string \<Rightarrow> ('s, int) sp_op" where
  "get_or_create_collection_id_async eng name =
     catch_r (get_collection_id_async eng name)
       (\<lambda>e. case db_kind e of
          CollectionNotFound \<Rightarrow> create_collection_async eng name
        | _ \<Rightarrow> throw_r e)"

section \<open>Locks\<close>

definition lock_for_read_async :: "'s spanner_conn \<Rightarrow> hawk_identifier \<Rightarrow> string \<Rightarrow> ('s, unit) sp_op" where
  "lock_for_read_async eng user_id collection =
     seq_r (begin_async eng False)
       (bind_r (catch_r (get_collection_id_async eng collection)
                 (\<lambda>e. case db_kind e of CollectionNotFound \<Rightarrow> return_r 0 | _ \<Rightarrow> throw_r e))
         (\<lambda>collection_id. bind_r (sp_get (\<lambda>ss. sp_locks ss (user_id, collection_id)))
           (\<lambda>lock. if lock \<noteq> None then return_r ()
                   else sp_set (\<lambda>ss. ss\<lparr>sp_locks :=
                          (sp_locks ss)((user_id, collection_id) \<mapsto> LockRead)\<rparr>))))"

definition lock_for_write_async :: "'s spanner_conn \<Rightarrow> hawk_identifier \<Rightarrow> string \<Rightarrow> ('s, unit) sp_op" where
  "lock_for_write_async eng user_id collection =
     seq_r (begin_async eng True)
       (bind_r (get_or_create_collection_id_async eng collection)
         (\<lambda>collection_id. bind_r (sp_get (\<lambda>ss. sp_locks ss (user_id, collection_id)))
           (\<lambda>lock.
              if lock = Some LockRead then throw_r (db_internal ''Can't escalate read-lock to write-lock'')
              else
                bind_r (sp_one_or_none eng
                         (''SELECT CURRENT_TIMESTAMP(), modified FROM user_collections '' @
                          ''WHERE fxa_uid = @fxa_uid AND fxa_kid = @fxa_kid '' @
                          ''AND collection_id = @collection_id AND modified > @pretouch_ts'')
                         (params_of [(''fxa_uid'', fxa_uid user_id), (''fxa_kid'', fxa_kid user_id),
                            (''collection_id'', show_int collection_id), (''pretouch_ts'', PRETOUCH_TS)])
                         (param_types_of [(''pretouch_ts'', TypeTimestamp)]))
                  (\<lambda>result. bind_r
                     (case result of
                        Some row \<Rightarrow>
                          bind_r (lift_r (time_column eng (column row 1)))
                            (\<lambda>modified. bind_r (lift_r (time_column eng (column row 0)))
                              (\<lambda>now.
                                 if modified \<ge> now then throw_r (db_error_of Conflict)
                                 else seq_r (sp_set (\<lambda>ss. ss\<lparr>sp_modified_cache :=
                                          (sp_modified_cache ss)((user_id, collection_id) \<mapsto> modified)\<rparr>))
                                   (return_r now)))
                      | None \<Rightarrow>
                          bind_r (sp_one eng ''SELECT CURRENT_TIMESTAMP()'' [] [])
                            (\<lambda>row. lift_r (time_column eng (column row 0))))
                     (\<lambda>timestamp. seq_r (set_timestamp timestamp)
                       (sp_set (\<lambda>ss. ss\<lparr>sp_locks :=
                          (sp_locks ss)((user_id, collection_id) \<mapsto> LockWrite)\<rparr>)))))))"

section \<open>Timestamps and usage\<close>

definition get_collection_timestamp_async ::
  "'s spanner_conn \<Rightarrow> hawk_identifier \<Rightarrow> string \<Rightarrow> ('s, sync_timestamp) sp_op" where
  "get_collection_timestamp_async eng user_id collection =
     bind_r (get_collection_id_async eng collection)
       (\<lambda>collection_id. bind_r (sp_get (\<lambda>ss. sp_modified_cache ss (user_id, collection_id)))
         (\<lambda>cached. case cached of
            Some modified \<Rightarrow> return_r modified
          | None \<Rightarrow>
              bind_r (sp_one_or_none eng
                       (''SELECT modified FROM user_collections '' @
                        ''WHERE fxa_uid = @fxa_uid AND fxa_kid = @fxa_kid '' @
                        ''AND collection_id = @collection_id AND modified > @pretouch_ts'')
                       (params_of [(''fxa_uid'', fxa_uid user_id), (''fxa_kid'', fxa_kid user_id),
                          (''collection_id'', show_int collection_id), (''pretouch_ts'', PRETOUCH_TS)])
                       (param_types_of [(''pretouch_ts'', TypeTimestamp)]))
                (\<lambda>result. case result of
                   None \<Rightarrow> throw_r (db_error_of CollectionNotFound)
                 | Some row \<Rightarrow> lift_r (time_column eng (column row 0)))))"

text \<open>The names of collections: cached ones first, the others in one statement.\<close>

fun sp_cached_names :: "int list \<Rightarrow> ('s, (int, string) table \<times> int list) sp_op" where
  "sp_cached_names [] = return_r ([], [])"
| "sp_cached_names (i # is) =
     bind_r (bind_r (get_r sp_cache) (\<lambda>k. lift_r (cache_get_name k i)))
       (\<lambda>found. bind_r (sp_cached_names is)
         (\<lambda>(names, uncached).
            case found of
              Some name \<Rightarrow> return_r (AList.update i name names, uncached)
            | None \<Rightarrow> return_r (names, i # uncached)))"

definition sp_load_collection_names ::
  "'s spanner_conn \<Rightarrow> int list \<Rightarrow> ('s, (int, string) table) sp_op" where
  "sp_load_collection_names eng collection_ids =
     bind_r (sp_cached_names collection_ids)
       (\<lambda>(names, uncached).
          if uncached = [] then return_r names
          else sp_rows eng ''SELECT collection_id, name FROM collections WHERE collection_id IN UNNEST(@ids)''
                 [(''ids'', as_list_value (map show_int uncached))] []
                 (\<lambda>row names.
                    bind_r (lift_r (int_column eng parse_i32 (column row 0)))
                      (\<lambda>i. let name = string_value (column row 1) in
                         bind_r (sp_get sp_in_write)
                           (\<lambda>w. seq_r (if w then return_r () else sp_on_cache (cache_put i name))
                             (return_r (AList.update i name names)))))
                 names)"

fun sp_take_names :: "(int \<times> 'v) list \<Rightarrow> (int, string) table \<Rightarrow> db_error + (string, 'v) table" where
  "sp_take_names [] names = Inr []"
| "sp_take_names ((i, v) # rows) names =
     (case map_of names i of
        None \<Rightarrow> Inl (db_internal ''load_collection_names get'')
      | Some name \<Rightarrow>
          (case sp_take_names rows (AList.delete i names) of
             Inl e \<Rightarrow> Inl e
           | Inr m \<Rightarrow> Inr (if name \<in> fst ` set m then m else (name, v) # m)))"

definition sp_map_collection_names ::
  "'s spanner_conn \<Rightarrow> (int, 'v) table \<Rightarrow> ('s, (string, 'v) table) sp_op" where
  "sp_map_collection_names eng values =
     bind_r (sp_load_collection_names eng (map fst values)) (\<lambda>names. lift_r (sp_take_names values names))"

definition get_collection_timestamps_async ::
  "'s spanner_conn \<Rightarrow> hawk_identifier \<Rightarrow> ('s, (string, sync_timestamp) table) sp_op" where
  "get_collection_timestamps_async eng user_id =
     bind_r
       (sp_rows eng
          (''SELECT collection_id, modified FROM user_collections '' @
           ''WHERE fxa_uid = @fxa_uid AND fxa_kid = @fxa_kid '' @
           ''AND collection_id != @collection_id AND modified > @pretouch_ts'')
          (params_of [(''fxa_uid'', fxa_uid user_id), (''fxa_kid'', fxa_kid user_id),
             (''collection_id'', show_int TOMBSTONE), (''pretouch_ts'', PRETOUCH_TS)])
          (param_types_of [(''pretouch_ts'', TypeTimestamp)])
          (\<lambda>row results.
             bind_r (lift_r (int_column eng parse_i32 (column row 0)))
               (\<lambda>i. bind_r (lift_r (time_column eng (column row 1)))
                 (\<lambda>modified. return_r (AList.update i modified results))))
          [])
       (sp_map_collection_names eng)"

text \<open>A number per collection, from the rows of a statement on the user's live BSOs.\<close>

definition sum_rows ::
  "'s spanner_conn \<Rightarrow> string \<Rightarrow> hawk_identifier \<Rightarrow> ('s, (int, int) table) sp_op" where
  "sum_rows eng sql user_id =
     sp_rows eng sql
       (params_of [(''fxa_uid'', fxa_uid user_id), (''fxa_kid'', fxa_kid user_id)]) []
       (\<lambda>row acc.
          bind_r (lift_r (int_column eng parse_i32 (column row 0)))
            (\<lambda>i. bind_r (lift_r (int_column eng parse_i64 (column row 1)))
              (\<lambda>n. return_r (AList.update i n acc))))
       []"

definition get_collection_counts_async ::
  "'s spanner_conn \<Rightarrow> hawk_identifier \<Rightarrow> ('s, (string, int) table) sp_op" where
  "get_collection_counts_async eng user_id =
     bind_r (sum_rows eng
              (''SELECT collection_id, COUNT(collection_id) FROM bsos '' @
               ''WHERE fxa_uid = @fxa_uid AND fxa_kid = @fxa_kid '' @
               ''AND expiry > CURRENT_TIMESTAMP() GROUP BY collection_id'') user_id)
       (sp_map_collection_names eng)"

definition get_collection_usage_async ::
  "'s spanner_conn \<Rightarrow> hawk_identifier \<Rightarrow> ('s, (string, int) table) sp_op" where
  "get_collection_usage_async eng user_id =
     bind_r (sum_rows eng
              (''SELECT collection_id, SUM(LENGTH(payload)) FROM bsos '' @
               ''WHERE fxa_uid = @fxa_uid AND fxa_kid = @fxa_kid '' @
               ''AND expiry > CURRENT_TIMESTAMP() GROUP BY collection_id'') user_id)
       (sp_map_collection_names eng)"

definition get_storage_timestamp_async ::
  "'s spanner_conn \<Rightarrow> hawk_identifier \<Rightarrow> ('s, sync_timestamp) sp_op" where
  "get_storage_timestamp_async eng user_id =
     bind_r (sp_one eng
              (''SELECT MAX(modified) FROM user_collections '' @
               ''WHERE fxa_uid = @fxa_uid AND fxa_kid = @fxa_kid AND modified > @pretouch_ts'')
              (params_of [(''fxa_uid'', fxa_uid user_id), (''fxa_kid'', fxa_kid user_id),
                 (''pretouch_ts'', PRETOUCH_TS)])
              (param_types_of [(''pretouch_ts'', TypeTimestamp)]))
       (\<lambda>row. lift_r (if column row 0 = NullValue then ts_from_i64 0
                      else time_column eng (column row 0)))"

definition get_storage_usage_async :: "'s spanner_conn \<Rightarrow> hawk_identifier \<Rightarrow> ('s, u64) sp_op" where
  "get_storage_usage_async eng user_id =
     bind_r (sp_one_or_none eng
              (''SELECT SUM(LENGTH(payload)) FROM bsos '' @
               ''WHERE fxa_uid = @fxa_uid AND fxa_kid = @fxa_kid '' @
               ''AND expiry > CURRENT_TIMESTAMP() GROUP BY fxa_uid'')
              (params_of [(''fxa_uid'', fxa_uid user_id), (''fxa_kid'', fxa_kid user_id)]) [])
       (\<lambda>result. case result of
          None \<Rightarrow> return_r 0
        | Some row \<Rightarrow> bind_r (lift_r (int_column eng parse_i64 (column row 0)))
            (\<lambda>usage. return_r (i64_as_u64 usage)))"

section \<open>Deleting\<close>

definition sp_erect_tombstone :: "'s spanner_conn \<Rightarrow> hawk_identifier \<Rightarrow> ('s, sync_timestamp) sp_op" where
  "sp_erect_tombstone eng user_id =
     bind_r sp_timestamp_of
       (\<lambda>now. bind_r (lift_r (as_rfc3339 (print_time eng) now))
         (\<lambda>modified.
            let params = params_of [(''fxa_uid'', fxa_uid user_id), (''fxa_kid'', fxa_kid user_id),
                  (''collection_id'', show_int TOMBSTONE), (''modified'', modified)];
                types = param_types_of [(''collection_id'', TypeInt64), (''modified'', TypeTimestamp)]
            in seq_r
                 (sp_dml eng
                   (''DELETE FROM user_collections WHERE fxa_uid = @fxa_uid AND fxa_kid = @fxa_kid '' @
                    ''AND collection_id = @collection_id'') params types)
               (seq_r
                 (sp_dml eng
                   (''INSERT INTO user_collections (fxa_uid, fxa_kid, collection_id, modified) '' @
                    ''VALUES (@fxa_uid, @fxa_kid, @collection_id, @modified)'') params types)
                 sp_timestamp_of)))"

definition delete_storage_async :: "'s spanner_conn \<Rightarrow> hawk_identifier \<Rightarrow> ('s, unit) sp_op" where
  "delete_storage_async eng user_id =
     seq_r (sp_dml eng ''DELETE FROM user_collections WHERE fxa_uid = @fxa_uid AND fxa_kid = @fxa_kid''
              (params_of [(''fxa_uid'', fxa_uid user_id), (''fxa_kid'', fxa_kid user_id)]) [])
       (return_r ())"

text \<open>The statement is built, and numbered, before the id it has as a parameter is looked up.\<close>

definition delete_collection_async ::
  "'s spanner_conn \<Rightarrow> hawk_identifier \<Rightarrow> string \<Rightarrow> ('s, sync_timestamp) sp_op" where
  "delete_collection_async eng user_id collection =
     bind_r (sql_request eng
              (''DELETE FROM user_collections WHERE fxa_uid = @fxa_uid AND fxa_kid = @fxa_kid '' @
               ''AND collection_id = @collection_id AND modified > @pretouch_ts''))
       (\<lambda>rq. bind_r (get_collection_id_async eng collection)
         (\<lambda>collection_id. bind_r
            (execute_dml_async eng
              (prepare_request
                (params_of [(''fxa_uid'', fxa_uid user_id), (''fxa_kid'', fxa_kid user_id),
                   (''collection_id'', show_int collection_id), (''pretouch_ts'', PRETOUCH_TS)])
                (param_types_of [(''pretouch_ts'', TypeTimestamp)]) rq))
            (\<lambda>affected_rows.
               if affected_rows > 0 then sp_erect_tombstone eng user_id
               else get_storage_timestamp_async eng user_id)))"

section \<open>Writing\<close>

text \<open>A collection is touched once per session.\<close>

definition touch_collection_async ::
  "'s spanner_conn \<Rightarrow> hawk_identifier \<Rightarrow> int \<Rightarrow> ('s, sync_timestamp) sp_op" where
  "touch_collection_async eng user_id collection_id =
     bind_r sp_timestamp_of
       (\<lambda>timestamp. bind_r (sp_get sp_touched)
         (\<lambda>touched.
            if touched then return_r timestamp
            else
              bind_r (lift_r (as_rfc3339 (print_time eng) timestamp))
                (\<lambda>modified.
                   let params = params_of [(''fxa_uid'', fxa_uid user_id), (''fxa_kid'', fxa_kid user_id),
                         (''collection_id'', show_int collection_id), (''modified'', modified)];
                       types = param_types_of [(''modified'', TypeTimestamp)]
                   in bind_r
                        (sp_one_or_none eng
                          (''SELECT 1 AS count FROM user_collections '' @
                           ''WHERE fxa_uid = @fxa_uid AND fxa_kid = @fxa_kid '' @
                           ''AND collection_id = @collection_id'') params [])
                      (\<lambda>result. seq_r
                        (if result \<noteq> None
                         then sp_dml eng
                           (''UPDATE user_collections SET modified = @modified '' @
                            ''WHERE fxa_uid = @fxa_uid AND fxa_kid = @fxa_kid '' @
                            ''AND collection_id = @collection_id'') params types
                         else sp_dml eng
                           (''INSERT INTO user_collections (fxa_uid, fxa_kid, collection_id, modified) '' @
                            ''VALUES (@fxa_uid, @fxa_kid, @collection_id, @modified)'') params types)
                        (seq_r (sp_set (\<lambda>ss. ss\<lparr>sp_touched := True\<rparr>)) (return_r timestamp))))))"

definition delete_bso_async ::
  "'s spanner_conn \<Rightarrow> hawk_identifier \<Rightarrow> string \<Rightarrow> string \<Rightarrow> ('s, sync_timestamp) sp_op" where
  "delete_bso_async eng user_id collection i =
     bind_r (get_collection_id_async eng collection)
       (\<lambda>collection_id. bind_r (touch_collection_async eng user_id collection_id)
         (\<lambda>touch. bind_r
            (sp_dml eng
              (''DELETE FROM bsos WHERE fxa_uid = @fxa_uid AND fxa_kid = @fxa_kid '' @
               ''AND collection_id = @collection_id AND bso_id = @bso_id'')
              (params_of [(''fxa_uid'', fxa_uid user_id), (''fxa_kid'', fxa_kid user_id),
                 (''collection_id'', show_int collection_id), (''bso_id'', i)]) [])
            (\<lambda>affected_rows.
               if affected_rows = 0 then throw_r (db_error_of BsoNotFound) else return_r touch)))"

definition delete_bsos_async ::
  "'s spanner_conn \<Rightarrow> hawk_identifier \<Rightarrow> string \<Rightarrow> string list \<Rightarrow> ('s, sync_timestamp) sp_op" where
  "delete_bsos_async eng user_id collection is =
     bind_r (get_collection_id_async eng collection)
       (\<lambda>collection_id. seq_r
          (sp_dml eng
            (''DELETE FROM bsos WHERE fxa_uid = @fxa_uid AND fxa_kid = @fxa_kid '' @
             ''AND collection_id = @collection_id AND bso_id IN UNNEST(@ids)'')
            (AList.update ''ids'' (as_list_value is)
              (params_of [(''fxa_uid'', fxa_uid user_id), (''fxa_kid'', fxa_kid user_id),
                 (''collection_id'', show_int collection_id)])) [])
          (touch_collection_async eng user_id collection_id))"

section \<open>Reading BSOs\<close>

text \<open>
  The text and the parameters a query on BSOs gets from what the client asked for. The limit is one
  more than asked for, or with an offset alone the largest number that does not overflow.
\<close>

definition bsos_clauses :: "bso_query_params \<Rightarrow> string" where
  "bsos_clauses params =
     (if ids params = [] then [] else '' AND bso_id IN UNNEST(@ids)'') @
     (if older params = None then [] else '' AND modified < @older'') @
     (if newer params = None then [] else '' AND modified > @newer'') @
     (case sort_by params of
        Index \<Rightarrow> '' ORDER BY sortindex DESC''
      | Newest \<Rightarrow> '' ORDER BY modified DESC''
      | Oldest \<Rightarrow> '' ORDER BY modified ASC''
      | SortNone \<Rightarrow> []) @
     (case limit params of
        Some n \<Rightarrow> '' LIMIT '' @ show_int (int n + 1)
      | None \<Rightarrow>
          (case offset_opt params of
             Some off \<Rightarrow> '' LIMIT '' @ show_int (wrap_i64 ((2 ^ 63 - 1) - u64_as_i64 (off_offset off)))
           | None \<Rightarrow> [])) @
     (case offset_opt params of None \<Rightarrow> [] | Some off \<Rightarrow> '' OFFSET '' @ show_nat (unat (off_offset off)))"

definition bsos_time_params ::
  "'s spanner_conn \<Rightarrow> bso_query_params \<Rightarrow> (string, spanner_value) table \<Rightarrow>
     db_error + (string, spanner_value) table" where
  "bsos_time_params eng params table =
     and_then (case older params of
                 None \<Rightarrow> Inr table
               | Some t \<Rightarrow> map_sum id (\<lambda>s. AList.update ''older'' (as_value s) table) (as_rfc3339 (print_time eng) t))
       (\<lambda>table. case newer params of
          None \<Rightarrow> Inr table
        | Some t \<Rightarrow> map_sum id (\<lambda>s. AList.update ''newer'' (as_value s) table) (as_rfc3339 (print_time eng) t))"

definition bsos_query_async ::
  "'s spanner_conn \<Rightarrow> string \<Rightarrow> hawk_identifier \<Rightarrow> string \<Rightarrow> bso_query_params \<Rightarrow>
     ('s, streamed_result_set) sp_op" where
  "bsos_query_async eng query_str user_id collection params =
     bind_r (get_collection_id_async eng collection)
       (\<lambda>collection_id.
          let base = params_of [(''fxa_uid'', fxa_uid user_id), (''fxa_kid'', fxa_kid user_id),
                (''collection_id'', show_int collection_id)];
              with_ids = (if ids params = [] then base
                          else AList.update ''ids'' (as_list_value (ids params)) base);
              types = (case newer params of None \<Rightarrow> id | Some _ \<Rightarrow> AList.update ''newer'' (as_type TypeTimestamp))
                ((case older params of None \<Rightarrow> id | Some _ \<Rightarrow> AList.update ''older'' (as_type TypeTimestamp)) [])
          in bind_r (lift_r (bsos_time_params eng params with_ids))
            (\<lambda>sqlparams. sp_query eng (query_str @ bsos_clauses params) sqlparams types))"

definition encode_next_offset :: "u64 \<Rightarrow> int list \<Rightarrow> string option" where
  "encode_next_offset off modifieds =
     Some (offset_to_string \<lparr>off_timestamp = None, off_offset = off + of_nat (length modifieds)\<rparr>)"

definition sp_limit :: "bso_query_params \<Rightarrow> int" where
  "sp_limit params = (case limit params of None \<Rightarrow> - 1 | Some n \<Rightarrow> int n)"

definition sp_offset :: "bso_query_params \<Rightarrow> u64" where
  "sp_offset params = off_offset (case offset_opt params of None \<Rightarrow> default_offset | Some off \<Rightarrow> off)"

definition stream_rows ::
  "'s spanner_conn \<Rightarrow> streamed_result_set \<Rightarrow> (spanner_value list \<Rightarrow> db_error + 'a) \<Rightarrow> db_error + 'a list" where
  "stream_rows eng sr f =
     (case read_rows (type_text eng) sr of
        (rows, e) \<Rightarrow> and_then (collect_r (map f rows))
          (\<lambda>as. case e of None \<Rightarrow> Inr as | Some e \<Rightarrow> Inl e))"

definition get_bsos_async ::
  "'s spanner_conn \<Rightarrow> hawk_identifier \<Rightarrow> string \<Rightarrow> bso_query_params \<Rightarrow>
     ('s, get_bso_result paginated) sp_op" where
  "get_bsos_async eng user_id collection params =
     bind_r (bsos_query_async eng
              (''SELECT bso_id, sortindex, payload, modified, expiry FROM bsos '' @
               ''WHERE fxa_uid = @fxa_uid AND fxa_kid = @fxa_kid '' @
               ''AND collection_id = @collection_id AND expiry > CURRENT_TIMESTAMP()'')
              user_id collection params)
       (\<lambda>sr. bind_r (lift_r (stream_rows eng sr (bso_from_row eng)))
         (\<lambda>bsos. return_r
            (if sp_limit params \<ge> 0 \<and> length bsos > nat (sp_limit params)
             then \<lparr>pg_items = butlast bsos,
                   pg_offset = encode_next_offset (sp_offset params)
                     (map (\<lambda>b. as_i64 (gb_modified b)) (butlast bsos))\<rparr>
             else \<lparr>pg_items = bsos, pg_offset = None\<rparr>)))"

definition get_bso_ids_async ::
  "'s spanner_conn \<Rightarrow> hawk_identifier \<Rightarrow> string \<Rightarrow> bso_query_params \<Rightarrow> ('s, string paginated) sp_op" where
  "get_bso_ids_async eng user_id collection params =
     bind_r (bsos_query_async eng
              (''SELECT bso_id, modified FROM bsos WHERE fxa_uid = @fxa_uid AND fxa_kid = @fxa_kid '' @
               ''AND collection_id = @collection_id AND expiry > CURRENT_TIMESTAMP()'')
              user_id collection params)
       (\<lambda>sr. bind_r (lift_r (stream_rows eng sr
                (\<lambda>row. map_sum id (\<lambda>t. (string_value (column row 0), as_i64 t)) (time_column eng (column row 1)))))
         (\<lambda>rows. return_r
            (if sp_limit params \<ge> 0 \<and> length rows > nat (sp_limit params)
             then \<lparr>pg_items = map fst (butlast rows),
                   pg_offset = encode_next_offset (sp_offset params) (map snd (butlast rows))\<rparr>
             else \<lparr>pg_items = map fst rows, pg_offset = None\<rparr>)))"

definition get_bso_async ::
  "'s spanner_conn \<Rightarrow> hawk_identifier \<Rightarrow> string \<Rightarrow> string \<Rightarrow> ('s, get_bso_result option) sp_op" where
  "get_bso_async eng user_id collection i =
     bind_r (get_collection_id_async eng collection)
       (\<lambda>collection_id. bind_r
          (sp_one_or_none eng
            (''SELECT bso_id, sortindex, payload, modified, expiry FROM bsos '' @
             ''WHERE fxa_uid = @fxa_uid AND fxa_kid = @fxa_kid AND collection_id = @collection_id '' @
             ''AND bso_id = @bso_id AND expiry > CURRENT_TIMESTAMP()'')
            (params_of [(''fxa_uid'', fxa_uid user_id), (''fxa_kid'', fxa_kid user_id),
               (''collection_id'', show_int collection_id), (''bso_id'', i)]) [])
          (\<lambda>row. case row of
             None \<Rightarrow> return_r None
           | Some row \<Rightarrow> lift_r (map_sum id Some (bso_from_row eng row))))"

definition get_bso_timestamp_async ::
  "'s spanner_conn \<Rightarrow> hawk_identifier \<Rightarrow> string \<Rightarrow> string \<Rightarrow> ('s, sync_timestamp) sp_op" where
  "get_bso_timestamp_async eng user_id collection i =
     bind_r (get_collection_id_async eng collection)
       (\<lambda>collection_id. bind_r
          (sp_one_or_none eng
            (''SELECT modified FROM bsos '' @
             ''WHERE fxa_uid = @fxa_uid AND fxa_kid = @fxa_kid AND collection_id = @collection_id '' @
             ''AND bso_id = @bso_id AND expiry > CURRENT_TIMESTAMP()'')
            (params_of [(''fxa_uid'', fxa_uid user_id), (''fxa_kid'', fxa_kid user_id),
               (''collection_id'', show_int collection_id), (''bso_id'', i)]) [])
          (\<lambda>row. lift_r (case row of
             None \<Rightarrow> ts_from_i64 0
           | Some row \<Rightarrow> time_column eng (column row 0))))"

section \<open>Posting BSOs\<close>

text \<open>
  The rows to write: new BSOs are inserted, existing ones updated, the updates grouped by the columns
  they set. The map of groups has no order of its own: here the groups are in the order of their
  first row.
\<close>

record spanner_load =
  ld_inserts :: "spanner_value list list"
  ld_updates :: "(string list, spanner_value list list) table"
  ld_success :: "string list"
  ld_size :: nat

fun load_bsos ::
  "'s spanner_conn \<Rightarrow> hawk_identifier \<Rightarrow> int \<Rightarrow> sync_timestamp \<Rightarrow> string list \<Rightarrow>
     post_collection_bso list \<Rightarrow> spanner_load \<Rightarrow> db_error + spanner_load" where
  "load_bsos eng user_id collection_id now existing [] ld = Inr ld"
| "load_bsos eng user_id collection_id now existing (b # bs) ld =
     (let ld = ld\<lparr>ld_success := ld_success ld @ [pb_id b]\<rparr>
      in if pb_id b \<in> set existing
         then and_then (bso_to_update_row eng user_id collection_id b now)
           (\<lambda>(columns, values). load_bsos eng user_id collection_id now existing bs
              (ld\<lparr>ld_size := ld_size ld + row_size eng values,
                  ld_updates := AList.update columns
                    ((case map_of (ld_updates ld) columns of None \<Rightarrow> [] | Some rows \<Rightarrow> rows) @ [values])
                    (ld_updates ld)\<rparr>))
         else and_then (bso_to_insert_row eng user_id collection_id b now)
           (\<lambda>values. load_bsos eng user_id collection_id now existing bs
              (ld\<lparr>ld_size := ld_size ld + row_size eng values, ld_inserts := ld_inserts ld @ [values]\<rparr>)))"

fun buffer_updates :: "(string list \<times> spanner_value list list) list \<Rightarrow> ('s, unit) sp_op" where
  "buffer_updates [] = return_r ()"
| "buffer_updates ((columns, values) # groups) =
     seq_r (update_rows ''bsos'' columns values) (buffer_updates groups)"

definition post_bsos_async ::
  "'s spanner_conn \<Rightarrow> hawk_identifier \<Rightarrow> string \<Rightarrow> post_collection_bso list \<Rightarrow> (string, string) table \<Rightarrow>
     ('s, post_bsos_result) sp_op" where
  "post_bsos_async eng user_id collection bs failed =
     bind_r (get_or_create_collection_id_async eng collection)
       (\<lambda>collection_id. bind_r (touch_collection_async eng user_id collection_id)
         (\<lambda>timestamp. bind_r
            (sp_rows eng
              (''SELECT bso_id FROM bsos WHERE fxa_uid = @fxa_uid AND fxa_kid = @fxa_kid '' @
               ''AND collection_id = @collection_id AND bso_id IN UNNEST(@ids)'')
              (AList.update ''ids'' (as_list_value (map pb_id bs))
                (params_of [(''fxa_uid'', fxa_uid user_id), (''fxa_kid'', fxa_kid user_id),
                   (''collection_id'', show_int collection_id)])) []
              (\<lambda>row existing. return_r (existing @ [string_value (column row 0)])) [])
            (\<lambda>existing. bind_r
               (lift_r (load_bsos eng user_id collection_id timestamp existing bs
                  \<lparr>ld_inserts = [], ld_updates = [], ld_success = [], ld_size = 0\<rparr>))
               (\<lambda>ld.
                  if ld_size ld > MAX_SPANNER_LOAD_SIZE
                  then throw_r (db_error_of (SpannerTooLarge
                         (''Committed data too large: '' @ show_nat (ld_size ld))))
                  else seq_r
                    (if ld_inserts ld = [] then return_r ()
                     else insert_rows ''bsos''
                       [''fxa_uid'', ''fxa_kid'', ''collection_id'', ''bso_id'', ''sortindex'', ''payload'',
                        ''modified'', ''expiry''] (ld_inserts ld))
                    (seq_r (buffer_updates (ld_updates ld))
                      (return_r \<lparr>pr_modified = timestamp, pr_success = ld_success ld,
                                 pr_failed = failed\<rparr>))))))"

definition put_bso_async :: "'s spanner_conn \<Rightarrow> put_bso_params \<Rightarrow> ('s, sync_timestamp) sp_op" where
  "put_bso_async eng bso =
     bind_r (post_bsos_async eng (pp_user_id bso) (pp_collection bso)
              [\<lparr>pb_id = pp_id bso, pb_sortindex = pp_sortindex bso, pb_payload = pp_payload bso,
                pb_ttl = pp_ttl bso\<rparr>] [])
       (\<lambda>result. return_r (pr_modified result))"

definition check_async :: "'s spanner_conn \<Rightarrow> ('s, bool) sp_op" where
  "check_async eng = seq_r (sp_one eng ''SELECT CURRENT_TIMESTAMP()'' [] []) (return_r True)"

end
