(* ===== verification/Spanner_Batch.thy ===== *)
theory Spanner_Batch
  imports Spanner_Models
begin

text \<open>
  Batched uploads in Spanner (\<open>src/db/spanner/batch.rs\<close>, \<open>batch_commit_update.sql\<close>,
  \<open>batch_commit_insert.sql\<close>): a batch is a row of \<open>batches\<close> with its BSOs in \<open>batch_bsos\<close>, and the
  server itself copies them into \<open>bsos\<close> when the batch is committed.
\<close>

definition user_params :: "hawk_identifier \<Rightarrow> int \<Rightarrow> (string \<times> string) list" where
  "user_params user_id collection_id =
     [(''fxa_uid'', fxa_uid user_id), (''fxa_kid'', fxa_kid user_id),
      (''collection_id'', show_int collection_id)]"

text \<open>A parent row in \<open>user_collections\<close>, with a time that other queries ignore.\<close>

definition pretouch_collection_async ::
  "'s spanner_conn \<Rightarrow> hawk_identifier \<Rightarrow> int \<Rightarrow> ('s, unit) sp_op" where
  "pretouch_collection_async eng user_id collection_id =
     bind_r (sp_one_or_none eng
              (''SELECT 1 FROM user_collections WHERE fxa_uid = @fxa_uid AND fxa_kid = @fxa_kid '' @
               ''AND collection_id = @collection_id'')
              (params_of (user_params user_id collection_id)) [])
       (\<lambda>result.
          if result \<noteq> None then return_r ()
          else seq_r
            (sp_dml eng
              (''INSERT INTO user_collections (fxa_uid, fxa_kid, collection_id, modified) '' @
               ''VALUES (@fxa_uid, @fxa_kid, @collection_id, @modified)'')
              (params_of (user_params user_id collection_id @ [(''modified'', PRETOUCH_TS)]))
              (param_types_of [(''modified'', TypeTimestamp)]))
            (return_r ()))"

definition append_row ::
  "hawk_identifier \<Rightarrow> int \<Rightarrow> string \<Rightarrow> post_collection_bso \<Rightarrow> spanner_value" where
  "append_row user_id collection_id b bso =
     ListValue
       [as_value (fxa_uid user_id), as_value (fxa_kid user_id), as_value (show_int collection_id),
        as_value b, as_value (pb_id bso),
        (case pb_sortindex bso of None \<Rightarrow> null_value | Some k \<Rightarrow> as_value (show_int k)),
        (case pb_payload bso of None \<Rightarrow> null_value | Some p \<Rightarrow> as_value p),
        (case pb_ttl bso of None \<Rightarrow> null_value | Some n \<Rightarrow> as_value (show_nat n))]"

definition batch_row_type :: spanner_type where
  "batch_row_type = ArrayType (StructType (map (\<lambda>(name, t). struct_type_field name t)
     [(''fxa_uid'', TypeString), (''fxa_kid'', TypeString), (''collection_id'', TypeInt64),
      (''batch_id'', TypeString), (''batch_bso_id'', TypeString), (''sortindex'', TypeInt64),
      (''payload'', TypeString), (''ttl'', TypeInt64)]))"

definition do_append_async ::
  "'s spanner_conn \<Rightarrow> hawk_identifier \<Rightarrow> int \<Rightarrow> string \<Rightarrow> post_collection_bso list \<Rightarrow> ('s, unit) sp_op"
where
  "do_append_async eng user_id collection_id b bs =
     seq_r
       (sp_dml eng
         (''INSERT INTO batch_bsos (fxa_uid, fxa_kid, collection_id, batch_id, batch_bso_id, '' @
          ''sortindex, payload, ttl) SELECT * FROM UNNEST(@values)'')
         [(''values'', ListValue (map (append_row user_id collection_id b) bs))]
         [(''values'', batch_row_type)])
       (return_r ())"

definition sp_batch_create ::
  "'s spanner_conn \<Rightarrow> hawk_identifier \<Rightarrow> string \<Rightarrow> post_collection_bso list \<Rightarrow> ('s, string) sp_op" where
  "sp_batch_create eng user_id collection bs =
     bind_r (\<lambda>db. case new_uuid eng (sp_conn db) of (b, c) \<Rightarrow> (Inr b, db\<lparr>sp_conn := c\<rparr>))
       (\<lambda>b. bind_r (get_collection_id_async eng collection)
         (\<lambda>collection_id. bind_r sp_timestamp_of
           (\<lambda>timestamp. seq_r (pretouch_collection_async eng user_id collection_id)
             (bind_r (sql_request eng
                       (''INSERT INTO batches (fxa_uid, fxa_kid, collection_id, batch_id, expiry) '' @
                        ''VALUES (@fxa_uid, @fxa_kid, @collection_id, @batch_id, @expiry)''))
               (\<lambda>rq. bind_r
                 (lift_r (to_rfc3339 (print_time eng) (wrap_i64 (as_i64 timestamp + BATCH_LIFETIME))))
                 (\<lambda>expiry. seq_r
                   (execute_dml_async eng
                     (prepare_request
                       (params_of (user_params user_id collection_id @ [(''batch_id'', b), (''expiry'', expiry)]))
                       (param_types_of [(''expiry'', TypeTimestamp)]) rq))
                   (seq_r (do_append_async eng user_id collection_id b bs) (return_r b))))))))"

text \<open>Both \<open>validate\<close> and \<open>get\<close> look for a batch that has not expired.\<close>

definition select_batch_async ::
  "'s spanner_conn \<Rightarrow> hawk_identifier \<Rightarrow> string \<Rightarrow> string \<Rightarrow> ('s, spanner_value list option) sp_op" where
  "select_batch_async eng user_id collection b =
     bind_r (get_collection_id_async eng collection)
       (\<lambda>collection_id. sp_one_or_none eng
          (''SELECT 1 FROM batches WHERE fxa_uid = @fxa_uid AND fxa_kid = @fxa_kid '' @
           ''AND collection_id = @collection_id AND batch_id = @batch_id AND expiry > CURRENT_TIMESTAMP()'')
          (params_of (user_params user_id collection_id @ [(''batch_id'', b)])) [])"

definition sp_batch_validate ::
  "'s spanner_conn \<Rightarrow> hawk_identifier \<Rightarrow> string \<Rightarrow> string \<Rightarrow> ('s, bool) sp_op" where
  "sp_batch_validate eng user_id collection b =
     bind_r (select_batch_async eng user_id collection b) (\<lambda>row. return_r (row \<noteq> None))"

definition sp_batch_append ::
  "'s spanner_conn \<Rightarrow> hawk_identifier \<Rightarrow> string \<Rightarrow> string \<Rightarrow> post_collection_bso list \<Rightarrow> ('s, unit) sp_op"
where
  "sp_batch_append eng user_id collection b bs =
     bind_r (sp_batch_validate eng user_id collection b)
       (\<lambda>exists.
          if \<not> exists then throw_r (db_error_of BatchNotFound)
          else bind_r (get_collection_id_async eng collection)
            (\<lambda>collection_id. do_append_async eng user_id collection_id b bs))"

definition sp_batch_get ::
  "'s spanner_conn \<Rightarrow> hawk_identifier \<Rightarrow> string \<Rightarrow> string \<Rightarrow> ('s, batch option) sp_op" where
  "sp_batch_get eng user_id collection b =
     bind_r (select_batch_async eng user_id collection b)
       (\<lambda>row. return_r (map_option (\<lambda>_. \<lparr>batch_id = b, batch_bsos = [], batch_expiry = 0\<rparr>) row))"

definition sp_batch_delete ::
  "'s spanner_conn \<Rightarrow> hawk_identifier \<Rightarrow> string \<Rightarrow> string \<Rightarrow> ('s, unit) sp_op" where
  "sp_batch_delete eng user_id collection b =
     bind_r (get_collection_id_async eng collection)
       (\<lambda>collection_id. seq_r
          (sp_dml eng
            (''DELETE FROM batches WHERE fxa_uid = @fxa_uid AND fxa_kid = @fxa_kid '' @
             ''AND collection_id = @collection_id AND batch_id = @batch_id'')
            (params_of (user_params user_id collection_id @ [(''batch_id'', b)])) [])
          (return_r ()))"

text \<open>The two statements of a commit, with the sub-query they share.\<close>

definition batch_column :: "string \<Rightarrow> string" where
  "batch_column expr =
     ''(SELECT '' @ expr @ '' FROM batch_bsos WHERE fxa_uid = @fxa_uid AND fxa_kid = @fxa_kid '' @
     ''AND collection_id = @collection_id AND batch_id = @batch_id AND batch_bso_id = bsos.bso_id)''"

definition batch_commit_update :: string where
  "batch_commit_update =
     ''UPDATE bsos SET sortindex = COALESCE('' @ batch_column ''sortindex'' @ '', bsos.sortindex), '' @
     ''payload = COALESCE('' @ batch_column ''payload'' @ '', bsos.payload), '' @
     ''modified = @timestamp, '' @
     ''expiry = COALESCE('' @ batch_column ''TIMESTAMP_ADD(@timestamp, INTERVAL ttl SECOND)'' @
     '', bsos.expiry) '' @
     ''WHERE fxa_uid = @fxa_uid AND fxa_kid = @fxa_kid AND collection_id = @collection_id '' @
     ''AND bso_id in (SELECT batch_bso_id FROM batch_bsos WHERE fxa_uid = @fxa_uid '' @
     ''AND fxa_kid = @fxa_kid AND collection_id = @collection_id AND batch_id = @batch_id)''"

definition batch_commit_insert :: string where
  "batch_commit_insert =
     ''INSERT INTO bsos (fxa_uid, fxa_kid, collection_id, bso_id, sortindex, payload, modified, expiry) '' @
     ''SELECT batch_bsos.fxa_uid, batch_bsos.fxa_kid, batch_bsos.collection_id, batch_bsos.batch_bso_id, '' @
     ''batch_bsos.sortindex, COALESCE(batch_bsos.payload, '' @ [CHR 0x27, CHR 0x27] @ ''), @timestamp, '' @
     ''COALESCE(TIMESTAMP_ADD(@timestamp, INTERVAL batch_bsos.ttl SECOND), '' @
     ''TIMESTAMP_ADD(@timestamp, INTERVAL @default_bso_ttl SECOND)) '' @
     ''FROM batch_bsos WHERE fxa_uid = @fxa_uid AND fxa_kid = @fxa_kid '' @
     ''AND collection_id = @collection_id AND batch_id = @batch_id AND batch_bso_id NOT in ('' @
     ''SELECT bso_id FROM bsos WHERE fxa_uid = @fxa_uid AND fxa_kid = @fxa_kid '' @
     ''AND collection_id = @collection_id)''"

definition sp_batch_commit ::
  "'s spanner_conn \<Rightarrow> hawk_identifier \<Rightarrow> string \<Rightarrow> batch \<Rightarrow> ('s, post_bsos_result) sp_op" where
  "sp_batch_commit eng user_id collection b =
     bind_r (get_collection_id_async eng collection)
       (\<lambda>collection_id. bind_r (touch_collection_async eng user_id collection_id)
         (\<lambda>timestamp. bind_r (lift_r (as_rfc3339 (print_time eng) timestamp))
           (\<lambda>now.
              let params = user_params user_id collection_id @
                    [(''batch_id'', batch_id b), (''timestamp'', now)]
              in seq_r
                   (sp_dml eng batch_commit_update (params_of params)
                     (param_types_of [(''timestamp'', TypeTimestamp)]))
                 (seq_r
                   (sp_dml eng batch_commit_insert
                     (params_of (params @ [(''default_bso_ttl'', show_nat DEFAULT_BSO_TTL)]))
                     (param_types_of [(''timestamp'', TypeTimestamp), (''default_bso_ttl'', TypeInt64)]))
                 (seq_r (sp_batch_delete eng user_id collection (batch_id b))
                   (return_r \<lparr>pr_modified = timestamp, pr_success = [], pr_failed = []\<rparr>))))))"

text \<open>\<open>parse_uuid\<close> answers the error of the uuid library, if any.\<close>

definition sp_validate_batch_id :: "(string \<Rightarrow> string option) \<Rightarrow> string \<Rightarrow> db_error + unit" where
  "sp_validate_batch_id parse_uuid i =
     (case parse_uuid i of
        None \<Rightarrow> Inr ()
      | Some e \<Rightarrow> Inl (db_internal (''Invalid batch_id: '' @ e)))"

end
