(* ===== verification/Spanner_Ops.thy ===== *)
theory Spanner_Ops
  imports Spanner_Batch Db_Transaction
begin

text \<open>
  Spanner behind the storage interface: the pool (\<open>src/db/spanner/pool.rs\<close>), the checks of its
  manager (\<open>src/db/spanner/manager.rs\<close>), and the \<open>Db\<close> methods of the session
  (\<open>src/db/spanner/models.rs\<close>), which turn a database error into an API error. The bb8 library's
  pool is the call \<open>call_session\<close>; connecting to the service is its own.
\<close>

section \<open>The pool\<close>

text \<open>The name of the database, from the URL of the settings.\<close>

definition new_manager :: "string \<Rightarrow> db_error + string" where
  "new_manager url =
     (if take (length ''spanner://'') url \<noteq> ''spanner://'' then Inl (db_error_of (InvalidUrl url))
      else Inr (drop (length ''spanner://'') url))"

text \<open>A session the service has forgotten is replaced.\<close>

definition is_valid ::
  "('s, grpc_error, unit) comp \<Rightarrow> ('s, grpc_error, unit) comp \<Rightarrow> ('s, grpc_error, unit) comp" where
  "is_valid get_session create_session =
     catch_r get_session
       (\<lambda>e. case e of
          RpcFailure RpcNotFound _ \<Rightarrow> create_session
        | _ \<Rightarrow> throw_r e)"

definition sp_api_of :: "('s, 'a) sp_op \<Rightarrow> ('s spanner_db, 'a) api_op" where
  "sp_api_of m = map_err_r api_error_of_db m"

definition get_async :: "'s spanner_conn \<Rightarrow> ('s, unit) sp_op" where
  "get_async eng db =
     (case call_session eng (sp_conn db) of
        (Inl msg, c) \<Rightarrow> (Inl (db_error_of (Bb8Error msg)), db\<lparr>sp_conn := c\<rparr>)
      | (Inr _, c) \<Rightarrow> (Inr (), new_spanner_db c (sp_cache db)))"

definition spanner_pool_get :: "'s spanner_conn \<Rightarrow> ('s spanner_db, unit) api_op" where
  "spanner_pool_get eng = sp_api_of (get_async eng)"

section \<open>The operations\<close>

definition spanner_ops :: "'s spanner_conn \<Rightarrow> 's spanner_db db_ops" where
  "spanner_ops eng =
     \<lparr>lock_for_read = (\<lambda>hawk coll. sp_api_of (lock_for_read_async eng hawk coll)),
      lock_for_write = (\<lambda>hawk coll. sp_api_of (lock_for_write_async eng hawk coll)),
      begin_op = (\<lambda>w. sp_api_of (begin_async eng w)),
      commit_op = sp_api_of (commit_async eng),
      rollback_op = sp_api_of (rollback_async eng),
      get_collection_timestamps = (\<lambda>hawk. sp_api_of (get_collection_timestamps_async eng hawk)),
      get_collection_timestamp = (\<lambda>hawk coll. sp_api_of (get_collection_timestamp_async eng hawk coll)),
      get_collection_counts = (\<lambda>hawk. sp_api_of (get_collection_counts_async eng hawk)),
      get_collection_usage = (\<lambda>hawk. sp_api_of (get_collection_usage_async eng hawk)),
      get_storage_timestamp = (\<lambda>hawk. sp_api_of (get_storage_timestamp_async eng hawk)),
      get_storage_usage = (\<lambda>hawk. sp_api_of (get_storage_usage_async eng hawk)),
      delete_storage = (\<lambda>hawk. sp_api_of (delete_storage_async eng hawk)),
      delete_collection = (\<lambda>hawk coll. sp_api_of (delete_collection_async eng hawk coll)),
      delete_bsos = (\<lambda>hawk coll is. sp_api_of (delete_bsos_async eng hawk coll is)),
      get_bsos = (\<lambda>hawk coll params. sp_api_of (get_bsos_async eng hawk coll params)),
      get_bso_ids = (\<lambda>hawk coll params. sp_api_of (get_bso_ids_async eng hawk coll params)),
      post_bsos = (\<lambda>hawk coll bs failed. sp_api_of (post_bsos_async eng hawk coll bs failed)),
      delete_bso = (\<lambda>hawk coll i. sp_api_of (delete_bso_async eng hawk coll i)),
      get_bso = (\<lambda>hawk coll i. sp_api_of (get_bso_async eng hawk coll i)),
      get_bso_timestamp = (\<lambda>hawk coll i. sp_api_of (get_bso_timestamp_async eng hawk coll i)),
      put_bso = (\<lambda>bso. sp_api_of (put_bso_async eng bso)),
      create_batch = (\<lambda>hawk coll bs. sp_api_of (sp_batch_create eng hawk coll bs)),
      validate_batch = (\<lambda>hawk coll b. sp_api_of (sp_batch_validate eng hawk coll b)),
      append_to_batch = (\<lambda>hawk coll b bs. sp_api_of (sp_batch_append eng hawk coll b bs)),
      get_batch = (\<lambda>hawk coll b. sp_api_of (sp_batch_get eng hawk coll b)),
      commit_batch = (\<lambda>hawk coll b. sp_api_of (sp_batch_commit eng hawk coll b)),
      check_op = sp_api_of (check_async eng)\<rparr>"

end
