(* ===== verification/Spanner_Scope.thy ===== *)
theory Spanner_Scope
  imports Spanner_Ops "HOL-Library.Sublist"
begin

text \<open>
  What the program sends to Spanner on behalf of a user: the calls of a session written down
  (\<open>logged\<close>), and the statements and mutations that name the user's rows and no others
  (\<open>statement_ok\<close>, \<open>mutation_ok\<close>).
\<close>

section \<open>The calls of a session\<close>

datatype spanner_call =
    CallSession
  | CallBegin bool
  | CallStream execute_sql_request
  | CallDml execute_sql_request
  | CallCommit string "spanner_mutation list"
  | CallRollback string

definition noting :: "spanner_call \<Rightarrow> ('s \<Rightarrow> 'r \<times> 's) \<Rightarrow> 's \<times> spanner_call list \<Rightarrow> 'r \<times> 's \<times> spanner_call list"
where
  "noting c f sl = (case f (fst sl) of (r, s) \<Rightarrow> (r, s, snd sl @ [c]))"

definition logged :: "'s spanner_conn \<Rightarrow> ('s \<times> spanner_call list) spanner_conn" where
  "logged eng =
     \<lparr>call_session = noting CallSession (call_session eng),
      call_begin = (\<lambda>w. noting (CallBegin w) (call_begin eng w)),
      call_stream = (\<lambda>rq. noting (CallStream rq) (call_stream eng rq)),
      call_dml = (\<lambda>rq. noting (CallDml rq) (call_dml eng rq)),
      call_commit = (\<lambda>i ms. noting (CallCommit i ms) (call_commit eng i ms)),
      call_rollback = (\<lambda>i. noting (CallRollback i) (call_rollback eng i)),
      new_uuid = (\<lambda>sl. case new_uuid eng (fst sl) of (b, s) \<Rightarrow> (b, s, snd sl)),
      print_time = print_time eng, parse_time = parse_time eng, int_error_text = int_error_text eng,
      type_text = type_text eng, row_size = row_size eng\<rparr>"

definition sp_log :: "('s \<times> spanner_call list) spanner_db \<Rightarrow> spanner_call list" where
  "sp_log db = snd (sp_conn db)"

section \<open>Statements\<close>

text \<open>The tokens of a statement: names, with their dots and their \<open>@\<close>, and single characters.\<close>

definition name_char :: "char \<Rightarrow> bool" where
  "name_char c \<longleftrightarrow> (let n = (of_char c :: nat) in
     48 \<le> n \<and> n \<le> 57 \<or> 64 \<le> n \<and> n \<le> 90 \<or> 97 \<le> n \<and> n \<le> 122 \<or> n = 95 \<or> n = 46)"

fun lex_sql :: "string \<Rightarrow> string \<Rightarrow> string list" where
  "lex_sql w [] = (if w = [] then [] else [w])"
| "lex_sql w (c # cs) =
     (if name_char c then lex_sql (w @ [c]) cs
      else (if w = [] then [] else [w]) @ (if c = CHR '' '' then [] else [[c]]) @ lex_sql [] cs)"

definition sql_tokens :: "string \<Rightarrow> string list" where
  "sql_tokens sql = lex_sql [] sql"

fun each_after :: "string \<Rightarrow> (string list \<Rightarrow> bool) \<Rightarrow> string list \<Rightarrow> bool" where
  "each_after w f [] = True"
| "each_after w f (t # ts) = ((t = w \<longrightarrow> f ts) \<and> each_after w f ts)"

text \<open>The tokens outside of parentheses.\<close>

fun top_level :: "nat \<Rightarrow> string list \<Rightarrow> string list" where
  "top_level n [] = []"
| "top_level n (t # ts) =
     (if t = ''('' then top_level (Suc n) ts
      else if t = '')'' then top_level (n - 1) ts
      else if n = 0 then t # top_level n ts else top_level n ts)"

definition user_tables :: "string list" where
  "user_tables = [''user_collections'', ''bsos'', ''batches'', ''batch_bsos'']"

definition key_condition :: "string list" where
  "key_condition = [''fxa_uid'', ''='', ''@fxa_uid'', ''AND'', ''fxa_kid'', ''='', ''@fxa_kid'']"

text \<open>
  A statement on the rows of one user: every table it reads, updates or deletes from is restricted to
  the keys \<open>@fxa_uid\<close> and \<open>@fxa_kid\<close>, by conditions that only \<open>AND\<close> weakens none of; what it inserts
  has these keys, those of a row so read, or those of the rows given as \<open>@values\<close>.
\<close>

definition from_ok :: "string list \<Rightarrow> bool" where
  "from_ok ts \<longleftrightarrow> take 3 ts = [''UNNEST'', ''('', ''@values''] \<or>
     (case ts of t # w # _ \<Rightarrow> t \<in> set user_tables \<and> w = ''WHERE'' | _ \<Rightarrow> False)"

definition insert_ok :: "string list \<Rightarrow> bool" where
  "insert_ok ts \<longleftrightarrow>
     (case ts of
        into # t # rest \<Rightarrow> into = ''INTO'' \<and> t \<in> set user_tables \<and>
          take 5 rest = [''('', ''fxa_uid'', '','', ''fxa_kid'', '',''] \<and>
          (sublist [''VALUES'', ''('', ''@fxa_uid'', '','', ''@fxa_kid'', '',''] rest \<or>
           sublist [''SELECT'', ''batch_bsos.fxa_uid'', '','', ''batch_bsos.fxa_kid'', '',''] rest \<or>
           sublist [''SELECT'', ''*'', ''FROM'', ''UNNEST'', ''('', ''@values'', '')''] rest)
      | _ \<Rightarrow> False)"

definition user_text :: "string list \<Rightarrow> bool" where
  "user_text ts \<longleftrightarrow> each_after ''FROM'' from_ok ts \<and> each_after ''INSERT'' insert_ok ts \<and>
     each_after ''WHERE'' (\<lambda>rest. take 7 rest = key_condition) ts \<and>
     (''UPDATE'' \<in> set ts \<longrightarrow> ''WHERE'' \<in> set (top_level 0 ts)) \<and> ''OR'' \<notin> set ts"

text \<open>Statements on no user's rows: the names of the collections, the time.\<close>

definition shared_text :: "string list \<Rightarrow> bool" where
  "shared_text ts \<longleftrightarrow> (\<forall>t \<in> set user_tables. t \<notin> set ts)"

definition placeholders :: "string list \<Rightarrow> string set" where
  "placeholders ts = tl ` {t \<in> set ts. t \<noteq> [] \<and> hd t = CHR ''@''}"

fun own_row :: "hawk_identifier \<Rightarrow> spanner_value list \<Rightarrow> bool" where
  "own_row hawk (u # k # _) \<longleftrightarrow> u = StringValue (fxa_uid hawk) \<and> k = StringValue (fxa_kid hawk)"
| "own_row hawk _ \<longleftrightarrow> False"

fun own_values :: "hawk_identifier \<Rightarrow> spanner_value \<Rightarrow> bool" where
  "own_values hawk (ListValue rows) \<longleftrightarrow>
     (\<forall>row \<in> set rows. case row of ListValue vs \<Rightarrow> own_row hawk vs | _ \<Rightarrow> False)"
| "own_values hawk _ \<longleftrightarrow> False"

definition own_param :: "hawk_identifier \<Rightarrow> string \<times> spanner_value \<Rightarrow> bool" where
  "own_param hawk p \<longleftrightarrow>
     (fst p = ''fxa_uid'' \<longrightarrow> snd p = StringValue (fxa_uid hawk)) \<and>
     (fst p = ''fxa_kid'' \<longrightarrow> snd p = StringValue (fxa_kid hawk)) \<and>
     (fst p = ''values'' \<longrightarrow> own_values hawk (snd p))"

definition statement_ok :: "hawk_identifier \<Rightarrow> string \<Rightarrow> (string, spanner_value) table \<Rightarrow> bool" where
  "statement_ok hawk sql params \<longleftrightarrow>
     (let ts = sql_tokens sql in
      (user_text ts \<or> shared_text ts) \<and> placeholders ts \<subseteq> fst ` set params \<and>
      list_all (own_param hawk) params)"

definition rows_ok :: "hawk_identifier \<Rightarrow> string list \<Rightarrow> spanner_value list list \<Rightarrow> bool" where
  "rows_ok hawk columns rows \<longleftrightarrow> take 2 columns = [''fxa_uid'', ''fxa_kid''] \<and>
     (\<forall>row \<in> set rows. own_row hawk row \<and> length row = length columns)"

fun mutation_ok :: "hawk_identifier \<Rightarrow> spanner_mutation \<Rightarrow> bool" where
  "mutation_ok hawk (InsertRows t columns rows) \<longleftrightarrow> rows_ok hawk columns rows"
| "mutation_ok hawk (UpdateRows t columns rows) \<longleftrightarrow> rows_ok hawk columns rows"
| "mutation_ok hawk (UpsertRows t columns rows) \<longleftrightarrow> rows_ok hawk columns rows"

fun call_ok :: "hawk_identifier \<Rightarrow> spanner_call \<Rightarrow> bool" where
  "call_ok hawk (CallStream rq) \<longleftrightarrow> statement_ok hawk (rq_sql rq) (rq_params rq)"
| "call_ok hawk (CallDml rq) \<longleftrightarrow> statement_ok hawk (rq_sql rq) (rq_params rq)"
| "call_ok hawk (CallCommit _ ms) \<longleftrightarrow> list_all (mutation_ok hawk) ms"
| "call_ok hawk _ \<longleftrightarrow> True"

end
