(* ===== verification/Spanner_Frame.thy ===== *)
theory Spanner_Frame
  imports Spanner_Scope
begin

text \<open>
  What an operation of the Spanner session does to the calls written down: a relation between states
  that the primitive steps keep, statements and mutations that are the user's provided, is kept by
  every operation.
\<close>

section \<open>Calls that change nothing\<close>

fun passive_call :: "spanner_call \<Rightarrow> bool" where
  "passive_call (CallBegin _) = True"
| "passive_call (CallStream _) = True"
| "passive_call _ = False"

definition quiet ::
  "('s \<times> spanner_call list) spanner_db \<Rightarrow> ('s \<times> spanner_call list) spanner_db \<Rightarrow> bool" where
  "quiet db db' \<longleftrightarrow> (\<exists>cs. sp_log db' = sp_log db @ cs \<and> list_all passive_call cs) \<and>
     sp_sql_count (sp_session db) \<le> sp_sql_count (sp_session db')"

lemma quiet_order:
  "reflp (quiet :: ('a \<times> spanner_call list) spanner_db \<Rightarrow> _)"
  "transp (quiet :: ('a \<times> spanner_call list) spanner_db \<Rightarrow> _)"
proof -
  show "reflp (quiet :: ('a \<times> spanner_call list) spanner_db \<Rightarrow> _)"
    by (rule reflpI) (simp add: quiet_def)
  show "transp (quiet :: ('a \<times> spanner_call list) spanner_db \<Rightarrow> _)"
    by (rule transpI) (auto simp: quiet_def)
qed

lemma bind_return: "bind_r (return_r a) f = f a"
  by (rule ext) simp

lemma bind_assoc: "bind_r (bind_r m f) g = bind_r m (\<lambda>a. bind_r (f a) g)"
  by (rule ext) (simp add: bind_r_def split: prod.split sum.split)

lemma preserves_case_prod [preserves_intros]:
  "(\<And>a b. preserves I (f a b)) \<Longrightarrow> preserves I (case x of (a, b) \<Rightarrow> f a b)"
  by (cases x) simp

lemma preserves_sp_get: "reflp I \<Longrightarrow> preserves I (sp_get f)"
  by (simp add: sp_get_def preserves_pure)

lemma logged_call_log:
  "sp_log (snd (call (noting c f) db)) = sp_log db @ [c]" "sp_session (snd (call (noting c f) db)) = sp_session db"
  by (simp_all add: call_def noting_def sp_log_def split: prod.split)

lemma logged_calls:
  "call_session (logged eng) = noting CallSession (call_session eng)"
  "call_begin (logged eng) w = noting (CallBegin w) (call_begin eng w)"
  "call_stream (logged eng) rq = noting (CallStream rq) (call_stream eng rq)"
  "call_dml (logged eng) rq = noting (CallDml rq) (call_dml eng rq)"
  "call_commit (logged eng) i ms = noting (CallCommit i ms) (call_commit eng i ms)"
  "call_rollback (logged eng) i = noting (CallRollback i) (call_rollback eng i)"
  by (simp_all add: logged_def)

lemma quiet_call: "passive_call c \<Longrightarrow> preserves quiet (call (noting c f))"
  by (simp add: preserves_def quiet_def logged_call_log)

lemma quiet_set:
  "(\<And>ss. sp_sql_count ss \<le> sp_sql_count (f ss)) \<Longrightarrow> preserves quiet (sp_set f)"
  by (simp add: preserves_def quiet_def sp_set_def sp_log_def)

lemma quiet_cache: "preserves quiet (sp_on_cache m)"
  by (auto simp: preserves_def quiet_def sp_on_cache_def sp_log_def split: prod.split)

lemmas quiet_intros = preserves_pure [OF quiet_order(1)] preserves_sp_get [OF quiet_order(1)]
  preserves_bind [OF quiet_order(2)] preserves_seq [OF quiet_order(2)] preserves_catch [OF quiet_order(2)]
  preserves_if preserves_case_option preserves_case_sum preserves_case_prod
  quiet_set quiet_cache quiet_call

text \<open>A statement takes the next number.\<close>

definition take_number :: "execute_sql_request \<Rightarrow> ('s, execute_sql_request) sp_op" where
  "take_number rq = bind_r (sp_get sp_sql_count)
     (\<lambda>n. if n \<ge> 2 ^ 63 then throw_r (db_internal ''seqno overflow'')
          else seq_r (sp_set (\<lambda>ss. ss\<lparr>sp_sql_count := n + 1\<rparr>)) (return_r (rq\<lparr>rq_seqno := int n\<rparr>)))"

lemma sql_request_number:
  "sql_request eng sql = bind_r (get_transaction eng)
     (\<lambda>t. let rq = \<lparr>rq_sql = sql, rq_transaction = t, rq_seqno = 0, rq_params = [], rq_param_types = []\<rparr>
          in if t = None then return_r rq else take_number rq)"
  by (simp only: sql_request_def take_number_def)

lemma take_number_run:
  "take_number rq db =
     (let n = sp_sql_count (sp_session db) in
      if n \<ge> 2 ^ 63 then (Inl (db_internal ''seqno overflow''), db)
      else (Inr (rq\<lparr>rq_seqno := int n\<rparr>), db\<lparr>sp_session := sp_session db\<lparr>sp_sql_count := n + 1\<rparr>\<rparr>))"
  by (simp add: take_number_def sp_get_def sp_set_def Let_def bind_r_def seq_r_def)

lemma quiet_take_number: "preserves quiet (take_number rq)"
  by (simp add: preserves_def quiet_def take_number_run sp_log_def Let_def)

lemma quiet_request: "preserves quiet (sql_request (logged eng) sql)"
  unfolding sql_request_number get_transaction_def begin_blocking_def Let_def logged_calls
  by (intro quiet_intros quiet_take_number; simp)

lemma quiet_query: "preserves quiet (sp_query (logged eng) sql ps ts)"
  unfolding sp_query_def execute_async_def logged_calls
  by (intro quiet_intros quiet_request; simp)

lemma quiet_get_collection_id: "preserves quiet (get_collection_id_async (logged eng) name)"
  unfolding get_collection_id_async_def sp_one_or_none_def
  by (intro quiet_intros quiet_query)

section \<open>The frame\<close>

text \<open>
  \<open>R_dml\<close>: a statement is numbered when it is built, and may be sent after some further reading.
\<close>

locale spanner_frame =
  fixes eng :: "'s spanner_conn"
    and hawk :: hawk_identifier
    and R :: "('s \<times> spanner_call list) spanner_db \<Rightarrow> ('s \<times> spanner_call list) spanner_db \<Rightarrow> bool"
  assumes R_order: "reflp R" "transp R"
    and R_set: "(\<And>ss. sp_mutations (f ss) = sp_mutations ss \<and> sp_sql_count (f ss) = sp_sql_count ss) \<Longrightarrow>
      preserves R (sp_set f)"
    and R_cache: "preserves R (sp_on_cache (cache_put i name))"
    and R_begin: "preserves R (call (call_begin (logged eng) w))"
    and R_request: "preserves R (sql_request (logged eng) sql)"
    and R_query: "statement_ok hawk sql ps \<Longrightarrow> preserves R (sp_query (logged eng) sql ps ts)"
    and R_dml: "sql_request (logged eng) sql db = (Inr rq, db1) \<Longrightarrow> R db1 db2 \<Longrightarrow> quiet db1 db2 \<Longrightarrow>
      statement_ok hawk sql ps \<Longrightarrow>
      R db (snd (execute_dml_async (logged eng) (prepare_request ps ts rq) db2))"
    and R_uuid: "R db (db\<lparr>sp_conn := snd (new_uuid (logged eng) (sp_conn db))\<rparr>)"
    and R_buffer: "mutation_ok hawk mu \<Longrightarrow> preserves R (buffer_mutation mu)"
    and R_end: "preserves R (commit_async (logged eng))" "preserves R (rollback_async (logged eng))"
begin

lemmas R_intros = preserves_pure [OF R_order(1)] preserves_sp_get [OF R_order(1)]
  preserves_bind [OF R_order(2)] preserves_seq [OF R_order(2)] preserves_catch [OF R_order(2)]
  preserves_if preserves_case_option preserves_case_sum preserves_case_prod
  R_set R_cache R_begin R_query

lemma R_deferred:
  assumes "preserves quiet m" "preserves R m" "\<And>x. statement_ok hawk sql (ps x)"
  shows "preserves R (bind_r (sql_request (logged eng) sql)
    (\<lambda>rq. bind_r m (\<lambda>x. execute_dml_async (logged eng) (prepare_request (ps x) ts rq))))"
  unfolding preserves_def
proof
  fix db
  let ?run = "\<lambda>rq. bind_r m (\<lambda>x. execute_dml_async (logged eng) (prepare_request (ps x) ts rq))"
  obtain r db1 where req: "sql_request (logged eng) sql db = (r, db1)"
    by (metis prod.collapse)
  obtain r2 db2 where m: "m db1 = (r2, db2)"
    by (metis prod.collapse)
  note R1 = preservesD [OF R_request req] and R2 = preservesD [OF assms(2) m]
  have "R db db2"
    using R1 R2 R_order(2) by (meson transpE)
  then show "R db (snd (bind_r (sql_request (logged eng) sql) ?run db))"
    using R1 R_dml [OF _ R2 preservesD [OF assms(1) m] assms(3)] req m
    by (cases r; cases r2) auto
qed

lemma R_sp_dml:
  assumes "statement_ok hawk sql ps"
  shows "preserves R (sp_dml (logged eng) sql ps ts)"
proof -
  have "sp_dml (logged eng) sql ps ts = bind_r (sql_request (logged eng) sql)
      (\<lambda>rq. bind_r (return_r ()) (\<lambda>_. execute_dml_async (logged eng) (prepare_request ps ts rq)))"
    by (simp add: sp_dml_def bind_return)
  then show ?thesis
    using R_deferred [of "return_r ()" sql "\<lambda>_. ps" ts] assms
    by (simp add: preserves_pure R_order quiet_order)
qed

lemma R_fold_rows: "(\<And>row acc. preserves R (f row acc)) \<Longrightarrow> preserves R (fold_rows f rows acc)"
  by (induction rows arbitrary: acc) (simp_all, intro R_intros, auto intro: R_intros)

lemma R_rows:
  assumes "statement_ok hawk sql ps" "\<And>row acc. preserves R (f row acc)"
  shows "preserves R (sp_rows (logged eng) sql ps ts f acc)"
  unfolding sp_rows_def by (intro R_intros R_fold_rows assms)

lemma R_one:
  assumes "statement_ok hawk sql ps"
  shows "preserves R (sp_one (logged eng) sql ps ts)" "preserves R (sp_one_or_none (logged eng) sql ps ts)"
  unfolding sp_one_def sp_one_or_none_def by (intro R_intros assms)+

lemma R_timestamp_of: "preserves R sp_timestamp_of"
  unfolding sp_timestamp_of_def by (intro R_intros)

lemmas R_statements = R_intros R_one R_rows R_sp_dml R_timestamp_of

end

end
