(* ===== verification/Spanner_Frame_Ops.thy ===== *)
theory Spanner_Frame_Ops
  imports Spanner_Frame
begin

text \<open>
  Every operation of the Spanner session keeps the relation of a \<open>spanner_frame\<close>: each statement it
  sends and each mutation it buffers is the user's.
\<close>

section \<open>Texts with optional clauses\<close>

text \<open>Clauses that start with a blank are tokens of their own.\<close>

definition blank_led :: "string \<Rightarrow> bool" where
  "blank_led s \<longleftrightarrow> (case s of [] \<Rightarrow> True | c # _ \<Rightarrow> c = CHR '' '')"

lemma lex_sql_blank: "lex_sql w (a @ CHR '' '' # b) = lex_sql w a @ lex_sql [] b"
proof -
  have "\<not> name_char CHR '' ''"
    by code_simp
  then show ?thesis
    by (induction w a rule: lex_sql.induct) auto
qed

lemma sql_tokens_append: "blank_led b \<Longrightarrow> sql_tokens (a @ b) = sql_tokens a @ sql_tokens b"
proof (cases b)
  case (Cons c b')
  assume "blank_led b"
  then have "b = CHR '' '' # b'"
    by (simp add: blank_led_def Cons)
  then show ?thesis
    using lex_sql_blank [of "[]" a b'] lex_sql_blank [of "[]" "[]" b'] by (simp add: sql_tokens_def)
qed (simp add: sql_tokens_def)

lemma blank_led_append: "blank_led a \<Longrightarrow> blank_led b \<Longrightarrow> blank_led (a @ b)"
  by (cases a) (auto simp: blank_led_def)

lemma each_after_absent: "w \<notin> set b \<Longrightarrow> each_after w f b"
  by (induction b) auto

text \<open>Tokens of numbers start with a digit or a sign.\<close>

lemma lex_sql_digits: "list_all is_digit s \<Longrightarrow> w @ s \<noteq> [] \<Longrightarrow> lex_sql w s = [w @ s]"
proof (induction s arbitrary: w)
  case (Cons c s)
  then have "name_char c"
    by (simp add: name_char_def is_digit_def)
  then show ?case
    using Cons by simp
qed simp

lemma sql_tokens_nat: "sql_tokens (show_nat n) = [show_nat n]"
  by (simp add: sql_tokens_def lex_sql_digits)

lemma sql_tokens_int: "set (sql_tokens (show_int k)) \<subseteq> {''-'', show_nat (nat \<bar>k\<bar>)}"
proof -
  have "\<not> name_char CHR ''-''"
    by code_simp
  then show ?thesis
    by (simp add: show_int_def sql_tokens_def lex_sql_digits)
qed

lemma show_nat_not_word: "\<not> is_digit c \<Longrightarrow> show_nat n \<noteq> c # cs"
  using show_nat_hd_digit [of n] by (cases "show_nat n") auto

lemma from_ok_append: "from_ok ts \<Longrightarrow> from_ok (ts @ us)"
  by (cases ts; cases "tl ts"; cases "tl (tl ts)") (auto simp: from_ok_def)

lemma take_append_eq: "take (length xs) ts = xs \<Longrightarrow> take (length xs) (ts @ us) = xs"
  by (metis append_eq_conv_conj append_take_drop_id append.assoc)

lemma each_after_extend:
  "each_after w f ts \<Longrightarrow> (\<And>r. f r \<Longrightarrow> f (r @ us)) \<Longrightarrow> w \<notin> set us \<Longrightarrow> each_after w f (ts @ us)"
  by (induction ts) (auto simp: each_after_absent)

lemma user_text_append:
  assumes "user_text ts" "''UPDATE'' \<notin> set ts" "''INSERT'' \<notin> set ts"
    and "{''FROM'', ''INSERT'', ''WHERE'', ''UPDATE'', ''OR''} \<inter> set us = {}"
  shows "user_text (ts @ us)"
proof -
  have "length key_condition = 7"
    by (simp add: key_condition_def)
  then have "take 7 (r @ us) = key_condition" if "take 7 r = key_condition" for r
    using take_append_eq [of key_condition r us] that by simp
  then have "each_after ''WHERE'' (\<lambda>rest. take 7 rest = key_condition) (ts @ us)"
    using assms by (intro each_after_extend) (simp_all add: user_text_def)
  moreover have "each_after ''FROM'' from_ok (ts @ us)"
    using assms from_ok_append by (intro each_after_extend) (simp_all add: user_text_def)
  moreover have "each_after ''INSERT'' insert_ok (ts @ us)"
    using assms by (intro each_after_absent) simp
  ultimately show ?thesis
    using assms by (simp add: user_text_def)
qed

lemma placeholders_append: "placeholders (ts @ us) = placeholders ts \<union> placeholders us"
  by (auto simp: placeholders_def)

subsection \<open>The clauses of a query on BSOs\<close>

definition plain_words :: "string set" where
  "plain_words =
     {''AND'', ''bso_id'', ''IN'', ''UNNEST'', ''('', '')'', ''modified'', ''<'', ''>'', ''ORDER'', ''BY'', ''sortindex'',
      ''DESC'', ''ASC'', ''LIMIT'', ''OFFSET'', ''-''}"

definition clause_marks :: "bso_query_params \<Rightarrow> string set" where
  "clause_marks params =
     (if ids params = [] then {} else {''ids''}) \<union> (if older params = None then {} else {''older''}) \<union>
     (if newer params = None then {} else {''newer''})"

definition clause_words :: "bso_query_params \<Rightarrow> string set" where
  "clause_words params = plain_words \<union> Cons (CHR ''@'') ` clause_marks params \<union> range show_nat"

lemma numbered_clause:
  "sql_tokens ('' LIMIT '' @ s) = ''LIMIT'' # sql_tokens s"
  "sql_tokens ('' OFFSET '' @ s) = ''OFFSET'' # sql_tokens s"
proof -
  have "sql_tokens '' LIMIT'' = [''LIMIT'']" "sql_tokens '' OFFSET'' = [''OFFSET'']"
    by code_simp+
  then show "sql_tokens ('' LIMIT '' @ s) = ''LIMIT'' # sql_tokens s"
    "sql_tokens ('' OFFSET '' @ s) = ''OFFSET'' # sql_tokens s"
    using lex_sql_blank [of "[]" "'' LIMIT''" s] lex_sql_blank [of "[]" "'' OFFSET''" s]
    by (simp_all add: sql_tokens_def)
qed

lemma plain_clauses:
  "sql_tokens '' AND bso_id IN UNNEST(@ids)'' = [''AND'', ''bso_id'', ''IN'', ''UNNEST'', ''('', ''@ids'', '')'']"
  "sql_tokens '' AND modified < @older'' = [''AND'', ''modified'', ''<'', ''@older'']"
  "sql_tokens '' AND modified > @newer'' = [''AND'', ''modified'', ''>'', ''@newer'']"
  "sql_tokens '' ORDER BY sortindex DESC'' = [''ORDER'', ''BY'', ''sortindex'', ''DESC'']"
  "sql_tokens '' ORDER BY modified DESC'' = [''ORDER'', ''BY'', ''modified'', ''DESC'']"
  "sql_tokens '' ORDER BY modified ASC'' = [''ORDER'', ''BY'', ''modified'', ''ASC'']"
  "sql_tokens [] = []"
  by code_simp+

definition tokens_in :: "string set \<Rightarrow> string \<Rightarrow> bool" where
  "tokens_in W s \<longleftrightarrow> blank_led s \<and> set (sql_tokens s) \<subseteq> W"

lemma tokens_in_append: "tokens_in W a \<Longrightarrow> tokens_in W b \<Longrightarrow> tokens_in W (a @ b)"
  by (simp add: tokens_in_def blank_led_append sql_tokens_append)

lemma bsos_clauses_tokens: "tokens_in (clause_words params) (bsos_clauses params)"
  unfolding bsos_clauses_def
proof (intro tokens_in_append)
  have number: "set (sql_tokens (show_int k)) \<subseteq> clause_words params" for k
    by (rule order_trans [OF sql_tokens_int]) (simp add: clause_words_def plain_words_def)
  show "tokens_in (clause_words params) (if ids params = [] then [] else '' AND bso_id IN UNNEST(@ids)'')"
    "tokens_in (clause_words params) (if older params = None then [] else '' AND modified < @older'')"
    "tokens_in (clause_words params) (if newer params = None then [] else '' AND modified > @newer'')"
    by (simp_all add: tokens_in_def plain_clauses blank_led_def clause_words_def plain_words_def clause_marks_def)
  show "tokens_in (clause_words params) (case sort_by params of Index \<Rightarrow> '' ORDER BY sortindex DESC''
      | Newest \<Rightarrow> '' ORDER BY modified DESC'' | Oldest \<Rightarrow> '' ORDER BY modified ASC'' | SortNone \<Rightarrow> [])"
    by (simp add: tokens_in_def plain_clauses blank_led_def clause_words_def plain_words_def clause_marks_def split: sorting.split)
  have "tokens_in (clause_words params) ('' LIMIT '' @ show_int k)" for k
    unfolding tokens_in_def numbered_clause using number [of k] by (simp add: blank_led_def clause_words_def plain_words_def clause_marks_def)
  then show "tokens_in (clause_words params) (case limit params of Some n \<Rightarrow> '' LIMIT '' @ show_int (int n + 1)
      | None \<Rightarrow> (case offset_opt params of
          Some off \<Rightarrow> '' LIMIT '' @ show_int (wrap_i64 ((2 ^ 63 - 1) - u64_as_i64 (off_offset off)))
        | None \<Rightarrow> []))"
    by (simp add: tokens_in_def plain_clauses blank_led_def split: option.split)
  have "tokens_in (clause_words params) ('' OFFSET '' @ show_nat n)" for n
    unfolding tokens_in_def numbered_clause sql_tokens_nat by (simp add: blank_led_def clause_words_def plain_words_def clause_marks_def)
  then show "tokens_in (clause_words params)
      (case offset_opt params of None \<Rightarrow> [] | Some off \<Rightarrow> '' OFFSET '' @ show_nat (unat (off_offset off)))"
    by (simp add: tokens_in_def plain_clauses blank_led_def split: option.split)
qed

subsection \<open>Parameters\<close>

lemma own_param_update:
  "own_param hawk (k, v) \<Longrightarrow> list_all (own_param hawk) t \<Longrightarrow> list_all (own_param hawk) (AList.update k v t)"
  by (induction t) auto

lemma keys_update: "fst ` set (AList.update k v t) = insert k (fst ` set t)"
  by (induction t) auto

lemma own_param_other:
  "k \<noteq> ''fxa_uid'' \<Longrightarrow> k \<noteq> ''fxa_kid'' \<Longrightarrow> k \<noteq> ''values'' \<Longrightarrow> own_param hawk (k, v)"
  by (simp add: own_param_def)

lemma bsos_time_params_ok:
  assumes "bsos_time_params eng params t = Inr t'" "list_all (own_param hawk) t"
  shows "list_all (own_param hawk) t'"
    "fst ` set t' = fst ` set t \<union> (if older params = None then {} else {''older''}) \<union>
       (if newer params = None then {} else {''newer''})"
proof -
  have other: "own_param hawk (''older'', v)" "own_param hawk (''newer'', v)" for v
    by (simp_all add: own_param_other)
  obtain t1 where t1: "t1 = t \<and> older params = None \<or>
      (\<exists>s. t1 = AList.update ''older'' (as_value s) t \<and> older params \<noteq> None)"
    and t': "t' = t1 \<and> newer params = None \<or>
      (\<exists>s. t' = AList.update ''newer'' (as_value s) t1 \<and> newer params \<noteq> None)"
    using assms(1)
    by (cases "older params"; cases "newer params")
      (simp_all add: bsos_time_params_def map_sum_Inr_iff, metis+)
  have "list_all (own_param hawk) t1"
    using t1 assms(2) own_param_update other by metis
  then show "list_all (own_param hawk) t'"
    using t' own_param_update other by metis
  have "fst ` set t1 = fst ` set t \<union> (if older params = None then {} else {''older''})"
    using t1 by (elim disjE exE conjE) (simp_all only: keys_update if_True if_False refl simp_thms Un_empty_right Un_insert_right)
  then show "fst ` set t' = fst ` set t \<union> (if older params = None then {} else {''older''}) \<union>
       (if newer params = None then {} else {''newer''})"
    using t' by (elim disjE exE conjE) (simp_all only: keys_update if_True if_False refl simp_thms Un_empty_right Un_insert_right)
qed

lemma bsos_statement_ok:
  assumes "user_text (sql_tokens q)" "''UPDATE'' \<notin> set (sql_tokens q)" "''INSERT'' \<notin> set (sql_tokens q)"
    and "placeholders (sql_tokens q) \<subseteq> fst ` set base" "list_all (own_param hawk) base"
    and "bsos_time_params eng params
      (if ids params = [] then base else AList.update ''ids'' (as_list_value (ids params)) base) = Inr ps"
  shows "statement_ok hawk (q @ bsos_clauses params) ps"
proof -
  let ?t = "if ids params = [] then base else AList.update ''ids'' (as_list_value (ids params)) base"
  have c: "blank_led (bsos_clauses params)" "set (sql_tokens (bsos_clauses params)) \<subseteq> clause_words params"
    using bsos_clauses_tokens [of params] by (simp_all add: tokens_in_def)
  have "CHR ''O'' \<noteq> c \<and> CHR ''F'' \<noteq> c \<and> CHR ''I'' \<noteq> c \<and> CHR ''W'' \<noteq> c \<and> CHR ''U'' \<noteq> c \<and> CHR ''@'' \<noteq> c"
    if "is_digit c" for c
    using that by (auto simp: is_digit_def)
  then have number: "show_nat n \<noteq> ''FROM''" "show_nat n \<noteq> ''INSERT''" "show_nat n \<noteq> ''WHERE''"
      "show_nat n \<noteq> ''UPDATE''" "show_nat n \<noteq> ''OR''" "hd (show_nat n) \<noteq> CHR ''@''" for n
    using show_nat_hd_digit [of n] by force+
  have absent: "{''FROM'', ''INSERT'', ''WHERE'', ''UPDATE'', ''OR''} \<inter> clause_words params = {}"
    using number(1-5) [symmetric] by (simp add: clause_words_def plain_words_def image_iff)
  have t: "list_all (own_param hawk) ?t"
    using assms(5) by (simp add: own_param_update own_param_other)
  have keys: "fst ` set ps = fst ` set base \<union> clause_marks params"
    using bsos_time_params_ok(2) [OF assms(6) t] by (simp add: keys_update clause_marks_def Un_assoc)
  have "\<forall>w \<in> plain_words. hd w \<noteq> CHR ''@''"
    by (simp add: plain_words_def)
  then have "{t \<in> clause_words params. hd t = CHR ''@''} \<subseteq> Cons (CHR ''@'') ` clause_marks params"
    using number(6) by (auto simp: clause_words_def)
  then have "placeholders (sql_tokens (bsos_clauses params)) \<subseteq> clause_marks params"
    using c(2) by (fastforce simp: placeholders_def)
  then have "placeholders (sql_tokens (q @ bsos_clauses params)) \<subseteq> fst ` set ps"
    using assms(4) keys by (auto simp: sql_tokens_append [OF c(1)] placeholders_append)
  moreover have "user_text (sql_tokens (q @ bsos_clauses params))"
    unfolding sql_tokens_append [OF c(1)]
    using assms(1-3) absent c(2) by (intro user_text_append) blast+
  ultimately show ?thesis
    using bsos_time_params_ok(1) [OF assms(6) t] by (simp add: statement_ok_def)
qed

end
