(* ===== verification/Spanner_Stays.thy ===== *)
theory Spanner_Stays
  imports Spanner_Frame_Ops
begin

text \<open>
  The operations of the Spanner session and their batches, one by one, keep the relation of a
  \<open>spanner_frame\<close>.
\<close>

lemma load_bsos_ok:
  assumes "load_bsos eng hawk c now existing bs ld = Inr ld'"
    and "rows_ok hawk [''fxa_uid'', ''fxa_kid'', ''collection_id'', ''bso_id'', ''sortindex'', ''payload'',
      ''modified'', ''expiry''] (ld_inserts ld)"
    and "list_all (\<lambda>(cols, rows). rows_ok hawk cols rows) (ld_updates ld)"
  shows "rows_ok hawk [''fxa_uid'', ''fxa_kid'', ''collection_id'', ''bso_id'', ''sortindex'', ''payload'',
      ''modified'', ''expiry''] (ld_inserts ld') \<and>
    list_all (\<lambda>(cols, rows). rows_ok hawk cols rows) (ld_updates ld')"
  using assms
proof (induction bs arbitrary: ld)
  case (Cons b bs)
  have insert_row: "own_row hawk row \<and> length row = 8" if "bso_to_insert_row eng hawk c b now = Inr row" for row
    using that by (auto simp: bso_to_insert_row_def Let_def row_key_def as_value_def)
  have update_row: "take 2 cols = [''fxa_uid'', ''fxa_kid''] \<and> own_row hawk row \<and> length row = length cols"
    if "bso_to_update_row eng hawk c b now = Inr (cols, row)" for cols row
    using that by (auto simp: bso_to_update_row_def Let_def row_key_def as_value_def)
  have group: "list_all (\<lambda>(cols, rows). rows_ok hawk cols rows)
      (AList.update cols ((case map_of t cols of None \<Rightarrow> [] | Some rows \<Rightarrow> rows) @ [row]) t)"
    if "take 2 cols = [''fxa_uid'', ''fxa_kid''] \<and> own_row hawk row \<and> length row = length cols"
      "list_all (\<lambda>(cols, rows). rows_ok hawk cols rows) t" for cols row t
    using that(2)
  proof (induction t)
    case (Cons e t)
    then show ?case
      using that(1) by (cases e) (auto simp: rows_ok_def)
  qed (use that(1) in \<open>simp add: rows_ok_def\<close>)
  show ?case
  proof (cases "pb_id b \<in> set existing")
    case True
    then obtain cols row where r: "bso_to_update_row eng hawk c b now = Inr (cols, row)"
      using Cons.prems(1) by (auto simp: Let_def)
    show ?thesis
      using Cons.prems r True update_row [OF r]
      by (intro Cons.IH [OF Cons.prems(1) [unfolded load_bsos.simps Let_def, simplified r True, simplified]])
        (auto intro: group)
  next
    case False
    then obtain row where r: "bso_to_insert_row eng hawk c b now = Inr row"
      using Cons.prems(1) by (auto simp: Let_def)
    show ?thesis
      using Cons.prems r False insert_row [OF r]
      by (intro Cons.IH [OF Cons.prems(1) [unfolded load_bsos.simps Let_def, simplified r False, simplified]])
        (auto simp: rows_ok_def)
  qed
qed simp

context spanner_frame
begin

lemma stays_collection_id:
  "preserves R (get_collection_id_async (logged eng) name)"
  "preserves R (create_collection_async (logged eng) name)"
  "preserves R (get_or_create_collection_id_async (logged eng) name)"
proof -
  show g: "preserves R (get_collection_id_async (logged eng) name)"
    unfolding get_collection_id_async_def by (intro R_statements; code_simp)
  show c: "preserves R (create_collection_async (logged eng) name)"
    unfolding create_collection_async_def Let_def by (intro R_statements; code_simp)
  show "preserves R (get_or_create_collection_id_async (logged eng) name)"
    unfolding get_or_create_collection_id_async_def
    by (intro R_intros g) (auto split: db_error_kind.split intro: c R_intros)
qed

lemma stays_begin: "preserves R (begin_async (logged eng) w)"
  unfolding begin_async_def by (intro R_intros; simp)

lemma stays_lock_for_read: "preserves R (lock_for_read_async (logged eng) user coll)"
  unfolding lock_for_read_async_def
  by (intro R_intros stays_begin stays_collection_id) (auto split: db_error_kind.split intro: R_intros)

lemma stays_lock_for_write: "preserves R (lock_for_write_async (logged eng) hawk coll)"
  unfolding lock_for_write_async_def set_timestamp_def
  by (intro R_statements stays_begin stays_collection_id; (simp; fail)?; code_simp)

lemma stays_map_names: "preserves R (sp_map_collection_names (logged eng) values)"
proof -
  have cached: "preserves R (sp_cached_names is)" for "is"
    by (induction "is") (simp_all only: sp_cached_names.simps, (intro R_intros; assumption)+)
  show ?thesis
    unfolding sp_map_collection_names_def sp_load_collection_names_def Let_def
    by (intro R_statements cached; (simp; fail)?; code_simp)
qed

lemma stays_sum_rows:
  assumes "statement_ok user sql (params_of [(''fxa_uid'', fxa_uid hawk), (''fxa_kid'', fxa_kid hawk)])"
    and "user = hawk"
  shows "preserves R (sum_rows (logged eng) sql hawk)"
  using assms unfolding sum_rows_def by (intro R_statements) simp_all

lemma stays_summaries:
  "preserves R (get_collection_timestamps_async (logged eng) hawk)"
  "preserves R (get_collection_counts_async (logged eng) hawk)"
  "preserves R (get_collection_usage_async (logged eng) hawk)"
  "preserves R (get_storage_timestamp_async (logged eng) hawk)"
  "preserves R (get_storage_usage_async (logged eng) hawk)"
  unfolding get_collection_timestamps_async_def get_collection_counts_async_def
    get_collection_usage_async_def get_storage_timestamp_async_def get_storage_usage_async_def
  by (intro R_statements stays_map_names stays_sum_rows refl; code_simp)+

lemma stays_collection_timestamp: "preserves R (get_collection_timestamp_async (logged eng) hawk coll)"
  unfolding get_collection_timestamp_async_def
  by (intro R_statements stays_collection_id; code_simp)

lemma stays_tombstone: "preserves R (sp_erect_tombstone (logged eng) hawk)"
  unfolding sp_erect_tombstone_def Let_def by (intro R_statements; code_simp)

lemma stays_touch: "preserves R (touch_collection_async (logged eng) hawk c)"
  unfolding touch_collection_async_def Let_def by (intro R_statements; (simp; fail)?; code_simp)

lemma stays_deletes:
  "preserves R (delete_storage_async (logged eng) hawk)"
  "preserves R (delete_collection_async (logged eng) hawk coll)"
  "preserves R (delete_bso_async (logged eng) hawk coll i)"
  "preserves R (delete_bsos_async (logged eng) hawk coll is)"
proof -
  show "preserves R (delete_storage_async (logged eng) hawk)"
    unfolding delete_storage_async_def by (intro R_statements; code_simp)
  show "preserves R (delete_bso_async (logged eng) hawk coll i)"
    unfolding delete_bso_async_def by (intro R_statements stays_collection_id stays_touch; code_simp)
  show "preserves R (delete_bsos_async (logged eng) hawk coll is)"
    unfolding delete_bsos_async_def by (intro R_statements stays_collection_id stays_touch; code_simp)
  let ?sql = "''DELETE FROM user_collections WHERE fxa_uid = @fxa_uid AND fxa_kid = @fxa_kid '' @
    ''AND collection_id = @collection_id AND modified > @pretouch_ts''"
  let ?ps = "\<lambda>c. params_of [(''fxa_uid'', fxa_uid hawk), (''fxa_kid'', fxa_kid hawk),
    (''collection_id'', show_int c), (''pretouch_ts'', PRETOUCH_TS)]"
  let ?deferred = "bind_r (sql_request (logged eng) ?sql) (\<lambda>rq. bind_r (get_collection_id_async (logged eng) coll)
    (\<lambda>c. execute_dml_async (logged eng)
      (prepare_request (?ps c) (param_types_of [(''pretouch_ts'', TypeTimestamp)]) rq)))"
  have "statement_ok hawk ?sql (?ps c)" for c
    by code_simp
  then have "preserves R ?deferred"
    by (intro R_deferred quiet_get_collection_id stays_collection_id)
  then have "preserves R (bind_r ?deferred (\<lambda>affected_rows.
      if affected_rows > 0 then sp_erect_tombstone (logged eng) hawk
      else get_storage_timestamp_async (logged eng) hawk))"
    by (rule preserves_bind [OF R_order(2)]) (intro R_intros stays_tombstone stays_summaries)
  then show "preserves R (delete_collection_async (logged eng) hawk coll)"
    by (simp only: delete_collection_async_def bind_assoc)
qed

lemma stays_bsos_query:
  assumes "user_text (sql_tokens q)" "''UPDATE'' \<notin> set (sql_tokens q)" "''INSERT'' \<notin> set (sql_tokens q)"
    and "placeholders (sql_tokens q) \<subseteq> {''fxa_uid'', ''fxa_kid'', ''collection_id''}"
  shows "preserves R (bsos_query_async (logged eng) q hawk coll params)"
proof -
  let ?base = "\<lambda>c. params_of [(''fxa_uid'', fxa_uid hawk), (''fxa_kid'', fxa_kid hawk), (''collection_id'', show_int c)]"
  have base: "list_all (own_param hawk) (?base c)" "fst ` set (?base c) = {''fxa_uid'', ''fxa_kid'', ''collection_id''}"
    for c
    by (simp_all add: params_of_def own_param_def as_value_def)
  have query: "preserves R (bind_r (lift_r r) (\<lambda>ps. sp_query (logged eng) (q @ bsos_clauses params) ps ts))"
    if "r = bsos_time_params (logged eng) params (if ids params = [] then ?base c
      else AList.update ''ids'' (as_list_value (ids params)) (?base c))" for r c ts
  proof (cases r)
    case (Inl e)
    then have "bind_r (lift_r r) (\<lambda>ps. sp_query (logged eng) (q @ bsos_clauses params) ps ts) = throw_r e"
      by (intro ext) simp
    then show ?thesis
      by (simp add: preserves_pure R_order)
  next
    case (Inr ps)
    have "statement_ok hawk (q @ bsos_clauses params) ps"
      by (rule bsos_statement_ok [where base = "?base c", OF assms(1-3) _ base(1)])
        (use assms(4) base(2) that Inr in simp_all)
    moreover have "bind_r (lift_r r) (\<lambda>ps. sp_query (logged eng) (q @ bsos_clauses params) ps ts) =
        sp_query (logged eng) (q @ bsos_clauses params) ps ts"
      by (intro ext) (simp add: Inr)
    ultimately show ?thesis
      by (simp add: R_query)
  qed
  show ?thesis
    unfolding bsos_query_async_def Let_def
    by (rule preserves_bind [OF R_order(2) stays_collection_id(1)]) (rule query [OF refl])
qed

lemma stays_reads:
  "preserves R (get_bsos_async (logged eng) hawk coll params)"
  "preserves R (get_bso_ids_async (logged eng) hawk coll params)"
  "preserves R (get_bso_async (logged eng) hawk coll i)"
  "preserves R (get_bso_timestamp_async (logged eng) hawk coll i)"
  "preserves R (check_async (logged eng))"
  unfolding get_bsos_async_def get_bso_ids_async_def get_bso_async_def get_bso_timestamp_async_def check_async_def
  by (intro R_statements stays_bsos_query stays_collection_id; code_simp)+

lemma stays_post: "preserves R (post_bsos_async (logged eng) hawk coll bs failed)"
proof -
  let ?cols = "[''fxa_uid'', ''fxa_kid'', ''collection_id'', ''bso_id'', ''sortindex'', ''payload'', ''modified'', ''expiry'']"
  let ?store = "\<lambda>t ld. seq_r
    (if ld_inserts ld = [] then return_r () else insert_rows ''bsos'' ?cols (ld_inserts ld))
    (seq_r (buffer_updates (ld_updates ld)) (return_r \<lparr>pr_modified = t, pr_success = ld_success ld, pr_failed = failed\<rparr>))"
  have updates: "preserves R (buffer_updates gs)" if "list_all (\<lambda>(cols, rows). rows_ok hawk cols rows) gs" for gs
    using that by (induction gs)
      (auto simp: update_rows_def intro!: preserves_pure [OF R_order(1)] preserves_seq [OF R_order(2)] R_buffer)
  have stored: "preserves R (?store t ld)"
    if "rows_ok hawk ?cols (ld_inserts ld)" "list_all (\<lambda>(cols, rows). rows_ok hawk cols rows) (ld_updates ld)" for t ld
    using that unfolding insert_rows_def by (intro R_intros R_buffer updates) simp_all
  have load: "preserves R (bind_r (lift_r (load_bsos (logged eng) hawk c t existing bs
      \<lparr>ld_inserts = [], ld_updates = [], ld_success = [], ld_size = 0\<rparr>))
      (\<lambda>ld. if ld_size ld > MAX_SPANNER_LOAD_SIZE
        then throw_r (db_error_of (SpannerTooLarge (''Committed data too large: '' @ show_nat (ld_size ld))))
        else ?store t ld))" for c t existing
  proof -
    let ?r = "load_bsos (logged eng) hawk c t existing bs \<lparr>ld_inserts = [], ld_updates = [], ld_success = [], ld_size = 0\<rparr>"
    have "preserves R (if ld_size ld > MAX_SPANNER_LOAD_SIZE
        then throw_r (db_error_of (SpannerTooLarge (''Committed data too large: '' @ show_nat (ld_size ld))))
        else ?store t ld)" if "?r = Inr ld" for ld
      using load_bsos_ok [OF that] by (intro preserves_if preserves_pure [OF R_order(1)] stored) (simp_all add: rows_ok_def)
    then show ?thesis
      using R_order(1) by (cases ?r) (auto simp: preserves_def bind_r_def reflp_def)
  qed
  show ?thesis
    unfolding post_bsos_async_def
    by (rule preserves_bind [OF R_order(2) stays_collection_id(3)], rule preserves_bind [OF R_order(2) stays_touch],
        rule preserves_bind [OF R_order(2) R_rows], code_simp, intro R_intros, rule load)
qed

lemma stays_put: "pp_user_id bso = hawk \<Longrightarrow> preserves R (put_bso_async (logged eng) bso)"
  unfolding put_bso_async_def by (intro R_intros) (simp add: stays_post)

lemma stays_append: "preserves R (do_append_async (logged eng) hawk c b bs)"
proof -
  have "statement_ok hawk (''INSERT INTO batch_bsos (fxa_uid, fxa_kid, collection_id, batch_id, batch_bso_id, '' @
      ''sortindex, payload, ttl) SELECT * FROM UNNEST(@values)'')
      [(''values'', ListValue (map (append_row hawk c b) bs))]"
    unfolding statement_ok_def Let_def
  proof (intro conjI)
    show "list_all (own_param hawk) [(''values'', ListValue (map (append_row hawk c b) bs))]"
      by (simp add: own_param_def append_row_def as_value_def)
  qed code_simp+
  then show ?thesis
    unfolding do_append_async_def by (intro R_statements)
qed

lemma stays_pretouch: "preserves R (pretouch_collection_async (logged eng) hawk c)"
  unfolding pretouch_collection_async_def by (intro R_statements; code_simp)

lemma stays_batch_create: "preserves R (sp_batch_create (logged eng) hawk coll bs)"
proof -
  let ?sql = "''INSERT INTO batches (fxa_uid, fxa_kid, collection_id, batch_id, expiry) '' @
    ''VALUES (@fxa_uid, @fxa_kid, @collection_id, @batch_id, @expiry)''"
  let ?ps = "\<lambda>c b expiry. params_of (user_params hawk c @ [(''batch_id'', b), (''expiry'', expiry)])"
  let ?send = "\<lambda>c b rq expiry. execute_dml_async (logged eng)
    (prepare_request (?ps c b expiry) (param_types_of [(''expiry'', TypeTimestamp)]) rq)"
  have "statement_ok hawk ?sql (?ps c b expiry)" for c b expiry
    by code_simp
  then have "preserves R (bind_r (sql_request (logged eng) ?sql) (\<lambda>rq. bind_r (lift_r r) (?send c b rq)))" for c b r
    by (intro R_deferred preserves_pure [OF quiet_order(1)] preserves_pure [OF R_order(1)])
  then have "preserves R (bind_r (bind_r (sql_request (logged eng) ?sql) (\<lambda>rq. bind_r (lift_r r) (?send c b rq)))
      (\<lambda>_. seq_r (do_append_async (logged eng) hawk c b bs) (return_r b)))" for c b r
    by (rule preserves_bind [OF R_order(2)]) (intro R_intros stays_append)
  then have insert_batch: "preserves R (bind_r (sql_request (logged eng) ?sql) (\<lambda>rq. bind_r (lift_r r)
      (\<lambda>expiry. seq_r (?send c b rq expiry)
        (seq_r (do_append_async (logged eng) hawk c b bs) (return_r b)))))" for c b r
    by (simp only: bind_assoc seq_r_def)
  have uuid: "preserves R (\<lambda>db. case new_uuid (logged eng) (sp_conn db) of (b, c) \<Rightarrow> (Inr b, db\<lparr>sp_conn := c\<rparr>))"
    using R_uuid by (simp add: preserves_def case_prod_beta)
  show ?thesis
    unfolding sp_batch_create_def
    by (rule preserves_bind [OF R_order(2) uuid], rule preserves_bind [OF R_order(2) stays_collection_id(1)],
        rule preserves_bind [OF R_order(2) R_timestamp_of], rule preserves_seq [OF R_order(2) stays_pretouch],
        rule insert_batch)
qed

lemma stays_select_batch: "preserves R (select_batch_async (logged eng) hawk coll b)"
  unfolding select_batch_async_def by (intro R_statements stays_collection_id; code_simp)

lemma stays_batches:
  "preserves R (sp_batch_validate (logged eng) hawk coll b)"
  "preserves R (sp_batch_append (logged eng) hawk coll b bs)"
  "preserves R (sp_batch_get (logged eng) hawk coll b)"
  "preserves R (sp_batch_delete (logged eng) hawk coll b)"
proof -
  show v: "preserves R (sp_batch_validate (logged eng) hawk coll b)"
    unfolding sp_batch_validate_def by (intro R_intros stays_select_batch)
  show "preserves R (sp_batch_append (logged eng) hawk coll b bs)"
    unfolding sp_batch_append_def by (intro R_intros v stays_collection_id stays_append)
  show "preserves R (sp_batch_get (logged eng) hawk coll b)"
    unfolding sp_batch_get_def by (intro R_intros stays_select_batch)
  show "preserves R (sp_batch_delete (logged eng) hawk coll b)"
    unfolding sp_batch_delete_def by (intro R_statements stays_collection_id; code_simp)
qed

lemma stays_batch_commit: "preserves R (sp_batch_commit (logged eng) hawk coll batch)"
proof -
  have ok: "statement_ok hawk batch_commit_update
      (params_of (user_params hawk c @ [(''batch_id'', b), (''timestamp'', now)]))"
    "statement_ok hawk batch_commit_insert (params_of ((user_params hawk c @ [(''batch_id'', b), (''timestamp'', now)]) @
       [(''default_bso_ttl'', ttl)]))" for c b now ttl
    by code_simp+
  show ?thesis
    unfolding sp_batch_commit_def Let_def
    by (intro R_statements stays_collection_id stays_touch stays_batches ok)
qed

end

lemma spanner_db_frame:
  assumes "\<And>hawk. spanner_frame eng hawk (R hawk)"
  shows "db_frame_tx (spanner_ops (logged eng)) R"
  by unfold_locales
    (unfold spanner_ops_def sp_api_of_def db_ops.simps,
      (rule spanner_frame.R_order [OF assms] |
       rule preserves_map_err, rule spanner_frame.R_end [OF assms] spanner_frame.stays_begin [OF assms]
         spanner_frame.stays_lock_for_read [OF assms] spanner_frame.stays_lock_for_write [OF assms]
         spanner_frame.stays_summaries [OF assms] spanner_frame.stays_collection_timestamp [OF assms]
         spanner_frame.stays_reads [OF assms] spanner_frame.stays_deletes [OF assms]
         spanner_frame.stays_post [OF assms] spanner_frame.stays_put [OF assms]
         spanner_frame.stays_batches [OF assms] spanner_frame.stays_batch_create [OF assms]
         spanner_frame.stays_batch_commit [OF assms], assumption?)+)

end
