(* ===== verification/Spanner_Claims.thy ===== *)
theory Spanner_Claims
  imports Spanner_Stays Web_Claims
begin

text \<open>
  What the program sends to Spanner: only statements and mutations on the rows of the user the
  request is authenticated as, with every placeholder bound, and its writes numbered in order.
\<close>

section \<open>Statements and mutations of the user\<close>

definition buffered :: "'s spanner_db \<Rightarrow> spanner_mutation list" where
  "buffered db = (case sp_mutations (sp_session db) of None \<Rightarrow> [] | Some ms \<Rightarrow> ms)"

definition sp_own ::
  "hawk_identifier \<Rightarrow> ('s \<times> spanner_call list) spanner_db \<Rightarrow> ('s \<times> spanner_call list) spanner_db \<Rightarrow> bool" where
  "sp_own hawk db db' \<longleftrightarrow> (list_all (mutation_ok hawk) (buffered db) \<longrightarrow>
     list_all (mutation_ok hawk) (buffered db') \<and>
     (\<exists>cs. sp_log db' = sp_log db @ cs \<and> list_all (call_ok hawk) cs))"

lemma sp_log_session [simp]: "sp_log (db\<lparr>sp_session := ss\<rparr>) = sp_log db"
  by (simp add: sp_log_def)

lemma buffered_None [simp]: "sp_mutations (sp_session db) = None \<Longrightarrow> buffered db = []"
  by (simp add: buffered_def)

lemma sp_own_order: "reflp (sp_own hawk)" "transp (sp_own hawk)"
proof -
  show "reflp (sp_own hawk :: ('s \<times> spanner_call list) spanner_db \<Rightarrow> _)"
    by (rule reflpI) (simp add: sp_own_def)
  show "transp (sp_own hawk :: ('s \<times> spanner_call list) spanner_db \<Rightarrow> _)"
    by (rule transpI) (auto simp: sp_own_def)
qed

lemma sp_own_call: "call_ok hawk c \<Longrightarrow> preserves (sp_own hawk) (call (noting c f))"
  by (simp add: preserves_def sp_own_def logged_call_log buffered_def)

lemma sp_own_set: "(\<And>ss. sp_mutations (f ss) = sp_mutations ss) \<Longrightarrow> preserves (sp_own hawk) (sp_set f)"
  by (simp add: preserves_def sp_own_def sp_set_def sp_log_def buffered_def)

lemmas sp_own_intros = preserves_pure [OF sp_own_order(1)] preserves_sp_get [OF sp_own_order(1)]
  preserves_bind [OF sp_own_order(2)] preserves_seq [OF sp_own_order(2)]
  preserves_if preserves_case_option sp_own_set sp_own_call

lemma sp_own_transaction:
  "preserves (sp_own hawk) (get_transaction (logged eng))" "preserves (sp_own hawk) (get_transaction_async (logged eng))"
  unfolding get_transaction_def get_transaction_async_def begin_blocking_def begin_async_def logged_calls
  by (intro sp_own_intros; simp)+

lemma sp_own_request: "preserves (sp_own hawk) (sql_request (logged eng) sql)"
proof -
  have "preserves (sp_own hawk) (take_number rq)" for rq
    by (simp add: preserves_def take_number_run sp_own_def sp_log_def buffered_def Let_def)
  then show ?thesis
    unfolding sql_request_number Let_def by (intro sp_own_intros sp_own_transaction)
qed

lemma sql_request_text: "sql_request eng sql db = (Inr rq, db') \<Longrightarrow> rq_sql rq = sql"
  by (auto simp: sql_request_number take_number_run bind_r_Inr_iff Let_def split: if_splits)

lemma sp_own_sent:
  assumes "sql_request (logged eng) sql db = (Inr rq, db1)" "sp_own hawk db1 db2" "statement_ok hawk sql ps"
    and "\<And>rq'. c rq' = CallDml rq' \<or> c rq' = CallStream rq'"
  shows "sp_own hawk db (snd (call (noting (c (prepare_request ps ts rq)) f) db2))"
proof -
  have "call_ok hawk (c (prepare_request ps ts rq))"
    using assms(4) [of "prepare_request ps ts rq"] assms(3) sql_request_text [OF assms(1)]
    by (auto simp: prepare_request_def)
  then have "sp_own hawk db2 (snd (call (noting (c (prepare_request ps ts rq)) f) db2))"
    using sp_own_call by (auto simp: preserves_def)
  then show ?thesis
    using preservesD [OF sp_own_request assms(1)] assms(2) sp_own_order(2) by (meson transpE)
qed

lemma sp_own_query:
  assumes "statement_ok hawk sql ps"
  shows "preserves (sp_own hawk) (sp_query (logged eng) sql ps ts)"
  unfolding preserves_def
proof
  fix db
  obtain r db1 where req: "sql_request (logged eng) sql db = (r, db1)"
    by (metis prod.collapse)
  show "sp_own hawk db (snd (sp_query (logged eng) sql ps ts db))"
  proof (cases r)
    case (Inr rq)
    have "sp_own hawk db1 db1"
      by (rule reflpD [OF sp_own_order(1)])
    then have "sp_own hawk db (snd (call (call_stream (logged eng) (prepare_request ps ts rq)) db1))"
      unfolding logged_calls using req Inr assms by (intro sp_own_sent) auto
    then show ?thesis
      using req Inr
      by (cases "call (call_stream (logged eng) (prepare_request ps ts rq)) db1"; cases "fst (call (call_stream (logged eng) (prepare_request ps ts rq)) db1)")
        (simp_all add: sp_query_def execute_async_def)
  qed (use preservesD [OF sp_own_request req] req in \<open>simp add: sp_query_def\<close>)
qed

lemma sp_own_end:
  "preserves (sp_own hawk) (commit_async (logged eng))" "preserves (sp_own hawk) (rollback_async (logged eng))"
proof -
  have "preserves (sp_own hawk) (bind_r (sp_get sp_mutations)
     (\<lambda>ms. seq_r (sp_set (\<lambda>ss. ss\<lparr>sp_mutations := None\<rparr>))
        (call (call_commit (logged eng) i (case ms of None \<Rightarrow> [] | Some ms \<Rightarrow> ms)))))" for i
    by (simp add: preserves_def sp_get_def sp_set_def seq_r_def bind_r_def logged_calls sp_own_def
        logged_call_log buffered_def)
  note commit = this
  show "preserves (sp_own hawk) (commit_async (logged eng))"
    unfolding commit_async_def
    by (rule preserves_bind [OF sp_own_order(2) preserves_sp_get [OF sp_own_order(1)]], rule preserves_if,
        rule preserves_pure(1) [OF sp_own_order(1)], rule preserves_bind [OF sp_own_order(2) sp_own_transaction(2)],
        rule preserves_case_option, rule preserves_pure(2) [OF sp_own_order(1)], rule commit)
  show "preserves (sp_own hawk) (rollback_async (logged eng))"
    unfolding rollback_async_def logged_calls by (intro sp_own_intros sp_own_transaction; simp)
qed

interpretation scope: spanner_frame eng hawk "sp_own hawk" for eng hawk
proof
  show "preserves (sp_own hawk) (call (call_begin (logged eng) w))" for w
    unfolding logged_calls by (rule sp_own_call) simp
  show "preserves (sp_own hawk) (buffer_mutation mu)" if "mutation_ok hawk mu" for mu
    using that by (simp add: preserves_def buffer_mutation_def sp_set_def sp_own_def sp_log_def buffered_def split: option.split)
  show "preserves (sp_own hawk) (sp_on_cache (cache_put i name))" for i name
    by (simp add: preserves_def sp_own_def sp_on_cache_def sp_log_def buffered_def split: prod.split)
  show "sp_own hawk db (db\<lparr>sp_conn := snd (new_uuid (logged eng) (sp_conn db))\<rparr>)" for db
    by (simp add: sp_own_def sp_log_def buffered_def logged_def split: prod.split)
  show "sp_own hawk db (snd (execute_dml_async (logged eng) (prepare_request ps ts rq) db2))"
    if "sql_request (logged eng) sql db = (Inr rq, db1)" "sp_own hawk db1 db2" "statement_ok hawk sql ps"
    for sql db rq db1 db2 ps ts
    unfolding execute_dml_async_def logged_calls using that by (intro sp_own_sent) auto
qed (simp_all add: sp_own_order sp_own_set sp_own_request sp_own_query sp_own_end)

interpretation spanner: db_frame_tx "spanner_ops (logged eng)" sp_own for eng
  by (rule spanner_db_frame) (rule scope.spanner_frame_axioms)

lemma sp_own_pool_get: "preserves (sp_own hawk) (spanner_pool_get (logged eng))"
  unfolding spanner_pool_get_def sp_api_of_def
proof (rule preserves_map_err)
  show "preserves (sp_own hawk) (get_async (logged eng))"
    by (auto simp: preserves_def get_async_def logged_calls noting_def sp_own_def sp_log_def buffered_def
        new_spanner_db_def default_spanner_session_def split: prod.splits sum.splits)
qed

text \<open>C34. On Spanner, whatever a request asks for and however it ends: every statement sent for it is
  restricted to the rows of the user the request is authenticated as (or names no user's table) and
  has all its placeholders bound, and every mutation it commits writes rows of that user.\<close>

theorem spanner_requests_own:
  assumes "user_extract env req = Inr hawk"
  shows "list_all (call_ok hawk) (sp_log (snd (app_call env tx now (spanner_pool_get (logged eng))
    (spanner_ops (logged eng)) req (new_spanner_db (s, []) cache))))"
proof -
  let ?db = "new_spanner_db (s, [] :: spanner_call list) cache"
  have "sp_own hawk ?db (snd (app_call env tx now (spanner_pool_get (logged eng)) (spanner_ops (logged eng)) req ?db))"
    by (rule spanner.frame_app_call [OF sp_own_pool_get assms])
  moreover have "buffered ?db = []" "sp_log ?db = []"
    by (simp_all add: buffered_def new_spanner_db_def default_spanner_session_def sp_log_def)
  ultimately show ?thesis
    by (auto simp: sp_own_def)
qed

text \<open>A service that knows the time and nothing else.\<close>

definition row_set :: "spanner_type list \<Rightarrow> spanner_value list \<Rightarrow> partial_result_set" where
  "row_set types vs =
     \<lparr>rs_metadata = Some (map (\<lambda>t. ([], t)) types), rs_stats = None, rs_values = vs, rs_chunked = False\<rparr>"

definition sample_spanner :: "unit spanner_conn" where
  "sample_spanner =
     \<lparr>call_session = (\<lambda>s. (Inr (), s)), call_begin = (\<lambda>w s. (Inr ''tx'', s)),
      call_stream = (\<lambda>rq s. (Inr
        (if rq_sql rq = ''SELECT CURRENT_TIMESTAMP()''
         then [Inr (row_set [as_type TypeTimestamp] [StringValue ''3000000''])]
         else if rq_sql rq = ''SELECT COALESCE(MAX(collection_id), 1) FROM collections''
         then [Inr (row_set [as_type TypeInt64] [StringValue ''1''])]
         else if take 37 (rq_sql rq) = ''SELECT CURRENT_TIMESTAMP(), modified ''
         then [Inr (row_set [as_type TypeTimestamp, as_type TypeTimestamp] [StringValue ''3000000'', StringValue ''2000000''])]
         else []), s)),
      call_dml = (\<lambda>rq s. (Inr 1, s)), call_commit = (\<lambda>i ms s. (Inr (), s)),
      call_rollback = (\<lambda>i s. (Inr (), s)), new_uuid = (\<lambda>s. (''b'', s)),
      print_time = (\<lambda>k n. show_int k),
      parse_time = (\<lambda>s. case parse_i64 s of None \<Rightarrow> Inl [] | Some k \<Rightarrow> Inr k),
      int_error_text = (\<lambda>s. []), type_text = (\<lambda>t. []), row_size = length\<rparr>"

lemma spanner_requests_own_witness:
  "list_all (call_ok sample_user) (sp_log (snd (app_call sample_env sample_texts 1000
    (spanner_pool_get (logged sample_spanner)) (spanner_ops (logged sample_spanner)) sample_http
    (new_spanner_db ((), []) default_collection_cache))))"
  by (rule spanner_requests_own [OF sample_http_user])

section \<open>The numbers of the writes\<close>

text \<open>
  The service runs a write of a transaction only if its number is larger than those before. Read as a
  script: \<open>next_number\<close> is the least number the next write may have.
\<close>

fun next_number :: "int \<Rightarrow> spanner_call list \<Rightarrow> int" where
  "next_number n [] = n"
| "next_number n (CallSession # cs) = next_number 0 cs"
| "next_number n (CallDml rq # cs) = next_number (rq_seqno rq + 1) cs"
| "next_number n (_ # cs) = next_number n cs"

fun in_order :: "int \<Rightarrow> spanner_call list \<Rightarrow> bool" where
  "in_order n [] = True"
| "in_order n (CallSession # cs) = in_order 0 cs"
| "in_order n (CallDml rq # cs) = (n \<le> rq_seqno rq \<and> in_order (rq_seqno rq + 1) cs)"
| "in_order n (_ # cs) = in_order n cs"

lemma numbers_append:
  "next_number n (cs @ ds) = next_number (next_number n cs) ds"
  "in_order n (cs @ ds) \<longleftrightarrow> in_order n cs \<and> in_order (next_number n cs) ds"
  by (induction n cs rule: in_order.induct) auto

lemma numbers_passive:
  "list_all passive_call cs \<Longrightarrow> next_number n cs = n" "list_all passive_call cs \<Longrightarrow> in_order n cs"
  by (induction cs rule: in_order.induct) auto

definition numbered :: "('s \<times> spanner_call list) spanner_db \<Rightarrow> bool" where
  "numbered db \<longleftrightarrow> in_order 0 (sp_log db) \<and> next_number 0 (sp_log db) \<le> int (sp_sql_count (sp_session db))"

definition stays_numbered :: "('s \<times> spanner_call list) spanner_db \<Rightarrow> ('s \<times> spanner_call list) spanner_db \<Rightarrow> bool" where
  "stays_numbered db db' \<longleftrightarrow> (numbered db \<longrightarrow> numbered db')"

lemma stays_numbered_order: "reflp stays_numbered" "transp stays_numbered"
  by (auto simp: stays_numbered_def reflp_def transp_def)

lemma quiet_numbered: "quiet db db' \<Longrightarrow> stays_numbered db db'"
  by (auto simp: quiet_def stays_numbered_def numbered_def numbers_append numbers_passive)

lemma quiet_stays: "preserves quiet m \<Longrightarrow> preserves stays_numbered m"
  using quiet_numbered by (auto simp: preserves_def)

lemma numbered_session:
  "sp_log db' = sp_log db \<Longrightarrow> sp_sql_count (sp_session db') = sp_sql_count (sp_session db) \<Longrightarrow>
     stays_numbered db db'"
  by (simp add: stays_numbered_def numbered_def)

text \<open>A numbered request has the number its session had counted to.\<close>

lemma get_transaction_some:
  assumes "get_transaction eng db = (Inr t, db')"
  shows "t \<noteq> None"
  using assms
  by (auto simp: get_transaction_def begin_blocking_def sp_get_def sp_set_def bind_r_Inr_iff seq_r_Inr_iff
      split: if_splits) (metis not_Some_eq)+

lemma request_number:
  assumes "sql_request (logged eng) sql db = (Inr rq, db1)" "numbered db"
  shows "numbered db1" "next_number 0 (sp_log db1) \<le> rq_seqno rq" "rq_seqno rq < int (sp_sql_count (sp_session db1))"
proof -
  obtain t db0 where t: "get_transaction (logged eng) db = (Inr t, db0)"
    and run: "(let rq = \<lparr>rq_sql = sql, rq_transaction = t, rq_seqno = 0, rq_params = [], rq_param_types = []\<rparr>
          in if t = None then return_r rq else take_number rq) db0 = (Inr rq, db1)"
    using assms(1) unfolding sql_request_number bind_r_Inr_iff by blast
  have "preserves quiet (get_transaction (logged eng))"
    unfolding get_transaction_def begin_blocking_def logged_calls by (intro quiet_intros; simp)
  then have "quiet db db0"
    using t by (rule preservesD)
  then have "numbered db0"
    using quiet_numbered assms(2) by (auto simp: stays_numbered_def)
  then show "numbered db1" "next_number 0 (sp_log db1) \<le> rq_seqno rq" "rq_seqno rq < int (sp_sql_count (sp_session db1))"
    using run get_transaction_some [OF t]
    by (auto simp: take_number_run Let_def numbered_def split: if_splits)
qed

lemma numbered_sent:
  assumes "sql_request (logged eng) sql db = (Inr rq, db1)" "quiet db1 db2"
  shows "stays_numbered db (snd (execute_dml_async (logged eng) (prepare_request ps ts rq) db2))"
  unfolding stays_numbered_def
proof
  assume "numbered db"
  note n = request_number [OF assms(1) this]
  let ?rq = "prepare_request ps ts rq"
  have "sp_log (snd (execute_dml_async (logged eng) ?rq db2)) = sp_log db2 @ [CallDml ?rq]"
    "sp_session (snd (execute_dml_async (logged eng) ?rq db2)) = sp_session db2" "rq_seqno ?rq = rq_seqno rq"
    by (simp_all add: execute_dml_async_def logged_calls logged_call_log prepare_request_def)
  then show "numbered (snd (execute_dml_async (logged eng) ?rq db2))"
    using assms(2) n by (auto simp: quiet_def numbered_def numbers_append numbers_passive)
qed

interpretation order: spanner_frame eng hawk stays_numbered for eng hawk
proof
  show "preserves stays_numbered (sp_set f)"
    if "\<And>ss. sp_mutations (f ss) = sp_mutations ss \<and> sp_sql_count (f ss) = sp_sql_count ss" for f
    using that by (simp add: preserves_def sp_set_def numbered_session)
  show "preserves stays_numbered (call (call_begin (logged eng) w))" for w
    unfolding logged_calls by (rule quiet_stays [OF quiet_call]) simp
  show "preserves stays_numbered (buffer_mutation mu)" for mu
    by (simp add: preserves_def buffer_mutation_def sp_set_def numbered_session)
  show "stays_numbered db (db\<lparr>sp_conn := snd (new_uuid (logged eng) (sp_conn db))\<rparr>)" for db
    by (rule numbered_session) (simp_all add: sp_log_def logged_def split: prod.split)
  have sent: "preserves stays_numbered (call (noting c f))" if "(\<exists>i ms. c = CallCommit i ms) \<or> (\<exists>i. c = CallRollback i)" for c f
    using that by (cases c) (auto simp: preserves_def stays_numbered_def numbered_def logged_call_log numbers_append)
  have tx: "preserves stays_numbered (get_transaction_async (logged eng))"
    unfolding get_transaction_async_def begin_async_def logged_calls by (intro quiet_stays quiet_intros; simp)
  have no_mutations: "preserves stays_numbered (sp_set (\<lambda>ss. ss\<lparr>sp_mutations := None\<rparr>))"
    by (simp add: preserves_def sp_set_def numbered_session)
  note steps = preserves_pure [OF stays_numbered_order(1)] preserves_sp_get [OF stays_numbered_order(1)]
    preserves_bind [OF stays_numbered_order(2)] preserves_seq [OF stays_numbered_order(2)]
    preserves_if preserves_case_option
  show "preserves stays_numbered (commit_async (logged eng))"
    unfolding commit_async_def logged_calls by (intro steps tx no_mutations sent; simp)
  show "preserves stays_numbered (rollback_async (logged eng))"
    unfolding rollback_async_def logged_calls by (intro steps tx sent; simp)
qed (simp_all add: stays_numbered_order quiet_stays quiet_cache quiet_request quiet_query numbered_sent)

interpretation numbers: db_frame_tx "spanner_ops (logged eng)" "\<lambda>_. stays_numbered" for eng
  by (rule spanner_db_frame) (rule order.spanner_frame_axioms)

lemma numbered_pool_get: "preserves stays_numbered (spanner_pool_get (logged eng))"
  unfolding spanner_pool_get_def sp_api_of_def
proof (rule preserves_map_err)
  show "preserves stays_numbered (get_async (logged eng))"
    by (auto simp: preserves_def get_async_def logged_calls noting_def stays_numbered_def numbered_def sp_log_def
        numbers_append new_spanner_db_def default_spanner_session_def split: prod.splits sum.splits)
qed

text \<open>C35. On Spanner, the writes of a session are sent in the order of their numbers, each number once,
  whatever the request: also where a write is numbered before the reads it needs are sent.\<close>

theorem spanner_writes_in_order:
  assumes "user_extract env req = Inr hawk"
  shows "in_order 0 (sp_log (snd (app_call env tx now (spanner_pool_get (logged eng))
    (spanner_ops (logged eng)) req (new_spanner_db (s, []) cache))))"
proof -
  let ?db = "new_spanner_db (s, [] :: spanner_call list) cache"
  have "stays_numbered ?db (snd (app_call env tx now (spanner_pool_get (logged eng)) (spanner_ops (logged eng)) req ?db))"
    by (rule numbers.frame_app_call [OF numbered_pool_get assms])
  moreover have "numbered ?db"
    by (simp add: numbered_def new_spanner_db_def default_spanner_session_def sp_log_def)
  ultimately show ?thesis
    by (simp add: stays_numbered_def numbered_def)
qed

lemma spanner_writes_in_order_witness:
  "in_order 0 (sp_log (snd (app_call sample_env sample_texts 1000
    (spanner_pool_get (logged sample_spanner)) (spanner_ops (logged sample_spanner)) sample_http
    (new_spanner_db ((), []) default_collection_cache))))"
  by (rule spanner_writes_in_order [OF sample_http_user])

section \<open>Locks and timestamps\<close>

text \<open>What a computation leaves of the session.\<close>

definition same_session :: "(spanner_session \<Rightarrow> 'b) \<Rightarrow> 's spanner_db \<Rightarrow> 's spanner_db \<Rightarrow> bool" where
  "same_session f db db' \<longleftrightarrow> f (sp_session db') = f (sp_session db)"

lemma same_session_order: "reflp (same_session f)" "transp (same_session f)"
  by (auto simp: same_session_def reflp_def transp_def)

lemma same_session_set: "(\<And>ss. f (g ss) = f ss) \<Longrightarrow> preserves (same_session f) (sp_set g)"
  by (simp add: preserves_def same_session_def sp_set_def)

lemma same_session_call: "preserves (same_session f) (call g)"
  by (simp add: preserves_def same_session_def call_def split: prod.split)

lemma same_session_cache: "preserves (same_session f) (sp_on_cache m)"
  by (simp add: preserves_def same_session_def sp_on_cache_def split: prod.split)

lemmas same_session_intros = preserves_pure [OF same_session_order(1)] preserves_sp_get [OF same_session_order(1)]
  preserves_bind [OF same_session_order(2)] preserves_seq [OF same_session_order(2)]
  preserves_catch [OF same_session_order(2)] preserves_if preserves_case_option preserves_case_sum
  preserves_case_prod same_session_set same_session_call same_session_cache

text \<open>The parts of a session that statements do not touch.\<close>

definition kept_parts ::
  "spanner_session \<Rightarrow> sync_timestamp option \<times> spanner_mutation list option \<times>
     (hawk_identifier \<times> int \<rightharpoonup> sync_timestamp) \<times> (hawk_identifier \<times> int \<rightharpoonup> spanner_lock)" where
  "kept_parts ss = (sp_timestamp ss, sp_mutations ss, sp_modified_cache ss, sp_locks ss)"

lemma kept_statements:
  "preserves (same_session kept_parts) (begin_async eng w)"
  "preserves (same_session kept_parts) (sp_query eng sql ps ts)"
  "preserves (same_session kept_parts) (sp_dml eng sql ps ts)"
proof -
  show "preserves (same_session kept_parts) (begin_async eng w)"
    unfolding begin_async_def by (intro same_session_intros; simp add: kept_parts_def)
  have "preserves (same_session kept_parts) (sql_request eng sql)"
    unfolding sql_request_def get_transaction_def begin_blocking_def Let_def
    by (intro same_session_intros; simp add: kept_parts_def)
  then show "preserves (same_session kept_parts) (sp_query eng sql ps ts)"
    "preserves (same_session kept_parts) (sp_dml eng sql ps ts)"
    unfolding sp_query_def sp_dml_def execute_async_def execute_dml_async_def
    by (intro same_session_intros; assumption)+
qed

lemma kept_collection_id:
  "preserves (same_session kept_parts) (get_collection_id_async eng name)"
  "preserves (same_session kept_parts) (get_or_create_collection_id_async eng name)"
proof -
  show g: "preserves (same_session kept_parts) (get_collection_id_async eng name)"
    unfolding get_collection_id_async_def sp_one_or_none_def by (intro same_session_intros kept_statements)
  have c: "preserves (same_session kept_parts) (create_collection_async eng name)"
    unfolding create_collection_async_def sp_one_def Let_def by (intro same_session_intros kept_statements)
  show "preserves (same_session kept_parts) (get_or_create_collection_id_async eng name)"
    unfolding get_or_create_collection_id_async_def
    by (intro same_session_intros g) (auto split: db_error_kind.split intro: c same_session_intros)
qed

lemma kept_one:
  "preserves (same_session kept_parts) (sp_one eng sql ps ts)"
  "preserves (same_session kept_parts) (sp_one_or_none eng sql ps ts)"
  unfolding sp_one_def sp_one_or_none_def by (intro same_session_intros kept_statements)+

lemma kept_run: "preserves (same_session kept_parts) m \<Longrightarrow> m db = (r, db') \<Longrightarrow>
  kept_parts (sp_session db') = kept_parts (sp_session db)"
  using preservesD by (fastforce simp: same_session_def)

lemma kept_cache:
  "kept_parts ss = kept_parts ss' \<Longrightarrow> sp_modified_cache ss = sp_modified_cache ss'"
  "kept_parts ss = kept_parts ss' \<Longrightarrow> sp_mutations ss = sp_mutations ss'"
  "kept_parts ss = kept_parts ss' \<Longrightarrow> sp_timestamp ss = sp_timestamp ss'"
  by (simp_all add: kept_parts_def)

text \<open>The part of the lock that reads the timestamps.\<close>

definition locked_timestamp :: "'s spanner_conn \<Rightarrow> hawk_identifier \<Rightarrow> int \<Rightarrow> ('s, sync_timestamp) sp_op" where
  "locked_timestamp eng user_id c =
     bind_r (sp_one_or_none eng
               (''SELECT CURRENT_TIMESTAMP(), modified FROM user_collections '' @
                ''WHERE fxa_uid = @fxa_uid AND fxa_kid = @fxa_kid '' @
                ''AND collection_id = @collection_id AND modified > @pretouch_ts'')
               (params_of [(''fxa_uid'', fxa_uid user_id), (''fxa_kid'', fxa_kid user_id),
                  (''collection_id'', show_int c), (''pretouch_ts'', PRETOUCH_TS)])
               (param_types_of [(''pretouch_ts'', TypeTimestamp)]))
       (\<lambda>result. case result of
            Some row \<Rightarrow>
              bind_r (lift_r (time_column eng (column row 1)))
                (\<lambda>modified. bind_r (lift_r (time_column eng (column row 0)))
                  (\<lambda>now. if modified \<ge> now then throw_r (db_error_of Conflict)
                     else seq_r (sp_set (\<lambda>ss. ss\<lparr>sp_modified_cache :=
                              (sp_modified_cache ss)((user_id, c) \<mapsto> modified)\<rparr>))
                       (return_r now)))
          | None \<Rightarrow> bind_r (sp_one eng ''SELECT CURRENT_TIMESTAMP()'' [] [])
              (\<lambda>row. lift_r (time_column eng (column row 0))))"

lemma lock_for_write_split:
  "lock_for_write_async eng user_id coll =
     seq_r (begin_async eng True)
       (bind_r (get_or_create_collection_id_async eng coll)
         (\<lambda>c. bind_r (sp_get (\<lambda>ss. sp_locks ss (user_id, c)))
           (\<lambda>lock. if lock = Some LockRead then throw_r (db_internal ''Can't escalate read-lock to write-lock'')
              else bind_r (locked_timestamp eng user_id c)
                (\<lambda>timestamp. seq_r (set_timestamp timestamp)
                  (sp_set (\<lambda>ss. ss\<lparr>sp_locks := (sp_locks ss)((user_id, c) \<mapsto> LockWrite)\<rparr>))))))"
  by (simp only: lock_for_write_async_def locked_timestamp_def bind_assoc)

lemma locked_timestamp_before:
  assumes "locked_timestamp eng user_id c db = (Inr now, db')"
    and "sp_modified_cache (sp_session db) = Map.empty"
  shows "\<forall>k m. sp_modified_cache (sp_session db') k = Some m \<longrightarrow> k = (user_id, c) \<and> m < now"
proof -
  obtain result db1 where q: "sp_one_or_none eng
               (''SELECT CURRENT_TIMESTAMP(), modified FROM user_collections '' @
                ''WHERE fxa_uid = @fxa_uid AND fxa_kid = @fxa_kid '' @
                ''AND collection_id = @collection_id AND modified > @pretouch_ts'')
               (params_of [(''fxa_uid'', fxa_uid user_id), (''fxa_kid'', fxa_kid user_id),
                  (''collection_id'', show_int c), (''pretouch_ts'', PRETOUCH_TS)])
               (param_types_of [(''pretouch_ts'', TypeTimestamp)]) db = (Inr result, db1)"
    and rest: "(case result of
            Some row \<Rightarrow>
              bind_r (lift_r (time_column eng (column row 1)))
                (\<lambda>modified. bind_r (lift_r (time_column eng (column row 0)))
                  (\<lambda>now. if modified \<ge> now then throw_r (db_error_of Conflict)
                     else seq_r (sp_set (\<lambda>ss. ss\<lparr>sp_modified_cache :=
                              (sp_modified_cache ss)((user_id, c) \<mapsto> modified)\<rparr>))
                       (return_r now)))
          | None \<Rightarrow> bind_r (sp_one eng ''SELECT CURRENT_TIMESTAMP()'' [] [])
              (\<lambda>row. lift_r (time_column eng (column row 0)))) db1 = (Inr now, db')"
    using assms(1) unfolding locked_timestamp_def bind_r_Inr_iff by blast
  have empty: "sp_modified_cache (sp_session db1) = Map.empty"
    using kept_cache(1) [OF kept_run [OF kept_one(2) q]] assms(2) by simp
  show ?thesis
  proof (cases result)
    case None
    obtain row where "sp_one eng ''SELECT CURRENT_TIMESTAMP()'' [] [] db1 = (Inr row, db')"
      using rest by (auto simp: None bind_r_Inr_iff)
    then show ?thesis
      using kept_cache(1) [OF kept_run [OF kept_one(1)]] empty by fastforce
  next
    case (Some row)
    then show ?thesis
      using rest empty
      by (auto simp: bind_r_Inr_iff seq_r_Inr_iff sp_set_def split: if_splits)
  qed
qed


definition sample_spanner_db :: "unit spanner_db" where
  "sample_spanner_db = new_spanner_db () default_collection_cache"

lemma sample_spanner_lock:
  "fst (lock_for_write_async sample_spanner sample_user ''bookmarks'' sample_spanner_db) = Inr ()"
  by code_simp


section \<open>The rows of a post\<close>

fun mutation_rows :: "spanner_mutation \<Rightarrow> spanner_value list list" where
  "mutation_rows (InsertRows t columns rows) = rows"
| "mutation_rows (UpdateRows t columns rows) = rows"
| "mutation_rows (UpsertRows t columns rows) = rows"

fun mutation_table :: "spanner_mutation \<Rightarrow> string" where
  "mutation_table (InsertRows t columns rows) = t"
| "mutation_table (UpdateRows t columns rows) = t"
| "mutation_table (UpsertRows t columns rows) = t"

definition row_bso :: "spanner_value list \<Rightarrow> string" where
  "row_bso row = string_value (row ! 3)"

definition load_rows :: "spanner_load \<Rightarrow> spanner_value list multiset" where
  "load_rows ld = mset (ld_inserts ld) + mset (concat (map snd (ld_updates ld)))"

lemma bso_rows_bso:
  "bso_to_insert_row eng u c b now = Inr row \<Longrightarrow> row_bso row = pb_id b"
  "bso_to_update_row eng u c b now = Inr (cols, row) \<Longrightarrow> row_bso row = pb_id b"
  by (auto simp: bso_to_insert_row_def bso_to_update_row_def Let_def row_key_def as_value_def row_bso_def)

lemma group_row:
  "mset (concat (map snd (AList.update cols ((case map_of t cols of None \<Rightarrow> [] | Some rows \<Rightarrow> rows) @ [row]) t))) =
     mset (concat (map snd t)) + {#row#}"
  by (induction t) auto

lemma load_bsos_rows:
  assumes "load_bsos eng u c now existing bs ld = Inr ld'"
  shows "\<exists>rows. load_rows ld' = load_rows ld + mset rows \<and> map row_bso rows = map pb_id bs \<and>
    ld_size ld' = ld_size ld + sum_list (map (row_size eng) rows) \<and> ld_success ld' = ld_success ld @ map pb_id bs"
  using assms
proof (induction bs arbitrary: ld)
  case (Cons b bs)
  obtain ld1 row where rest: "load_bsos eng u c now existing bs ld1 = Inr ld'"
    and step: "load_rows ld1 = load_rows ld + {#row#}" "row_bso row = pb_id b"
      "ld_size ld1 = ld_size ld + row_size eng row" "ld_success ld1 = ld_success ld @ [pb_id b]"
  proof (cases "pb_id b \<in> set existing")
    case True
    then obtain cols row where r: "bso_to_update_row eng u c b now = Inr (cols, row)"
      using Cons.prems by (auto simp: Let_def)
    then show ?thesis
      using Cons.prems True
      by (intro that) (auto simp: Let_def load_rows_def group_row bso_rows_bso)
  next
    case False
    then obtain row where r: "bso_to_insert_row eng u c b now = Inr row"
      using Cons.prems by (auto simp: Let_def)
    then show ?thesis
      using Cons.prems False
      by (intro that) (auto simp: Let_def load_rows_def bso_rows_bso)
  qed
  obtain rows where "load_rows ld' = load_rows ld1 + mset rows" "map row_bso rows = map pb_id bs"
    "ld_size ld' = ld_size ld1 + sum_list (map (row_size eng) rows)" "ld_success ld' = ld_success ld1 @ map pb_id bs"
    using Cons.IH [OF rest] by blast
  then show ?case
    using step by (intro exI [of _ "row # rows"]) simp
qed (simp add: exI [of _ "[]"])

lemma kept_touch: "preserves (same_session kept_parts) (touch_collection_async eng u c)"
  unfolding touch_collection_async_def sp_timestamp_of_def Let_def
  by (intro same_session_intros kept_one kept_statements; simp add: kept_parts_def)

lemma touch_timestamp:
  "touch_collection_async eng u c db = (Inr t, db') \<Longrightarrow> sp_timestamp (sp_session db) = Some t"
  by (auto simp: touch_collection_async_def sp_timestamp_of_def bind_r_Inr_iff seq_r_Inr_iff sp_get_def Let_def
      split: option.splits if_splits)

lemma kept_rows:
  assumes "\<And>row acc. preserves (same_session kept_parts) (f row acc)"
  shows "preserves (same_session kept_parts) (sp_rows eng sql ps ts f acc)"
proof -
  have fold: "preserves (same_session kept_parts) (fold_rows f rows acc)" for rows acc
    by (induction rows arbitrary: acc) (simp_all only: fold_rows.simps, (intro same_session_intros assms; assumption?)+)
  show ?thesis
    unfolding sp_rows_def by (intro same_session_intros kept_statements fold)
qed

lemma seq_assoc: "seq_r (seq_r m n) k = seq_r m (seq_r n k)"
  by (simp add: seq_r_def bind_assoc)

lemma buffer_updates_run:
  "\<exists>db'. buffer_updates gs db = (Inr (), db') \<and>
    buffered db' = buffered db @ map (\<lambda>(cols, rows). UpdateRows ''bsos'' cols rows) gs"
proof (induction gs arbitrary: db)
  case (Cons g gs)
  obtain cols rows where g: "g = (cols, rows)"
    by (cases g)
  obtain db1 where "update_rows ''bsos'' cols rows db = (Inr (), db1)"
    "buffered db1 = buffered db @ [UpdateRows ''bsos'' cols rows]"
    by (simp add: update_rows_def buffer_mutation_def sp_set_def buffered_def)
  then show ?case
    using Cons.IH [of db1] by (auto simp: g)
qed simp

text \<open>The end of a post: the rows of \<open>ld\<close> are buffered.\<close>

definition store_rows :: "spanner_load \<Rightarrow> ('s, unit) sp_op" where
  "store_rows ld = seq_r
     (if ld_inserts ld = [] then return_r ()
      else insert_rows ''bsos''
        [''fxa_uid'', ''fxa_kid'', ''collection_id'', ''bso_id'', ''sortindex'', ''payload'',
         ''modified'', ''expiry''] (ld_inserts ld))
     (buffer_updates (ld_updates ld))"

lemma store_rows_run:
  "\<exists>db' ms. store_rows ld db = (Inr (), db') \<and> buffered db' = buffered db @ ms \<and>
    list_all (\<lambda>m. mutation_table m = ''bsos'') ms \<and> mset (concat (map mutation_rows ms)) = load_rows ld"
proof -
  let ?columns = "[''fxa_uid'', ''fxa_kid'', ''collection_id'', ''bso_id'', ''sortindex'', ''payload'',
         ''modified'', ''expiry'']"
  let ?updates = "map (\<lambda>(cols, rows). UpdateRows ''bsos'' cols rows) (ld_updates ld)"
  have updates: "list_all (\<lambda>m. mutation_table m = ''bsos'') ?updates"
    "concat (map mutation_rows ?updates) = concat (map snd (ld_updates ld))"
    by (auto simp: list_all_iff case_prod_beta intro!: arg_cong [where f = concat])
  show ?thesis
  proof (cases "ld_inserts ld = []")
    case True
    then show ?thesis
      using buffer_updates_run [of "ld_updates ld" db] updates
      by (auto simp: store_rows_def load_rows_def)
  next
    case False
    obtain db1 where i: "insert_rows ''bsos'' ?columns (ld_inserts ld) db = (Inr (), db1)"
      "buffered db1 = buffered db @ [InsertRows ''bsos'' ?columns (ld_inserts ld)]"
      by (simp add: insert_rows_def buffer_mutation_def sp_set_def buffered_def)
    obtain db2 where "buffer_updates (ld_updates ld) db1 = (Inr (), db2)" "buffered db2 = buffered db1 @ ?updates"
      using buffer_updates_run [of "ld_updates ld" db1] by blast
    then show ?thesis
      using False i updates
      by (intro exI [of _ db2] exI [of _ "InsertRows ''bsos'' ?columns (ld_inserts ld) # ?updates"])
        (simp add: store_rows_def load_rows_def)
  qed
qed

lemma kept_buffered: "kept_parts (sp_session db) = kept_parts (sp_session db') \<Longrightarrow> buffered db = buffered db'"
  by (simp add: kept_parts_def buffered_def)

text \<open>The steps of a post that succeeds: what it loads is stored, and the rest of the session is kept.\<close>

lemma post_bsos_steps:
  assumes "post_bsos_async eng user_id coll bs failed db = (Inr r, db')"
  obtains c t existing ld db3 where
    "load_bsos eng user_id c t existing bs \<lparr>ld_inserts = [], ld_updates = [], ld_success = [], ld_size = 0\<rparr> = Inr ld"
    "ld_size ld \<le> MAX_SPANNER_LOAD_SIZE" "sp_timestamp (sp_session db) = Some t" "buffered db3 = buffered db"
    "store_rows ld db3 = (Inr (), db')" "r = \<lparr>pr_modified = t, pr_success = ld_success ld, pr_failed = failed\<rparr>"
proof -
  let ?existing = "\<lambda>c. sp_rows eng
      (''SELECT bso_id FROM bsos WHERE fxa_uid = @fxa_uid AND fxa_kid = @fxa_kid '' @
       ''AND collection_id = @collection_id AND bso_id IN UNNEST(@ids)'')
      (AList.update ''ids'' (as_list_value (map pb_id bs))
        (params_of [(''fxa_uid'', fxa_uid user_id), (''fxa_kid'', fxa_kid user_id),
           (''collection_id'', show_int c)])) []
      (\<lambda>row existing. return_r (existing @ [string_value (column row 0)])) []"
  let ?load = "\<lambda>c t existing. bind_r
      (lift_r (load_bsos eng user_id c t existing bs
        \<lparr>ld_inserts = [], ld_updates = [], ld_success = [], ld_size = 0\<rparr>))
      (\<lambda>ld. if ld_size ld > MAX_SPANNER_LOAD_SIZE
         then throw_r (db_error_of (SpannerTooLarge (''Committed data too large: '' @ show_nat (ld_size ld))))
         else seq_r (store_rows ld)
           (return_r \<lparr>pr_modified = t, pr_success = ld_success ld, pr_failed = failed\<rparr>))"
  obtain c db1 t db2 existing db3 where
    c: "get_or_create_collection_id_async eng coll db = (Inr c, db1)"
    and t: "touch_collection_async eng user_id c db1 = (Inr t, db2)"
    and e: "?existing c db2 = (Inr existing, db3)" and load: "?load c t existing db3 = (Inr r, db')"
    using assms unfolding post_bsos_async_def store_rows_def seq_assoc bind_r_Inr_iff by blast
  have k: "kept_parts (sp_session db1) = kept_parts (sp_session db)"
    "kept_parts (sp_session db2) = kept_parts (sp_session db1)"
    "kept_parts (sp_session db3) = kept_parts (sp_session db2)"
    using kept_run [OF kept_collection_id(2) c] kept_run [OF kept_touch t]
      kept_run [OF kept_rows e, OF preserves_pure(1) [OF same_session_order(1)]] .
  show ?thesis
    using load touch_timestamp [OF t] kept_cache(3) [OF k(1)] kept_buffered [OF k(1)]
      kept_buffered [OF k(2)] kept_buffered [OF k(3)] that
    by (auto simp: bind_r_Inr_iff seq_r_Inr_iff split: if_splits)
qed

text \<open>C37. A post of BSOs to Spanner that succeeds has buffered, for the commit of the transaction,
  exactly one row of the table of BSOs for each BSO posted, together within the size the service
  accepts; it names all of them as stored, and answers the timestamp of the session.\<close>

theorem spanner_post_rows:
  assumes "post_bsos_async eng user_id coll bs failed db = (Inr r, db')"
  shows "\<exists>ms. buffered db' = buffered db @ ms \<and> list_all (\<lambda>m. mutation_table m = ''bsos'') ms \<and>
    mset (map row_bso (concat (map mutation_rows ms))) = mset (map pb_id bs) \<and>
    sum_list (map (row_size eng) (concat (map mutation_rows ms))) \<le> MAX_SPANNER_LOAD_SIZE \<and>
    pr_success r = map pb_id bs \<and> pr_failed r = failed \<and> sp_timestamp (sp_session db) = Some (pr_modified r)"
proof -
  obtain c t existing ld db3 where ld: "load_bsos eng user_id c t existing bs
      \<lparr>ld_inserts = [], ld_updates = [], ld_success = [], ld_size = 0\<rparr> = Inr ld"
    "ld_size ld \<le> MAX_SPANNER_LOAD_SIZE" and t: "sp_timestamp (sp_session db) = Some t"
    and db3: "buffered db3 = buffered db" "store_rows ld db3 = (Inr (), db')"
    and r: "r = \<lparr>pr_modified = t, pr_success = ld_success ld, pr_failed = failed\<rparr>"
    using assms by (rule post_bsos_steps)
  obtain ms where ms: "buffered db' = buffered db3 @ ms" "list_all (\<lambda>m. mutation_table m = ''bsos'') ms"
      "mset (concat (map mutation_rows ms)) = load_rows ld"
    using db3(2) store_rows_run [of ld db3] by auto
  obtain rows where rows: "load_rows ld = mset rows" "map row_bso rows = map pb_id bs"
      "ld_size ld = sum_list (map (row_size eng) rows)" "ld_success ld = map pb_id bs"
    using load_bsos_rows [OF ld(1)] by (auto simp: load_rows_def)
  have "mset (map row_bso (concat (map mutation_rows ms))) = mset (map pb_id bs)"
    using ms(3) rows(1,2) by (metis mset_map)
  moreover have "sum_list (map (row_size eng) (concat (map mutation_rows ms))) = ld_size ld"
    using ms(3) rows(1,3) by (metis mset_map sum_mset_sum_list)
  ultimately show ?thesis
    using ms(1,2) r rows(4) ld(2) t db3(1) by (intro exI [of _ ms]) simp
qed

definition sample_posts :: "post_collection_bso list" where
  "sample_posts =
     [\<lparr>pb_id = ''a'', pb_sortindex = Some 3, pb_payload = Some ''x'', pb_ttl = None\<rparr>,
      \<lparr>pb_id = ''b'', pb_sortindex = None, pb_payload = None, pb_ttl = Some 60\<rparr>]"

definition locked_spanner_db :: "unit spanner_db" where
  "locked_spanner_db = snd (lock_for_write_async sample_spanner sample_user ''bookmarks'' sample_spanner_db)"

lemma sample_post_run:
  "map_sum id pr_success (fst (post_bsos_async sample_spanner sample_user ''bookmarks'' sample_posts []
     locked_spanner_db)) = Inr [''a'', ''b''] \<and> buffered locked_spanner_db = []"
  by code_simp

lemma spanner_post_rows_witness:
  "\<exists>ms. buffered (snd (post_bsos_async sample_spanner sample_user ''bookmarks'' sample_posts [] locked_spanner_db)) = ms \<and>
    mset (map row_bso (concat (map mutation_rows ms))) = {#''a'', ''b''#}"
proof -
  let ?run = "post_bsos_async sample_spanner sample_user ''bookmarks'' sample_posts [] locked_spanner_db"
  obtain r where "?run = (Inr r, snd ?run)"
    using sample_post_run by (cases "fst ?run") (auto simp: prod_eq_iff)
  then show ?thesis
    using spanner_post_rows [of sample_spanner sample_user "''bookmarks''" sample_posts "[]" locked_spanner_db r "snd ?run"]
      sample_post_run by (auto simp: sample_posts_def)
qed

end
