(* ===== verification/Db_Mock.thy ===== *)
theory Db_Mock
  imports Db_Transaction Web_Settings
begin

text \<open>
  The mock backend of the web layer's tests (\<open>src/db/mock.rs\<close>): every operation succeeds with the
  default value of its result and keeps no state. It is a second implementation of the storage
  interface, under which every request leaves the state as it was.
\<close>

section \<open>Default results\<close>

definition mock_method :: "'a \<Rightarrow> ('s, 'a) api_op" where
  "mock_method result = return_r result"

text \<open>The default timestamp is the clock's.\<close>

definition default_timestamp :: "int \<Rightarrow> sync_timestamp" where
  "default_timestamp now = from_milliseconds (i64_as_u64 now)"

definition default_post_bsos :: "int \<Rightarrow> post_bsos_result" where
  "default_post_bsos now = \<lparr>pr_modified = default_timestamp now, pr_success = [], pr_failed = []\<rparr>"

record pool_state =
  connections :: u32
  idle_connections :: u32

definition default_pool_state :: pool_state where
  "default_pool_state = \<lparr>connections = 0, idle_connections = 0\<rparr>"

section \<open>The pool and its sessions\<close>

definition mock_pool_get :: "('s, unit) api_op" where
  "mock_pool_get = return_r ()"

definition mock_pool_state :: pool_state where
  "mock_pool_state = default_pool_state"

definition mock_validate_batch_id :: "string \<Rightarrow> db_error + unit" where
  "mock_validate_batch_id b = Inr ()"

definition mock_ops :: "int \<Rightarrow> 's db_ops" where
  "mock_ops now =
     \<lparr>lock_for_read = (\<lambda>_ _. mock_method ()), lock_for_write = (\<lambda>_ _. mock_method ()),
      begin_op = (\<lambda>_. return_r ()), commit_op = return_r (), rollback_op = return_r (),
      get_collection_timestamps = (\<lambda>_. mock_method []),
      get_collection_timestamp = (\<lambda>_ _. mock_method (default_timestamp now)),
      get_collection_counts = (\<lambda>_. mock_method []),
      get_collection_usage = (\<lambda>_. mock_method []),
      get_storage_timestamp = (\<lambda>_. mock_method (default_timestamp now)),
      get_storage_usage = (\<lambda>_. mock_method 0),
      delete_storage = (\<lambda>_. mock_method ()),
      delete_collection = (\<lambda>_ _. mock_method (default_timestamp now)),
      delete_bsos = (\<lambda>_ _ _. mock_method (default_timestamp now)),
      get_bsos = (\<lambda>_ _ _. mock_method default_paginated),
      get_bso_ids = (\<lambda>_ _ _. mock_method default_paginated),
      post_bsos = (\<lambda>_ _ _ _. mock_method (default_post_bsos now)),
      delete_bso = (\<lambda>_ _ _. mock_method (default_timestamp now)),
      get_bso = (\<lambda>_ _ _. mock_method None),
      get_bso_timestamp = (\<lambda>_ _ _. mock_method (default_timestamp now)),
      put_bso = (\<lambda>_. mock_method (default_timestamp now)),
      create_batch = (\<lambda>_ _ _. mock_method []),
      validate_batch = (\<lambda>_ _ _. mock_method False),
      append_to_batch = (\<lambda>_ _ _ _. mock_method ()),
      get_batch = (\<lambda>_ _ _. mock_method None),
      commit_batch = (\<lambda>_ _ _. mock_method (default_post_bsos now)),
      check_op = return_r True\<rparr>"

interpretation mock: db_frame_tx "mock_ops now" "\<lambda>_ s s'. s' = s" for now
  by unfold_locales
    (simp_all add: mock_ops_def mock_method_def preserves_def reflp_def transp_def)

text \<open>A request served by the mock changes nothing.\<close>

lemma mock_serve_keeps:
  assumes "\<And>h c. lock_collection tp = Some (h, c) \<Longrightarrow> h = tp_user_id tp"
    and "preserves (\<lambda>s s'. s' = s) action"
  shows "preserves (\<lambda>s s'. s' = s) (transaction_http mock_pool_get (mock_ops now) tp action)"
proof (rule mock.frame_transaction_http [OF assms(1) refl _ assms(2)])
  show "preserves (\<lambda>s s'. s' = s) mock_pool_get"
    by (simp add: mock_pool_get_def preserves_def)
qed

end
