(* ===== verification/Server_Setup.thy ===== *)
theory Server_Setup
  imports Db_Mock Spanner_Ops
begin

text \<open>
  Setting the server up: the metrics (\<open>src/server/metrics.rs\<close>), the connection pools of the two
  backends and the choice between them (\<open>src/db/mod.rs\<close>, \<open>src/db/mysql/pool.rs\<close>,
  \<open>src/db/spanner/pool.rs\<close>), and the start of the server (\<open>src/server/mod.rs\<close>). Sockets, statsd,
  connections and migrations are parameters; what is sent to statsd is returned as a list.
\<close>

section \<open>Metrics\<close>

text \<open>A timer starts at an instant of the clock, in nanoseconds.\<close>

record metric_timer =
  mt_label :: string
  mt_start :: nat
  mt_tags :: tags

record 'k metrics =
  mx_client :: "'k option"
  mx_tags :: "tags option"
  mx_timer :: "metric_timer option"

datatype metric =
    Counter string "(string, string) table"
  | Timing string u64 "(string, string) table"

text \<open>Metrics made for a request, from a client, from the server's state, and for no one.\<close>

definition metrics_of_request ::
  "(string \<Rightarrow> woothee_result option) \<Rightarrow> 'k option \<Rightarrow> tags option \<Rightarrow> http_request \<Rightarrow> 'k metrics" where
  "metrics_of_request woothee app_client ext_tags req =
     \<lparr>mx_client = app_client,
      mx_tags = Some (case ext_tags of Some t \<Rightarrow> t | None \<Rightarrow> tags_from_request woothee req),
      mx_timer = None\<rparr>"

definition metrics_of_client :: "'k \<Rightarrow> 'k metrics" where
  "metrics_of_client client = \<lparr>mx_client = Some client, mx_tags = None, mx_timer = None\<rparr>"

definition metrics_of_state :: "'k \<Rightarrow> 'k metrics" where
  "metrics_of_state state_client = \<lparr>mx_client = Some state_client, mx_tags = None, mx_timer = None\<rparr>"

definition metrics_noop :: "'k \<Rightarrow> 'k metrics" where
  "metrics_noop sink = \<lparr>mx_client = Some sink, mx_tags = None, mx_timer = None\<rparr>"

text \<open>The tags of the metrics, with more of them on top.\<close>

definition metric_tags :: "'k metrics \<Rightarrow> tags option \<Rightarrow> tags" where
  "metric_tags m extra =
     (let mtags = (case mx_tags m of Some t \<Rightarrow> t | None \<Rightarrow> default_tags)
      in case extra of None \<Rightarrow> mtags | Some t \<Rightarrow> tags_extend mtags (tag_map t))"

definition metrics_start_timer :: "nat \<Rightarrow> string \<Rightarrow> tags option \<Rightarrow> 'k metrics \<Rightarrow> 'k metrics" where
  "metrics_start_timer now label extra m =
     m\<lparr>mx_timer := Some \<lparr>mt_label = label, mt_start = now, mt_tags = metric_tags m extra\<rparr>\<rparr>"

definition metrics_incr_with_tags :: "string \<Rightarrow> tags option \<Rightarrow> 'k metrics \<Rightarrow> ('k \<times> metric) list" where
  "metrics_incr_with_tags label extra m =
     (case mx_client m of
        None \<Rightarrow> []
      | Some client \<Rightarrow> [(client, Counter label (tag_map (metric_tags m extra)))])"

definition metrics_incr :: "string \<Rightarrow> 'k metrics \<Rightarrow> ('k \<times> metric) list" where
  "metrics_incr label m = metrics_incr_with_tags label None m"

text \<open>When metrics go out of scope, the timer that runs is sent, in milliseconds as \<open>u64\<close>.\<close>

definition metrics_drop :: "nat \<Rightarrow> 'k metrics \<Rightarrow> ('k \<times> metric) list" where
  "metrics_drop now m =
     (case (mx_client m, mx_timer m) of
        (Some client, Some timer) \<Rightarrow>
          [(client, Timing (mt_label timer) (of_nat ((now - mt_start timer) div 1000000))
             (tag_map (mt_tags timer)))]
      | _ \<Rightarrow> [])"

text \<open>The client: without a host, what it is given goes nowhere.\<close>

record 'sink statsd_client =
  sc_prefix :: string
  sc_sink :: "'sink option"

definition metrics_from_opts ::
  "string + 'socket \<Rightarrow> ('socket \<Rightarrow> string + unit) \<Rightarrow> (string \<times> nat \<Rightarrow> 'socket \<Rightarrow> string + 'sink) \<Rightarrow>
     settings \<Rightarrow> api_error + 'sink statsd_client" where
  "metrics_from_opts bind set_nonblocking udp_sink opts =
     (case statsd_host opts of
        None \<Rightarrow> Inr \<lparr>sc_prefix = statsd_label opts, sc_sink = None\<rparr>
      | Some host \<Rightarrow>
          map_sum (\<lambda>msg. api_error_of (ApiInternal msg)) id
            (then_r bind (\<lambda>socket.
             then_r (set_nonblocking socket) (\<lambda>_.
             then_r (udp_sink (host, statsd_port opts) socket) (\<lambda>sink.
               Inr \<lparr>sc_prefix = statsd_label opts, sc_sink = Some sink\<rparr>)))))"

section \<open>Pools\<close>

text \<open>The pool of MySQL connections: the migrations first, then at most ten connections if the
  settings do not say otherwise.\<close>

definition run_embedded_migrations ::
  "(string \<Rightarrow> string + 'conn) \<Rightarrow> ('conn \<Rightarrow> string + unit) \<Rightarrow> settings \<Rightarrow> db_error + unit" where
  "run_embedded_migrations establish migrate s =
     then_r (map_sum (\<lambda>msg. db_error_of (DieselConnection msg)) id (establish (database_url s)))
       (\<lambda>c. map_sum (\<lambda>msg. db_error_of (MigrationError msg)) id (migrate c))"

record 'p db_pool =
  dp_pool :: 'p
  dp_cache :: collection_cache

definition mysql_pool_without_migrations ::
  "(string \<Rightarrow> u32 \<Rightarrow> u32 option \<Rightarrow> string + 'p) \<Rightarrow> settings \<Rightarrow> db_error + 'p db_pool" where
  "mysql_pool_without_migrations build s =
     (case build (database_url s)
             (case database_pool_max_size s of None \<Rightarrow> 10 | Some n \<Rightarrow> n) (database_pool_min_idle s) of
        Inl msg \<Rightarrow> Inl (db_error_of (PoolError msg))
      | Inr p \<Rightarrow> Inr \<lparr>dp_pool = p, dp_cache = default_collection_cache\<rparr>)"

definition mysql_pool_new ::
  "(string \<Rightarrow> string + 'conn) \<Rightarrow> ('conn \<Rightarrow> string + unit) \<Rightarrow>
     (string \<Rightarrow> u32 \<Rightarrow> u32 option \<Rightarrow> string + 'p) \<Rightarrow> settings \<Rightarrow> db_error + 'p db_pool" where
  "mysql_pool_new establish migrate build s =
     then_r (run_embedded_migrations establish migrate s)
       (\<lambda>_. mysql_pool_without_migrations build s)"

definition spanner_pool_new ::
  "(string \<Rightarrow> u32 \<Rightarrow> u32 option \<Rightarrow> grpc_error + 'p) \<Rightarrow> settings \<Rightarrow> db_error + 'p db_pool" where
  "spanner_pool_new build s =
     then_r (new_manager (database_url s)) (\<lambda>name.
       case build name (case database_pool_max_size s of None \<Rightarrow> 10 | Some n \<Rightarrow> n)
              (database_pool_min_idle s) of
         Inl e \<Rightarrow> Inl (db_error_of_grpc e)
       | Inr p \<Rightarrow> Inr \<lparr>dp_pool = p, dp_cache = default_collection_cache\<rparr>)"

text \<open>The backend is chosen by the scheme of the database's URL.\<close>

definition pool_from_settings ::
  "(string \<Rightarrow> string + string) \<Rightarrow> (settings \<Rightarrow> db_error + 'm) \<Rightarrow> (settings \<Rightarrow> db_error + 'p) \<Rightarrow>
     settings \<Rightarrow> db_error + ('m + 'p)" where
  "pool_from_settings url_scheme mysql_new spanner_new s =
     (case url_scheme (database_url s) of
        Inl e \<Rightarrow> Inl (db_error_of (InvalidUrl e))
      | Inr scheme \<Rightarrow>
          if scheme = ''mysql'' then map_sum id Inl (mysql_new s)
          else if scheme = ''spanner'' then map_sum id Inr (spanner_new s)
          else Inl (db_error_of (InvalidUrl (database_url s))))"

text \<open>The gauges of a pool that are sent every interval; the subtraction is one of \<open>u32\<close>.\<close>

definition pool_gauges :: "pool_state \<Rightarrow> (string \<times> u64) list" where
  "pool_gauges st =
     [(''storage.pool.connections.active'', ucast (connections st - idle_connections st)),
      (''storage.pool.connections.idle'', ucast (idle_connections st))]"

section \<open>The server\<close>

text \<open>
  Starting the server ends in a running server, in an error, or in a panic when the address cannot
  be bound. Every worker is given the same pool, limits and secrets.
\<close>

datatype ('client, 'pool) startup =
    Running server_state 'client 'pool string
  | StartError api_error
  | StartPanic

definition with_settings ::
  "(settings \<Rightarrow> api_error + 'client) \<Rightarrow> (settings \<Rightarrow> db_error + 'pool) \<Rightarrow> (string \<Rightarrow> bool) \<Rightarrow>
     settings \<Rightarrow> ('client, 'pool) startup" where
  "with_settings metrics_new pool_new bind_ok s =
     (case metrics_new s of
        Inl e \<Rightarrow> StartError e
      | Inr client \<Rightarrow>
          (case pool_new s of
             Inl e \<Rightarrow> StartError (api_error_of_db e)
           | Inr pool \<Rightarrow>
               (let addr = set_host s @ '':'' @ show_nat (set_port s) in
                if bind_ok addr
                then Running \<lparr>st_limits = set_limits s, st_secrets = set_secrets s, st_port = set_port s\<rparr>
                       client pool addr
                else StartPanic)))"

lemma pool_from_settings_scheme:
  "pool_from_settings url_scheme m p s = Inr (Inl pool) \<Longrightarrow> url_scheme (database_url s) = Inr ''mysql''"
  "pool_from_settings url_scheme m p s = Inr (Inr pool') \<Longrightarrow> url_scheme (database_url s) = Inr ''spanner''"
  by (auto simp: pool_from_settings_def map_sum_Inr_iff split: sum.splits if_splits)

end
